(* ===== verification/Wdu_Prelude.thy ===== *)
theory Wdu_Prelude
  imports Main "HOL-Library.Word" "HOL-Library.Monad_Syntax" "HOL-Library.Sublist"
begin

unbundle bit_operations_syntax

text \<open>
  Shared vocabulary of the development: the machine types of the Rust sources, panics,
  Rust's \<open>slice\<close> and raw-pointer accesses to memory that holds UTF-16 code units, and the
  generic list, option and word lemmas the components use.

  A Rust function that can panic (\<^verbatim>\<open>assert!\<close>, \<^verbatim>\<open>unreachable!\<close>, \<^verbatim>\<open>todo!\<close>,
  \<^verbatim>\<open>unwrap\<close> on \<^verbatim>\<open>None\<close>) or dereference an invalid pointer returns an \<open>option\<close>:
  \<open>None\<close> is the panic or the fault, after which the driver's code does not go on. A Rust
  \<^verbatim>\<open>Result<T, E>\<close> is the sum \<open>E + T\<close>.
\<close>

section \<open>Collections of simplification rules\<close>

named_theorems wdu_defs \<open>definitions of wrappers that only forward to another definition\<close>
named_theorems nt_consts \<open>numeric values of the Windows constants\<close>

section \<open>Machine types\<close>

type_synonym u8 = "8 word"
type_synonym u16 = "16 word"
type_synonym u32 = "32 word"
type_synonym u64 = "64 word"
type_synonym i8 = "8 word"
type_synonym i32 = "32 word"
type_synonym i64 = "64 word"
type_synonym usize = "64 word"
type_synonym ptr = "64 word"
type_synonym handle = "64 word"
type_synonym ntstatus = "32 word"
type_synonym ('e, 'a) result = "'e + 'a"

abbreviation null :: ptr where
  "null \<equiv> 0"

abbreviation Err :: "'e \<Rightarrow> ('e, 'a) result" where
  "Err \<equiv> Inl"

abbreviation Ok :: "'a \<Rightarrow> ('e, 'a) result" where
  "Ok \<equiv> Inr"

text \<open>\<^verbatim>\<open>u8::from(bool)\<close>.\<close>

definition u8_of_bool :: "bool \<Rightarrow> u8" where
  "u8_of_bool b = (if b then 1 else 0)"

lemma u8_of_bool_simps [simp]:
  "u8_of_bool True = 1" "u8_of_bool False = 0"
  by (simp_all add: u8_of_bool_def)

lemma u8_of_bool_eq_1 [simp]: "u8_of_bool b = 1 \<longleftrightarrow> b"
  by (cases b) simp_all

section \<open>Panics\<close>

text \<open>\<^verbatim>\<open>assert!\<close>: the rest of the block runs only when the condition holds.\<close>

definition rust_assert :: "bool \<Rightarrow> unit option" where
  "rust_assert b = (if b then Some () else None)"

definition panic :: "'a option" where
  "panic = None"

lemma rust_assert_simps [simp]:
  "rust_assert True = Some ()" "rust_assert False = None"
  by (simp_all add: rust_assert_def)

lemma rust_assert_eq_Some [simp]: "rust_assert b = Some u \<longleftrightarrow> b"
  by (simp add: rust_assert_def)

lemma bind_rust_assert_eq_Some [simp]:
  "Option.bind (rust_assert b) f = Some x \<longleftrightarrow> b \<and> f () = Some x"
  by (cases b) simp_all

section \<open>Memory holding UTF-16 code units\<close>

text \<open>
  A buffer of \<^verbatim>\<open>u16\<close> at address \<open>b\<close> occupies the cells \<open>b, b + 2, b + 4, \<dots>\<close>; a memory gives
  the unit stored at each address. \<open>load\<close> reads \<open>n\<close> units as \<^verbatim>\<open>slice::from_raw_parts\<close>
  does; \<open>store\<close> writes the units of a list, as the second half of \<^verbatim>\<open>core::ptr::copy\<close>
  (a \<^verbatim>\<open>memmove\<close>: all units are read before any is written) does. Neither knows how large
  the block behind an address is: a length that is too large touches the neighbours.
\<close>

type_synonym cells = "ptr \<Rightarrow> u16"

definition cell :: "ptr \<Rightarrow> nat \<Rightarrow> ptr" where
  "cell b i = b + 2 * of_nat i"

definition load :: "cells \<Rightarrow> ptr \<Rightarrow> nat \<Rightarrow> u16 list" where
  "load m b n = map (\<lambda>i. m (cell b i)) [0..<n]"

definition store :: "cells \<Rightarrow> ptr \<Rightarrow> u16 list \<Rightarrow> cells" where
  "store m b xs = (\<lambda>a. let d = unat (a - b) in
     if even d \<and> d div 2 < length xs then xs ! (d div 2) else m a)"

text \<open>\<^verbatim>\<open>core::ptr::copy::<u16>(src, dst, count)\<close>; the count is in elements, not in bytes.\<close>

definition ptr_copy :: "cells \<Rightarrow> ptr \<Rightarrow> ptr \<Rightarrow> nat \<Rightarrow> cells" where
  "ptr_copy m src dst count = store m dst (load m src count)"

lemma cell_0 [simp]: "cell b 0 = b"
  by (simp add: cell_def)

lemma unat_cell_diff:
  assumes "i < 2 ^ 63"
  shows "unat (cell b i - b) = 2 * i"
proof -
  have "unat (cell b i - b) = unat (of_nat (2 * i) :: ptr)"
    by (simp add: cell_def)
  also have "\<dots> = 2 * i"
    using assms unfolding unat_of_nat by simp
  finally show ?thesis .
qed

lemma cell_eq_iff:
  assumes "i < 2 ^ 63" "j < 2 ^ 63"
  shows "cell b i = cell b j \<longleftrightarrow> i = j"
proof
  assume "cell b i = cell b j"
  then have "2 * i = 2 * j"
    using unat_cell_diff [OF assms(1), of b] unat_cell_diff [OF assms(2), of b] by metis
  then show "i = j" by simp
qed simp

lemma length_load [simp]: "length (load m b n) = n"
  by (simp add: load_def)

lemma load_0 [simp]: "load m b 0 = []"
  by (simp add: load_def)

lemma nth_load [simp]: "i < n \<Longrightarrow> load m b n ! i = m (cell b i)"
  by (simp add: load_def)

lemma load_eq_iff: "load m b n = load m' b' n \<longleftrightarrow> (\<forall>i<n. m (cell b i) = m' (cell b' i))"
  by (auto simp: list_eq_iff_nth_eq)

lemma take_load: "take k (load m b n) = load m b (min k n)"
  by (auto simp: list_eq_iff_nth_eq)

lemma store_cell:
  assumes "i < length xs" "i < 2 ^ 63"
  shows "store m b xs (cell b i) = xs ! i"
  using assms by (simp add: store_def Let_def unat_cell_diff)

lemma store_other:
  assumes "\<forall>i<length xs. a \<noteq> cell b i"
  shows "store m b xs a = m a"
proof -
  { assume even: "even (unat (a - b))" and less: "unat (a - b) div 2 < length xs"
    have "cell b (unat (a - b) div 2) = b + of_nat (2 * (unat (a - b) div 2))"
      by (simp add: cell_def)
    also have "\<dots> = a"
      using even by simp
    finally have False
      using assms less by force }
  then show ?thesis
    by (auto simp: store_def Let_def)
qed

lemma store_Nil [simp]: "store m b [] = m"
  by (simp add: store_def Let_def)

lemma load_store:
  assumes "n \<le> length xs" "n \<le> 2 ^ 63"
  shows "load (store m b xs) b n = take n xs"
  using assms by (auto simp: list_eq_iff_nth_eq store_cell)

lemma load_ptr_copy:
  assumes "n \<le> count" "n \<le> 2 ^ 63"
  shows "load (ptr_copy m src dst count) dst n = load m src n"
  using assms by (simp add: ptr_copy_def load_store take_load min_absorb1)

section \<open>Words\<close>

lemma unat_u16_of_nat [simp]: "unat (of_nat n :: u16) = n mod 65536"
  by (simp add: unat_of_nat)

lemma unat_u16_bound: "unat (w :: u16) < 65536"
  using unsigned_less [of w, where 'a = nat] by simp

text \<open>Clearing bits and keeping the others, as access masks do.\<close>

lemma bit_and_not: "bit (a AND NOT b) n \<longleftrightarrow> bit a n \<and> \<not> bit b n" if "n < LENGTH('a)" for a b :: "'a::len word"
  using that by (simp add: bit_simps)

lemma and_not_and [simp]: "(a AND NOT b) AND b = 0" for a b :: "'a::len word"
  by (rule bit_word_eqI) (auto simp: bit_simps)

section \<open>Lists\<close>

lemma sublist_imp_sum_list_le:
  assumes "sublist xs ys"
  shows "sum_list (map (f :: 'a \<Rightarrow> nat) xs) \<le> sum_list (map f ys)"
  using assms by (auto simp: sublist_def)

text \<open>\<^verbatim>\<open>Vec::swap_remove\<close>: the last element takes the removed one's place.\<close>

definition swap_remove :: "nat \<Rightarrow> 'a list \<Rightarrow> ('a \<times> 'a list) option" where
  "swap_remove i xs =
     (if i < length xs then Some (xs ! i, butlast (xs[i := last xs])) else None)"

text \<open>\<^verbatim>\<open>Iterator::position\<close>: the index of the first element that satisfies the predicate.\<close>

fun position :: "('a \<Rightarrow> bool) \<Rightarrow> 'a list \<Rightarrow> nat option" where
  "position P [] = None"
| "position P (x # xs) = (if P x then Some 0 else map_option Suc (position P xs))"

lemma position_None: "position P xs = None \<longleftrightarrow> (\<forall>x\<in>set xs. \<not> P x)"
  by (induction xs) auto

lemma position_Some:
  "position P xs = Some i \<Longrightarrow> i < length xs \<and> P (xs ! i) \<and> (\<forall>j<i. \<not> P (xs ! j))"
proof (induction xs arbitrary: i)
  case (Cons x xs)
  then show ?case
    by (auto split: if_splits simp: nth_Cons split: nat.splits)
qed simp

end
