(* ===== verification/Wdu_Kernel.thy ===== *)
theory Wdu_Kernel
  imports Wdu_Prelude
begin

text \<open>
  The boundary between the crate and the Windows kernel. The routines of \<^verbatim>\<open>ntoskrnl\<close> (which
  the sources import from \<^verbatim>\<open>windows-sys\<close> or declare in \<^verbatim>\<open>extern "system"\<close> blocks) and the
  global allocator a client installs are not part of the repository, so they are a parameter:
  a \<open>kernel\<close> is any function that answers a call from the calls and answers so far. A call is
  a value: the routine's name and the arguments the source passes. Where a routine reads memory
  behind a pointer argument (the characters of a \<^verbatim>\<open>UNICODE_STRING\<close>, the I/O status block of an
  IRP), the call carries what is read; where it writes memory behind one, the answer carries
  what is written. Every operation of the crate appends its calls, with their answers, to
  \<open>klog\<close>. What the crate relies on is stated, where a theorem needs it, as a hypothesis on
  the kernel.
\<close>

section \<open>Structures of the Windows ABI that cross the boundary\<close>

type_synonym fnptr = "64 word"

record UNICODE_STRING =
  Length :: u16
  MaximumLength :: u16
  Buffer :: ptr

text \<open>A string as a routine sees it: the structure and the characters in its buffer.\<close>

type_synonym ustr = "UNICODE_STRING \<times> u16 list"

record OBJECT_ATTRIBUTES =
  oa_Length :: u32
  oa_RootDirectory :: handle
  oa_ObjectName :: ptr
  oa_Attributes :: u32
  oa_SecurityDescriptor :: ptr
  oa_SecurityQualityOfService :: ptr

record DEVICE_OBJECT =
  do_DriverObject :: ptr
  do_DeviceExtension :: ptr
  do_Flags :: u32

record KLOCK_QUEUE_HANDLE =
  lq_Next :: ptr
  lq_Lock :: ptr
  lq_OldIrql :: u8

record OB_OPERATION_REGISTRATION =
  or_ObjectType :: ptr
  or_Operations :: u32
  or_PreOperation :: "fnptr option"
  or_PostOperation :: "fnptr option"

record OB_CALLBACK_REGISTRATION =
  cr_Version :: u16
  cr_OperationRegistrationCount :: u16
  cr_Altitude :: UNICODE_STRING
  cr_RegistrationContext :: ptr
  cr_OperationRegistration :: "OB_OPERATION_REGISTRATION list"

section \<open>Calls\<close>

datatype (plugins only: code) pool_call =
    ExAllocatePool2 u64 usize u32
  | ExAllocatePoolWithTag i32 usize u32
  | CallExAllocatePool2 fnptr u64 usize u32 \<comment> \<open>through the address \<^verbatim>\<open>init\<close> resolved\<close>
  | ExFreePoolWithTag ptr u32
  | RustAlloc usize \<comment> \<open>the client's \<^verbatim>\<open>#[global_allocator]\<close>\<close>
  | RustDealloc ptr

datatype (plugins only: code) rtl_call =
    RtlFreeUnicodeString UNICODE_STRING
  | RtlValidateUnicodeString u32 ustr
  | RtlUTF8StringToUnicodeString "u8 list" u16 u8
  | RtlIntegerToUnicodeString u32 u32 UNICODE_STRING
  | RtlInt64ToUnicodeString u64 u32 UNICODE_STRING
  | RtlCopyUnicodeString UNICODE_STRING ustr
  | RtlDuplicateUnicodeString u32 ustr
  | RtlCompareUnicodeString ustr ustr u8
  | RtlCompareMemory "u16 list" "u16 list" usize
  | RtlDowncaseUnicodeString ustr u8
  | RtlUpcaseUnicodeString ustr u8
  | RtlSuffixUnicodeString ustr ustr u8
  | RtlPrefixUnicodeString ustr ustr u8
  | FsRtlIsNameInExpression ustr ustr u8
  | MmGetSystemRoutineAddress ustr

datatype (plugins only: code) lock_call =
    KeGetCurrentIrql
  | KeInitializeSpinLock ptr
  | KeAcquireSpinLockRaiseToDpc ptr
  | KeReleaseSpinLock ptr u8
  | KeAcquireSpinLockAtDpcLevel ptr
  | KeReleaseSpinLockFromDpcLevel ptr
  | KeAcquireInStackQueuedSpinLock ptr KLOCK_QUEUE_HANDLE
  | KeReleaseInStackQueuedSpinLock KLOCK_QUEUE_HANDLE
  | KeAcquireSpinLockForDpc ptr
  | KeReleaseSpinLockForDpc ptr u8
  | KeInitializeMutex ptr u32
  | KeReleaseMutex ptr u8
  | KeReadStateMutex ptr
  | ExAcquireFastMutex ptr
  | ExAcquireFastMutexUnsafe ptr
  | ExTryToAcquireFastMutex ptr
  | ExReleaseFastMutex ptr
  | ExReleaseFastMutexUnsafe ptr
  | KeInitializeGuardedMutex ptr
  | KeAcquireGuardedMutex ptr
  | KeAcquireGuardedMutexUnsafe ptr
  | KeTryToAcquireGuardedMutex ptr
  | KeReleaseGuardedMutex ptr
  | KeReleaseGuardedMutexUnsafe ptr

datatype (plugins only: code) rw_call =
    ExInitializeResourceLite ptr
  | ExDeleteResourceLite ptr
  | ExAcquireResourceSharedLite ptr u8
  | ExAcquireResourceExclusiveLite ptr u8
  | ExConvertExclusiveToSharedLite ptr
  | ExReleaseResourceLite ptr
  | ExInitializePushLock ptr
  | ExAcquirePushLockSharedEx ptr u32
  | ExAcquirePushLockExclusiveEx ptr u32
  | ExReleasePushLockSharedEx ptr u32
  | ExReleasePushLockExclusiveEx ptr u32
  | KeEnterCriticalRegion
  | KeLeaveCriticalRegion
  | IoInitializeRemoveLockEx ptr u32 u32 u32
  | IoAcquireRemoveLockEx ptr ptr
  | IoReleaseRemoveLockEx ptr ptr
  | IoReleaseRemoveLockAndWaitEx ptr ptr
  | ExInitializeRundownProtection ptr
  | ExAcquireRundownProtection ptr
  | ExAcquireRundownProtectionEx ptr u32
  | ExReleaseRundownProtection ptr
  | ExWaitForRundownProtectionRelease ptr
  | ExRundownCompleted ptr
  | ExReInitializeRundownProtection ptr

datatype (plugins only: code) obj_call =
    KeInitializeEvent ptr i32 u8
  | KeResetEvent ptr
  | KeClearEvent ptr
  | KeSetEvent ptr i32 u8
  | KeReadStateEvent ptr
  | KePulseEvent ptr i32 u8
  | KeInitializeSemaphore ptr i32 i32
  | KeReleaseSemaphore ptr i32 i32 u8
  | KeReadStateSemaphore ptr
  | KeWaitForSingleObject ptr i32 i8 u8 i64
  | KeInitializeTimer ptr
  | KeInitializeTimerEx ptr i32
  | KeCancelTimer ptr
  | KeReadStateTimer ptr
  | KeSetCoalescableTimer ptr i64 u32 u32 ptr
  | KeSetTimer ptr i64 ptr
  | KeSetTimerEx ptr i64 i32 ptr
  | ExDeleteTimer ptr u8 u8
  | ExSetTimer ptr i64 i64
  | ExCancelTimer ptr
  | KeInitializeDpc ptr fnptr ptr
  | KeInsertQueueDpc ptr ptr ptr
  | ObReferenceObjectByHandle handle u32 ptr i8
  | ObfDereferenceObject ptr

datatype (plugins only: code) io_call =
    IoAllocateDriverObjectExtension ptr fnptr u32
  | IoGetDriverObjectExtension ptr fnptr
  | IoCreateDevice ptr u32 ustr u32 u32 u8
  | IoDeleteDevice ptr
  | IoCreateSymbolicLink ustr ustr
  | IoDeleteSymbolicLink ustr
  | IofCompleteRequest ptr ntstatus usize i8
  | IoForwardIrpSynchronously ptr ptr
  | IoReleaseCancelSpinLock u8
  | IoAllocateMdl ptr u32 u8 u8 ptr
  | IoFreeMdl ptr
  | MmProbeAndLockPages ptr i8 i32
  | MmUnlockPages ptr
  | MmMapLockedPagesSpecifyCache ptr i8 i32 ptr u32 u32
  | ExGetPreviousMode
  | ProbeForRead ptr usize u32
  | ProbeForWrite ptr usize u32
  | KeBugCheckEx u32 usize usize usize usize

datatype (plugins only: code) ps_call =
    PsSetLoadImageNotifyRoutine fnptr
  | PsRemoveLoadImageNotifyRoutine fnptr
  | PsSetCreateProcessNotifyRoutine "fnptr option" u8
  | PsSetCreateProcessNotifyRoutineEx fnptr bool
  | PsSetCreateProcessNotifyRoutineEx2 i32 fnptr bool
  | PsSetCreateThreadNotifyRoutine "fnptr option"
  | PsSetCreateThreadNotifyRoutineEx i32 "fnptr option"
  | PsRemoveCreateThreadNotifyRoutine "fnptr option"
  | ObRegisterCallbacks OB_CALLBACK_REGISTRATION
  | ObUnRegisterCallbacks ptr
  | ObGetFilterVersion
  | ExCreateCallback OBJECT_ATTRIBUTES u8 u8
  | ExRegisterCallback ptr fnptr ptr
  | ExUnregisterCallback ptr
  | ExNotifyCallback ptr ptr ptr
  | CmRegisterCallbackEx fnptr ustr
  | CmUnRegisterCallback i64
  | CmGetCallbackVersion
  | CmCallbackGetKeyObjectIDEx i64 ptr u32
  | CmCallbackReleaseKeyObjectIDEx UNICODE_STRING
  | CmGetBoundTransaction i64 ptr
  | IoGetCurrentProcess
  | PsGetCurrentProcessId
  | PsGetProcessExitTime
  | PsGetProcessId ptr
  | PsGetProcessCreateTimeQuadPart ptr
  | PsGetProcessExitStatus ptr
  | PsGetProcessStartKey ptr
  | CallPsGetProcessProtection fnptr ptr
  | PsGetCurrentThreadId
  | PsGetThreadProcessId ptr
  | PsGetThreadCreateTime ptr

datatype (plugins only: code) kcall =
    Pool pool_call
  | Rtl rtl_call
  | Lock lock_call
  | Rw rw_call
  | Obj obj_call
  | Io io_call
  | Ps ps_call

section \<open>Answers and the kernel parameter\<close>

text \<open>
  One record carries whatever a routine returns or writes; each call reads the fields its
  routine has: the \<^verbatim>\<open>NTSTATUS\<close> or \<^verbatim>\<open>LONG\<close> result, a pointer or handle result, a \<^verbatim>\<open>BOOLEAN\<close> or
  \<^verbatim>\<open>KIRQL\<close> result, a 16- or 64-bit result, an out-pointer, a \<^verbatim>\<open>UNICODE_STRING\<close> and the
  characters written to its buffer, a created \<^verbatim>\<open>DEVICE_OBJECT\<close>, a filled queue handle.
\<close>

record kreply =
  r_status :: ntstatus
  r_ptr :: ptr
  r_u8 :: u8
  r_u16 :: u16
  r_u32 :: "u32 \<times> u32"
  r_u64 :: u64
  r_out :: ptr
  r_ustr :: UNICODE_STRING
  r_cells :: "u16 list"
  r_device :: DEVICE_OBJECT
  r_queue :: KLOCK_QUEUE_HANDLE

type_synonym kevent = "kcall \<times> kreply"
type_synonym kernel = "kevent list \<Rightarrow> kcall \<Rightarrow> kreply"

text \<open>
  The state every operation threads: the calls so far and whether the build has
  \<^verbatim>\<open>debug_assertions\<close> (which decides about \<^verbatim>\<open>debug_assert!\<close> and overflow checks). Components
  with memory of their own extend it.
\<close>

record kstate =
  klog :: "kevent list"
  debug_assertions :: bool

definition sys :: "kernel \<Rightarrow> kcall \<Rightarrow> 'a kstate_scheme \<Rightarrow> kreply \<times> 'a kstate_scheme" where
  "sys K c s = (let r = K (klog s) c in (r, s\<lparr>klog := klog s @ [(c, r)]\<rparr>))"

text \<open>A call whose result the source ignores.\<close>

definition sysv :: "kernel \<Rightarrow> kcall \<Rightarrow> 'a kstate_scheme \<Rightarrow> 'a kstate_scheme" where
  "sysv K c s = snd (sys K c s)"

text \<open>\<^verbatim>\<open>debug_assert!\<close>: evaluated and checked only in builds with debug assertions.\<close>

definition debug_assert :: "bool \<Rightarrow> 'a kstate_scheme \<Rightarrow> unit option" where
  "debug_assert b s = rust_assert (debug_assertions s \<longrightarrow> b)"

lemma sys_snd [simp]: "snd (sys K c s) = s\<lparr>klog := klog s @ [(c, K (klog s) c)]\<rparr>"
  by (simp add: sys_def Let_def)

lemma sys_fst [simp]: "fst (sys K c s) = K (klog s) c"
  by (simp add: sys_def Let_def)

lemma sys_eq: "sys K c s = (K (klog s) c, s\<lparr>klog := klog s @ [(c, K (klog s) c)]\<rparr>)"
  by (simp add: sys_def Let_def)

lemma sysv_eq [simp]: "sysv K c s = s\<lparr>klog := klog s @ [(c, K (klog s) c)]\<rparr>"
  by (simp add: sysv_def)

lemma case_sys [simp]:
  "(case sys K c s of (r, t) \<Rightarrow> f r t) =
     f (K (klog s) c) (s\<lparr>klog := klog s @ [(c, K (klog s) c)]\<rparr>)"
  by (simp add: sys_def Let_def)

lemma bind_debug_assert_eq_Some [simp]:
  "Option.bind (debug_assert b s) f = Some x \<longleftrightarrow> (debug_assertions s \<longrightarrow> b) \<and> f () = Some x"
  by (simp add: debug_assert_def)

lemma debug_assert_simps [simp]:
  "\<not> debug_assertions s \<Longrightarrow> debug_assert b s = Some ()"
  "b \<Longrightarrow> debug_assert b s = Some ()"
  "debug_assertions s \<Longrightarrow> debug_assert b s = rust_assert b"
  by (simp_all add: debug_assert_def)

text \<open>The answer a concrete kernel gives unless something else is said.\<close>

definition reply0 :: kreply where
  "reply0 = \<lparr>r_status = 0, r_ptr = 0, r_u8 = 0, r_u16 = 0, r_u32 = (0, 0), r_u64 = 0, r_out = 0,
     r_ustr = \<lparr>Length = 0, MaximumLength = 0, Buffer = 0\<rparr>, r_cells = [],
     r_device = \<lparr>do_DriverObject = 0, do_DeviceExtension = 0, do_Flags = 0\<rparr>,
     r_queue = \<lparr>lq_Next = 0, lq_Lock = 0, lq_OldIrql = 0\<rparr>\<rparr>"

lemma reply0_simps [simp]:
  "r_status reply0 = 0" "r_ptr reply0 = 0" "r_u8 reply0 = 0" "r_out reply0 = 0"
  "r_u16 reply0 = 0" "r_u64 reply0 = 0" "r_cells reply0 = []"
  by (simp_all add: reply0_def)

text \<open>A state before any call, in a build with debug assertions.\<close>

definition kst0 :: kstate where
  "kst0 = \<lparr>klog = [], debug_assertions = True\<rparr>"

lemma kst0_simps [simp]: "klog kst0 = []" "debug_assertions kst0 = True"
  by (simp_all add: kst0_def)

section \<open>Constants of the Windows ABI\<close>

abbreviation STATUS_SUCCESS :: ntstatus where "STATUS_SUCCESS \<equiv> 0"

definition STATUS_PENDING :: ntstatus where [nt_consts]: "STATUS_PENDING = 0x103"
definition STATUS_UNSUCCESSFUL :: ntstatus where [nt_consts]: "STATUS_UNSUCCESSFUL = 0xC0000001"
definition STATUS_NOT_IMPLEMENTED :: ntstatus where [nt_consts]: "STATUS_NOT_IMPLEMENTED = 0xC0000002"
definition STATUS_INVALID_PARAMETER :: ntstatus where [nt_consts]: "STATUS_INVALID_PARAMETER = 0xC000000D"
definition STATUS_INVALID_DEVICE_REQUEST :: ntstatus where [nt_consts]: "STATUS_INVALID_DEVICE_REQUEST = 0xC0000010"
definition STATUS_ACCESS_DENIED :: ntstatus where [nt_consts]: "STATUS_ACCESS_DENIED = 0xC0000022"
definition STATUS_INSUFFICIENT_RESOURCES :: ntstatus where [nt_consts]: "STATUS_INSUFFICIENT_RESOURCES = 0xC000009A"
definition STATUS_INTERNAL_ERROR :: ntstatus where [nt_consts]: "STATUS_INTERNAL_ERROR = 0xC00000E5"
definition STATUS_CANCELLED :: ntstatus where [nt_consts]: "STATUS_CANCELLED = 0xC0000120"
definition STATUS_NOT_FOUND :: ntstatus where [nt_consts]: "STATUS_NOT_FOUND = 0xC0000225"

definition PASSIVE_LEVEL :: u8 where [nt_consts]: "PASSIVE_LEVEL = 0"
definition DISPATCH_LEVEL :: u8 where [nt_consts]: "DISPATCH_LEVEL = 2"

end
