(* ===== verification/Wdu_Utf16.thy ===== *)
theory Wdu_Utf16
  imports Wdu_Prelude
begin

text \<open>
  The UTF-16 conversions of Rust's standard library that the string types use:
  \<^verbatim>\<open>str::encode_utf16\<close> and \<^verbatim>\<open>String::from_utf16_lossy\<close>. A Rust \<^verbatim>\<open>char\<close> is a Unicode scalar
  value, here a natural number, and a \<^verbatim>\<open>str\<close> is a list of them.
\<close>

type_synonym rust_str = "nat list"

definition scalar :: "nat \<Rightarrow> bool" where
  "scalar c \<longleftrightarrow> c < 0x110000 \<and> \<not> (0xD800 \<le> c \<and> c < 0xE000)"

definition REPLACEMENT :: nat where
  "REPLACEMENT = 0xFFFD"

definition encode_char :: "nat \<Rightarrow> u16 list" where
  "encode_char c =
     (if c < 0x10000 then [of_nat c]
      else [of_nat (0xD800 + (c - 0x10000) div 0x400), of_nat (0xDC00 + (c - 0x10000) mod 0x400)])"

definition encode_utf16 :: "rust_str \<Rightarrow> u16 list" where
  "encode_utf16 cs = concat (map encode_char cs)"

definition high_surrogate :: "u16 \<Rightarrow> bool" where
  "high_surrogate u \<longleftrightarrow> 0xD800 \<le> unat u \<and> unat u < 0xDC00"

definition low_surrogate :: "u16 \<Rightarrow> bool" where
  "low_surrogate u \<longleftrightarrow> 0xDC00 \<le> unat u \<and> unat u < 0xE000"

definition surrogate_pair :: "u16 \<Rightarrow> u16 \<Rightarrow> nat" where
  "surrogate_pair u v = 0x10000 + (unat u - 0xD800) * 0x400 + (unat v - 0xDC00)"

text \<open>
  Decoding replaces every unpaired surrogate by U+FFFD; a high surrogate that is not followed
  by a low one does not consume the unit after it.
\<close>

fun from_utf16_lossy :: "u16 list \<Rightarrow> rust_str" where
  "from_utf16_lossy [] = []"
| "from_utf16_lossy [u] =
     [if high_surrogate u \<or> low_surrogate u then REPLACEMENT else unat u]"
| "from_utf16_lossy (u # v # us) =
     (if high_surrogate u then
        if low_surrogate v then surrogate_pair u v # from_utf16_lossy us
        else REPLACEMENT # from_utf16_lossy (v # us)
      else if low_surrogate u then REPLACEMENT # from_utf16_lossy (v # us)
      else unat u # from_utf16_lossy (v # us))"

text \<open>The number of code units of a scalar value (\<^verbatim>\<open>char::len_utf16\<close>).\<close>

definition len_utf16 :: "nat \<Rightarrow> nat" where
  "len_utf16 c = (if c < 0x10000 then 1 else 2)"

lemma encode_utf16_simps [simp]:
  "encode_utf16 [] = []"
  "encode_utf16 (c # cs) = encode_char c @ encode_utf16 cs"
  by (simp_all add: encode_utf16_def)

lemma length_encode_char [simp]: "length (encode_char c) = len_utf16 c"
  by (simp add: encode_char_def len_utf16_def)

lemma length_encode_utf16: "length (encode_utf16 cs) = sum_list (map len_utf16 cs)"
  by (induction cs) simp_all

lemma len_utf16_pos [simp]: "0 < len_utf16 c"
  by (simp add: len_utf16_def)

lemma from_utf16_lossy_bmp:
  assumes "\<not> high_surrogate u" "\<not> low_surrogate u"
  shows "from_utf16_lossy (u # us) = unat u # from_utf16_lossy us"
  using assms by (cases us) simp_all

lemma encode_bmp_no_surrogate:
  assumes "scalar c" "c < 0x10000"
  shows "\<not> high_surrogate (of_nat c)" "\<not> low_surrogate (of_nat c)"
  using assms by (auto simp: scalar_def high_surrogate_def low_surrogate_def)

lemma encode_pair:
  assumes "scalar c" "0x10000 \<le> c"
  defines "h \<equiv> of_nat (0xD800 + (c - 0x10000) div 0x400) :: u16"
    and "l \<equiv> of_nat (0xDC00 + (c - 0x10000) mod 0x400) :: u16"
  shows "high_surrogate h" "low_surrogate l" "surrogate_pair h l = c"
proof -
  have c: "(c - 0x10000) div 0x400 < 0x400" "(c - 0x10000) mod 0x400 < 0x400"
    using assms by (auto simp: scalar_def)
  then have h: "unat h = 0xD800 + (c - 0x10000) div 0x400"
    unfolding h_def unat_u16_of_nat by simp
  from c have l: "unat l = 0xDC00 + (c - 0x10000) mod 0x400"
    unfolding l_def unat_u16_of_nat by simp
  show "high_surrogate h" using h c by (simp add: high_surrogate_def)
  show "low_surrogate l" using l c by (simp add: low_surrogate_def)
  have "surrogate_pair h l =
      0x10000 + (c - 0x10000) div 0x400 * 0x400 + (c - 0x10000) mod 0x400"
    unfolding surrogate_pair_def h l by simp
  also have "\<dots> = 0x10000 + (c - 0x10000)"
    by (simp only: add.assoc div_mult_mod_eq)
  finally show "surrogate_pair h l = c"
    using assms(2) by simp
qed

text \<open>Encoding is injective on scalar values: lossy decoding undoes it.\<close>

lemma from_utf16_lossy_encode_char:
  assumes "scalar c"
  shows "from_utf16_lossy (encode_char c @ us) = c # from_utf16_lossy us"
proof (cases "c < 0x10000")
  case True
  with assms show ?thesis
    by (simp add: encode_char_def from_utf16_lossy_bmp encode_bmp_no_surrogate)
next
  case False
  then show ?thesis
    using encode_pair [OF assms] by (simp add: encode_char_def)
qed

lemma from_utf16_lossy_encode:
  "list_all scalar cs \<Longrightarrow> from_utf16_lossy (encode_utf16 cs) = cs"
  by (induction cs) (simp_all add: from_utf16_lossy_encode_char)

text \<open>
  Lossy decoding never loses track of lengths: every decoded scalar accounts for exactly the
  units it was decoded from, an unpaired surrogate for one (as U+FFFD takes).
\<close>

lemma surrogate_pair_ge: "len_utf16 (surrogate_pair u v) = 2"
  by (simp add: len_utf16_def surrogate_pair_def)

lemma len_utf16_unat [simp]: "len_utf16 (unat (u :: u16)) = 1"
  using unat_u16_bound [of u] by (simp add: len_utf16_def)

lemma len_utf16_REPLACEMENT [simp]: "len_utf16 REPLACEMENT = 1"
  by (simp add: len_utf16_def REPLACEMENT_def)

lemma length_from_utf16_lossy:
  "sum_list (map len_utf16 (from_utf16_lossy us)) = length us"
  by (induction us rule: from_utf16_lossy.induct) (simp_all add: surrogate_pair_ge)

lemma from_utf16_lossy_scalar: "list_all scalar (from_utf16_lossy us)"
proof (induction us rule: from_utf16_lossy.induct)
  case (2 u)
  then show ?case
    using unat_u16_bound [of u]
    by (auto simp: scalar_def REPLACEMENT_def high_surrogate_def low_surrogate_def)
next
  case (3 u v us)
  have "scalar (surrogate_pair u v)" if "high_surrogate u" "low_surrogate v"
    using that by (auto simp: scalar_def surrogate_pair_def high_surrogate_def low_surrogate_def)
  moreover have "scalar (unat u)" if "\<not> high_surrogate u" "\<not> low_surrogate u"
    using that unat_u16_bound [of u]
    by (auto simp: scalar_def high_surrogate_def low_surrogate_def)
  moreover have "scalar REPLACEMENT"
    by (simp add: scalar_def REPLACEMENT_def)
  ultimately show ?case
    using "3.IH" by simp
qed simp

end
