(* ===== verification/Wdu_Ustr.thy ===== *)
theory Wdu_Ustr
  imports Wdu_Kernel Wdu_Utf16
begin

text \<open>
  \<^verbatim>\<open>src/strings/unicode.rs\<close>, module \<^verbatim>\<open>str\<close>: \<open>WduUnicodeStr\<close>, a borrowed slice of UTF-16 code
  units, its conversions from and to \<^verbatim>\<open>UNICODE_STRING\<close> and its comparisons. The state adds the
  memory that holds code units. The methods that need the owned string type are in the theory
  of that type.
\<close>

section \<open>State and types\<close>

record ustate = kstate +
  umem :: cells
  try_non_paged :: bool \<comment> \<open>the cargo feature of that name\<close>

text \<open>\<^verbatim>\<open>&[u16]\<close>: a pointer and a number of elements (not of bytes).\<close>

record slice =
  sl_ptr :: ptr
  sl_len :: nat

record WduUnicodeStr =
  ws_slice :: slice

text \<open>The elements of a slice.\<close>

definition slice_elems :: "'a ustate_scheme \<Rightarrow> slice \<Rightarrow> u16 list" where
  "slice_elems s sl = load (umem s) (sl_ptr sl) (sl_len sl)"

text \<open>\<^verbatim>\<open>&[]\<close>: no elements behind the dangling, aligned address of its type.\<close>

definition slice_empty :: slice where
  "slice_empty = \<lparr>sl_ptr = 2, sl_len = 0\<rparr>"

text \<open>What a kernel routine reads through a pointer to a \<^verbatim>\<open>UNICODE_STRING\<close>.\<close>

definition ustr_of :: "'a ustate_scheme \<Rightarrow> UNICODE_STRING \<Rightarrow> ustr" where
  "ustr_of s u = (u, load (umem s) (Buffer u) (unat (Length u) div 2))"

section \<open>Operations\<close>

text \<open>\<^verbatim>\<open>(len * size_of::<u16>()) as u16\<close>: the cast keeps the low 16 bits.\<close>

definition to_unicode_len :: "nat \<Rightarrow> u16" where
  "to_unicode_len len = of_nat (len * 2)"

definition str_from_slice :: "slice \<Rightarrow> WduUnicodeStr" where
  "str_from_slice source = \<lparr>ws_slice = source\<rparr>"

definition str_default :: WduUnicodeStr where
  "str_default = \<lparr>ws_slice = slice_empty\<rparr>"

text \<open>The pointer is null (\<open>None\<close>) or points to the given structure.\<close>

definition str_from_ptr :: "UNICODE_STRING option \<Rightarrow> WduUnicodeStr" where
  "str_from_ptr source =
     (case source of
        None \<Rightarrow> str_default
      | Some u \<Rightarrow> \<lparr>ws_slice = \<lparr>sl_ptr = Buffer u, sl_len = unat (MaximumLength u div 2)\<rparr>\<rparr>)"

definition as_unicode_string :: "WduUnicodeStr \<Rightarrow> UNICODE_STRING" where
  "as_unicode_string self =
     \<lparr>Length = to_unicode_len (sl_len (ws_slice self)),
      MaximumLength = to_unicode_len (sl_len (ws_slice self)),
      Buffer = sl_ptr (ws_slice self)\<rparr>"

definition str_is_empty :: "WduUnicodeStr \<Rightarrow> bool" where
  "str_is_empty self \<longleftrightarrow> sl_len (ws_slice self) = 0"

text \<open>\<^verbatim>\<open>Display\<close>, and with it \<^verbatim>\<open>to_string\<close>.\<close>

definition str_to_string :: "'a ustate_scheme \<Rightarrow> WduUnicodeStr \<Rightarrow> rust_str" where
  "str_to_string s self = from_utf16_lossy (slice_elems s (ws_slice self))"

text \<open>The derived \<^verbatim>\<open>PartialEq\<close>, and the comparisons with a Rust string.\<close>

definition str_eq :: "'a ustate_scheme \<Rightarrow> WduUnicodeStr \<Rightarrow> WduUnicodeStr \<Rightarrow> bool" where
  "str_eq s self other \<longleftrightarrow> slice_elems s (ws_slice self) = slice_elems s (ws_slice other)"

definition str_eq_str :: "'a ustate_scheme \<Rightarrow> WduUnicodeStr \<Rightarrow> rust_str \<Rightarrow> bool" where
  "str_eq_str s self other \<longleftrightarrow> str_to_string s self = other"

text \<open>
  \<^verbatim>\<open>PartialEq<UNICODE_STRING>\<close> takes \<^verbatim>\<open>other.Length\<close>, a number of bytes, as the number of
  elements of the slice it compares with.
\<close>

definition str_eq_unicode_string :: "'a ustate_scheme \<Rightarrow> WduUnicodeStr \<Rightarrow> UNICODE_STRING \<Rightarrow> bool" where
  "str_eq_unicode_string s self other \<longleftrightarrow>
     slice_elems s (ws_slice self)
       = slice_elems s \<lparr>sl_ptr = Buffer other, sl_len = unat (Length other)\<rparr>"

section \<open>Lemmas\<close>

lemma length_slice_elems [simp]: "length (slice_elems s sl) = sl_len sl"
  by (simp add: slice_elems_def)

lemma slice_elems_klog [simp]: "slice_elems (s\<lparr>klog := l\<rparr>) sl = slice_elems s sl"
  by (simp add: slice_elems_def)

lemma ustr_of_klog [simp]: "ustr_of (s\<lparr>klog := l\<rparr>) u = ustr_of s u"
  by (simp add: ustr_of_def)

lemma unat_to_unicode_len: "unat (to_unicode_len n) = (2 * n) mod 65536"
  by (simp only: to_unicode_len_def unat_u16_of_nat mult.commute)

lemma unat_to_unicode_len_small: "n < 32768 \<Longrightarrow> unat (to_unicode_len n) = 2 * n"
  by (simp add: unat_to_unicode_len)

lemma even_to_unicode_len: "even (unat (to_unicode_len n))"
  by (simp add: unat_to_unicode_len dvd_mod)

lemma to_unicode_len_half: "unat (to_unicode_len n) div 2 = n mod 32768"
  unfolding unat_to_unicode_len using mult_mod_right [of 2 n 32768] by simp

lemma unat_div2 [simp]: "unat (w div 2 :: u16) = unat w div 2"
  by (simp add: unat_div)

text \<open>
  The owning length of a \<^verbatim>\<open>UNICODE_STRING\<close> made from a slice is the slice's length modulo
  32768: a longer slice is silently cut.
\<close>

lemma sl_len_roundtrip:
  "sl_len (ws_slice (str_from_ptr (Some (as_unicode_string w)))) = sl_len (ws_slice w) mod 32768"
  by (simp add: str_from_ptr_def as_unicode_string_def to_unicode_len_half)

lemma str_from_ptr_as_unicode_string:
  assumes "sl_len (ws_slice w) < 32768"
  shows "str_from_ptr (Some (as_unicode_string w)) = w"
  using assms
  by (cases w; cases "ws_slice w")
     (simp add: str_from_ptr_def as_unicode_string_def to_unicode_len_half)

lemma ustr_of_as_unicode_string:
  assumes "sl_len (ws_slice w) < 32768"
  shows "snd (ustr_of s (as_unicode_string w)) = slice_elems s (ws_slice w)"
  using assms
  by (simp add: ustr_of_def as_unicode_string_def to_unicode_len_half slice_elems_def)

end
