(* ===== verification/Wdu_Core.thy ===== *)
theory Wdu_Core
  imports Wdu_Ustr
begin

text \<open>
  \<^verbatim>\<open>src/lib.rs\<close>: the base error, the processor mode and its conversions, and the crate's
  helpers over single kernel routines that the other modules call.
\<close>

section \<open>Types\<close>

datatype WduError = NtStatus ntstatus

datatype ProcessorMode = UserMode | KernelMode

section \<open>Operations\<close>

text \<open>\<^verbatim>\<open>From<i8> for ProcessorMode\<close>: any other value is \<^verbatim>\<open>unreachable!()\<close>.\<close>

definition processor_mode_from :: "i8 \<Rightarrow> ProcessorMode option" where
  "processor_mode_from v =
     (if v = 0 then Some KernelMode else if v = 1 then Some UserMode else panic)"

fun processor_mode_into :: "ProcessorMode \<Rightarrow> i8" where
  "processor_mode_into KernelMode = 0"
| "processor_mode_into UserMode = 1"

definition previous_mode :: "kernel \<Rightarrow> 'a kstate_scheme \<Rightarrow> (ProcessorMode \<times> 'a kstate_scheme) option" where
  "previous_mode K s =
     (let (r, s) = sys K (Io ExGetPreviousMode) s
      in map_option (\<lambda>m. (m, s)) (processor_mode_from (r_u8 r)))"

definition get_system_routine_addr ::
  "kernel \<Rightarrow> WduUnicodeStr \<Rightarrow> 'a ustate_scheme \<Rightarrow> fnptr option \<times> 'a ustate_scheme" where
  "get_system_routine_addr K rtn_name s =
     (let (r, s) = sys K (Rtl (MmGetSystemRoutineAddress (ustr_of s (as_unicode_string rtn_name)))) s
      in (if r_ptr r = null then None else Some (r_ptr r), s))"

definition probe_read :: "kernel \<Rightarrow> ptr \<Rightarrow> usize \<Rightarrow> u32 \<Rightarrow> 'a kstate_scheme \<Rightarrow> 'a kstate_scheme" where
  "probe_read K addr len alignment s = sysv K (Io (ProbeForRead addr len alignment)) s"

definition probe_write :: "kernel \<Rightarrow> ptr \<Rightarrow> usize \<Rightarrow> u32 \<Rightarrow> 'a kstate_scheme \<Rightarrow> 'a kstate_scheme" where
  "probe_write K addr len alignment s = sysv K (Io (ProbeForWrite addr len alignment)) s"

definition WDU_BUGCHECK_CODE :: u32 where
  "WDU_BUGCHECK_CODE = 0x06941393"

text \<open>The panic message's text is behind the first parameter.\<close>

definition bug_check ::
  "kernel \<Rightarrow> ptr \<Rightarrow> u32 option \<Rightarrow> usize option \<Rightarrow> usize option \<Rightarrow> usize option
     \<Rightarrow> 'a kstate_scheme \<Rightarrow> 'a kstate_scheme" where
  "bug_check K msg code param2 param3 param4 s =
     sysv K (Io (KeBugCheckEx
       (case code of None \<Rightarrow> WDU_BUGCHECK_CODE | Some code \<Rightarrow> code)
       msg
       (case param2 of None \<Rightarrow> 0 | Some p \<Rightarrow> p)
       (case param3 of None \<Rightarrow> 0 | Some p \<Rightarrow> p)
       (case param4 of None \<Rightarrow> 0 | Some p \<Rightarrow> p))) s"

text \<open>
  \<^verbatim>\<open>ref_by_handle\<close> fills the caller's object pointer. On success the pointer is what the
  routine wrote; the caller's object is dropped on an error.
\<close>

definition ref_by_handle ::
  "kernel \<Rightarrow> handle \<Rightarrow> u32 \<Rightarrow> ptr option \<Rightarrow> ProcessorMode \<Rightarrow> 'a kstate_scheme
     \<Rightarrow> (WduError, ptr) result \<times> 'a kstate_scheme" where
  "ref_by_handle K hdl access_mask obj_type access_mode s =
     (let (r, s) = sys K (Obj (ObReferenceObjectByHandle hdl access_mask
                (case obj_type of None \<Rightarrow> 0 | Some obj \<Rightarrow> obj)
                (processor_mode_into access_mode))) s
      in if r_status r \<noteq> STATUS_SUCCESS then (Err (NtStatus (r_status r)), s)
         else (Ok (r_out r), s))"

definition dereference :: "kernel \<Rightarrow> ptr \<Rightarrow> 'a kstate_scheme \<Rightarrow> 'a kstate_scheme" where
  "dereference K object s = sysv K (Obj (ObfDereferenceObject object)) s"

definition current_irql :: "kernel \<Rightarrow> 'a kstate_scheme \<Rightarrow> u8 \<times> 'a kstate_scheme" where
  "current_irql K s = (let (r, s) = sys K (Lock KeGetCurrentIrql) s in (r_u8 r, s))"

section \<open>Codes of enumerations\<close>

text \<open>
  Several Rust enums stand for numeric codes of the Windows ABI. The interface: the code of
  every value, and (where the crate has it) the conversion back, which panics on a code that
  belongs to no value.
\<close>

locale code_enum =
  fixes code :: "'e \<Rightarrow> 'w"
    and of_code :: "'w \<Rightarrow> 'e option"
  assumes of_code_code: "of_code (code e) = Some e"
    and of_code_sound: "of_code w = Some e \<Longrightarrow> code e = w"
begin

lemma code_inj: "code a = code b \<longleftrightarrow> a = b"
  using of_code_code by (metis option.inject)

lemma of_code_eq_Some: "of_code w = Some e \<longleftrightarrow> w = code e"
  using of_code_code of_code_sound by metis

lemma of_code_panics: "of_code w = None \<longleftrightarrow> w \<notin> range code"
  using of_code_code of_code_sound by (metis image_iff not_None_eq rangeI)

end

interpretation processor_mode: code_enum processor_mode_into processor_mode_from
proof
  fix e show "processor_mode_from (processor_mode_into e) = Some e"
    by (cases e) (simp_all add: processor_mode_from_def)
next
  fix w e assume "processor_mode_from w = Some e"
  then show "processor_mode_into e = w"
    by (auto simp: processor_mode_from_def panic_def split: if_splits)
qed

section \<open>Lemmas\<close>

lemma get_system_routine_addr_umem [simp]:
  "umem (snd (get_system_routine_addr K n s)) = umem s"
  by (simp add: get_system_routine_addr_def sys_eq)

lemma get_system_routine_addr_log:
  "klog (snd (get_system_routine_addr K n s)) =
     klog s @ [(Rtl (MmGetSystemRoutineAddress (ustr_of s (as_unicode_string n))),
                K (klog s) (Rtl (MmGetSystemRoutineAddress (ustr_of s (as_unicode_string n)))))]"
  by (simp add: get_system_routine_addr_def sys_eq)

text \<open>An object obtained through a handle is referenced exactly once, and released by one dereference.\<close>

fun ref_delta :: "ptr \<Rightarrow> kevent list \<Rightarrow> int" where
  "ref_delta p [] = 0"
| "ref_delta p ((c, r) # es) =
     (case c of
        Obj (ObReferenceObjectByHandle h m t a) \<Rightarrow>
          (if r_status r = STATUS_SUCCESS \<and> r_out r = p then 1 else 0)
      | Obj (ObfDereferenceObject q) \<Rightarrow> (if q = p then - 1 else 0)
      | _ \<Rightarrow> 0) + ref_delta p es"

lemma ref_delta_append [simp]: "ref_delta p (xs @ ys) = ref_delta p xs + ref_delta p ys"
  by (induction p xs rule: ref_delta.induct) simp_all

lemma ref_by_handle_delta:
  assumes "ref_by_handle K h m t a s = (res, s')"
  shows "ref_delta p (klog s') = ref_delta p (klog s) + (if res = Ok p then 1 else 0)"
  using assms by (auto simp: ref_by_handle_def split: if_splits)

lemma dereference_delta [simp]:
  "ref_delta p (klog (dereference K q s)) = ref_delta p (klog s) - (if q = p then 1 else 0)"
  by (simp add: dereference_def)

end
