(* ===== verification/Wdu_Ioctl.thy ===== *)
theory Wdu_Ioctl
  imports Wdu_Prelude
begin

text \<open>
  The I/O control code macros of \<^verbatim>\<open>src/io/device_control.rs\<close>: \<^verbatim>\<open>encode_ioctl!\<close> packs a device
  type, a function code, a transfer method and an access mask into 32 bits,
  \<^verbatim>\<open>method_from_ioctl!\<close> reads the method back.
\<close>

section \<open>Definitions\<close>

definition encode_ioctl :: "u32 \<Rightarrow> u32 \<Rightarrow> u32 \<Rightarrow> u32 \<Rightarrow> u32" where
  "encode_ioctl device_type function_code meth access =
     (push_bit 16 device_type OR push_bit 14 access OR push_bit 2 function_code OR meth)"

definition method_from_ioctl :: "u32 \<Rightarrow> u32" where
  "method_from_ioctl ioctl = ioctl AND 0x3"

definition METHOD_BUFFERED :: u32 where [nt_consts]: "METHOD_BUFFERED = 0"
definition METHOD_IN_DIRECT :: u32 where [nt_consts]: "METHOD_IN_DIRECT = 1"
definition METHOD_OUT_DIRECT :: u32 where [nt_consts]: "METHOD_OUT_DIRECT = 2"
definition METHOD_NEITHER :: u32 where [nt_consts]: "METHOD_NEITHER = 3"
definition FILE_ANY_ACCESS :: u32 where [nt_consts]: "FILE_ANY_ACCESS = 0"
definition FILE_SPECIAL_ACCESS :: u32 where [nt_consts]: "FILE_SPECIAL_ACCESS = 0"
definition FILE_DEVICE_UNKNOWN :: u32 where [nt_consts]: "FILE_DEVICE_UNKNOWN = 0x22"

text \<open>The fields of a control code as \<^verbatim>\<open>CTL_CODE\<close> lays them out.\<close>

definition ioctl_device_type :: "u32 \<Rightarrow> u32" where
  "ioctl_device_type c = drop_bit 16 c"

definition ioctl_access :: "u32 \<Rightarrow> u32" where
  "ioctl_access c = take_bit 2 (drop_bit 14 c)"

definition ioctl_function :: "u32 \<Rightarrow> u32" where
  "ioctl_function c = take_bit 12 (drop_bit 2 c)"

text \<open>The four fields are within their widths.\<close>

definition ioctl_fields_ok :: "u32 \<Rightarrow> u32 \<Rightarrow> u32 \<Rightarrow> u32 \<Rightarrow> bool" where
  "ioctl_fields_ok d f m a \<longleftrightarrow> d < 2 ^ 16 \<and> f < 2 ^ 12 \<and> m < 2 ^ 2 \<and> a < 2 ^ 2"

section \<open>Lemmas\<close>

lemma high_bits_zero:
  assumes "(w :: u32) < 2 ^ n" "n \<le> k"
  shows "\<not> bit w k"
proof
  assume b: "bit w k"
  have "w AND mask n = w"
    using assms(1) by (rule less_mask_eq)
  with b have "bit (w AND mask n) k" by simp
  then show False using assms(2) by (simp add: bit_simps)
qed

lemma encode_ioctl_bit:
  assumes "ioctl_fields_ok d f m a" "k < 32"
  shows "bit (encode_ioctl d f m a) k \<longleftrightarrow>
     (if k < 2 then bit m k else if k < 14 then bit f (k - 2)
      else if k < 16 then bit a (k - 14) else bit d (k - 16))"
proof -
  have "\<not> bit m k" if "2 \<le> k"
    using assms(1) that high_bits_zero [of m 2 k] by (simp add: ioctl_fields_ok_def)
  moreover have "\<not> bit f (k - 2)" if "14 \<le> k"
    using assms(1) that high_bits_zero [of f 12 "k - 2"] by (simp add: ioctl_fields_ok_def)
  moreover have "\<not> bit a (k - 14)" if "16 \<le> k"
    using assms(1) that high_bits_zero [of a 2 "k - 14"] by (simp add: ioctl_fields_ok_def)
  ultimately show ?thesis
    using assms(2) by (auto simp: encode_ioctl_def bit_simps not_le not_less)
qed

lemma take_bit_field:
  assumes "(w :: u32) < 2 ^ n"
  shows "take_bit n w = w"
  using less_mask_eq [OF assms] by (simp add: take_bit_eq_mask)

lemma ioctl_method_encode:
  assumes "ioctl_fields_ok d f m a"
  shows "method_from_ioctl (encode_ioctl d f m a) = m"
proof (rule bit_word_eqI)
  fix k assume k: "k < LENGTH(32)"
  have three: "(3 :: u32) = mask 2"
    by (simp add: mask_eq_exp_minus_1)
  have "\<not> bit m k" if "2 \<le> k"
    using assms that high_bits_zero [of m 2 k] by (simp add: ioctl_fields_ok_def)
  then show "bit (method_from_ioctl (encode_ioctl d f m a)) k \<longleftrightarrow> bit m k"
    using k assms by (auto simp: method_from_ioctl_def three bit_simps encode_ioctl_bit)
qed

lemma ioctl_device_type_encode:
  assumes "ioctl_fields_ok d f m a"
  shows "ioctl_device_type (encode_ioctl d f m a) = d"
proof (rule bit_word_eqI)
  fix k assume k: "k < LENGTH(32)"
  have "\<not> bit d k" if "16 \<le> k"
    using assms that high_bits_zero [of d 16 k] by (simp add: ioctl_fields_ok_def)
  then show "bit (ioctl_device_type (encode_ioctl d f m a)) k \<longleftrightarrow> bit d k"
    using k assms by (cases "k < 16")
       (auto simp: ioctl_device_type_def bit_simps encode_ioctl_bit dest: bit_imp_le_length)
qed

lemma ioctl_access_encode:
  assumes "ioctl_fields_ok d f m a"
  shows "ioctl_access (encode_ioctl d f m a) = a"
proof (rule bit_word_eqI)
  fix k assume k: "k < LENGTH(32)"
  have "\<not> bit a k" if "2 \<le> k"
    using assms that high_bits_zero [of a 2 k] by (simp add: ioctl_fields_ok_def)
  then show "bit (ioctl_access (encode_ioctl d f m a)) k \<longleftrightarrow> bit a k"
    using k assms by (cases "k < 2") (auto simp: ioctl_access_def bit_simps encode_ioctl_bit)
qed

lemma ioctl_function_encode:
  assumes "ioctl_fields_ok d f m a"
  shows "ioctl_function (encode_ioctl d f m a) = f"
proof (rule bit_word_eqI)
  fix k assume k: "k < LENGTH(32)"
  have "\<not> bit f k" if "12 \<le> k"
    using assms that high_bits_zero [of f 12 k] by (simp add: ioctl_fields_ok_def)
  then show "bit (ioctl_function (encode_ioctl d f m a)) k \<longleftrightarrow> bit f k"
    using k assms by (cases "k < 12") (auto simp: ioctl_function_def bit_simps encode_ioctl_bit)
qed

lemmas ioctl_decode =
  ioctl_method_encode ioctl_device_type_encode ioctl_access_encode ioctl_function_encode

text \<open>
  C27. A control code built by \<^verbatim>\<open>encode_ioctl!\<close> from fields within their widths decodes to the
  same four fields; in particular \<^verbatim>\<open>method_from_ioctl!\<close> reads the method that was encoded.
\<close>

theorem ioctl_roundtrip:
  assumes "ioctl_fields_ok d f m a"
  shows "method_from_ioctl (encode_ioctl d f m a) = m \<and>
    ioctl_device_type (encode_ioctl d f m a) = d \<and>
    ioctl_access (encode_ioctl d f m a) = a \<and>
    ioctl_function (encode_ioctl d f m a) = f"
  using ioctl_decode [OF assms] by simp

theorem ioctl_roundtrip_witness:
  "method_from_ioctl (encode_ioctl 40000 0x901 2 0) = 2 \<and>
    ioctl_device_type (encode_ioctl 40000 0x901 2 0) = 40000 \<and>
    ioctl_access (encode_ioctl 40000 0x901 2 0) = 0 \<and>
    ioctl_function (encode_ioctl 40000 0x901 2 0) = 0x901"
  by (rule ioctl_roundtrip) (simp add: ioctl_fields_ok_def)

end
