(* ===== verification/Wdu_Pool.thy ===== *)
theory Wdu_Pool
  imports Wdu_Core
begin

text \<open>
  \<^verbatim>\<open>src/memory/mod.rs\<close> and \<^verbatim>\<open>src/memory/pool.rs\<close>: pool flags, the configurable allocator
  \<open>SimpleAlloc\<close> (which a driver installs as its global allocator) and the stateless
  \<^verbatim>\<open>PagedPool\<close> and \<^verbatim>\<open>NonPagedPool\<close>. The second half accounts for the pool blocks that are live
  after a sequence of calls and states the interface the allocators share.
\<close>

section \<open>Pool flags and tags\<close>

datatype PoolFlags =
    PoolFlagUninit
  | PoolFlagCacheAligned
  | PoolFlagNonPaged
  | PoolFlagNonPagedExecute
  | PoolFlagPaged

text \<open>The discriminants, which \<^verbatim>\<open>self.pool_flags as u64\<close> reads.\<close>

fun pool_flags_as_u64 :: "PoolFlags \<Rightarrow> u64" where
  "pool_flags_as_u64 PoolFlagUninit = 0x2"
| "pool_flags_as_u64 PoolFlagCacheAligned = 0x4"
| "pool_flags_as_u64 PoolFlagNonPaged = 0x40"
| "pool_flags_as_u64 PoolFlagNonPagedExecute = 0x80"
| "pool_flags_as_u64 PoolFlagPaged = 0x100"

text \<open>\<^verbatim>\<open>Into<u64>\<close> accepts two of the flags; the others are \<^verbatim>\<open>unreachable!()\<close>.\<close>

fun pool_flags_into :: "PoolFlags \<Rightarrow> u64 option" where
  "pool_flags_into PoolFlagNonPaged = Some 0x40"
| "pool_flags_into PoolFlagPaged = Some 0x100"
| "pool_flags_into _ = panic"

definition NonPagedPool_type :: i32 where [nt_consts]: "NonPagedPool_type = 0"
definition PagedPool_type :: i32 where [nt_consts]: "PagedPool_type = 1"
definition NonPagedPoolNx_type :: i32 where [nt_consts]: "NonPagedPoolNx_type = 512"

definition pool_flags_from :: "i32 \<Rightarrow> PoolFlags" where
  "pool_flags_from v =
     (if v = NonPagedPool_type \<or> v = NonPagedPoolNx_type then PoolFlagNonPaged else PoolFlagPaged)"

text \<open>\<^verbatim>\<open>u32::from_ne_bytes\<close> on the little-endian targets of the crate.\<close>

definition u32_from_ne_bytes :: "u8 \<Rightarrow> u8 \<Rightarrow> u8 \<Rightarrow> u8 \<Rightarrow> u32" where
  "u32_from_ne_bytes a b c d =
     ucast a OR push_bit 8 (ucast b) OR push_bit 16 (ucast c) OR push_bit 24 (ucast d)"

definition DEFAULT_POOL_TAG :: u32 where
  "DEFAULT_POOL_TAG = u32_from_ne_bytes 0x41 0x4C 0x72 0x73"

section \<open>SimpleAlloc\<close>

record SimpleAlloc =
  sa_tag :: u32
  sa_pool_type :: i32
  sa_pool_flags :: PoolFlags
  sa_alloc_pool2 :: "fnptr option"

definition simple_const_new :: SimpleAlloc where
  "simple_const_new = \<lparr>sa_tag = DEFAULT_POOL_TAG, sa_pool_type = NonPagedPool_type,
     sa_pool_flags = PoolFlagNonPaged, sa_alloc_pool2 = None\<rparr>"

definition simple_tag :: "u32 \<Rightarrow> SimpleAlloc \<Rightarrow> SimpleAlloc" where
  "simple_tag tag self = self\<lparr>sa_tag := tag\<rparr>"

definition simple_pool_type :: "i32 \<Rightarrow> SimpleAlloc \<Rightarrow> SimpleAlloc" where
  "simple_pool_type pool_type self =
     self\<lparr>sa_pool_type := pool_type, sa_pool_flags := pool_flags_from pool_type\<rparr>"

text \<open>The sixteen units of the constant array that \<^verbatim>\<open>init\<close> looks up, its NUL included.\<close>

definition EX_ALLOCATE_POOL2 :: "u16 list" where
  "EX_ALLOCATE_POOL2 = [69, 120, 65, 108, 108, 111, 99, 97, 116, 101, 80, 111, 111, 108, 50, 0]"

text \<open>\<open>lit\<close> is the address of that array.\<close>

definition simple_init :: "kernel \<Rightarrow> ptr \<Rightarrow> SimpleAlloc \<Rightarrow> 'a ustate_scheme \<Rightarrow> SimpleAlloc \<times> 'a ustate_scheme" where
  "simple_init K lit self s =
     (let pool2 = str_from_slice \<lparr>sl_ptr = lit, sl_len = 16\<rparr>;
          (pfn, s) = get_system_routine_addr K pool2 s
      in (self\<lparr>sa_alloc_pool2 := pfn\<rparr>, s))"

definition simple_alloc_with_tag ::
  "kernel \<Rightarrow> SimpleAlloc \<Rightarrow> usize \<Rightarrow> u32 \<Rightarrow> 'a kstate_scheme \<Rightarrow> ptr \<times> 'a kstate_scheme" where
  "simple_alloc_with_tag K self nbytes tag s =
     (let (r, s) = (case sa_alloc_pool2 self of
          None \<Rightarrow> sys K (Pool (ExAllocatePoolWithTag (sa_pool_type self) nbytes tag)) s
        | Some pfn \<Rightarrow>
            sys K (Pool (CallExAllocatePool2 pfn (pool_flags_as_u64 (sa_pool_flags self)) nbytes tag)) s)
      in (r_ptr r, s))"

definition simple_alloc ::
  "kernel \<Rightarrow> SimpleAlloc \<Rightarrow> usize \<Rightarrow> 'a kstate_scheme \<Rightarrow> ptr \<times> 'a kstate_scheme" where
  "simple_alloc K self layout_size s =
     (let (r, s) = (case sa_alloc_pool2 self of
          None \<Rightarrow> sys K (Pool (ExAllocatePoolWithTag (sa_pool_type self) layout_size (sa_tag self))) s
        | Some pfn \<Rightarrow>
            sys K (Pool (CallExAllocatePool2 pfn (pool_flags_as_u64 (sa_pool_flags self))
              layout_size (sa_tag self))) s)
      in (r_ptr r, s))"

definition simple_free_with_tag :: "kernel \<Rightarrow> ptr \<Rightarrow> u32 \<Rightarrow> 'a kstate_scheme \<Rightarrow> 'a kstate_scheme" where
  "simple_free_with_tag K p tag s = sysv K (Pool (ExFreePoolWithTag p tag)) s"

text \<open>\<^verbatim>\<open>Allocator::allocate\<close>: the error carries nothing, success is the block's slice.\<close>

definition simple_allocate ::
  "kernel \<Rightarrow> SimpleAlloc \<Rightarrow> usize \<Rightarrow> 'a kstate_scheme \<Rightarrow> (unit, ptr \<times> usize) result \<times> 'a kstate_scheme" where
  "simple_allocate K self layout_size s =
     (let (pool, s) = simple_alloc K self layout_size s
      in if pool = null then (Err (), s) else (Ok (pool, layout_size), s))"

definition simple_deallocate :: "kernel \<Rightarrow> SimpleAlloc \<Rightarrow> ptr \<Rightarrow> 'a kstate_scheme \<Rightarrow> 'a kstate_scheme" where
  "simple_deallocate K self p s = sysv K (Pool (ExFreePoolWithTag p (sa_tag self))) s"

text \<open>\<^verbatim>\<open>GlobalAlloc\<close>: \<^verbatim>\<open>alloc\<close> calls the inherent method; a failed allocation ends in a panic.\<close>

definition simple_global_alloc :: "kernel \<Rightarrow> SimpleAlloc \<Rightarrow> usize \<Rightarrow> 'a kstate_scheme \<Rightarrow> ptr \<times> 'a kstate_scheme" where
  "simple_global_alloc K self layout_size s = simple_alloc K self layout_size s"

definition alloc_error :: "usize \<Rightarrow> 'a kstate_scheme \<Rightarrow> 'b option" where
  "alloc_error layout_size s = panic"

definition simple_dealloc :: "kernel \<Rightarrow> SimpleAlloc \<Rightarrow> ptr \<Rightarrow> 'a kstate_scheme \<Rightarrow> 'a kstate_scheme" where
  "simple_dealloc K self p s = sysv K (Pool (ExFreePoolWithTag p (sa_tag self))) s"

section \<open>PagedPool and NonPagedPool\<close>

definition pool2_alloc ::
  "PoolFlags \<Rightarrow> kernel \<Rightarrow> usize \<Rightarrow> u32 \<Rightarrow> 'a kstate_scheme \<Rightarrow> (ptr \<times> 'a kstate_scheme) option" where
  "pool2_alloc flags K nbytes tag s = do {
     f \<leftarrow> pool_flags_into flags;
     let (r, s) = sys K (Pool (ExAllocatePool2 f nbytes tag)) s;
     Some (r_ptr r, s)
   }"

definition paged_alloc_with_tag ::
  "kernel \<Rightarrow> usize \<Rightarrow> u32 \<Rightarrow> 'a kstate_scheme \<Rightarrow> (ptr \<times> 'a kstate_scheme) option" where
  "paged_alloc_with_tag = pool2_alloc PoolFlagPaged"

definition paged_alloc :: "kernel \<Rightarrow> usize \<Rightarrow> 'a kstate_scheme \<Rightarrow> (ptr \<times> 'a kstate_scheme) option" where
  "paged_alloc K nbytes s = pool2_alloc PoolFlagPaged K nbytes DEFAULT_POOL_TAG s"

definition paged_free_with_tag :: "kernel \<Rightarrow> ptr \<Rightarrow> u32 \<Rightarrow> 'a kstate_scheme \<Rightarrow> 'a kstate_scheme" where
  "paged_free_with_tag K p tag s = sysv K (Pool (ExFreePoolWithTag p tag)) s"

definition nonpaged_alloc_with_tag ::
  "kernel \<Rightarrow> usize \<Rightarrow> u32 \<Rightarrow> 'a kstate_scheme \<Rightarrow> (ptr \<times> 'a kstate_scheme) option" where
  "nonpaged_alloc_with_tag = pool2_alloc PoolFlagNonPaged"

definition nonpaged_alloc :: "kernel \<Rightarrow> usize \<Rightarrow> 'a kstate_scheme \<Rightarrow> (ptr \<times> 'a kstate_scheme) option" where
  "nonpaged_alloc K nbytes s = pool2_alloc PoolFlagNonPaged K nbytes DEFAULT_POOL_TAG s"

definition nonpaged_free_with_tag :: "kernel \<Rightarrow> ptr \<Rightarrow> u32 \<Rightarrow> 'a kstate_scheme \<Rightarrow> 'a kstate_scheme" where
  "nonpaged_free_with_tag K p tag s = sysv K (Pool (ExFreePoolWithTag p tag)) s"

definition paged_allocate ::
  "kernel \<Rightarrow> usize \<Rightarrow> 'a kstate_scheme \<Rightarrow> ((unit, ptr \<times> usize) result \<times> 'a kstate_scheme) option" where
  "paged_allocate K layout_size s = do {
     (pool, s) \<leftarrow> paged_alloc K layout_size s;
     Some (if pool = null then (Err (), s) else (Ok (pool, layout_size), s))
   }"

definition paged_deallocate :: "kernel \<Rightarrow> ptr \<Rightarrow> 'a kstate_scheme \<Rightarrow> 'a kstate_scheme" where
  "paged_deallocate K p s = sysv K (Pool (ExFreePoolWithTag p DEFAULT_POOL_TAG)) s"

definition nonpaged_allocate ::
  "kernel \<Rightarrow> usize \<Rightarrow> 'a kstate_scheme \<Rightarrow> ((unit, ptr \<times> usize) result \<times> 'a kstate_scheme) option" where
  "nonpaged_allocate K layout_size s = do {
     (pool, s) \<leftarrow> nonpaged_alloc K layout_size s;
     Some (if pool = null then (Err (), s) else (Ok (pool, layout_size), s))
   }"

definition nonpaged_deallocate :: "kernel \<Rightarrow> ptr \<Rightarrow> 'a kstate_scheme \<Rightarrow> 'a kstate_scheme" where
  "nonpaged_deallocate K p s = sysv K (Pool (ExFreePoolWithTag p DEFAULT_POOL_TAG)) s"

section \<open>Live blocks\<close>

text \<open>
  What the calls of a log leave allocated in the pool: the size and tag of every block that was
  handed out (the answer was not null) and not freed since. \<open>pool_frees_ok\<close> says that every free
  names a block that is live at that point, with the tag it was allocated with; anything else
  is a \<^verbatim>\<open>BAD_POOL_CALLER\<close> bug check.
\<close>

type_synonym blocks = "ptr \<rightharpoonup> usize \<times> u32"

definition add_block :: "ptr \<Rightarrow> usize \<Rightarrow> u32 \<Rightarrow> blocks \<Rightarrow> blocks" where
  "add_block p n t B = (if p = null then B else B(p \<mapsto> (n, t)))"

fun pool_step :: "kevent \<Rightarrow> blocks \<Rightarrow> blocks" where
  "pool_step (Pool (ExAllocatePool2 f n t), r) B = add_block (r_ptr r) n t B"
| "pool_step (Pool (ExAllocatePoolWithTag f n t), r) B = add_block (r_ptr r) n t B"
| "pool_step (Pool (CallExAllocatePool2 g f n t), r) B = add_block (r_ptr r) n t B"
| "pool_step (Pool (ExFreePoolWithTag p t), r) B = B(p := None)"
| "pool_step _ B = B"

definition pool_blocks :: "kevent list \<Rightarrow> blocks" where
  "pool_blocks es = fold pool_step es Map.empty"

fun pool_free_ok :: "blocks \<Rightarrow> kevent \<Rightarrow> bool" where
  "pool_free_ok B (Pool (ExFreePoolWithTag p t), r) \<longleftrightarrow> (\<exists>n. B p = Some (n, t))"
| "pool_free_ok B _ \<longleftrightarrow> True"

fun pool_frees_ok :: "blocks \<Rightarrow> kevent list \<Rightarrow> bool" where
  "pool_frees_ok B [] \<longleftrightarrow> True"
| "pool_frees_ok B (e # es) \<longleftrightarrow> pool_free_ok B e \<and> pool_frees_ok (pool_step e B) es"

text \<open>The documented guarantee of the pool: a block handed out is not already in use.\<close>

definition pool_fresh :: "kernel \<Rightarrow> bool" where
  "pool_fresh K \<longleftrightarrow> (\<forall>h c. r_ptr (K h (Pool c)) \<noteq> null \<longrightarrow> pool_blocks h (r_ptr (K h (Pool c))) = None)"

lemma pool_blocks_Nil [simp]: "pool_blocks [] = Map.empty"
  by (simp add: pool_blocks_def)

lemma pool_blocks_append [simp]: "pool_blocks (es @ fs) = fold pool_step fs (pool_blocks es)"
  by (simp add: pool_blocks_def)

lemma pool_frees_ok_append [simp]:
  "pool_frees_ok B (es @ fs) \<longleftrightarrow> pool_frees_ok B es \<and> pool_frees_ok (fold pool_step es B) fs"
  by (induction es arbitrary: B) simp_all

lemma fold_pool_step [simp]: "fold pool_step es Map.empty = pool_blocks es"
  by (simp add: pool_blocks_def)

lemma pool_frees_ok_snoc:
  "pool_frees_ok Map.empty (es @ [e]) \<longleftrightarrow>
     pool_frees_ok Map.empty es \<and> pool_free_ok (pool_blocks es) e"
  by simp

section \<open>Live blocks of the global allocator\<close>

text \<open>The same accounting for the blocks of the Rust heap: boxes and vectors.\<close>

type_synonym heap = "ptr \<rightharpoonup> usize"

fun heap_step :: "kevent \<Rightarrow> heap \<Rightarrow> heap" where
  "heap_step (Pool (RustAlloc n), r) H = (if r_ptr r = null then H else H(r_ptr r \<mapsto> n))"
| "heap_step (Pool (RustDealloc p), r) H = H(p := None)"
| "heap_step _ H = H"

definition heap_blocks :: "kevent list \<Rightarrow> heap" where
  "heap_blocks es = fold heap_step es Map.empty"

text \<open>Every deallocation names a live block; anything else is a double or invalid free.\<close>

fun heap_free_ok :: "heap \<Rightarrow> kevent \<Rightarrow> bool" where
  "heap_free_ok H (Pool (RustDealloc p), r) \<longleftrightarrow> H p \<noteq> None"
| "heap_free_ok H _ \<longleftrightarrow> True"

fun heap_frees_ok :: "heap \<Rightarrow> kevent list \<Rightarrow> bool" where
  "heap_frees_ok H [] \<longleftrightarrow> True"
| "heap_frees_ok H (e # es) \<longleftrightarrow> heap_free_ok H e \<and> heap_frees_ok (heap_step e H) es"

text \<open>The contract of \<^verbatim>\<open>GlobalAlloc\<close>: a block handed out is not already in use.\<close>

definition heap_fresh :: "kernel \<Rightarrow> bool" where
  "heap_fresh K \<longleftrightarrow>
     (\<forall>h n. r_ptr (K h (Pool (RustAlloc n))) \<noteq> null \<longrightarrow>
        heap_blocks h (r_ptr (K h (Pool (RustAlloc n)))) = None)"

lemma heap_blocks_Nil [simp]: "heap_blocks [] = Map.empty"
  by (simp add: heap_blocks_def)

lemma heap_blocks_append [simp]: "heap_blocks (es @ fs) = fold heap_step fs (heap_blocks es)"
  by (simp add: heap_blocks_def)

lemma fold_heap_step [simp]: "fold heap_step es Map.empty = heap_blocks es"
  by (simp add: heap_blocks_def)

lemma heap_frees_ok_append [simp]:
  "heap_frees_ok H (es @ fs) \<longleftrightarrow> heap_frees_ok H es \<and> heap_frees_ok (fold heap_step es H) fs"
  by (induction es arbitrary: H) simp_all

section \<open>The allocator interface\<close>

text \<open>
  What a client of an allocator relies on: an allocation returns, and the block it hands out
  (if any) is live with the requested size and tag; a free removes the block; neither touches
  another block or breaks the discipline of the frees before it.
\<close>

locale tagged_pool =
  fixes alloc_tag :: "kernel \<Rightarrow> usize \<Rightarrow> u32 \<Rightarrow> 'a kstate_scheme \<Rightarrow> (ptr \<times> 'a kstate_scheme) option"
    and free_tag :: "kernel \<Rightarrow> ptr \<Rightarrow> u32 \<Rightarrow> 'a kstate_scheme \<Rightarrow> 'a kstate_scheme"
  assumes alloc_returns: "\<exists>p s'. alloc_tag K n t s = Some (p, s')"
    and alloc_event: "alloc_tag K n t s = Some (p, s') \<Longrightarrow>
      \<exists>c. s' = s\<lparr>klog := klog s @ [(Pool c, K (klog s) (Pool c))]\<rparr>
        \<and> p = r_ptr (K (klog s) (Pool c))
        \<and> (\<forall>B. pool_step (Pool c, K (klog s) (Pool c)) B = add_block p n t B)
        \<and> (\<forall>B. pool_free_ok B (Pool c, K (klog s) (Pool c)))"
    and free_event: "free_tag K p t s =
      s\<lparr>klog := klog s @ [(Pool (ExFreePoolWithTag p t), K (klog s) (Pool (ExFreePoolWithTag p t)))]\<rparr>"
begin

lemma alloc_blocks:
  assumes "alloc_tag K n t s = Some (p, s')"
  shows "pool_blocks (klog s') = add_block p n t (pool_blocks (klog s))"
  using alloc_event [OF assms] by auto

lemma alloc_frees_ok:
  assumes "alloc_tag K n t s = Some (p, s')"
  shows "pool_frees_ok Map.empty (klog s') \<longleftrightarrow> pool_frees_ok Map.empty (klog s)"
  using alloc_event [OF assms] by (auto simp: pool_frees_ok_snoc)

lemma free_blocks: "pool_blocks (klog (free_tag K p t s)) = (pool_blocks (klog s))(p := None)"
  by (simp add: free_event)

lemma free_frees_ok:
  "pool_frees_ok Map.empty (klog (free_tag K p t s)) \<longleftrightarrow>
     pool_frees_ok Map.empty (klog s) \<and> (\<exists>n. pool_blocks (klog s) p = Some (n, t))"
  by (simp add: free_event pool_frees_ok_snoc)

lemma alloc_fresh:
  assumes "pool_fresh K" "alloc_tag K n t s = Some (p, s')" "p \<noteq> null"
  shows "pool_blocks (klog s) p = None"
  using alloc_event [OF assms(2)] assms(1,3) by (auto simp: pool_fresh_def)

text \<open>A block freed with its tag leaves the pool as it was before the allocation.\<close>

lemma alloc_free_balanced:
  assumes "pool_fresh K" "pool_frees_ok Map.empty (klog s)"
    and "alloc_tag K n t s = Some (p, s')" "p \<noteq> null"
  shows "pool_blocks (klog (free_tag K p t s')) = pool_blocks (klog s)"
    and "pool_frees_ok Map.empty (klog (free_tag K p t s'))"
proof -
  have live: "pool_blocks (klog s') = (pool_blocks (klog s))(p \<mapsto> (n, t))"
    using alloc_blocks [OF assms(3)] assms(4) by (simp add: add_block_def)
  then show "pool_blocks (klog (free_tag K p t s')) = pool_blocks (klog s)"
    using alloc_fresh [OF assms(1,3,4)] by (simp add: free_blocks fun_upd_idem)
  show "pool_frees_ok Map.empty (klog (free_tag K p t s'))"
    using assms(2) alloc_frees_ok [OF assms(3)] live by (simp add: free_frees_ok)
qed

end

lemma pool2_alloc_eq:
  assumes "pool_flags_into flags = Some f"
  shows "pool2_alloc flags K n t s =
    Some (r_ptr (K (klog s) (Pool (ExAllocatePool2 f n t))),
      s\<lparr>klog := klog s @ [(Pool (ExAllocatePool2 f n t), K (klog s) (Pool (ExAllocatePool2 f n t)))]\<rparr>)"
  using assms by (simp add: pool2_alloc_def sys_eq)

interpretation paged_pool: tagged_pool paged_alloc_with_tag paged_free_with_tag
  by unfold_locales
     (auto simp: paged_alloc_with_tag_def paged_free_with_tag_def pool2_alloc_eq)

interpretation nonpaged_pool: tagged_pool nonpaged_alloc_with_tag nonpaged_free_with_tag
  by unfold_locales
     (auto simp: nonpaged_alloc_with_tag_def nonpaged_free_with_tag_def pool2_alloc_eq)

interpretation simple_pool: tagged_pool
    "\<lambda>K n t s. Some (simple_alloc_with_tag K self n t s)" simple_free_with_tag for self
proof unfold_locales
  fix K n t p and s s' :: "'a kstate_scheme"
  assume "Some (simple_alloc_with_tag K self n t s) = Some (p, s')"
  then show "\<exists>c. s' = s\<lparr>klog := klog s @ [(Pool c, K (klog s) (Pool c))]\<rparr>
        \<and> p = r_ptr (K (klog s) (Pool c))
        \<and> (\<forall>B. pool_step (Pool c, K (klog s) (Pool c)) B = add_block p n t B)
        \<and> (\<forall>B. pool_free_ok B (Pool c, K (klog s) (Pool c)))"
    by (cases "sa_alloc_pool2 self")
       (force simp: simple_alloc_with_tag_def sys_eq)+
qed (auto simp: simple_free_with_tag_def)

section \<open>A concrete kernel\<close>

text \<open>
  An answer to every call that keeps the laws above: allocations take a new page per call and
  fail when that page is in use, every other routine succeeds. \<open>st0\<close> is a state before any call,
  in a build with debug assertions.
\<close>

definition fresh_page :: "kevent list \<Rightarrow> ptr" where
  "fresh_page h = (let p = 0x1000 * of_nat (Suc (length h))
     in if pool_blocks h p = None \<and> heap_blocks h p = None then p else null)"

definition kernel0 :: kernel where
  "kernel0 h c =
     (case c of
        Pool d \<Rightarrow> reply0\<lparr>r_ptr := fresh_page h\<rparr>
      | Rtl (RtlCopyUnicodeString d u) \<Rightarrow> reply0\<lparr>r_ustr := d\<rparr>
      | _ \<Rightarrow> reply0)"

definition st0 :: ustate where
  "st0 = \<lparr>klog = [], debug_assertions = True, umem = \<lambda>a. ucast a, try_non_paged = False\<rparr>"

lemma st0_simps [simp]:
  "klog st0 = []" "debug_assertions st0 = True" "umem st0 = (\<lambda>a. ucast a)" "try_non_paged st0 = False"
  by (simp_all add: st0_def)

lemma fresh_page_fresh: "pool_blocks h (fresh_page h) = None \<and> heap_blocks h (fresh_page h) = None"
  if "fresh_page h \<noteq> null"
  using that by (auto simp: fresh_page_def Let_def split: if_splits)

lemma kernel0_Pool [simp]: "kernel0 h (Pool d) = reply0\<lparr>r_ptr := fresh_page h\<rparr>"
  by (simp add: kernel0_def)

lemma kernel0_fresh [simp]: "pool_fresh kernel0" "heap_fresh kernel0"
  using fresh_page_fresh by (simp_all add: pool_fresh_def heap_fresh_def)

lemma fresh_page_Nil [simp]: "fresh_page [] = 0x1000"
  by (simp add: fresh_page_def)

lemma fresh_page_RustAlloc [simp]:
  "fresh_page [(Pool (RustAlloc n), r\<lparr>r_ptr := 0x1000\<rparr>)] = 0x2000"
  by (simp add: fresh_page_def Let_def pool_blocks_def heap_blocks_def)

end
