(* ===== verification/Wdu_Ustring.thy ===== *)
theory Wdu_Ustring
  imports Wdu_Pool
begin

text \<open>
  \<^verbatim>\<open>src/strings/unicode.rs\<close>, module \<^verbatim>\<open>string\<close>: \<open>WduUnicodeString\<close>, a \<^verbatim>\<open>UNICODE_STRING\<close> with the
  record of who allocated its buffer, which its \<^verbatim>\<open>drop\<close> frees accordingly. The heap traffic of
  temporary Rust strings made by \<^verbatim>\<open>to_string\<close> is not recorded; that of buffers a string keeps is.
\<close>

section \<open>Types\<close>

datatype WduUnicodeError = Invalid | CreateError | InsufficientResources | NtStatus ntstatus

datatype CopyFlags = DestNullTerminated | DestNonNullTerminated | CreateBufferOnEmtpySource

fun copy_flags_as_u32 :: "CopyFlags \<Rightarrow> u32" where
  "copy_flags_as_u32 DestNullTerminated = 0"
| "copy_flags_as_u32 DestNonNullTerminated = 1"
| "copy_flags_as_u32 CreateBufferOnEmtpySource = 3"

definition MAX_LEN_U32_STRING :: u16 where "MAX_LEN_U32_STRING = 0x15"
definition MAX_LEN_U64_STRING :: u16 where "MAX_LEN_U64_STRING = 0x30"

definition STRING_ALLOC_TAG :: u32 where
  "STRING_ALLOC_TAG = u32_from_ne_bytes 0x57 0x44 0x55 0x73"

definition POOL_TYPE :: "'a ustate_scheme \<Rightarrow> PoolFlags" where
  "POOL_TYPE s = (if try_non_paged s then PoolFlagNonPaged else PoolFlagPaged)"

datatype AllocType = AllocOs | AllocRust | AllocPool

record WduUnicodeString =
  us_string :: UNICODE_STRING
  us_alloc :: "AllocType option"

section \<open>Construction of empty and borrowed strings, and drop\<close>

definition ustring_default :: WduUnicodeString where
  "ustring_default =
     \<lparr>us_string = \<lparr>Length = 0, MaximumLength = 0, Buffer = null\<rparr>, us_alloc = None\<rparr>"

definition ustring_const_new :: WduUnicodeString where
  "ustring_const_new =
     \<lparr>us_string = \<lparr>Length = 0, MaximumLength = 0, Buffer = null\<rparr>, us_alloc = None\<rparr>"

definition free_buffer :: "kernel \<Rightarrow> ptr \<Rightarrow> 'a kstate_scheme \<Rightarrow> 'a kstate_scheme" where
  "free_buffer K p s = sysv K (Pool (ExFreePoolWithTag p STRING_ALLOC_TAG)) s"

text \<open>For \<^verbatim>\<open>AllocType::Rust\<close> the buffer pointer is turned into a \<^verbatim>\<open>Box<u16>\<close> and dropped.\<close>

definition ustring_drop :: "kernel \<Rightarrow> WduUnicodeString \<Rightarrow> 'a kstate_scheme \<Rightarrow> 'a kstate_scheme" where
  "ustring_drop K self s =
     (case us_alloc self of
        None \<Rightarrow> s
      | Some alloc \<Rightarrow>
          (case alloc of
             AllocOs \<Rightarrow> sysv K (Rtl (RtlFreeUnicodeString (us_string self))) s
           | AllocRust \<Rightarrow> sysv K (Pool (RustDealloc (Buffer (us_string self)))) s
           | AllocPool \<Rightarrow> free_buffer K (Buffer (us_string self)) s))"

definition alloc_buffer ::
  "kernel \<Rightarrow> u16 \<Rightarrow> 'a ustate_scheme \<Rightarrow> ((WduUnicodeError, ptr) result \<times> 'a ustate_scheme) option" where
  "alloc_buffer K len s = do {
     (buffer, s) \<leftarrow>
       (if try_non_paged s then nonpaged_alloc_with_tag K (ucast len) STRING_ALLOC_TAG s
        else paged_alloc_with_tag K (ucast len) STRING_ALLOC_TAG s);
     Some (if buffer = null then (Err InsufficientResources, s) else (Ok buffer, s))
   }"

section \<open>Observers\<close>

definition ustring_is_empty :: "WduUnicodeString \<Rightarrow> bool" where
  "ustring_is_empty self \<longleftrightarrow> Length (us_string self) = 0 \<or> MaximumLength (us_string self) = 0"

definition ustring_validate ::
  "kernel \<Rightarrow> WduUnicodeString \<Rightarrow> 'a ustate_scheme \<Rightarrow> (WduUnicodeError, unit) result \<times> 'a ustate_scheme" where
  "ustring_validate K self s =
     (let (r, s) = sys K (Rtl (RtlValidateUnicodeString 0 (ustr_of s (us_string self)))) s
      in if r_status r = STATUS_INVALID_PARAMETER then (Err Invalid, s) else (Ok (), s))"

definition ustring_len :: "WduUnicodeString \<Rightarrow> u16" where
  "ustring_len self = Length (us_string self) div 2"

definition ustring_bytes :: "WduUnicodeString \<Rightarrow> u16" where
  "ustring_bytes self = Length (us_string self)"

definition ustring_capacity :: "WduUnicodeString \<Rightarrow> u16" where
  "ustring_capacity self = MaximumLength (us_string self)"

definition is_rust_alloc :: "WduUnicodeString \<Rightarrow> bool" where
  "is_rust_alloc self \<longleftrightarrow> (case us_alloc self of None \<Rightarrow> False | Some alloc \<Rightarrow> alloc = AllocRust)"

definition is_os_alloc :: "WduUnicodeString \<Rightarrow> bool" where
  "is_os_alloc self \<longleftrightarrow> (case us_alloc self of None \<Rightarrow> False | Some alloc \<Rightarrow> alloc = AllocOs)"

definition is_pool_alloc :: "WduUnicodeString \<Rightarrow> bool" where
  "is_pool_alloc self \<longleftrightarrow> (case us_alloc self of None \<Rightarrow> False | Some alloc \<Rightarrow> alloc = AllocPool)"

definition as_slice :: "WduUnicodeString \<Rightarrow> slice" where
  "as_slice self = \<lparr>sl_ptr = Buffer (us_string self), sl_len = unat (ustring_len self)\<rparr>"

text \<open>\<^verbatim>\<open>Display\<close>, and with it \<^verbatim>\<open>to_string\<close>.\<close>

definition ustring_to_string :: "'a ustate_scheme \<Rightarrow> WduUnicodeString \<Rightarrow> rust_str" where
  "ustring_to_string s self = from_utf16_lossy (slice_elems s (as_slice self))"

definition ustring_wrap :: "UNICODE_STRING option \<Rightarrow> WduUnicodeString" where
  "ustring_wrap source =
     (case source of
        None \<Rightarrow> ustring_default
      | Some u \<Rightarrow> \<lparr>us_string = u, us_alloc = None\<rparr>)"

definition ustring_take :: "UNICODE_STRING \<Rightarrow> WduUnicodeString" where
  "ustring_take source = \<lparr>us_string = source, us_alloc = Some AllocOs\<rparr>"

section \<open>Owned strings\<close>

text \<open>
  \<^verbatim>\<open>create\<close>: the copy's count argument is \<^verbatim>\<open>len\<close>, the number of bytes, although \<^verbatim>\<open>ptr::copy\<close>
  counts elements of two bytes.
\<close>

definition ustring_create ::
  "kernel \<Rightarrow> slice \<Rightarrow> PoolFlags \<Rightarrow> 'a ustate_scheme
     \<Rightarrow> ((WduUnicodeError, WduUnicodeString) result \<times> 'a ustate_scheme) option" where
  "ustring_create K source pool_type s = do {
     let len = to_unicode_len (sl_len source);
     (buffer, s) \<leftarrow>
       (case pool_type of
          PoolFlagNonPaged \<Rightarrow> nonpaged_alloc_with_tag K (ucast len) STRING_ALLOC_TAG s
        | PoolFlagPaged \<Rightarrow> paged_alloc_with_tag K (ucast len) STRING_ALLOC_TAG s
        | _ \<Rightarrow> panic);
     if buffer = null then Some (Err InsufficientResources, s)
     else do {
       let s = s\<lparr>umem := ptr_copy (umem s) (sl_ptr source) buffer (unat len)\<rparr>;
       Some (Ok \<lparr>us_string = \<lparr>Length = len, MaximumLength = len, Buffer = buffer\<rparr>,
                 us_alloc = Some AllocPool\<rparr>, s)
     }
   }"

text \<open>
  Routines that allocate the destination for the caller (\<^verbatim>\<open>AllocateDestinationString = TRUE\<close>):
  on success the string is what the routine wrote and is marked as the system's; on failure the
  empty destination is dropped, which does nothing.
\<close>

definition os_allocated ::
  "kernel \<Rightarrow> rtl_call \<Rightarrow> 'a ustate_scheme
     \<Rightarrow> (WduUnicodeError, WduUnicodeString) result \<times> 'a ustate_scheme" where
  "os_allocated K c s =
     (let (r, s) = sys K (Rtl c) s
      in if r_status r \<noteq> STATUS_SUCCESS then (Err (NtStatus (r_status r)), s)
         else (Ok \<lparr>us_string = r_ustr r, us_alloc = Some AllocOs\<rparr>,
               s\<lparr>umem := store (umem s) (Buffer (r_ustr r)) (r_cells r)\<rparr>))"

text \<open>\<^verbatim>\<open>STRING.Length\<close> is the source's length cut to 16 bits; the routine reads that many bytes.\<close>

definition try_from_utf8 ::
  "kernel \<Rightarrow> u8 list \<Rightarrow> 'a ustate_scheme
     \<Rightarrow> (WduUnicodeError, WduUnicodeString) result \<times> 'a ustate_scheme" where
  "try_from_utf8 K source s =
     (let len = (of_nat (length source) :: u16)
      in os_allocated K (RtlUTF8StringToUnicodeString (take (unat len) source) len (u8_of_bool True)) s)"

text \<open>
  \<^verbatim>\<open>Vec::try_reserve\<close> of \<open>n\<close> elements of type \<^verbatim>\<open>u16\<close> on an empty vector: no allocation for
  zero elements, otherwise two bytes of the global allocator for each of at least four elements.
\<close>

definition vec_try_reserve ::
  "kernel \<Rightarrow> nat \<Rightarrow> 'a kstate_scheme \<Rightarrow> ptr option \<times> 'a kstate_scheme" where
  "vec_try_reserve K n s =
     (if n = 0 then (Some 2, s)
      else let (r, s) = sys K (Pool (RustAlloc (of_nat (2 * max 4 n)))) s
           in (if r_ptr r = null then None else Some (r_ptr r), s))"

definition vec_drop :: "kernel \<Rightarrow> ptr \<Rightarrow> nat \<Rightarrow> 'a kstate_scheme \<Rightarrow> 'a kstate_scheme" where
  "vec_drop K p capacity s = (if capacity = 0 then s else sysv K (Pool (RustDealloc p)) s)"

text \<open>
  \<^verbatim>\<open>try_from_str\<close> reserves as many elements as the encoding has bytes, fills the vector, copies
  it with \<^verbatim>\<open>create\<close> and drops it.
\<close>

definition try_from_str ::
  "kernel \<Rightarrow> rust_str \<Rightarrow> PoolFlags \<Rightarrow> 'a ustate_scheme
     \<Rightarrow> ((WduUnicodeError, WduUnicodeString) result \<times> 'a ustate_scheme) option" where
  "try_from_str K source pool_type s = do {
     let u16_size = length (encode_utf16 source) * 2;
     let (res, s) = vec_try_reserve K u16_size s;
     case res of
       None \<Rightarrow> Some (Err InsufficientResources, s)
     | Some p \<Rightarrow> do {
         let s = s\<lparr>umem := store (umem s) p (encode_utf16 source)\<rparr>;
         (w, s) \<leftarrow> ustring_create K \<lparr>sl_ptr = p, sl_len = length (encode_utf16 source)\<rparr> pool_type s;
         Some (w, vec_drop K p u16_size s)
       }
   }"

text \<open>
  Number conversions: the string is given a pool buffer of a fixed size and the routine writes
  the digits. On failure the string, which owns the buffer by then, is dropped.
\<close>

definition number_to_string ::
  "kernel \<Rightarrow> u16 \<Rightarrow> (UNICODE_STRING \<Rightarrow> rtl_call) \<Rightarrow> 'a ustate_scheme
     \<Rightarrow> ((WduUnicodeError, WduUnicodeString) result \<times> 'a ustate_scheme) option" where
  "number_to_string K max_len c s = do {
     (res, s) \<leftarrow> alloc_buffer K max_len s;
     case res of
       Err e \<Rightarrow> Some (Err e, s)
     | Ok buffer \<Rightarrow> do {
         let wdu_string = \<lparr>us_string = \<lparr>Length = max_len, MaximumLength = max_len, Buffer = buffer\<rparr>,
                           us_alloc = Some AllocPool\<rparr>;
         let (r, s) = sys K (Rtl (c (us_string wdu_string))) s;
         if r_status r \<noteq> STATUS_SUCCESS
         then Some (Err (NtStatus (r_status r)), ustring_drop K wdu_string s)
         else Some (Ok (wdu_string\<lparr>us_string := r_ustr r\<rparr>),
                    s\<lparr>umem := store (umem s) (Buffer (r_ustr r)) (r_cells r)\<rparr>)
       }
   }"

definition try_from_u32 ::
  "kernel \<Rightarrow> u32 \<Rightarrow> u32 \<Rightarrow> 'a ustate_scheme
     \<Rightarrow> ((WduUnicodeError, WduUnicodeString) result \<times> 'a ustate_scheme) option" where
  "try_from_u32 K val base s =
     number_to_string K MAX_LEN_U32_STRING (RtlIntegerToUnicodeString val base) s"

definition try_from_u64 ::
  "kernel \<Rightarrow> u64 \<Rightarrow> u32 \<Rightarrow> 'a ustate_scheme
     \<Rightarrow> ((WduUnicodeError, WduUnicodeString) result \<times> 'a ustate_scheme) option" where
  "try_from_u64 K val base s =
     number_to_string K MAX_LEN_U64_STRING (RtlInt64ToUnicodeString val base) s"

section \<open>The conversion traits\<close>

definition try_from_slice ::
  "kernel \<Rightarrow> slice \<Rightarrow> 'a ustate_scheme
     \<Rightarrow> ((WduUnicodeError, WduUnicodeString) result \<times> 'a ustate_scheme) option" where
  "try_from_slice K value' s = ustring_create K value' (POOL_TYPE s) s"

text \<open>The vector is consumed: its buffer goes back to the global allocator.\<close>

definition try_from_vec ::
  "kernel \<Rightarrow> slice \<Rightarrow> nat \<Rightarrow> 'a ustate_scheme
     \<Rightarrow> ((WduUnicodeError, WduUnicodeString) result \<times> 'a ustate_scheme) option" where
  "try_from_vec K vec capacity s = do {
     (w, s) \<leftarrow> ustring_create K vec (POOL_TYPE s) s;
     Some (w, vec_drop K (sl_ptr vec) capacity s)
   }"

definition from_str ::
  "kernel \<Rightarrow> rust_str \<Rightarrow> 'a ustate_scheme
     \<Rightarrow> ((WduUnicodeError, WduUnicodeString) result \<times> 'a ustate_scheme) option" where
  "from_str K t s = try_from_str K t (POOL_TYPE s) s"

definition try_from_u32_decimal ::
  "kernel \<Rightarrow> u32 \<Rightarrow> 'a ustate_scheme
     \<Rightarrow> ((WduUnicodeError, WduUnicodeString) result \<times> 'a ustate_scheme) option" where
  "try_from_u32_decimal K v s = try_from_u32 K v 10 s"

definition try_from_u64_decimal ::
  "kernel \<Rightarrow> u64 \<Rightarrow> 'a ustate_scheme
     \<Rightarrow> ((WduUnicodeError, WduUnicodeString) result \<times> 'a ustate_scheme) option" where
  "try_from_u64_decimal K v s = try_from_u64 K v 10 s"

text \<open>\<^verbatim>\<open>WduUnicodeStr::to_owned\<close>.\<close>

definition str_to_owned ::
  "kernel \<Rightarrow> WduUnicodeStr \<Rightarrow> 'a ustate_scheme
     \<Rightarrow> ((WduUnicodeError, WduUnicodeString) result \<times> 'a ustate_scheme) option" where
  "str_to_owned K self s = try_from_slice K (ws_slice self) s"

section \<open>Copies\<close>

text \<open>An allocation that must succeed: the allocation error handler panics.\<close>

definition rust_alloc :: "kernel \<Rightarrow> usize \<Rightarrow> 'a kstate_scheme \<Rightarrow> (ptr \<times> 'a kstate_scheme) option" where
  "rust_alloc K n s =
     (let (r, s) = sys K (Pool (RustAlloc n)) s
      in if r_ptr r = null then panic else Some (r_ptr r, s))"

text \<open>
  \<^verbatim>\<open>copy\<close> (which \<^verbatim>\<open>clone\<close> calls) boxes a zeroed vector of \<^verbatim>\<open>len\<close> elements and takes the box's
  address, that of the 24-byte vector header, as the new buffer.
\<close>

definition ustring_copy ::
  "kernel \<Rightarrow> WduUnicodeString \<Rightarrow> 'a ustate_scheme \<Rightarrow> (WduUnicodeString \<times> 'a ustate_scheme) option" where
  "ustring_copy K self s = do {
     let n = unat (ustring_len self);
     (data, s) \<leftarrow> (if n = 0 then Some (2, s) else rust_alloc K (of_nat (2 * n)) s);
     let s = s\<lparr>umem := store (umem s) data (replicate n 0)\<rparr>;
     (buffer, s) \<leftarrow> rust_alloc K 24 s;
     let dest = \<lparr>Length = ustring_bytes self, MaximumLength = ustring_capacity self, Buffer = buffer\<rparr>;
     let (r, s) = sys K (Rtl (RtlCopyUnicodeString dest (ustr_of s (us_string self)))) s;
     Some (\<lparr>us_string = r_ustr r, us_alloc = Some AllocRust\<rparr>,
           s\<lparr>umem := store (umem s) (Buffer (r_ustr r)) (r_cells r)\<rparr>)
   }"

definition ustring_clone ::
  "kernel \<Rightarrow> WduUnicodeString \<Rightarrow> 'a ustate_scheme \<Rightarrow> (WduUnicodeString \<times> 'a ustate_scheme) option" where
  "ustring_clone K self s = ustring_copy K self s"

definition ustring_new ::
  "kernel \<Rightarrow> UNICODE_STRING \<Rightarrow> 'a ustate_scheme \<Rightarrow> (WduUnicodeString \<times> 'a ustate_scheme) option" where
  "ustring_new K source s = do {
     let tmp = ustring_wrap (Some source);
     (w, s) \<leftarrow> ustring_clone K tmp s;
     Some (w, ustring_drop K tmp s)
   }"

definition ustring_duplicate ::
  "kernel \<Rightarrow> WduUnicodeString \<Rightarrow> CopyFlags \<Rightarrow> 'a ustate_scheme
     \<Rightarrow> (WduUnicodeError, WduUnicodeString) result \<times> 'a ustate_scheme" where
  "ustring_duplicate K self flags s =
     os_allocated K (RtlDuplicateUnicodeString (copy_flags_as_u32 flags) (ustr_of s (us_string self))) s"

definition new_lower ::
  "kernel \<Rightarrow> WduUnicodeString \<Rightarrow> 'a ustate_scheme
     \<Rightarrow> (WduUnicodeError, WduUnicodeString) result \<times> 'a ustate_scheme" where
  "new_lower K self s =
     os_allocated K (RtlDowncaseUnicodeString (ustr_of s (us_string self)) (u8_of_bool True)) s"

definition new_upper ::
  "kernel \<Rightarrow> WduUnicodeString \<Rightarrow> 'a ustate_scheme
     \<Rightarrow> (WduUnicodeError, WduUnicodeString) result \<times> 'a ustate_scheme" where
  "new_upper K self s =
     os_allocated K (RtlUpcaseUnicodeString (ustr_of s (us_string self)) (u8_of_bool True)) s"

section \<open>Comparisons\<close>

definition ustring_compare ::
  "kernel \<Rightarrow> WduUnicodeString \<Rightarrow> WduUnicodeString \<Rightarrow> bool \<Rightarrow> 'a ustate_scheme \<Rightarrow> bool \<times> 'a ustate_scheme" where
  "ustring_compare K self other case_insensitive s =
     (let (r, s) = sys K (Rtl (RtlCompareUnicodeString (ustr_of s (us_string self))
            (ustr_of s (us_string other)) (u8_of_bool case_insensitive))) s
      in (r_status r = 0, s))"

definition np_compare ::
  "kernel \<Rightarrow> WduUnicodeString \<Rightarrow> WduUnicodeString \<Rightarrow> 'a ustate_scheme \<Rightarrow> bool \<times> 'a ustate_scheme" where
  "np_compare K self other s =
     (if Length (us_string self) \<noteq> Length (us_string other)
         \<or> MaximumLength (us_string self) \<noteq> MaximumLength (us_string other)
      then (False, s)
      else let (r, s) = sys K (Rtl (RtlCompareMemory
                 (load (umem s) (Buffer (us_string self)) (unat (Length (us_string self)) div 2))
                 (load (umem s) (Buffer (us_string other)) (unat (Length (us_string self)) div 2))
                 (ucast (Length (us_string self))))) s
           in (r_u64 r = ucast (Length (us_string self)), s))"

definition ustring_eq_unicode_string ::
  "kernel \<Rightarrow> WduUnicodeString \<Rightarrow> UNICODE_STRING \<Rightarrow> 'a ustate_scheme \<Rightarrow> bool \<times> 'a ustate_scheme" where
  "ustring_eq_unicode_string K self other s =
     (let tmp = ustring_wrap (Some other);
          (b, s) = ustring_compare K self tmp False s
      in (b, ustring_drop K tmp s))"

definition ustring_eq ::
  "kernel \<Rightarrow> WduUnicodeString \<Rightarrow> WduUnicodeString \<Rightarrow> 'a ustate_scheme \<Rightarrow> bool \<times> 'a ustate_scheme" where
  "ustring_eq K self other s = ustring_compare K self other False s"

definition ustring_eq_str :: "'a ustate_scheme \<Rightarrow> WduUnicodeString \<Rightarrow> rust_str \<Rightarrow> bool" where
  "ustring_eq_str s self other \<longleftrightarrow> ustring_to_string s self = other"

definition ustring_eq_wstr :: "'a ustate_scheme \<Rightarrow> WduUnicodeString \<Rightarrow> WduUnicodeStr \<Rightarrow> bool" where
  "ustring_eq_wstr s self other \<longleftrightarrow> slice_elems s (as_slice self) = slice_elems s (ws_slice other)"

definition wstr_eq_ustring :: "'a ustate_scheme \<Rightarrow> WduUnicodeStr \<Rightarrow> WduUnicodeString \<Rightarrow> bool" where
  "wstr_eq_ustring s self other \<longleftrightarrow> slice_elems s (ws_slice self) = slice_elems s (as_slice other)"

definition is_suffix ::
  "kernel \<Rightarrow> WduUnicodeString \<Rightarrow> WduUnicodeString \<Rightarrow> bool \<Rightarrow> 'a ustate_scheme \<Rightarrow> bool \<times> 'a ustate_scheme" where
  "is_suffix K self source case_insensitive s =
     (let (r, s) = sys K (Rtl (RtlSuffixUnicodeString (ustr_of s (us_string source))
            (ustr_of s (us_string self)) (u8_of_bool case_insensitive))) s
      in (r_u8 r = u8_of_bool True, s))"

definition is_prefix ::
  "kernel \<Rightarrow> WduUnicodeString \<Rightarrow> WduUnicodeString \<Rightarrow> bool \<Rightarrow> 'a ustate_scheme \<Rightarrow> bool \<times> 'a ustate_scheme" where
  "is_prefix K self source case_insensitive s =
     (let (r, s) = sys K (Rtl (RtlPrefixUnicodeString (ustr_of s (us_string source))
            (ustr_of s (us_string self)) (u8_of_bool case_insensitive))) s
      in (r_u8 r = u8_of_bool True, s))"

definition match_expression ::
  "kernel \<Rightarrow> WduUnicodeString \<Rightarrow> WduUnicodeString \<Rightarrow> bool \<Rightarrow> 'a ustate_scheme \<Rightarrow> bool \<times> 'a ustate_scheme" where
  "match_expression K self expression case_insensitive s =
     (let (r, s) = sys K (Rtl (FsRtlIsNameInExpression (ustr_of s (us_string expression))
            (ustr_of s (us_string self)) (u8_of_bool case_insensitive))) s
      in (r_u8 r = u8_of_bool True, s))"

text \<open>
  \<^verbatim>\<open>contains\<close>: a length check on the encoded strings, then Rust's substring test on the decoded
  ones. \<open>to_lowercase\<close> is \<^verbatim>\<open>str::to_lowercase\<close>, whose Unicode tables are a parameter.
\<close>

definition ustring_contains ::
  "(rust_str \<Rightarrow> rust_str) \<Rightarrow> 'a ustate_scheme \<Rightarrow> WduUnicodeString \<Rightarrow> WduUnicodeString \<Rightarrow> bool \<Rightarrow> bool" where
  "ustring_contains to_lowercase s self needle case_insensitive \<longleftrightarrow>
     (if ustring_bytes self < ustring_bytes needle then False
      else if case_insensitive
        then sublist (to_lowercase (ustring_to_string s needle)) (to_lowercase (ustring_to_string s self))
        else sublist (ustring_to_string s needle) (ustring_to_string s self))"

section \<open>Lemmas\<close>

lemma ustring_drop_frame [simp]:
  "umem (ustring_drop K w s) = umem s" "try_non_paged (ustring_drop K w s) = try_non_paged s"
  "debug_assertions (ustring_drop K w t) = debug_assertions t"
  by (auto simp: ustring_drop_def free_buffer_def split: option.split AllocType.split)

lemma vec_drop_frame [simp]: "umem (vec_drop K p n s) = umem s"
  by (simp add: vec_drop_def)

lemma slice_elems_vec_drop [simp]: "slice_elems (vec_drop K p n s) sl = slice_elems s sl"
  by (simp add: slice_elems_def)

text \<open>Both pools behind the two flags that \<^verbatim>\<open>create\<close> accepts.\<close>

definition string_pool_alloc ::
  "PoolFlags \<Rightarrow> kernel \<Rightarrow> usize \<Rightarrow> u32 \<Rightarrow> 'a kstate_scheme \<Rightarrow> (ptr \<times> 'a kstate_scheme) option" where
  "string_pool_alloc f = (if f = PoolFlagNonPaged then nonpaged_alloc_with_tag else paged_alloc_with_tag)"

interpretation string_pool: tagged_pool "string_pool_alloc f" paged_free_with_tag for f
  by unfold_locales
     (auto simp: string_pool_alloc_def paged_alloc_with_tag_def nonpaged_alloc_with_tag_def
        paged_free_with_tag_def pool2_alloc_eq split: if_splits)

lemma string_pool_alloc_frame:
  assumes "string_pool_alloc f K n t s = Some (p, s')"
  shows "umem s' = umem s" "try_non_paged s' = try_non_paged s"
  using string_pool.alloc_event [OF assms] by auto

lemma ustring_create_eq:
  assumes "f = PoolFlagPaged \<or> f = PoolFlagNonPaged"
  shows "ustring_create K src f s =
    (case string_pool_alloc f K (ucast (to_unicode_len (sl_len src))) STRING_ALLOC_TAG s of
       None \<Rightarrow> None
     | Some (b, s) \<Rightarrow> Some (
         if b = null then (Err InsufficientResources, s)
         else (Ok \<lparr>us_string = \<lparr>Length = to_unicode_len (sl_len src), MaximumLength = to_unicode_len (sl_len src),
                     Buffer = b\<rparr>, us_alloc = Some AllocPool\<rparr>,
               s\<lparr>umem := ptr_copy (umem s) (sl_ptr src) b (unat (to_unicode_len (sl_len src)))\<rparr>)))"
  using assms
  by (auto simp: ustring_create_def string_pool_alloc_def Let_def split: option.split)

lemma ustring_create_cases:
  assumes "f = PoolFlagPaged \<or> f = PoolFlagNonPaged"
  obtains b s' where
    "string_pool_alloc f K (ucast (to_unicode_len (sl_len src))) STRING_ALLOC_TAG s = Some (b, s')"
    "b = null" "ustring_create K src f s = Some (Err InsufficientResources, s')"
  | b s' where
    "string_pool_alloc f K (ucast (to_unicode_len (sl_len src))) STRING_ALLOC_TAG s = Some (b, s')"
    "b \<noteq> null"
    "ustring_create K src f s =
       Some (Ok \<lparr>us_string = \<lparr>Length = to_unicode_len (sl_len src), MaximumLength = to_unicode_len (sl_len src),
                     Buffer = b\<rparr>, us_alloc = Some AllocPool\<rparr>,
             s'\<lparr>umem := ptr_copy (umem s) (sl_ptr src) b (unat (to_unicode_len (sl_len src)))\<rparr>)"
proof -
  obtain b s' where alloc:
    "string_pool_alloc f K (ucast (to_unicode_len (sl_len src))) STRING_ALLOC_TAG s = Some (b, s')"
    using string_pool.alloc_returns by blast
  with that show ?thesis
    using string_pool_alloc_frame [OF alloc] by (cases "b = null") (simp_all add: ustring_create_eq [OF assms])
qed

lemma as_slice_created:
  "slice_elems s (as_slice \<lparr>us_string = \<lparr>Length = to_unicode_len n, MaximumLength = m, Buffer = b\<rparr>, us_alloc = a\<rparr>)
     = load (umem s) b (n mod 32768)"
  by (simp add: as_slice_def ustring_len_def slice_elems_def to_unicode_len_half)

lemma load_created:
  "load (ptr_copy m src b (unat (to_unicode_len n))) b (n mod 32768) = take (n mod 32768) (load m src n)"
proof -
  have "n mod 32768 \<le> unat (to_unicode_len n)"
    using to_unicode_len_half [of n] by simp
  moreover have "n mod 32768 \<le> 2 ^ 63"
    by (rule order_trans [of _ 32768]) simp_all
  ultimately show ?thesis
    by (simp add: load_ptr_copy take_load min_absorb1)
qed

lemma create_spec':
  assumes "f = PoolFlagPaged \<or> f = PoolFlagNonPaged"
  shows "\<exists>res s'. ustring_create K src f s = Some (res, s') \<and>
    (case res of
       Inl e \<Rightarrow> e = InsufficientResources \<and> umem s' = umem s
     | Inr w \<Rightarrow> us_alloc w = Some AllocPool \<and>
         slice_elems s' (as_slice w) = take (sl_len src mod 32768) (slice_elems s src))"
proof (cases K src s rule: ustring_create_cases [OF assms])
  case (1 b s')
  then show ?thesis
    using string_pool_alloc_frame [OF 1(1)] by simp
next
  case (2 b s')
  then show ?thesis
    by (simp add: as_slice_created load_created) (simp add: slice_elems_def)
qed

text \<open>
  C1. \<^verbatim>\<open>create\<close> from either pool returns without panicking; either it fails with
  \<^verbatim>\<open>InsufficientResources\<close> and leaves memory alone, or its string holds the source's units,
  cut to the source's length modulo 32768 (the byte length is a \<^verbatim>\<open>u16\<close>).
\<close>

theorem create_spec:
  assumes "f = PoolFlagPaged \<or> f = PoolFlagNonPaged"
  shows "\<exists>res s'. ustring_create K src f s = Some (res, s') \<and>
    (case res of
       Inl e \<Rightarrow> e = InsufficientResources \<and> umem s' = umem s
     | Inr w \<Rightarrow> us_alloc w = Some AllocPool \<and>
         slice_elems s' (as_slice w) = take (sl_len src mod 32768) (slice_elems s src))"
  by (rule create_spec' [OF assms])

definition src0 :: slice where
  "src0 = \<lparr>sl_ptr = 0x40, sl_len = 3\<rparr>"

lemma create_src0: "\<exists>w s'. ustring_create kernel0 src0 PoolFlagPaged st0 = Some (Ok w, s')"
  by (simp add: ustring_create_def paged_alloc_with_tag_def pool2_alloc_def sys_eq Let_def)

theorem create_spec_witness:
  "\<exists>res s'. ustring_create kernel0 src0 PoolFlagPaged st0 = Some (res, s') \<and>
    (case res of
       Inl e \<Rightarrow> e = InsufficientResources \<and> umem s' = umem st0
     | Inr w \<Rightarrow> us_alloc w = Some AllocPool \<and>
         slice_elems s' (as_slice w) = take (sl_len src0 mod 32768) (slice_elems st0 src0))"
  by (rule create_spec) simp

lemma create_owned_block:
  assumes "f = PoolFlagPaged \<or> f = PoolFlagNonPaged" "sl_len src < 32768"
    and "ustring_create K src f s = Some (Ok w, s')"
  shows "us_alloc w = Some AllocPool"
    and "pool_blocks (klog s') (Buffer (us_string w)) = Some (of_nat (2 * sl_len src), STRING_ALLOC_TAG)"
proof -
  have ucast: "(ucast (to_unicode_len (sl_len src)) :: usize) = of_nat (2 * sl_len src)"
    using unat_to_unicode_len_small [OF assms(2)] by (metis unsigned_of_nat of_nat_unat)
  have "us_alloc w = Some AllocPool \<and>
    pool_blocks (klog s') (Buffer (us_string w)) = Some (of_nat (2 * sl_len src), STRING_ALLOC_TAG)"
  proof (cases K src s rule: ustring_create_cases [OF assms(1)])
    case (2 b t)
    then show ?thesis
      using assms(3) string_pool.alloc_blocks [OF 2(1)] by (auto simp: ucast add_block_def)
  qed (use assms(3) in auto)
  then show "us_alloc w = Some AllocPool"
    and "pool_blocks (klog s') (Buffer (us_string w)) = Some (of_nat (2 * sl_len src), STRING_ALLOC_TAG)"
    by auto
qed

text \<open>
  C34. The copy in \<^verbatim>\<open>create\<close> writes twice the size of the block it allocated: for a source of
  \<open>n\<close> units the pool block has \<open>2 n\<close> bytes, and all of the first \<open>2 n\<close> units from the buffer's
  address on, the last \<open>n\<close> of them outside the block, are overwritten with what follows the
  source.
\<close>

theorem create_overruns_block:
  assumes "f = PoolFlagPaged \<or> f = PoolFlagNonPaged" "sl_len src < 32768"
    and "ustring_create K src f s = Some (Ok w, s')"
  shows "pool_blocks (klog s') (Buffer (us_string w)) = Some (of_nat (2 * sl_len src), STRING_ALLOC_TAG) \<and>
    load (umem s') (Buffer (us_string w)) (2 * sl_len src) = load (umem s) (sl_ptr src) (2 * sl_len src)"
proof (cases K src s rule: ustring_create_cases [OF assms(1)])
  case (2 b t)
  have "load (umem s') b (2 * sl_len src) = load (umem s) (sl_ptr src) (2 * sl_len src)"
    using 2(3) assms(2,3) by (auto simp: unat_to_unicode_len_small intro!: load_ptr_copy)
  then show ?thesis
    using 2(3) assms(3) create_owned_block(2) [OF assms] by auto
qed (use assms(3) in auto)

theorem create_overruns_block_witness:
  "\<exists>w s'. ustring_create kernel0 src0 PoolFlagPaged st0 = Some (Ok w, s') \<and>
    pool_blocks (klog s') (Buffer (us_string w)) = Some (6, STRING_ALLOC_TAG) \<and>
    load (umem s') (Buffer (us_string w)) 6 = load (umem st0) 0x40 6"
  using create_src0 create_overruns_block [of PoolFlagPaged src0 kernel0 st0]
  by (auto simp: src0_def)

text \<open>
  Creating a string and dropping it leaves the pool as it was, and the free names a live block
  with its own tag, provided the pool never hands out a block that is in use.
\<close>

lemma create_drop_balanced:
  assumes "pool_fresh K" "pool_frees_ok Map.empty (klog s)"
    and "f = PoolFlagPaged \<or> f = PoolFlagNonPaged"
    and "ustring_create K src f s = Some (Ok w, s')"
  shows "pool_blocks (klog (ustring_drop K w s')) = pool_blocks (klog s) \<and>
    pool_frees_ok Map.empty (klog (ustring_drop K w s'))"
proof (cases K src s rule: ustring_create_cases [OF assms(3)])
  case (2 b t)
  then have "klog (ustring_drop K w s') = klog (paged_free_with_tag K b STRING_ALLOC_TAG t)"
    using assms(4)
    by (auto simp: ustring_drop_def free_buffer_def paged_free_with_tag_def)
  then show ?thesis
    using string_pool.alloc_free_balanced [OF assms(1,2) 2(1,2)] by simp
qed (use assms(4) in auto)

text \<open>
  C12. Text survives the conversion: the string \<^verbatim>\<open>from_str\<close> makes displays as the text it was made
  from, for every text that encodes to fewer than 32768 units.
\<close>

theorem from_str_to_string:
  assumes "list_all scalar cs" "length (encode_utf16 cs) < 32768"
    and "from_str K cs s = Some (Ok w, s')"
  shows "ustring_to_string s' w = cs"
proof -
  let ?us = "encode_utf16 cs" and ?f = "POOL_TYPE s"
  have f: "?f = PoolFlagPaged \<or> ?f = PoolFlagNonPaged"
    by (simp add: POOL_TYPE_def)
  obtain p t u where create:
      "ustring_create K \<lparr>sl_ptr = p, sl_len = length ?us\<rparr> ?f (t\<lparr>umem := store (umem t) p ?us\<rparr>) = Some (Ok w, u)"
    and s': "s' = vec_drop K p (length ?us * 2) u"
    using assms(3)
    by (auto simp: from_str_def try_from_str_def Let_def bind_eq_Some_conv
        split: option.splits prod.splits)
  have "length ?us \<le> 2 ^ 63"
    using assms(2) by (rule order_trans [OF less_imp_le]) simp
  then have "slice_elems s' (as_slice w) = ?us"
    using create_spec' [OF f, of K "\<lparr>sl_ptr = p, sl_len = length ?us\<rparr>" "t\<lparr>umem := store (umem t) p ?us\<rparr>"]
      create assms(2)
    by (auto simp: s' slice_elems_def load_store)
  then show ?thesis
    using assms(1) by (simp add: ustring_to_string_def from_utf16_lossy_encode)
qed

theorem from_str_to_string_witness:
  "\<exists>w s'. from_str kernel0 [0x41, 0x1F600] st0 = Some (Ok w, s') \<and>
    ustring_to_string s' w = [0x41, 0x1F600]"
proof -
  have "\<exists>w s'. from_str kernel0 [0x41, 0x1F600] st0 = Some (Ok w, s')"
    by (simp add: from_str_def try_from_str_def vec_try_reserve_def encode_char_def ustring_create_def
        POOL_TYPE_def paged_alloc_with_tag_def pool2_alloc_def sys_eq Let_def)
  then show ?thesis
    using from_str_to_string [of "[0x41, 0x1F600]" kernel0 st0]
    by (auto simp: scalar_def encode_char_def)
qed

text \<open>
  C22. On strings whose byte lengths are even, as every string the crate makes has, a case-sensitive
  \<^verbatim>\<open>contains\<close> is Rust's substring test on the decoded texts: the early comparison of the byte
  lengths never rejects a string that does contain the needle.
\<close>

theorem contains_iff_sublist:
  assumes "even (unat (ustring_bytes self))" "even (unat (ustring_bytes needle))"
  shows "ustring_contains lower s self needle False \<longleftrightarrow>
    sublist (ustring_to_string s needle) (ustring_to_string s self)"
proof -
  have len: "sum_list (map len_utf16 (ustring_to_string s w)) = unat (ustring_bytes w) div 2" for w
    by (simp add: ustring_to_string_def length_from_utf16_lossy as_slice_def ustring_len_def ustring_bytes_def)
  have "\<not> ustring_bytes self < ustring_bytes needle"
    if "sublist (ustring_to_string s needle) (ustring_to_string s self)"
    using sublist_imp_sum_list_le [OF that, of len_utf16] assms
    by (auto simp: len word_less_nat_alt elim!: evenE)
  then show ?thesis
    by (auto simp: ustring_contains_def)
qed

theorem contains_iff_sublist_witness:
  "ustring_contains (\<lambda>x. x) (st0\<lparr>umem := store (\<lambda>a. 0) 0x100 [98, 97, 99]\<rparr>)
     \<lparr>us_string = \<lparr>Length = 6, MaximumLength = 6, Buffer = 0x100\<rparr>, us_alloc = None\<rparr>
     \<lparr>us_string = \<lparr>Length = 4, MaximumLength = 4, Buffer = 0x102\<rparr>, us_alloc = None\<rparr> False"
  by (subst contains_iff_sublist)
     (simp_all add: ustring_bytes_def ustring_to_string_def as_slice_def ustring_len_def slice_elems_def
       load_def store_def cell_def upt_rec high_surrogate_def low_surrogate_def
       sublist_Cons_right)

text \<open>
  A borrowed string is never equal to its own \<^verbatim>\<open>UNICODE_STRING\<close>, unless it is empty: the
  comparison takes the byte length for a number of units.
\<close>

lemma str_ne_own_unicode_string:
  assumes "0 < sl_len (ws_slice w)" "sl_len (ws_slice w) < 32768"
  shows "\<not> str_eq_unicode_string s w (as_unicode_string w)"
proof
  assume "str_eq_unicode_string s w (as_unicode_string w)"
  then have "sl_len (ws_slice w) = 2 * sl_len (ws_slice w)"
    using assms(2)
    by (auto simp: str_eq_unicode_string_def as_unicode_string_def unat_to_unicode_len_small
        dest!: arg_cong [where f = length])
  with assms(1) show False by simp
qed

text \<open>
  \<^verbatim>\<open>RtlCopyUnicodeString\<close> writes the destination's length and characters, not its buffer pointer.
\<close>

definition copy_keeps_buffer :: "kernel \<Rightarrow> bool" where
  "copy_keeps_buffer K \<longleftrightarrow>
     (\<forall>h d u. Buffer (r_ustr (K h (Rtl (RtlCopyUnicodeString d u)))) = Buffer d)"

lemma copy_keeps_bufferD:
  "copy_keeps_buffer K \<Longrightarrow> Buffer (r_ustr (K h (Rtl (RtlCopyUnicodeString d u)))) = Buffer d"
  by (cases u) (simp add: copy_keeps_buffer_def)

lemma rust_allocD:
  assumes "rust_alloc K n s = Some (p, s')"
  shows "p = r_ptr (K (klog s) (Pool (RustAlloc n)))" "p \<noteq> null"
    "s' = s\<lparr>klog := klog s @ [(Pool (RustAlloc n), K (klog s) (Pool (RustAlloc n)))]\<rparr>"
    "heap_blocks (klog s') = (heap_blocks (klog s))(p \<mapsto> n)"
    "pool_blocks (klog s') = pool_blocks (klog s)"
    "heap_fresh K \<Longrightarrow> heap_blocks (klog s) p = None"
  using assms by (auto simp: rust_alloc_def heap_fresh_def panic_def split: if_splits)

text \<open>
  C40. A clone leaks: after a non-empty string was cloned and the clone dropped, the vector that was
  allocated for the characters is still live, since the buffer that is freed is the boxed vector
  header.
\<close>

theorem clone_drop_leaks:
  assumes "heap_fresh K" "copy_keeps_buffer K" "ustring_len self \<noteq> 0"
    and "ustring_clone K self s = Some (w, s')"
  shows "\<exists>p. heap_blocks (klog s) p = None \<and>
    heap_blocks (klog (ustring_drop K w s')) p = Some (of_nat (2 * unat (ustring_len self)))"
proof -
  let ?n = "2 * unat (ustring_len self)"
  have "unat (ustring_len self) \<noteq> 0"
    using assms(3) by (simp add: unat_eq_0)
  then obtain p t b u where p: "rust_alloc K (of_nat ?n) s = Some (p, t)"
    and b: "rust_alloc K 24 (t\<lparr>umem := store (umem t) p (replicate (unat (ustring_len self)) 0)\<rparr>) = Some (b, u)"
    and copy: "ustring_clone K self s = (let (r, v) = sys K (Rtl (RtlCopyUnicodeString
          \<lparr>Length = ustring_bytes self, MaximumLength = ustring_capacity self, Buffer = b\<rparr>
          (ustr_of u (us_string self)))) u
        in Some (\<lparr>us_string = r_ustr r, us_alloc = Some AllocRust\<rparr>,
                 v\<lparr>umem := store (umem v) (Buffer (r_ustr r)) (r_cells r)\<rparr>))"
    using assms(4) by (auto simp: ustring_clone_def ustring_copy_def Let_def bind_eq_Some_conv)
  from copy have "heap_blocks (klog (ustring_drop K w s')) = (heap_blocks (klog u))(b := None)"
    using assms(2,4) by (auto simp: ustring_drop_def copy_keeps_bufferD)
  moreover have "heap_blocks (klog u) = ((heap_blocks (klog s))(p \<mapsto> of_nat ?n))(b \<mapsto> 24)"
    using rust_allocD(4) [OF p] rust_allocD(4) [OF b] by simp
  moreover have "heap_blocks (klog s) p = None" "b \<noteq> p"
    using rust_allocD(6) [OF p assms(1)] rust_allocD(4) [OF p] rust_allocD(6) [OF b assms(1)] by auto
  ultimately show ?thesis
    by (auto intro!: exI [of _ p])
qed

theorem clone_drop_leaks_witness:
  "\<exists>w s'. ustring_clone kernel0 (ustring_take \<lparr>Length = 4, MaximumLength = 4, Buffer = 0x100\<rparr>) st0 = Some (w, s') \<and>
    (\<exists>p. heap_blocks (klog st0) p = None \<and> heap_blocks (klog (ustring_drop kernel0 w s')) p = Some 4)"
proof -
  let ?u = "ustring_take \<lparr>Length = 4, MaximumLength = 4, Buffer = 0x100\<rparr>"
  have len: "ustring_len ?u = 2"
    by (simp add: ustring_len_def ustring_take_def)
  have "copy_keeps_buffer kernel0"
    by (simp add: copy_keeps_buffer_def kernel0_def)
  moreover obtain w s' where "ustring_clone kernel0 ?u st0 = Some (w, s')"
    by (simp add: ustring_clone_def ustring_copy_def len rust_alloc_def sys_eq Let_def)
  ultimately show ?thesis
    using clone_drop_leaks [of kernel0 ?u st0] len by fastforce
qed

end
