(* ===== verification/Wdu_UstringRun.thy ===== *)
theory Wdu_UstringRun
  imports Wdu_Ustring
begin

text \<open>
  Programs over owned strings: strings are made by the constructors of \<^verbatim>\<open>src/strings/unicode.rs\<close>, in
  any order and from each other, and dropped. Every string that is live at some point is
  well-formed, and the pool holds exactly the blocks of the live strings beside what it held
  before.
\<close>

section \<open>The remaining conversion traits\<close>

text \<open>The types of the \<^verbatim>\<open>widestring\<close> crate give their units as a slice.\<close>

definition try_from_utf16str ::
  "kernel \<Rightarrow> slice \<Rightarrow> 'a ustate_scheme
     \<Rightarrow> ((WduUnicodeError, WduUnicodeString) result \<times> 'a ustate_scheme) option" where
  "try_from_utf16str K units s = ustring_create K units (POOL_TYPE s) s"

definition try_from_u16cstr ::
  "kernel \<Rightarrow> slice \<Rightarrow> 'a ustate_scheme
     \<Rightarrow> ((WduUnicodeError, WduUnicodeString) result \<times> 'a ustate_scheme) option" where
  "try_from_u16cstr K units s = ustring_create K units (POOL_TYPE s) s"

definition try_from_bytes ::
  "kernel \<Rightarrow> u8 list \<Rightarrow> 'a ustate_scheme
     \<Rightarrow> (WduUnicodeError, WduUnicodeString) result \<times> 'a ustate_scheme" where
  "try_from_bytes K v s = try_from_utf8 K v s"

text \<open>The functions that are \<^verbatim>\<open>todo!()\<close>.\<close>

definition ustring_hash :: "WduUnicodeString \<Rightarrow> 'a ustate_scheme \<Rightarrow> 'a ustate_scheme option" where
  "ustring_hash self s = panic"

definition ustring_try_copy ::
  "WduUnicodeString \<Rightarrow> 'a ustate_scheme \<Rightarrow> ((WduUnicodeError, WduUnicodeString) result \<times> 'a ustate_scheme) option" where
  "ustring_try_copy self s = panic"

definition ustring_to_lower ::
  "WduUnicodeString \<Rightarrow> 'a ustate_scheme \<Rightarrow> ((WduUnicodeError, unit) result \<times> 'a ustate_scheme) option" where
  "ustring_to_lower self s = panic"

definition ustring_to_upper ::
  "WduUnicodeString \<Rightarrow> 'a ustate_scheme \<Rightarrow> ((WduUnicodeError, unit) result \<times> 'a ustate_scheme) option" where
  "ustring_to_upper self s = panic"

section \<open>Well-formed strings\<close>

text \<open>What \<^verbatim>\<open>RtlValidateUnicodeString\<close> asks of a string, and that a string with units has a buffer.\<close>

definition unicode_wf :: "UNICODE_STRING \<Rightarrow> bool" where
  "unicode_wf u \<longleftrightarrow> even (unat (Length u)) \<and> Length u \<le> MaximumLength u \<and> (Length u \<noteq> 0 \<longrightarrow> Buffer u \<noteq> null)"

text \<open>
  The documented results of the system's string routines: the ones that allocate or fill the
  destination leave it well-formed, the latter in its own buffer; \<^verbatim>\<open>RtlCopyUnicodeString\<close> copies what
  fits and sets the length accordingly.
\<close>

fun makes_string :: "rtl_call \<Rightarrow> bool" where
  "makes_string (RtlUTF8StringToUnicodeString bs n a) \<longleftrightarrow> True"
| "makes_string (RtlIntegerToUnicodeString v b d) \<longleftrightarrow> True"
| "makes_string (RtlInt64ToUnicodeString v b d) \<longleftrightarrow> True"
| "makes_string (RtlDuplicateUnicodeString fl u) \<longleftrightarrow> True"
| "makes_string (RtlDowncaseUnicodeString u a) \<longleftrightarrow> True"
| "makes_string (RtlUpcaseUnicodeString u a) \<longleftrightarrow> True"
| "makes_string _ \<longleftrightarrow> False"

definition rtl_strings_ok :: "kernel \<Rightarrow> bool" where
  "rtl_strings_ok K \<longleftrightarrow>
     (\<forall>h c. r_status (K h (Rtl c)) = STATUS_SUCCESS \<longrightarrow> makes_string c \<longrightarrow>
        unicode_wf (r_ustr (K h (Rtl c)))) \<and>
     (\<forall>h v b d. Buffer (r_ustr (K h (Rtl (RtlIntegerToUnicodeString v b d)))) = Buffer d \<and>
        MaximumLength (r_ustr (K h (Rtl (RtlIntegerToUnicodeString v b d)))) = MaximumLength d) \<and>
     (\<forall>h v b d. Buffer (r_ustr (K h (Rtl (RtlInt64ToUnicodeString v b d)))) = Buffer d \<and>
        MaximumLength (r_ustr (K h (Rtl (RtlInt64ToUnicodeString v b d)))) = MaximumLength d) \<and>
     (\<forall>h d u us. r_ustr (K h (Rtl (RtlCopyUnicodeString d (u, us)))) = d\<lparr>Length := min (Length u) (MaximumLength d)\<rparr>)"

lemma rtl_strings_okD:
  assumes "rtl_strings_ok K"
  shows "r_status (K h (Rtl c)) = STATUS_SUCCESS \<Longrightarrow> makes_string c \<Longrightarrow> unicode_wf (r_ustr (K h (Rtl c)))"
    and "Buffer (r_ustr (K h (Rtl (RtlIntegerToUnicodeString v b d)))) = Buffer d"
    "MaximumLength (r_ustr (K h (Rtl (RtlIntegerToUnicodeString v b d)))) = MaximumLength d"
    and "Buffer (r_ustr (K h (Rtl (RtlInt64ToUnicodeString v64 b d)))) = Buffer d"
    "MaximumLength (r_ustr (K h (Rtl (RtlInt64ToUnicodeString v64 b d)))) = MaximumLength d"
    and "r_ustr (K h (Rtl (RtlCopyUnicodeString d (u, us)))) = d\<lparr>Length := min (Length u) (MaximumLength d)\<rparr>"
  using assms unfolding rtl_strings_ok_def by blast+

section \<open>Steps\<close>

text \<open>A string is made, from the strings \<open>ws\<close> that are live or from the caller's data.\<close>

inductive made :: "kernel \<Rightarrow> WduUnicodeString list \<Rightarrow> 'a ustate_scheme \<Rightarrow> WduUnicodeString \<Rightarrow> 'a ustate_scheme \<Rightarrow> bool"
  for K ws s where
  default: "made K ws s ustring_default s"
| const_new: "made K ws s ustring_const_new s"
| wrap: "list_all unicode_wf (case u of None \<Rightarrow> [] | Some u \<Rightarrow> [u]) \<Longrightarrow> made K ws s (ustring_wrap u) s"
| take: "unicode_wf u \<Longrightarrow> made K ws s (ustring_take u) s"
| new: "unicode_wf u \<Longrightarrow> ustring_new K u s = Some (w, t) \<Longrightarrow> made K ws s w t"
| create: "ustring_create K src f s = Some (Ok w, t) \<Longrightarrow> made K ws s w t"
| of_slice: "try_from_slice K src s = Some (Ok w, t) \<Longrightarrow> made K ws s w t"
| of_vec: "try_from_vec K src c s = Some (Ok w, t) \<Longrightarrow> made K ws s w t"
| of_utf16str: "try_from_utf16str K src s = Some (Ok w, t) \<Longrightarrow> made K ws s w t"
| of_u16cstr: "try_from_u16cstr K src s = Some (Ok w, t) \<Longrightarrow> made K ws s w t"
| of_str: "from_str K cs s = Some (Ok w, t) \<Longrightarrow> made K ws s w t"
| of_bytes: "try_from_bytes K bs s = (Ok w, t) \<Longrightarrow> made K ws s w t"
| of_u32: "try_from_u32 K v b s = Some (Ok w, t) \<Longrightarrow> made K ws s w t"
| of_u64: "try_from_u64 K v64 b s = Some (Ok w, t) \<Longrightarrow> made K ws s w t"
| of_u32_decimal: "try_from_u32_decimal K v s = Some (Ok w, t) \<Longrightarrow> made K ws s w t"
| of_u64_decimal: "try_from_u64_decimal K v64 s = Some (Ok w, t) \<Longrightarrow> made K ws s w t"
| to_owned: "str_to_owned K ss s = Some (Ok w, t) \<Longrightarrow> made K ws s w t"
| clone: "v \<in> set ws \<Longrightarrow> ustring_clone K v s = Some (w, t) \<Longrightarrow> made K ws s w t"
| duplicate: "v \<in> set ws \<Longrightarrow> ustring_duplicate K v fl s = (Ok w, t) \<Longrightarrow> made K ws s w t"
| lower: "v \<in> set ws \<Longrightarrow> new_lower K v s = (Ok w, t) \<Longrightarrow> made K ws s w t"
| upper: "v \<in> set ws \<Longrightarrow> new_upper K v s = (Ok w, t) \<Longrightarrow> made K ws s w t"

inductive strings_step :: "kernel \<Rightarrow> WduUnicodeString list \<times> 'a ustate_scheme \<Rightarrow> WduUnicodeString list \<times> 'a ustate_scheme \<Rightarrow> bool" for K where
  make: "made K ws s w t \<Longrightarrow> strings_step K (ws, s) (w # ws, t)"
| drop: "strings_step K (us @ w # vs, s) (us @ vs, ustring_drop K w s)"

abbreviation strings_run :: "kernel \<Rightarrow> WduUnicodeString list \<times> 'a ustate_scheme \<Rightarrow> WduUnicodeString list \<times> 'a ustate_scheme \<Rightarrow> bool" where
  "strings_run K \<equiv> (strings_step K)\<^sup>*\<^sup>*"

section \<open>What a constructor does to the pool\<close>

text \<open>
  A string is made with a pool block of its own that covers its capacity, or without touching the
  pool.
\<close>

definition owns_new :: "kernel \<Rightarrow> 'a ustate_scheme \<Rightarrow> WduUnicodeString \<Rightarrow> 'a ustate_scheme \<Rightarrow> bool" where
  "owns_new K s w t \<longleftrightarrow>
     (if us_alloc w = Some AllocPool
      then \<exists>n. pool_blocks (klog t) = (pool_blocks (klog s))(Buffer (us_string w) \<mapsto> (n, STRING_ALLOC_TAG)) \<and>
        unat (MaximumLength (us_string w)) \<le> unat n \<and>
        (pool_fresh K \<longrightarrow> pool_blocks (klog s) (Buffer (us_string w)) = None)
      else pool_blocks (klog t) = pool_blocks (klog s)) \<and>
     (pool_frees_ok Map.empty (klog s) \<longrightarrow> pool_frees_ok Map.empty (klog t))"

definition good :: "kernel \<Rightarrow> 'a ustate_scheme \<Rightarrow> WduUnicodeString \<Rightarrow> 'a ustate_scheme \<Rightarrow> bool" where
  "good K s w t \<longleftrightarrow> unicode_wf (us_string w) \<and> owns_new K s w t"

lemma unat_ucast_u16: "unat (ucast (n :: u16) :: usize) = unat n"
  by transfer simp

lemma create_good:
  assumes "ustring_create K src f s = Some (Ok w, t)"
  shows "good K s w t"
proof -
  have f: "f = PoolFlagPaged \<or> f = PoolFlagNonPaged"
    using assms by (cases f) (auto simp: ustring_create_def Let_def panic_def)
  show ?thesis
  proof (cases K src s rule: ustring_create_cases [OF f])
    case (2 b t')
    then show ?thesis
      using assms string_pool.alloc_blocks [OF 2(1)] string_pool.alloc_frees_ok [OF 2(1)]
        string_pool.alloc_fresh [OF _ 2(1,2)]
      by (auto simp: good_def owns_new_def unicode_wf_def even_to_unicode_len add_block_def unat_ucast_u16)
  qed (use assms in auto)
qed

lemma os_allocated_good:
  assumes "rtl_strings_ok K" "os_allocated K c s = (Ok w, t)" "makes_string c"
  shows "good K s w t"
  using assms(2) rtl_strings_okD(1) [OF assms(1) _ assms(3)]
  by (auto simp: os_allocated_def sys_eq Let_def good_def owns_new_def pool_frees_ok_snoc split: if_splits)

lemma alloc_buffer_eq:
  "alloc_buffer K n s = map_option (\<lambda>(b, s). if b = null then (Err InsufficientResources, s) else (Ok b, s))
     (string_pool_alloc (POOL_TYPE s) K (ucast n) STRING_ALLOC_TAG s)"
  by (auto simp: alloc_buffer_def string_pool_alloc_def POOL_TYPE_def map_option_case split: option.splits)

lemma number_good:
  assumes "number_to_string K n c s = Some (Ok w, t)"
    and wf: "\<And>h d. r_status (K h (Rtl (c d))) = STATUS_SUCCESS \<Longrightarrow> unicode_wf (r_ustr (K h (Rtl (c d))))"
    and keep: "\<And>h d. Buffer (r_ustr (K h (Rtl (c d)))) = Buffer d" "\<And>h d. MaximumLength (r_ustr (K h (Rtl (c d)))) = MaximumLength d"
  shows "good K s w t"
proof -
  obtain b s1 where alloc: "string_pool_alloc (POOL_TYPE s) K (ucast n) STRING_ALLOC_TAG s = Some (b, s1)"
    using string_pool.alloc_returns by blast
  then have b: "b \<noteq> null"
    using assms(1) by (auto simp: number_to_string_def alloc_buffer_eq)
  let ?c = "c \<lparr>Length = n, MaximumLength = n, Buffer = b\<rparr>"
  have st: "r_status (K (klog s1) (Rtl ?c)) = STATUS_SUCCESS"
    and w: "w = \<lparr>us_string = r_ustr (K (klog s1) (Rtl ?c)), us_alloc = Some AllocPool\<rparr>"
    and t: "klog t = klog s1 @ [(Rtl ?c, K (klog s1) (Rtl ?c))]"
    using assms(1) alloc b
    by (auto simp: number_to_string_def alloc_buffer_eq sys_eq Let_def split: if_splits)
  show ?thesis
    using wf [OF st] keep string_pool.alloc_blocks [OF alloc] string_pool.alloc_frees_ok [OF alloc]
      string_pool.alloc_fresh [OF _ alloc b] b
    by (auto simp: good_def owns_new_def w t add_block_def unat_ucast_u16 pool_frees_ok_snoc)
qed

lemma u32_good: "rtl_strings_ok K \<Longrightarrow> try_from_u32 K v b s = Some (Ok w, t) \<Longrightarrow> good K s w t"
  unfolding try_from_u32_def
  by (rule number_good) (assumption | rule rtl_strings_okD | simp add: rtl_strings_okD)+

lemma u64_good: "rtl_strings_ok K \<Longrightarrow> try_from_u64 K v b s = Some (Ok w, t) \<Longrightarrow> good K s w t"
  unfolding try_from_u64_def
  by (rule number_good) (assumption | rule rtl_strings_okD | simp add: rtl_strings_okD)+

lemma vec_drop_pool [simp]:
  "pool_blocks (klog (vec_drop K p n s)) = pool_blocks (klog s)"
  "pool_frees_ok Map.empty (klog (vec_drop K p n s)) = pool_frees_ok Map.empty (klog s)"
  by (simp_all add: vec_drop_def)

lemma good_vec_drop: "good K s w t \<Longrightarrow> good K s w (vec_drop K p n t)"
  by (simp add: good_def owns_new_def)

lemma from_str_good:
  assumes "from_str K cs s = Some (Ok w, t)"
  shows "good K s w t"
proof -
  let ?n = "length (encode_utf16 cs) * 2"
  obtain r s1 where r: "vec_try_reserve K ?n s = (r, s1)" by fastforce
  then have s1: "pool_blocks (klog s1) = pool_blocks (klog s)" "pool_frees_ok Map.empty (klog s1) = pool_frees_ok Map.empty (klog s)"
    by (auto simp: vec_try_reserve_def sys_eq Let_def split: if_splits)
  obtain p u where create: "ustring_create K \<lparr>sl_ptr = p, sl_len = length (encode_utf16 cs)\<rparr> (POOL_TYPE s)
      (s1\<lparr>umem := store (umem s1) p (encode_utf16 cs)\<rparr>) = Some (Ok w, u)" and t: "t = vec_drop K p ?n u"
    using assms r by (auto simp: from_str_def try_from_str_def Let_def bind_eq_Some_conv split: option.splits)
  have "good K s w u"
    using create_good [OF create] s1 by (auto simp: good_def owns_new_def split: if_splits)
  then show ?thesis by (simp add: t good_vec_drop)
qed

lemma clone_good:
  assumes "rtl_strings_ok K" "unicode_wf (us_string v)" "ustring_clone K v s = Some (w, t)"
  shows "good K s w t"
proof -
  obtain d s1 where s1: "(if ustring_len v = 0 then Some (2, s) else rust_alloc K (of_nat (2 * unat (ustring_len v))) s) = Some (d, s1)"
    using assms(3) by (auto simp: ustring_clone_def ustring_copy_def Let_def bind_eq_Some_conv unat_eq_0)
  obtain b s2 where s2: "rust_alloc K 24 (s1\<lparr>umem := store (umem s1) d (replicate (unat (ustring_len v)) 0)\<rparr>) = Some (b, s2)"
    using assms(3) s1 by (auto simp: ustring_clone_def ustring_copy_def Let_def bind_eq_Some_conv unat_eq_0 split: if_splits)
  let ?d = "\<lparr>Length = ustring_bytes v, MaximumLength = ustring_capacity v, Buffer = b\<rparr>"
  have w: "w = \<lparr>us_string = ?d\<lparr>Length := min (Length (us_string v)) (ustring_capacity v)\<rparr>, us_alloc = Some AllocRust\<rparr>"
    and t: "klog t = klog s2 @ [(Rtl (RtlCopyUnicodeString ?d (ustr_of s2 (us_string v))),
      K (klog s2) (Rtl (RtlCopyUnicodeString ?d (ustr_of s2 (us_string v)))))]"
    using assms(3) s1 s2
    by (auto simp: ustring_clone_def ustring_copy_def Let_def bind_eq_Some_conv unat_eq_0 sys_eq ustr_of_def
        rtl_strings_okD(6) [OF assms(1)] split: if_splits)
  have "unicode_wf (us_string w)"
    using assms(2) rust_allocD(2) [OF s2]
    by (auto simp: w unicode_wf_def ustring_capacity_def ustring_bytes_def min_def)
  moreover have "pool_blocks (klog t) = pool_blocks (klog s)" "pool_frees_ok Map.empty (klog t) = pool_frees_ok Map.empty (klog s)"
    using s1 rust_allocD(3) [OF s2] by (auto simp: t dest!: rust_allocD(3) split: if_splits)
  ultimately show ?thesis by (simp add: good_def owns_new_def w)
qed

lemma good_same: "unicode_wf (us_string w) \<Longrightarrow> us_alloc w \<noteq> Some AllocPool \<Longrightarrow> good K s w s"
  by (simp add: good_def owns_new_def)

lemma unicode_wf_empty: "unicode_wf \<lparr>Length = 0, MaximumLength = 0, Buffer = null\<rparr>"
  by (simp add: unicode_wf_def)

lemma made_good:
  assumes "rtl_strings_ok K" "made K ws s w t" "\<And>v. v \<in> set ws \<Longrightarrow> unicode_wf (us_string v)"
  shows "good K s w t"
  using assms(2)
proof cases
  case (new u)
  then show ?thesis
    using clone_good [OF assms(1), of "ustring_wrap (Some u)" s w]
    by (auto simp: ustring_new_def ustring_wrap_def ustring_drop_def Let_def bind_eq_Some_conv)
next
  case (of_vec src c)
  then show ?thesis
    by (auto simp: try_from_vec_def bind_eq_Some_conv dest!: create_good intro: good_vec_drop)
next
  case (clone v)
  then show ?thesis using clone_good [OF assms(1) assms(3)] by blast
next
  case (of_bytes bs)
  then show ?thesis
    by (auto simp: try_from_bytes_def try_from_utf8_def Let_def dest: os_allocated_good [OF assms(1)])
next
  case (duplicate v fl)
  then show ?thesis by (auto simp: ustring_duplicate_def dest: os_allocated_good [OF assms(1)])
next
  case (lower v)
  then show ?thesis by (auto simp: new_lower_def dest: os_allocated_good [OF assms(1)])
next
  case (upper v)
  then show ?thesis by (auto simp: new_upper_def dest: os_allocated_good [OF assms(1)])
next
  case (wrap u)
  then show ?thesis
    by (cases u) (auto simp: unicode_wf_empty ustring_wrap_def ustring_default_def intro: good_same)
qed (auto simp: unicode_wf_empty ustring_default_def ustring_const_new_def ustring_take_def
      try_from_slice_def try_from_utf16str_def try_from_u16cstr_def str_to_owned_def try_from_u32_decimal_def
      try_from_u64_decimal_def
      intro: good_same dest: create_good from_str_good u32_good [OF assms(1)] u64_good [OF assms(1)])

section \<open>Constructors that fail\<close>

text \<open>A constructor makes a string or fails, and then the pool holds what it held before.\<close>

definition pool_kept :: "'a ustate_scheme \<Rightarrow> 'a ustate_scheme \<Rightarrow> bool" where
  "pool_kept s t \<longleftrightarrow> pool_blocks (klog t) = pool_blocks (klog s) \<and>
     (pool_frees_ok Map.empty (klog s) \<longrightarrow> pool_frees_ok Map.empty (klog t))"

definition makes :: "kernel \<Rightarrow> 'a ustate_scheme \<Rightarrow> ((WduUnicodeError, WduUnicodeString) result \<times> 'a ustate_scheme) option \<Rightarrow> bool" where
  "makes K s r \<longleftrightarrow> (\<forall>w t. r = Some (Ok w, t) \<longrightarrow> good K s w t) \<and> (\<forall>e t. r = Some (Err e, t) \<longrightarrow> pool_kept s t)"

lemma pool_kept_vec_drop [simp]: "pool_kept s (vec_drop K p n t) \<longleftrightarrow> pool_kept s t"
  by (simp add: pool_kept_def)

lemma create_makes: "makes K s (ustring_create K src f s)"
proof (cases "f = PoolFlagPaged \<or> f = PoolFlagNonPaged")
  case True
  show ?thesis
  proof (cases K src s rule: ustring_create_cases [OF True])
    case (1 b s')
    then show ?thesis
      using string_pool.alloc_blocks [OF 1(1)] string_pool.alloc_frees_ok [OF 1(1)]
      by (simp add: makes_def pool_kept_def add_block_def)
  next
    case (2 b s')
    then show ?thesis by (auto simp: makes_def dest: create_good)
  qed
next
  case False
  then show ?thesis by (cases f) (simp_all add: makes_def ustring_create_def Let_def panic_def)
qed

lemma slices_make:
  "makes K s (str_to_owned K v s)" "makes K s (try_from_u16cstr K src s)" "makes K s (try_from_utf16str K src s)"
  using create_makes by (simp_all add: str_to_owned_def try_from_slice_def try_from_u16cstr_def try_from_utf16str_def)

lemma vec_makes: "makes K s (try_from_vec K src n s)"
  using create_makes [of K s src "POOL_TYPE s"]
  by (auto simp: makes_def try_from_vec_def bind_eq_Some_conv intro: good_vec_drop)

lemma from_str_makes: "makes K s (from_str K cs s)"
  unfolding makes_def
proof (intro conjI allI impI)
  fix e t assume err: "from_str K cs s = Some (Err e, t)"
  let ?n = "length (encode_utf16 cs) * 2"
  obtain r s1 where r: "vec_try_reserve K ?n s = (r, s1)" by fastforce
  then have s1: "pool_kept s s1"
    by (auto simp: pool_kept_def vec_try_reserve_def sys_eq Let_def split: if_splits)
  show "pool_kept s t"
  proof (cases r)
    case None
    then show ?thesis using err r s1 by (simp add: from_str_def try_from_str_def)
  next
    case (Some p)
    let ?s2 = "s1\<lparr>umem := store (umem s1) p (encode_utf16 cs)\<rparr>"
    obtain u where "ustring_create K \<lparr>sl_ptr = p, sl_len = length (encode_utf16 cs)\<rparr> (POOL_TYPE s) ?s2 = Some (Err e, u)"
      "t = vec_drop K p ?n u"
      using err r Some by (auto simp: from_str_def try_from_str_def Let_def bind_eq_Some_conv)
    then have "pool_kept ?s2 u" "t = vec_drop K p ?n u"
      using create_makes unfolding makes_def by blast+
    then show ?thesis using s1 by (simp add: pool_kept_def)
  qed
qed (rule from_str_good)

lemma number_err:
  assumes "pool_fresh K" "number_to_string K n c s = Some (Err e, t)"
  shows "pool_kept s t"
proof -
  obtain b s1 where alloc: "string_pool_alloc (POOL_TYPE s) K (ucast n) STRING_ALLOC_TAG s = Some (b, s1)"
    using string_pool.alloc_returns by blast
  note blocks = string_pool.alloc_blocks [OF alloc] string_pool.alloc_frees_ok [OF alloc]
  show ?thesis
  proof (cases "b = null")
    case True
    then show ?thesis
      using assms(2) alloc blocks by (simp add: number_to_string_def alloc_buffer_eq pool_kept_def add_block_def)
  next
    case False
    then show ?thesis
      using assms(2) alloc blocks string_pool.alloc_fresh [OF assms(1) alloc False]
      by (auto simp: number_to_string_def alloc_buffer_eq sys_eq Let_def pool_kept_def add_block_def ustring_drop_def
          free_buffer_def pool_frees_ok_snoc fun_upd_idem split: if_splits)
  qed
qed

lemma numbers_make:
  assumes "rtl_strings_ok K" "pool_fresh K"
  shows "makes K s (try_from_u32 K v b s)" "makes K s (try_from_u64_decimal K v64 s)"
  using u32_good [OF assms(1)] u64_good [OF assms(1)] number_err [OF assms(2)]
  by (auto simp: makes_def try_from_u32_def try_from_u64_def try_from_u64_decimal_def)

lemma new_lower_makes:
  assumes "rtl_strings_ok K"
  shows "makes K s (Some (new_lower K v s))"
  unfolding makes_def new_lower_def
proof (intro conjI allI impI)
  show "pool_kept s t"
    if "Some (os_allocated K (RtlDowncaseUnicodeString (ustr_of s (us_string v)) (u8_of_bool True)) s) = Some (Err e, t)" for e t
    using that by (auto simp: os_allocated_def sys_eq Let_def pool_kept_def pool_frees_ok_snoc split: if_splits)
qed (auto dest: os_allocated_good [OF assms])

section \<open>Runs\<close>

abbreviation buffers :: "WduUnicodeString list \<Rightarrow> ptr list" where
  "buffers ws \<equiv> map (\<lambda>w. Buffer (us_string w)) (filter is_pool_alloc ws)"

text \<open>\<open>B\<close> is what the pool held before the strings were made.\<close>

definition strings_inv :: "blocks \<Rightarrow> WduUnicodeString list \<Rightarrow> 'a ustate_scheme \<Rightarrow> bool" where
  "strings_inv B ws s \<longleftrightarrow>
     (\<forall>w\<in>set ws. unicode_wf (us_string w)) \<and> distinct (buffers ws) \<and> (\<forall>b\<in>set (buffers ws). B b = None) \<and>
     (\<forall>w\<in>set ws. is_pool_alloc w \<longrightarrow> (\<exists>n. pool_blocks (klog s) (Buffer (us_string w)) = Some (n, STRING_ALLOC_TAG) \<and>
        unat (MaximumLength (us_string w)) \<le> unat n)) \<and>
     (\<forall>p. p \<notin> set (buffers ws) \<longrightarrow> pool_blocks (klog s) p = B p) \<and>
     pool_frees_ok Map.empty (klog s)"

lemma strings_inv_kept: "strings_inv B ws s \<Longrightarrow> pool_kept s t \<Longrightarrow> strings_inv B ws t"
  by (simp add: strings_inv_def pool_kept_def)

lemma is_pool_alloc_iff: "is_pool_alloc w \<longleftrightarrow> us_alloc w = Some AllocPool"
  by (simp add: is_pool_alloc_def split: option.splits)

lemma make_inv:
  assumes "strings_inv B ws s" "good K s w t" "pool_fresh K"
  shows "strings_inv B (w # ws) t"
proof (cases "is_pool_alloc w")
  case True
  let ?b = "Buffer (us_string w)"
  obtain n where n: "pool_blocks (klog t) = (pool_blocks (klog s))(?b \<mapsto> (n, STRING_ALLOC_TAG))"
    "unat (MaximumLength (us_string w)) \<le> unat n" "pool_blocks (klog s) ?b = None"
    using assms(2,3) True by (auto simp: good_def owns_new_def is_pool_alloc_iff)
  have "?b \<notin> set (buffers ws)"
    using assms(1) n(3) by (fastforce simp: strings_inv_def)
  moreover from this have "B ?b = None"
    using assms(1) n(3) by (simp add: strings_inv_def)
  ultimately show ?thesis
    using assms(1,2) n True by (auto simp: strings_inv_def good_def owns_new_def)
next
  case False
  then show ?thesis
    using assms(1,2) by (auto simp: strings_inv_def good_def owns_new_def is_pool_alloc_iff)
qed

lemma drop_inv:
  assumes "strings_inv B (us @ w # vs) s"
  shows "strings_inv B (us @ vs) (ustring_drop K w s)"
proof (cases "is_pool_alloc w")
  case True
  let ?b = "Buffer (us_string w)"
  have "pool_blocks (klog (ustring_drop K w s)) = (pool_blocks (klog s))(?b := None)"
    using True by (simp add: is_pool_alloc_iff ustring_drop_def free_buffer_def)
  moreover have "pool_frees_ok Map.empty (klog (ustring_drop K w s))"
    using assms True by (auto simp: is_pool_alloc_iff strings_inv_def ustring_drop_def free_buffer_def)
  moreover have "?b \<notin> set (buffers (us @ vs))" "B ?b = None"
    using assms True by (auto simp: strings_inv_def)
  ultimately show ?thesis
    using assms True by (auto simp: strings_inv_def image_iff)
next
  case False
  then have "pool_blocks (klog (ustring_drop K w s)) = pool_blocks (klog s)"
    "pool_frees_ok Map.empty (klog (ustring_drop K w s)) = pool_frees_ok Map.empty (klog s)"
    by (auto simp: is_pool_alloc_iff ustring_drop_def split: option.splits AllocType.splits)
  then show ?thesis
    using assms False by (auto simp: strings_inv_def)
qed

lemma run_inv:
  assumes "strings_run K (ws, s) (ws', t)" "rtl_strings_ok K" "pool_fresh K" "strings_inv B ws s"
  shows "strings_inv B ws' t"
  using assms(1)
proof (induction rule: rtranclp_induct2)
  case refl
  then show ?case using assms(4) .
next
  case (step vs u vs' u')
  from step(2) show ?case
  proof cases
    case (make w)
    then show ?thesis
      using make_inv [OF step(3) made_good [OF assms(2)] assms(3)] step(3) by (auto simp: strings_inv_def)
  next
    case (drop xs w ys)
    then show ?thesis using drop_inv step(3) by blast
  qed
qed

text \<open>
  C11. Programs over strings keep the blocks of the pool in order. However strings are made, from the caller's
  data, from each other or by the system, and dropped, in any order: every live string is
  well-formed (an even length within its capacity, and a buffer if it has units); those allocated
  from the pool own distinct live blocks that cover their capacity; every free so far named a live
  block with its own tag; and the pool holds nothing else than before, so that nothing is left when
  all strings have been dropped.
\<close>

theorem string_programs_safe:
  assumes "rtl_strings_ok K" "pool_fresh K" "pool_frees_ok Map.empty (klog s)" "strings_run K ([], s) (ws, t)"
  shows "(\<forall>w\<in>set ws. unicode_wf (us_string w) \<and>
      (is_pool_alloc w \<longrightarrow> (\<exists>n. pool_blocks (klog t) (Buffer (us_string w)) = Some (n, STRING_ALLOC_TAG) \<and>
        unat (MaximumLength (us_string w)) \<le> unat n))) \<and>
    distinct (buffers ws) \<and> pool_frees_ok Map.empty (klog t) \<and>
    (\<forall>p. p \<notin> set (buffers ws) \<longrightarrow> pool_blocks (klog t) p = pool_blocks (klog s) p)"
proof -
  have "strings_inv (pool_blocks (klog s)) [] s"
    using assms(3) by (simp add: strings_inv_def)
  then have "strings_inv (pool_blocks (klog s)) ws t"
    by (rule run_inv [OF assms(4,1,2)])
  then show ?thesis
    unfolding strings_inv_def by blast
qed

definition string_kernel :: kernel where
  "string_kernel h c =
     (case c of
        Rtl (RtlIntegerToUnicodeString v b d) \<Rightarrow> reply0\<lparr>r_ustr := d\<lparr>Length := 0\<rparr>\<rparr>
      | Rtl (RtlInt64ToUnicodeString v b d) \<Rightarrow> reply0\<lparr>r_ustr := d\<lparr>Length := 0\<rparr>\<rparr>
      | Rtl (RtlCopyUnicodeString d (u, us)) \<Rightarrow> reply0\<lparr>r_ustr := d\<lparr>Length := min (Length u) (MaximumLength d)\<rparr>\<rparr>
      | _ \<Rightarrow> kernel0 h c)"

lemma string_kernel_laws: "rtl_strings_ok string_kernel" "pool_fresh string_kernel"
proof -
  have "unicode_wf (r_ustr (string_kernel h (Rtl c)))" if "makes_string c" for h c
    using that by (cases c) (auto simp: string_kernel_def kernel0_def reply0_def unicode_wf_def)
  then show "rtl_strings_ok string_kernel"
    by (auto simp: rtl_strings_ok_def string_kernel_def)
  show "pool_fresh string_kernel"
    using kernel0_fresh(1) by (simp add: pool_fresh_def string_kernel_def)
qed

lemma string_kernel_Pool [simp]: "string_kernel h (Pool d) = reply0\<lparr>r_ptr := fresh_page h\<rparr>"
  by (simp add: string_kernel_def)

lemma create_string_kernel: "\<exists>w t. ustring_create string_kernel src0 PoolFlagPaged st0 = Some (Ok w, t) \<and> us_alloc w = Some AllocPool"
  by (simp add: ustring_create_def paged_alloc_with_tag_def pool2_alloc_def sys_eq Let_def)

theorem string_programs_safe_witness:
  "\<exists>w t. strings_run string_kernel ([], st0) ([w], t) \<and> is_pool_alloc w \<and> unicode_wf (us_string w) \<and>
     strings_run string_kernel ([], st0) ([], ustring_drop string_kernel w t) \<and>
     pool_blocks (klog (ustring_drop string_kernel w t)) = Map.empty"
proof -
  obtain w t where w: "ustring_create string_kernel src0 PoolFlagPaged st0 = Some (Ok w, t)" "us_alloc w = Some AllocPool"
    using create_string_kernel by blast
  have run: "strings_run string_kernel ([], st0) ([w], t)"
    using strings_step.make [OF made.create [OF w(1)]] by blast
  moreover have "strings_step string_kernel ([] @ w # [], t) ([] @ [], ustring_drop string_kernel w t)"
    by (rule strings_step.drop)
  ultimately have all: "strings_run string_kernel ([], st0) ([], ustring_drop string_kernel w t)"
    by simp
  show ?thesis
    using string_programs_safe [OF string_kernel_laws _ run] string_programs_safe [OF string_kernel_laws _ all] run all w(2)
    by (auto simp: is_pool_alloc_iff)
qed

end
