(* ===== verification/Wdu_UstringVec.thy ===== *)
theory Wdu_UstringVec
  imports Wdu_Ustring
begin

text \<open>
  \<^verbatim>\<open>src/strings/unicode.rs\<close>, module \<^verbatim>\<open>string\<close> of the feature \<^verbatim>\<open>unicode_as_vec\<close>: the owned string as a
  \<^verbatim>\<open>Vec<u16>\<close> on the global allocator. Half of it is \<^verbatim>\<open>todo!()\<close>. A vector is its address, its length
  and its capacity, both in units.
\<close>

record WduUnicodeVec =
  uv_ptr :: ptr
  uv_len :: nat
  uv_cap :: nat

definition uvec_default :: WduUnicodeVec where
  "uvec_default = \<lparr>uv_ptr = 2, uv_len = 0, uv_cap = 0\<rparr>"

definition uvec_into :: "WduUnicodeVec \<Rightarrow> UNICODE_STRING option" where
  "uvec_into self = panic"

text \<open>\<^verbatim>\<open>slice.to_vec()\<close>: a block of exactly the slice's size; an empty slice needs none.\<close>

definition uvec_from_slice ::
  "kernel \<Rightarrow> slice \<Rightarrow> 'a ustate_scheme \<Rightarrow> (WduUnicodeVec \<times> 'a ustate_scheme) option" where
  "uvec_from_slice K source s =
     (if sl_len source = 0 then Some (uvec_default, s)
      else do {
        (p, s) \<leftarrow> rust_alloc K (of_nat (2 * sl_len source)) s;
        Some (\<lparr>uv_ptr = p, uv_len = sl_len source, uv_cap = sl_len source\<rparr>,
              s\<lparr>umem := store (umem s) p (slice_elems s source)\<rparr>)
      })"

definition uvec_try_from ::
  "kernel \<Rightarrow> slice \<Rightarrow> 'a ustate_scheme \<Rightarrow> ((WduUnicodeError, WduUnicodeVec) result \<times> 'a ustate_scheme) option" where
  "uvec_try_from K value' s = map_option (\<lambda>(v, s). (Ok v, s)) (uvec_from_slice K value' s)"

text \<open>\<^verbatim>\<open>Vec::from_raw_parts\<close> takes over the buffer, with lengths that are in bytes.\<close>

definition uvec_new :: "UNICODE_STRING \<Rightarrow> WduUnicodeVec" where
  "uvec_new string =
     \<lparr>uv_ptr = Buffer string, uv_len = unat (Length string), uv_cap = unat (MaximumLength string)\<rparr>"

definition uvec_as_ptr :: "WduUnicodeVec \<Rightarrow> ptr option" where
  "uvec_as_ptr self = panic"

definition uvec_as_mut_ptr :: "WduUnicodeVec \<Rightarrow> ptr option" where
  "uvec_as_mut_ptr self = panic"

definition uvec_get :: "WduUnicodeVec \<Rightarrow> UNICODE_STRING option" where
  "uvec_get self = panic"

definition uvec_as_slice :: "WduUnicodeVec \<Rightarrow> slice" where
  "uvec_as_slice self = \<lparr>sl_ptr = uv_ptr self, sl_len = uv_len self\<rparr>"

text \<open>The vector of a string that goes out of scope.\<close>

definition uvec_drop :: "kernel \<Rightarrow> WduUnicodeVec \<Rightarrow> 'a kstate_scheme \<Rightarrow> 'a kstate_scheme" where
  "uvec_drop K self s = vec_drop K (uv_ptr self) (uv_cap self) s"

section \<open>Properties\<close>

text \<open>
  A string made from a slice has the slice's units, and dropping it leaves the heap as it was.
\<close>

lemma uvec_from_slice_round_trip:
  assumes "heap_fresh K" "sl_len src \<le> 2 ^ 63" "uvec_from_slice K src s = Some (v, t)"
  shows "slice_elems t (uvec_as_slice v) = slice_elems s src \<and>
    heap_blocks (klog (uvec_drop K v t)) = heap_blocks (klog s)"
proof (cases "sl_len src = 0")
  case True
  then show ?thesis
    using assms(3) by (auto simp: uvec_from_slice_def uvec_default_def uvec_as_slice_def uvec_drop_def vec_drop_def slice_elems_def)
next
  case False
  then obtain p u where p: "rust_alloc K (of_nat (2 * sl_len src)) s = Some (p, u)"
    and v: "v = \<lparr>uv_ptr = p, uv_len = sl_len src, uv_cap = sl_len src\<rparr>"
      "t = u\<lparr>umem := store (umem u) p (slice_elems u src)\<rparr>"
    using assms(3) by (auto simp: uvec_from_slice_def bind_eq_Some_conv)
  have "heap_blocks (klog s) p = None"
    using assms(1) rust_allocD(1,2) [OF p] by (simp add: heap_fresh_def)
  moreover have "load (store (umem u) p (slice_elems u src)) p (sl_len src) = slice_elems u src"
    using assms(2) by (simp add: load_store slice_elems_def)
  moreover have "slice_elems u src = slice_elems s src"
    using rust_allocD(3) [OF p] by (simp add: slice_elems_def)
  ultimately show ?thesis
    using False rust_allocD(4) [OF p] by (simp add: v uvec_as_slice_def uvec_drop_def vec_drop_def fun_upd_idem)
       (simp add: slice_elems_def)
qed

text \<open>
  \<^verbatim>\<open>new\<close> takes the length in bytes for a number of units: the string has twice the units of its
  source, and dropping it gives the source's buffer to the global allocator, which need not have
  handed it out.
\<close>

lemma uvec_new_reads_twice:
  assumes "even (unat (Length u))" "MaximumLength u \<noteq> 0"
  shows "length (slice_elems s (uvec_as_slice (uvec_new u))) = 2 * length (snd (ustr_of s u)) \<and>
    (heap_blocks (klog s) (Buffer u) = None \<longrightarrow> \<not> heap_frees_ok Map.empty (klog (uvec_drop K (uvec_new u) s)))"
  using assms
  by (auto simp: uvec_as_slice_def uvec_new_def uvec_drop_def vec_drop_def slice_elems_def ustr_of_def unat_eq_0)

end
