(* ===== verification/Wdu_UstringNum.thy ===== *)
theory Wdu_UstringNum
  imports Wdu_UstringRun
begin

text \<open>
  Strings made from numbers (\<^verbatim>\<open>try_from_u32\<close>, \<^verbatim>\<open>try_from_u64\<close>, \<^verbatim>\<open>TryFrom<u32>\<close>, \<^verbatim>\<open>TryFrom<u64>\<close> of
  \<^verbatim>\<open>src/strings/unicode.rs\<close>): for which bases the fixed buffers hold every number, and what the
  strings then display.
\<close>

section \<open>Digits\<close>

definition digit_char :: "nat \<Rightarrow> nat" where
  "digit_char d = (if d < 10 then 48 + d else 55 + d)"

fun base_digits :: "nat \<Rightarrow> nat \<Rightarrow> rust_str" where
  "base_digits b n = (if n < b \<or> b < 2 then [] else base_digits b (n div b)) @ [digit_char (n mod b)]"

declare base_digits.simps [simp del]

lemma length_base_digits_le:
  "n < b ^ k \<Longrightarrow> 0 < k \<Longrightarrow> length (base_digits b n) \<le> k"
proof (induction b n arbitrary: k rule: base_digits.induct)
  case (1 b n)
  show ?case
  proof (cases "n < b \<or> b < 2")
    case True
    then show ?thesis using 1(3) by (simp add: base_digits.simps [of b n])
  next
    case False
    then obtain j where j: "k = Suc j" "0 < j"
      using 1(2,3) by (cases k; cases "k = 1") (auto simp: not_less)
    have "n div b < b ^ j"
      using 1(2) False by (simp add: j(1) less_mult_imp_div_less mult.commute)
    then show ?thesis
      using 1(1) [OF False _ j(2)] False by (simp add: base_digits.simps [of b n] j(1))
  qed
qed

lemma length_base_digits_gt:
  "b ^ k \<le> n \<Longrightarrow> 1 < b \<Longrightarrow> k < length (base_digits b n)"
proof (induction b n arbitrary: k rule: base_digits.induct)
  case (1 b n)
  show ?case
  proof (cases k)
    case (Suc j)
    have "b \<le> b ^ k" using 1(3) Suc by simp
    with 1(2,3) have n: "\<not> (n < b \<or> b < 2)" by linarith
    have "b ^ j \<le> n div b"
      using 1(2,3) Suc by (simp add: less_eq_div_iff_mult_less_eq mult.commute)
    then show ?thesis
      using 1(1) [OF n _ 1(3)] n Suc by (simp add: base_digits.simps [of b n])
  qed (simp add: base_digits.simps [of b n])
qed

lemma base_digits_ascii: "1 < b \<Longrightarrow> b \<le> 16 \<Longrightarrow> c \<in> set (base_digits b n) \<Longrightarrow> c < 128"
proof (induction b n rule: base_digits.induct)
  case (1 b n)
  have "n mod b < 16" using 1(2,3) mod_less_divisor [of b n] by linarith
  then show ?case
    using 1 by (auto simp: base_digits.simps [of b n] digit_char_def split: if_splits)
qed

lemma base_digits_units:
  assumes "1 < b" "b \<le> 16"
  shows "from_utf16_lossy (map of_nat (base_digits b n)) = base_digits b n"
proof -
  have c: "scalar c" "encode_char c = [of_nat c]" if "c \<in> set (base_digits b n)" for c
    using base_digits_ascii [OF assms that] by (simp_all add: scalar_def encode_char_def)
  have "encode_utf16 cs = map of_nat cs" if "set cs \<subseteq> set (base_digits b n)" for cs
    using that c(2) by (induction cs) auto
  then have "encode_utf16 (base_digits b n) = map of_nat (base_digits b n)" by blast
  then show ?thesis
    using from_utf16_lossy_encode [of "base_digits b n"] c(1) by (simp add: list_all_iff)
qed

section \<open>The conversion routines\<close>

definition STATUS_BUFFER_OVERFLOW :: ntstatus where [nt_consts]: "STATUS_BUFFER_OVERFLOW = 0x80000005"

text \<open>
  What \<^verbatim>\<open>RtlIntegerToUnicodeString\<close> and \<^verbatim>\<open>RtlInt64ToUnicodeString\<close> answer for a number whose digits are
  \<open>ds\<close>: they write the digits when these and a terminator's first byte fit, and report a destination
  that is too small.
\<close>

definition writes_digits :: "rust_str \<Rightarrow> UNICODE_STRING \<Rightarrow> kreply \<Rightarrow> bool" where
  "writes_digits ds d r \<longleftrightarrow>
     (2 * length ds < unat (MaximumLength d) \<longrightarrow> r_status r = STATUS_SUCCESS \<and>
        r_ustr r = d\<lparr>Length := of_nat (2 * length ds)\<rparr> \<and> r_cells r = map of_nat ds) \<and>
     (unat (MaximumLength d) < 2 * length ds \<longrightarrow> r_status r = STATUS_BUFFER_OVERFLOW)"

definition rtl_numbers_ok :: "kernel \<Rightarrow> bool" where
  "rtl_numbers_ok K \<longleftrightarrow>
     (\<forall>h v b d. b \<in> {2, 8, 10, 16} \<longrightarrow>
        writes_digits (base_digits (unat b) (unat v)) d (K h (Rtl (RtlIntegerToUnicodeString v b d)))) \<and>
     (\<forall>h v b d. b \<in> {2, 8, 10, 16} \<longrightarrow>
        writes_digits (base_digits (unat b) (unat v)) d (K h (Rtl (RtlInt64ToUnicodeString v b d))))"

text \<open>What a conversion with a buffer of \<open>n\<close> bytes comes to.\<close>

definition number_result ::
  "((WduUnicodeError, WduUnicodeString) result \<times> ustate) option \<Rightarrow> rust_str \<Rightarrow> bool" where
  "number_result r ds \<longleftrightarrow>
     (\<exists>t. r = Some (Err InsufficientResources, t)) \<or>
     (\<exists>w t. r = Some (Ok w, t) \<and> ustring_to_string t w = ds \<and> unat (ustring_bytes w) = 2 * length ds \<and>
        is_pool_alloc w)"

lemma number_fits:
  assumes c: "\<And>h d. writes_digits (base_digits b v) d (K h (Rtl (c d)))"
    and fit: "2 * length (base_digits b v) < unat n" and b: "1 < b" "b \<le> 16"
  shows "number_result (number_to_string K n c s) (base_digits b v)"
proof -
  let ?ds = "base_digits b v"
  obtain p s1 where alloc: "string_pool_alloc (POOL_TYPE s) K (ucast n) STRING_ALLOC_TAG s = Some (p, s1)"
    using string_pool.alloc_returns by blast
  let ?d = "\<lparr>Length = n, MaximumLength = n, Buffer = p\<rparr>"
  let ?r = "K (klog s1) (Rtl (c ?d))"
  have r: "r_status ?r = STATUS_SUCCESS" "r_ustr ?r = ?d\<lparr>Length := of_nat (2 * length ?ds)\<rparr>" "r_cells ?r = map of_nat ?ds"
    using c [of ?d "klog s1"] fit by (simp_all add: writes_digits_def)
  have len: "2 * length ?ds < 65536" using fit unat_u16_bound [of n] by simp
  then have "length ?ds \<le> 2 ^ 63" by simp
  then have "load (store (umem s1) p (map of_nat ?ds)) p (length ?ds) = map of_nat ?ds"
    by (subst load_store) simp_all
  then show ?thesis
    using alloc r len base_digits_units [OF b, of v]
    by (auto simp: number_result_def number_to_string_def alloc_buffer_eq sys_eq Let_def ustring_to_string_def as_slice_def
        slice_elems_def ustring_len_def ustring_bytes_def is_pool_alloc_def unat_div2 simp del: of_nat_mult)
qed

lemma number_overflows:
  assumes c: "\<And>h d. writes_digits ds d (K h (Rtl (c d)))" and big: "unat n < 2 * length ds"
  shows "\<exists>e t. number_to_string K n c s = Some (Err e, t) \<and> (e = InsufficientResources \<or> e = NtStatus STATUS_BUFFER_OVERFLOW)"
proof -
  obtain p s1 where alloc: "string_pool_alloc (POOL_TYPE s) K (ucast n) STRING_ALLOC_TAG s = Some (p, s1)"
    using string_pool.alloc_returns by blast
  let ?d = "\<lparr>Length = n, MaximumLength = n, Buffer = p\<rparr>"
  have "r_status (K (klog s1) (Rtl (c ?d))) = STATUS_BUFFER_OVERFLOW"
    using c [of ?d "klog s1"] big by (simp add: writes_digits_def)
  then show ?thesis
    using alloc by (auto simp: number_to_string_def alloc_buffer_eq sys_eq Let_def nt_consts)
qed

lemma unat_u32_bound: "unat (v :: u32) < 2 ^ 32"
  using unsigned_less [of v] by simp

lemma unat_u64_bound: "unat (v :: u64) < 2 ^ 64"
  using unsigned_less [of v] by simp

lemma digits_u32:
  "base \<in> {10, 16} \<Longrightarrow> length (base_digits (unat (base :: u32)) (unat (v :: u32))) \<le> 10"
  using unat_u32_bound [of v] by (intro length_base_digits_le) auto

lemma digits_u64:
  "base \<in> {8, 10, 16} \<Longrightarrow> length (base_digits (unat (base :: u32)) (unat (v :: u64))) \<le> 22"
  using unat_u64_bound [of v] by (intro length_base_digits_le) auto

text \<open>
  C13. The fixed buffers hold every number in the bases drivers print: a 32-bit number in base 10 or
  16 and a 64-bit number in base 8, 10 or 16 becomes a pool string that displays exactly its
  digits, or the pool is exhausted. The 21 bytes for 32-bit numbers are too few for base 2 as
  soon as the number has more than ten binary digits: the conversion reports the overflow.
\<close>

theorem numbers_fit:
  assumes "rtl_numbers_ok K"
  shows "(b \<in> {10, 16} \<longrightarrow> number_result (try_from_u32 K v b s) (base_digits (unat b) (unat v))) \<and>
    (b \<in> {8, 10, 16} \<longrightarrow> number_result (try_from_u64 K v64 b s) (base_digits (unat b) (unat v64))) \<and>
    number_result (try_from_u32_decimal K v s) (base_digits 10 (unat v)) \<and>
    number_result (try_from_u64_decimal K v64 s) (base_digits 10 (unat v64)) \<and>
    (1024 \<le> v \<longrightarrow> (\<exists>e t. try_from_u32 K v 2 s = Some (Err e, t) \<and>
       (e = InsufficientResources \<or> e = NtStatus STATUS_BUFFER_OVERFLOW)))"
proof -
  have law: "writes_digits (base_digits (unat b) (unat v)) d (K h (Rtl (RtlIntegerToUnicodeString v b d)))"
    "writes_digits (base_digits (unat b) (unat v64)) d (K h (Rtl (RtlInt64ToUnicodeString v64 b d)))"
    if "b \<in> {2, 8, 10, 16}" for b v v64 d h
    using assms that unfolding rtl_numbers_ok_def by blast+
  have u32: "number_result (try_from_u32 K v b s) (base_digits (unat b) (unat v))" if b: "b \<in> {10, 16}" for b
    unfolding try_from_u32_def
  proof (rule number_fits [OF law(1)])
    show "2 * length (base_digits (unat b) (unat v)) < unat MAX_LEN_U32_STRING"
      using digits_u32 [OF b, of v] by (simp add: MAX_LEN_U32_STRING_def)
  qed (use b in auto)
  have u64: "number_result (try_from_u64 K v64 b s) (base_digits (unat b) (unat v64))" if b: "b \<in> {8, 10, 16}" for b
    unfolding try_from_u64_def
  proof (rule number_fits [OF law(2)])
    show "2 * length (base_digits (unat b) (unat v64)) < unat MAX_LEN_U64_STRING"
      using digits_u64 [OF b, of v64] by (simp add: MAX_LEN_U64_STRING_def)
  qed (use b in auto)
  have binary: "\<exists>e t. try_from_u32 K v 2 s = Some (Err e, t) \<and> (e = InsufficientResources \<or> e = NtStatus STATUS_BUFFER_OVERFLOW)"
    if "1024 \<le> v"
    unfolding try_from_u32_def
  proof (rule number_overflows [OF law(1)])
    have "2 ^ 10 \<le> unat v" using that by (simp add: word_le_nat_alt)
    from length_base_digits_gt [OF this] show "unat MAX_LEN_U32_STRING < 2 * length (base_digits (unat (2 :: u32)) (unat v))"
      by (simp add: MAX_LEN_U32_STRING_def)
  qed simp
  show ?thesis
    using u32 [of b] u64 [of b] u32 [of 10] u64 [of 10] binary
    by (simp add: try_from_u32_decimal_def try_from_u64_decimal_def)
qed

definition number_reply :: "rust_str \<Rightarrow> UNICODE_STRING \<Rightarrow> kreply" where
  "number_reply ds d =
     (if 2 * length ds < unat (MaximumLength d)
      then reply0\<lparr>r_ustr := d\<lparr>Length := of_nat (2 * length ds)\<rparr>, r_cells := map of_nat ds\<rparr>
      else reply0\<lparr>r_status := STATUS_BUFFER_OVERFLOW\<rparr>)"

definition number_kernel :: kernel where
  "number_kernel h c =
     (case c of
        Rtl (RtlIntegerToUnicodeString v b d) \<Rightarrow> number_reply (base_digits (unat b) (unat v)) d
      | Rtl (RtlInt64ToUnicodeString v b d) \<Rightarrow> number_reply (base_digits (unat b) (unat v)) d
      | _ \<Rightarrow> kernel0 h c)"

lemma number_kernel_law: "rtl_numbers_ok number_kernel"
  by (auto simp: rtl_numbers_ok_def writes_digits_def number_kernel_def number_reply_def reply0_def nt_consts)

theorem numbers_fit_witness:
  "\<exists>w t. try_from_u64_decimal number_kernel 0xDEADBEEF st0 = Some (Ok w, t) \<and>
     ustring_to_string t w = map (\<lambda>d. 48 + d) [3, 7, 3, 5, 9, 2, 8, 5, 5, 9]"
proof -
  have d: "base_digits 10 (unat (0xDEADBEEF :: u64)) = map (\<lambda>d. 48 + d) [3, 7, 3, 5, 9, 2, 8, 5, 5, 9]"
    by (simp add: base_digits.simps digit_char_def)
  have "number_result (try_from_u64_decimal number_kernel 0xDEADBEEF st0) (base_digits 10 (unat (0xDEADBEEF :: u64)))"
    using numbers_fit [OF number_kernel_law, of 10 0 st0 "0xDEADBEEF"] by blast
  moreover have "try_from_u64_decimal number_kernel 0xDEADBEEF st0 \<noteq> Some (Err InsufficientResources, t)" for t
    by (simp add: try_from_u64_decimal_def try_from_u64_def number_to_string_def alloc_buffer_def paged_alloc_with_tag_def
        pool2_alloc_def sys_eq Let_def number_kernel_def MAX_LEN_U64_STRING_def number_reply_def d)
  ultimately show ?thesis
    unfolding number_result_def d by blast
qed

end
