(* ===== verification/Test_Strings.thy ===== *)
theory Test_Strings
  imports Wdu_UstringNum
begin

text \<open>
  \<^verbatim>\<open>tests/strings/src/lib.rs\<close>: the driver that tests the strings of the crate when it is loaded. A failed
  assertion, or an error reported by \<^verbatim>\<open>test_unicode\<close>, panics, and with it stops the machine.
\<close>

section \<open>The locals of the test\<close>

text \<open>
  The locals that have a destructor, the one declared last first. They are dropped in that order
  when the function returns, at its end or through \<^verbatim>\<open>?\<close>.
\<close>

datatype test_local = LStr WduUnicodeString | LVec ptr nat

fun drop_local :: "kernel \<Rightarrow> test_local \<Rightarrow> 'a ustate_scheme \<Rightarrow> 'a ustate_scheme" where
  "drop_local K (LStr w) s = ustring_drop K w s"
| "drop_local K (LVec p n) s = vec_drop K p n s"

definition drop_locals :: "kernel \<Rightarrow> test_local list \<Rightarrow> 'a ustate_scheme \<Rightarrow> 'a ustate_scheme" where
  "drop_locals K ls s = fold (drop_local K) ls s"

text \<open>\<^verbatim>\<open>let w = r?;\<close> and the rest of the function.\<close>

definition let_try ::
  "kernel \<Rightarrow> test_local list \<Rightarrow> ((WduUnicodeError, WduUnicodeString) result \<times> 'a ustate_scheme) option \<Rightarrow>
   (WduUnicodeString \<Rightarrow> test_local list \<Rightarrow> 'a ustate_scheme \<Rightarrow> ((WduUnicodeError, unit) result \<times> 'a ustate_scheme) option) \<Rightarrow>
   ((WduUnicodeError, unit) result \<times> 'a ustate_scheme) option" where
  "let_try K ls r rest = do {
     (res, s) \<leftarrow> r;
     case res of
       Err e \<Rightarrow> Some (Err e, drop_locals K ls s)
     | Ok w \<Rightarrow> rest w (LStr w # ls) s
   }"

text \<open>\<^verbatim>\<open>vec![...]\<close> and \<^verbatim>\<open>Vec::clone\<close>: a block for the elements.\<close>

definition vec_of :: "kernel \<Rightarrow> u16 list \<Rightarrow> 'a ustate_scheme \<Rightarrow> (ptr \<times> 'a ustate_scheme) option" where
  "vec_of K us s = do {
     (p, s) \<leftarrow> rust_alloc K (of_nat (2 * length us)) s;
     Some (p, s\<lparr>umem := store (umem s) p us\<rparr>)
   }"

definition lit :: "string \<Rightarrow> rust_str" where
  "lit cs = map of_char cs"

section \<open>The test\<close>

text \<open>Where the array \<^verbatim>\<open>x\<close> is on the stack and where the wide literals are.\<close>

record test_env =
  te_x :: ptr
  te_upper :: ptr \<comment> \<open>\<^verbatim>\<open>u16cstr!("N4R1B")\<close>\<close>
  te_lower :: ptr \<comment> \<open>\<^verbatim>\<open>utf16str!("n4r1b")\<close>\<close>
  te_pool2_name :: ptr

definition test_strings_made ::
  "kernel \<Rightarrow> (rust_str \<Rightarrow> rust_str) \<Rightarrow> test_env \<Rightarrow> UNICODE_STRING option \<Rightarrow> slice \<Rightarrow> test_local list \<Rightarrow> 'a ustate_scheme
     \<Rightarrow> ((WduUnicodeError, unit) result \<times> 'a ustate_scheme) option" where
  "test_strings_made K to_lowercase E reg_path x ls s =
     let_try K ls (ustring_create K x PoolFlagNonPaged s) (\<lambda>hello_alloc ls s. do {
       rust_assert (is_pool_alloc hello_alloc);
       (hello_clone, s) \<leftarrow> ustring_clone K hello_alloc s;
       let ls = LStr hello_clone # ls;
       let (b, s) = ustring_eq K hello_clone hello_alloc s;
       rust_assert b;
       let_try K ls (from_str K (lit ''from_str'') s) (\<lambda>from_string ls s. do {
       rust_assert (ustring_to_string s from_string = lit ''from_str'');
       let_try K ls (try_from_u64_decimal K 0xDEADBEEF s) (\<lambda>from_u64 ls s. do {
       rust_assert (ustring_to_string s from_u64 = base_digits 10 0xDEADBEEF);
       let_try K ls (try_from_u32 K 0xCAFE 16 s) (\<lambda>from_u32 ls s. do {
       rust_assert (ustring_to_string s from_u32 = lit ''CAFE'');
       (y, s) \<leftarrow> vec_of K [0x6E, 0x34, 0x72, 0x31, 0x42] s;
       let ls = LVec y 5 # ls;
       (y_clone, s) \<leftarrow> vec_of K (load (umem s) y 5) s;
       let_try K ls (try_from_vec K \<lparr>sl_ptr = y_clone, sl_len = 5\<rparr> 5 s) (\<lambda>n4r1B ls s. do {
       rust_assert (ustring_to_string s n4r1B = lit ''n4r1B'');
       let n4r1b_u16cstr = \<lparr>sl_ptr = te_upper E, sl_len = 5\<rparr>;
       let_try K ls (try_from_u16cstr K n4r1b_u16cstr s) (\<lambda>n4r1b_upcase ls s. do {
       rust_assert (slice_elems s (as_slice n4r1b_upcase) = slice_elems s n4r1b_u16cstr);
       let (b, s) = ustring_compare K n4r1b_upcase n4r1B False s;
       rust_assert (\<not> b);
       let (b, s) = ustring_compare K n4r1b_upcase n4r1B True s;
       rust_assert b;
       let_try K ls (try_from_utf16str K \<lparr>sl_ptr = te_lower E, sl_len = 5\<rparr> s) (\<lambda>n4r1b ls s.
       let_try K ls (Some (new_lower K n4r1b_upcase s)) (\<lambda>n4r1b_lower ls s. do {
       let (b, s) = np_compare K n4r1b_lower n4r1b s;
       rust_assert b;
       let_try K ls (from_str K (lit ''services'') s) (\<lambda>services ls s. do {
       let reg_path_string = ustring_wrap reg_path;
       let ls = LStr reg_path_string # ls;
       rust_assert (\<not> ustring_contains to_lowercase s reg_path_string services False);
       rust_assert (ustring_contains to_lowercase s reg_path_string services True);
       Some (Ok (), drop_locals K ls s)
     }) }) ) }) }) }) }) }) })"

definition test_unicode ::
  "kernel \<Rightarrow> (rust_str \<Rightarrow> rust_str) \<Rightarrow> test_env \<Rightarrow> UNICODE_STRING option \<Rightarrow> 'a ustate_scheme
     \<Rightarrow> ((WduUnicodeError, unit) result \<times> 'a ustate_scheme) option" where
  "test_unicode K to_lowercase E reg_path s = do {
     let s = s\<lparr>umem := store (umem s) (te_x E) [0x48, 0x65, 0x6C, 0x6C, 0x6F]\<rparr>;
     let x = \<lparr>sl_ptr = te_x E, sl_len = 5\<rparr>;
     let hello = str_from_slice x;
     let reg_path_str = str_from_ptr reg_path;
     let_try K [] (str_to_owned K reg_path_str s) (\<lambda>reg_path_owned ls s. do {
       rust_assert (str_eq_str s hello (lit ''Hello''));
       rust_assert (wstr_eq_ustring s reg_path_str reg_path_owned);
       u \<leftarrow> reg_path;
       let (r, s) = sys K (Rtl (RtlCompareUnicodeString (ustr_of s u)
         (ustr_of s (as_unicode_string reg_path_str)) (u8_of_bool False))) s;
       rust_assert (r_status r = 0);
       let empty = ustring_default;
       rust_assert (ustring_is_empty empty);
       let (v, s) = ustring_validate K empty s;
       rust_assert (v = Ok ());
       let invalid = ustring_default\<lparr>us_string := (us_string ustring_default)\<lparr>Length := 1\<rparr>\<rparr>;
       let (v, s) = ustring_validate K invalid s;
       rust_assert (v \<noteq> Ok ());
       test_strings_made K to_lowercase E reg_path x (LStr invalid # LStr empty # ls) s
     })
   }"

text \<open>\<^verbatim>\<open>DriverEntry\<close>: the logger's set-up is left out; the allocator's static is \<open>g\<close>.\<close>

definition test_DriverEntry ::
  "kernel \<Rightarrow> (rust_str \<Rightarrow> rust_str) \<Rightarrow> test_env \<Rightarrow> SimpleAlloc \<Rightarrow> UNICODE_STRING option \<Rightarrow> 'a ustate_scheme
     \<Rightarrow> (ntstatus \<times> SimpleAlloc \<times> 'a ustate_scheme) option" where
  "test_DriverEntry K to_lowercase E g reg_path s = do {
     let (g, s) = simple_init K (te_pool2_name E) g s;
     (r, s) \<leftarrow> test_unicode K to_lowercase E reg_path s;
     case r of Err e \<Rightarrow> panic | Ok u \<Rightarrow> Some (0, g, s)
   }"

section \<open>A registry path with room for a terminator\<close>

text \<open>\<^verbatim>\<open>RtlCompareUnicodeString\<close> tells strings of different lengths apart.\<close>

definition compares_lengths :: "kernel \<Rightarrow> bool" where
  "compares_lengths K \<longleftrightarrow> (\<forall>h u v c. Length (fst u) \<noteq> Length (fst v) \<longrightarrow>
     r_status (K h (Rtl (RtlCompareUnicodeString u v c))) \<noteq> 0)"

text \<open>
  C35. The crate's own test stops the machine whenever the registry path has room for a terminator
  behind its text, as the paths the system passes usually have: \<^verbatim>\<open>WduUnicodeStr::from_ptr\<close> borrows the
  string up to its capacity instead of its length, and the comparison with the original fails.
\<close>

theorem terminated_path_stops_test:
  assumes "compares_lengths K" "Length u < MaximumLength u" "even (unat (MaximumLength u))"
  shows "test_DriverEntry K to_lowercase E g (Some u) s = None"
proof -
  have m: "to_unicode_len (unat (MaximumLength u div 2)) = MaximumLength u"
  proof -
    have "unat (to_unicode_len (unat (MaximumLength u div 2))) = unat (MaximumLength u)"
      using assms(3) unat_u16_bound [of "MaximumLength u"] by (simp add: unat_to_unicode_len)
    then show ?thesis by (simp add: word_unat_eq_iff)
  qed
  have len: "Length u \<noteq> Length (as_unicode_string (str_from_ptr (Some u)))"
    using assms(2) m by (simp add: as_unicode_string_def str_from_ptr_def)
  have cmp: "r_status (K h (Rtl (RtlCompareUnicodeString (ustr_of t u) (ustr_of t (as_unicode_string (str_from_ptr (Some u)))) c))) \<noteq> 0" for h t c
    using assms(1) len by (simp add: compares_lengths_def ustr_of_def)
  have "test_unicode K to_lowercase E (Some u) t \<noteq> Some (Ok (), t')" for t t'
    using cmp by (auto simp: test_unicode_def let_try_def sys_eq Let_def bind_eq_Some_conv split: sum.splits)
  then have "test_DriverEntry K to_lowercase E g (Some u) s \<noteq> Some x" for x
    by (cases x) (auto simp: test_DriverEntry_def Let_def panic_def bind_eq_Some_conv split: prod.splits sum.splits)
  then show ?thesis by blast
qed

definition compare_kernel :: kernel where
  "compare_kernel h c =
     (case c of
        Rtl (RtlCompareUnicodeString u v i) \<Rightarrow> reply0\<lparr>r_status := if Length (fst u) = Length (fst v) then 0 else 1\<rparr>
      | _ \<Rightarrow> kernel0 h c)"

theorem terminated_path_stops_test_witness:
  "test_DriverEntry compare_kernel (map id) \<lparr>te_x = 0x800, te_upper = 0x900, te_lower = 0xA00, te_pool2_name = 0xB00\<rparr>
     simple_const_new (Some \<lparr>Length = 24, MaximumLength = 26, Buffer = 0xC00\<rparr>) st0 = None"
proof (rule terminated_path_stops_test)
  show "compares_lengths compare_kernel"
    by (simp add: compares_lengths_def compare_kernel_def)
qed simp_all

section \<open>The test leaves the pool as it found it\<close>

text \<open>
  The locals own their blocks. The strings without an allocation of their own are left out: the
  test makes one of them invalid.
\<close>

fun owned_string :: "test_local \<Rightarrow> WduUnicodeString list" where
  "owned_string (LStr w) = (if us_alloc w = None then [] else [w])"
| "owned_string (LVec p n) = []"

definition locals_inv :: "blocks \<Rightarrow> test_local list \<Rightarrow> ustate \<Rightarrow> bool" where
  "locals_inv B ls s \<longleftrightarrow> strings_inv B (concat (map owned_string ls)) s"

definition leaves :: "blocks \<Rightarrow> ((WduUnicodeError, unit) result \<times> ustate) option \<Rightarrow> bool" where
  "leaves B r \<longleftrightarrow> (\<forall>x t. r = Some (x, t) \<longrightarrow> pool_blocks (klog t) = B \<and> pool_frees_ok Map.empty (klog t))"

lemma locals_inv_kept: "locals_inv B ls s \<Longrightarrow> pool_kept s t \<Longrightarrow> locals_inv B ls t"
  unfolding locals_inv_def by (rule strings_inv_kept)

lemma locals_inv_make:
  assumes "locals_inv B ls s" "good K s w t" "pool_fresh K"
  shows "locals_inv B (LStr w # ls) t"
  using assms make_inv [of B "concat (map owned_string ls)" s K w t] drop_inv [of B "[]" w "concat (map owned_string ls)" t K]
  by (auto simp: locals_inv_def ustring_drop_def)

lemma locals_inv_borrowed:
  "us_alloc w = None \<Longrightarrow> locals_inv B (LStr w # ls) s \<longleftrightarrow> locals_inv B ls s"
  "locals_inv B (LVec p n # ls) s \<longleftrightarrow> locals_inv B ls s"
  by (simp_all add: locals_inv_def)

lemma drop_local_inv: "locals_inv B (l # ls) s \<Longrightarrow> locals_inv B ls (drop_local K l s)"
proof (cases l)
  case (LStr w)
  assume "locals_inv B (l # ls) s"
  then show ?thesis
    using LStr drop_inv [of B "[]" w "concat (map owned_string ls)" s K]
    by (cases "us_alloc w") (simp_all add: locals_inv_def ustring_drop_def)
qed (auto simp: locals_inv_def intro: strings_inv_kept simp: pool_kept_def)

lemma drop_locals_leaves: "locals_inv B ls s \<Longrightarrow> leaves B (Some (x, drop_locals K ls s))"
proof (induction ls arbitrary: s)
  case Nil
  then show ?case by (auto simp: leaves_def locals_inv_def strings_inv_def drop_locals_def)
next
  case (Cons l ls)
  then show ?case using drop_local_inv [of B l ls s K] by (simp add: drop_locals_def)
qed

lemma let_try_leaves:
  assumes "makes K s r" "locals_inv B ls s" "pool_fresh K"
    and "\<And>w t. unicode_wf (us_string w) \<Longrightarrow> locals_inv B (LStr w # ls) t \<Longrightarrow> leaves B (rest w (LStr w # ls) t)"
  shows "leaves B (let_try K ls r rest)"
proof (cases r)
  case None
  then show ?thesis by (simp add: let_try_def leaves_def)
next
  case (Some rt)
  obtain res t where rt: "rt = (res, t)" by fastforce
  show ?thesis
  proof (cases res)
    case (Inl e)
    then have "pool_kept s t" using assms(1) Some rt by (simp add: makes_def)
    then show ?thesis
      using drop_locals_leaves [OF locals_inv_kept [OF assms(2)]] by (simp add: let_try_def Some rt Inl)
  next
    case (Inr w)
    then have "good K s w t" using assms(1) Some rt by (simp add: makes_def)
    then show ?thesis
      using assms(4) [OF _ locals_inv_make [OF assms(2) _ assms(3)]] by (simp add: let_try_def Some rt Inr good_def)
  qed
qed

lemma assert_leaves: "(b \<Longrightarrow> leaves B r) \<Longrightarrow> leaves B (rust_assert b \<bind> (\<lambda>_. r))"
  by (cases b) (simp_all add: leaves_def)

lemma clone_leaves:
  assumes "locals_inv B ls s" "rtl_strings_ok K" "pool_fresh K" "unicode_wf (us_string v)"
    and "\<And>w t. locals_inv B (LStr w # ls) t \<Longrightarrow> leaves B (rest w t)"
  shows "leaves B (ustring_clone K v s \<bind> (\<lambda>(w, t). rest w t))"
proof (cases "ustring_clone K v s")
  case (Some wt)
  obtain w t where wt: "wt = (w, t)" by fastforce
  then have "good K s w t" using clone_good [OF assms(2,4)] Some by simp
  then show ?thesis using assms(5) [OF locals_inv_make [OF assms(1) _ assms(3)]] by (simp add: Some wt)
qed (simp add: leaves_def)

lemma vec_of_leaves:
  assumes "locals_inv B ls s" "\<And>p t. locals_inv B ls t \<Longrightarrow> leaves B (rest p t)"
  shows "leaves B (vec_of K us s \<bind> (\<lambda>(p, t). rest p t))"
proof (cases "vec_of K us s")
  case (Some pt)
  obtain p t where pt: "pt = (p, t)" by fastforce
  have "pool_kept s t"
    using Some pt by (auto simp: vec_of_def bind_eq_Some_conv rust_alloc_def sys_eq Let_def panic_def pool_kept_def split: if_splits)
  then show ?thesis using assms(2) [OF locals_inv_kept [OF assms(1)]] by (simp add: Some pt)
qed (simp add: leaves_def)

text \<open>Calls of the system's routines that only look at strings.\<close>

lemma look_leaves:
  assumes "locals_inv B ls s" "\<And>b t. locals_inv B ls t \<Longrightarrow> leaves B (rest b t)"
  shows "leaves B (case ustring_compare K v w i s of (b, t) \<Rightarrow> rest b t)"
    "leaves B (case ustring_eq K v w s of (b, t) \<Rightarrow> rest b t)"
    "leaves B (case np_compare K v w s of (b, t) \<Rightarrow> rest b t)"
proof -
  have "pool_kept s (snd (ustring_compare K v w i s))" "pool_kept s (snd (np_compare K v w s))" for i
    by (simp_all add: ustring_compare_def np_compare_def pool_kept_def sys_eq Let_def pool_frees_ok_snoc)
  then show "leaves B (case ustring_compare K v w i s of (b, t) \<Rightarrow> rest b t)" 
    "leaves B (case ustring_eq K v w s of (b, t) \<Rightarrow> rest b t)"
    "leaves B (case np_compare K v w s of (b, t) \<Rightarrow> rest b t)"
    using assms(2) [OF locals_inv_kept [OF assms(1)]] by (simp_all add: ustring_eq_def split_beta)
qed

lemma validate_leaves:
  assumes "locals_inv B ls s" "\<And>v t. locals_inv B ls t \<Longrightarrow> leaves B (rest v t)"
  shows "leaves B (case ustring_validate K w s of (v, t) \<Rightarrow> rest v t)"
proof -
  have "pool_kept s (snd (ustring_validate K w s))"
    by (simp add: ustring_validate_def pool_kept_def sys_eq Let_def pool_frees_ok_snoc)
  then show ?thesis
    using assms(2) [OF locals_inv_kept [OF assms(1)]] by (simp add: split_beta)
qed

lemmas test_leaves = look_leaves validate_leaves vec_of_leaves clone_leaves assert_leaves let_try_leaves drop_locals_leaves

lemma test_strings_made_leaves:
  assumes "locals_inv B ls s" "rtl_strings_ok K" "pool_fresh K"
  shows "leaves B (test_strings_made K to_lowercase E reg_path x ls s)"
proof -
  have wrap: "us_alloc (ustring_wrap reg_path) = None"
    by (simp add: ustring_wrap_def ustring_default_def split: option.splits)
  note make = create_makes slices_make vec_makes from_str_makes numbers_make [OF assms(2,3)] new_lower_makes [OF assms(2)]
  show ?thesis
    unfolding test_strings_made_def Let_def
    by (rule test_leaves make assms | assumption | simp add: locals_inv_borrowed wrap)+
qed

text \<open>
  Whatever the pool and the system's routines answer: when the test returns, at its end or early
  with the error of any of its ten conversions, every pool block it made has been freed with its
  tag, and nothing else has been.
\<close>

lemma test_unicode_leaves_pool:
  assumes "rtl_strings_ok K" "pool_fresh K" "pool_frees_ok Map.empty (klog s)"
  shows "leaves (pool_blocks (klog s)) (test_unicode K to_lowercase E reg_path s)"
proof -
  let ?s = "s\<lparr>umem := store (umem s) (te_x E) [0x48, 0x65, 0x6C, 0x6C, 0x6F]\<rparr>" and ?B = "pool_blocks (klog s)"
  have start: "locals_inv ?B [] ?s"
    using assms(3) by (simp add: locals_inv_def strings_inv_def)
  have default: "us_alloc ustring_default = None" by (simp add: ustring_default_def)
  show ?thesis
  proof (cases reg_path)
    case None
    have "leaves ?B (rust_assert b \<bind> (\<lambda>_. rust_assert c \<bind> (\<lambda>_. None)))" for b c
      by (simp add: leaves_def rust_assert_def)
    then show ?thesis
      unfolding test_unicode_def Let_def None by (intro let_try_leaves [OF slices_make(1) start assms(2)]) simp
  next
    case (Some u)
    have look: "leaves ?B (case sys K (Rtl (RtlCompareUnicodeString v w c)) t of (r, t) \<Rightarrow> rest r t)"
      if "locals_inv ?B ls t" "\<And>r t. locals_inv ?B ls t \<Longrightarrow> leaves ?B (rest r t)" for v w c t ls rest
      using that(2) [OF locals_inv_kept [OF that(1)]] by (simp add: sys_eq pool_kept_def pool_frees_ok_snoc)
    show ?thesis
      unfolding test_unicode_def Let_def Some bind.simps
      by (rule look let_try_leaves [OF slices_make(1) start assms(2)] validate_leaves assert_leaves test_strings_made_leaves assms
          | assumption | simp add: locals_inv_borrowed default)+
  qed
qed

end
