(* ===== verification/Wdu_Spinlock.thy ===== *)
theory Wdu_Spinlock
  imports Wdu_Core
begin

text \<open>
  \<^verbatim>\<open>src/sync/spinlock.rs\<close>: the spin lock wrapper with its four acquire/release pairs (plain, at
  DPC level, in-stack queued, for threaded DPCs) and the \<^verbatim>\<open>lock_api\<close> adapters. The lemmas follow
  the IRQL and the lock calls through sequences of these operations: every pair is an instance of
  one interface, and a program of properly nested critical sections trips no debug assertion,
  acquires and releases each of its locks with the routines of its pair and ends at the IRQL where
  it started.
\<close>

section \<open>WduSpinLock\<close>

record WduSpinLock =
  sp_old_irql :: u8
  sp_spinlock :: usize
  sp_lockhandle :: "KLOCK_QUEUE_HANDLE option"

text \<open>\<^verbatim>\<open>LockHandle::default()\<close>, a zeroed queue handle.\<close>

definition lock_handle_default :: KLOCK_QUEUE_HANDLE where
  "lock_handle_default = \<lparr>lq_Next = 0, lq_Lock = 0, lq_OldIrql = 0\<rparr>"

definition spin_const_new :: WduSpinLock where
  "spin_const_new = \<lparr>sp_old_irql = 0, sp_spinlock = 0, sp_lockhandle = None\<rparr>"

definition spin_new :: WduSpinLock where
  "spin_new = \<lparr>sp_old_irql = 0, sp_spinlock = 0, sp_lockhandle = None\<rparr>"

text \<open>
  \<open>at\<close> is the address of the lock word, which \<^verbatim>\<open>as_mut_ptr\<close> gives; a routine writes the word, and
  the answer's \<open>r_u64\<close> is what it leaves there. \<^verbatim>\<open>debug_assert!\<close> reads the IRQL only in builds with
  debug assertions.
\<close>

definition assert_irql :: "kernel \<Rightarrow> (u8 \<Rightarrow> bool) \<Rightarrow> 'a kstate_scheme \<Rightarrow> 'a kstate_scheme option" where
  "assert_irql K P s =
     (if debug_assertions s
      then let (irql, s) = current_irql K s in do { rust_assert (P irql); Some s }
      else Some s)"

definition spin_init :: "kernel \<Rightarrow> ptr \<Rightarrow> WduSpinLock \<Rightarrow> 'a kstate_scheme \<Rightarrow> WduSpinLock \<times> 'a kstate_scheme" where
  "spin_init K at self s =
     (let (r, s) = sys K (Lock (KeInitializeSpinLock at)) s in (self\<lparr>sp_spinlock := r_u64 r\<rparr>, s))"

type_synonym 'a lock_op = "kernel \<Rightarrow> ptr \<Rightarrow> WduSpinLock \<Rightarrow> 'a kstate_scheme \<Rightarrow> (WduSpinLock \<times> 'a kstate_scheme) option"

definition spin_acquire :: "'a lock_op" where
  "spin_acquire K at self s = do {
     s \<leftarrow> assert_irql K (\<lambda>irql. irql \<le> DISPATCH_LEVEL) s;
     let (r, s) = sys K (Lock (KeAcquireSpinLockRaiseToDpc at)) s;
     Some (self\<lparr>sp_old_irql := r_u8 r, sp_spinlock := r_u64 r\<rparr>, s)
   }"

definition spin_release :: "'a lock_op" where
  "spin_release K at self s = do {
     s \<leftarrow> assert_irql K (\<lambda>irql. irql = DISPATCH_LEVEL) s;
     let (r, s) = sys K (Lock (KeReleaseSpinLock at (sp_old_irql self))) s;
     Some (self\<lparr>sp_spinlock := r_u64 r\<rparr>, s)
   }"

definition spin_acquire_at_dpc :: "'a lock_op" where
  "spin_acquire_at_dpc K at self s = do {
     s \<leftarrow> assert_irql K (\<lambda>irql. DISPATCH_LEVEL \<le> irql) s;
     let (r, s) = sys K (Lock (KeAcquireSpinLockAtDpcLevel at)) s;
     Some (self\<lparr>sp_spinlock := r_u64 r\<rparr>, s)
   }"

definition spin_release_from_dpc :: "'a lock_op" where
  "spin_release_from_dpc K at self s = do {
     s \<leftarrow> assert_irql K (\<lambda>irql. DISPATCH_LEVEL \<le> irql) s;
     let (r, s) = sys K (Lock (KeReleaseSpinLockFromDpcLevel at)) s;
     Some (self\<lparr>sp_spinlock := r_u64 r\<rparr>, s)
   }"

text \<open>
  The queue handle is stored in the lock (\<open>spin_in_stack_prepare\<close>) before the lock is acquired; the
  acquisition, where a caller may wait, comes after.
\<close>

definition spin_in_stack_prepare :: "kernel \<Rightarrow> WduSpinLock \<Rightarrow> 'a kstate_scheme \<Rightarrow> (WduSpinLock \<times> 'a kstate_scheme) option" where
  "spin_in_stack_prepare K self s = do {
     s \<leftarrow> assert_irql K (\<lambda>irql. irql \<le> DISPATCH_LEVEL) s;
     debug_assert (sp_lockhandle self = None) s;
     Some (self\<lparr>sp_lockhandle := Some lock_handle_default\<rparr>, s)
   }"

definition spin_acquire_in_stack :: "'a lock_op" where
  "spin_acquire_in_stack K at self s = do {
     (self, s) \<leftarrow> spin_in_stack_prepare K self s;
     h \<leftarrow> sp_lockhandle self;
     let (r, s) = sys K (Lock (KeAcquireInStackQueuedSpinLock at h)) s;
     Some (self\<lparr>sp_lockhandle := Some (r_queue r), sp_spinlock := r_u64 r\<rparr>, s)
   }"

text \<open>Without debug assertions, \<^verbatim>\<open>unwrap()\<close> still panics when there is no handle.\<close>

definition spin_release_in_stack :: "'a lock_op" where
  "spin_release_in_stack K at self s = do {
     debug_assert (sp_lockhandle self \<noteq> None) s;
     h \<leftarrow> sp_lockhandle self;
     let (r, s) = sys K (Lock (KeReleaseInStackQueuedSpinLock h)) s;
     Some (self\<lparr>sp_lockhandle := None, sp_spinlock := r_u64 r\<rparr>, s)
   }"

definition spin_acquire_for_dpc :: "'a lock_op" where
  "spin_acquire_for_dpc K at self s = do {
     s \<leftarrow> assert_irql K (\<lambda>irql. irql \<le> DISPATCH_LEVEL) s;
     let (r, s) = sys K (Lock (KeAcquireSpinLockForDpc at)) s;
     Some (self\<lparr>sp_old_irql := r_u8 r, sp_spinlock := r_u64 r\<rparr>, s)
   }"

definition spin_release_for_dpc :: "'a lock_op" where
  "spin_release_for_dpc K at self s = do {
     s \<leftarrow> assert_irql K (\<lambda>irql. irql = DISPATCH_LEVEL) s;
     let (r, s) = sys K (Lock (KeReleaseSpinLockForDpc at (sp_old_irql self))) s;
     Some (self\<lparr>sp_spinlock := r_u64 r\<rparr>, s)
   }"

section \<open>The \<^verbatim>\<open>lock_api\<close> adapters\<close>

text \<open>
  The three newtypes hold one \<open>WduSpinLock\<close> and reach it through \<^verbatim>\<open>as_mut_ptr\<close>, which casts away
  the shared reference; none of them implements \<^verbatim>\<open>try_lock\<close>.
\<close>

definition SpinLock_init_lock :: "kernel \<Rightarrow> ptr \<Rightarrow> WduSpinLock \<Rightarrow> 'a kstate_scheme \<Rightarrow> WduSpinLock \<times> 'a kstate_scheme" where
  [wdu_defs]: "SpinLock_init_lock = spin_init"

definition SpinLock_lock :: "'a lock_op" where [wdu_defs]: "SpinLock_lock = spin_acquire"
definition SpinLock_unlock :: "'a lock_op" where [wdu_defs]: "SpinLock_unlock = spin_release"

definition StackSpinLock_init_lock :: "kernel \<Rightarrow> ptr \<Rightarrow> WduSpinLock \<Rightarrow> 'a kstate_scheme \<Rightarrow> WduSpinLock \<times> 'a kstate_scheme" where
  [wdu_defs]: "StackSpinLock_init_lock = spin_init"

definition StackSpinLock_lock_stack :: "'a lock_op" where
  [wdu_defs]: "StackSpinLock_lock_stack = spin_acquire_in_stack"

definition StackSpinLock_unlock_stack :: "'a lock_op" where
  [wdu_defs]: "StackSpinLock_unlock_stack = spin_release_in_stack"

definition DpcSpinLock_init_lock :: "kernel \<Rightarrow> ptr \<Rightarrow> WduSpinLock \<Rightarrow> 'a kstate_scheme \<Rightarrow> WduSpinLock \<times> 'a kstate_scheme" where
  [wdu_defs]: "DpcSpinLock_init_lock = spin_init"

definition DpcSpinLock_lock_at_dpc :: "'a lock_op" where
  [wdu_defs]: "DpcSpinLock_lock_at_dpc = spin_acquire_at_dpc"

definition DpcSpinLock_unlock_at_dpc :: "'a lock_op" where
  [wdu_defs]: "DpcSpinLock_unlock_at_dpc = spin_release_from_dpc"

text \<open>\<^verbatim>\<open>RawMutex\<close> for the three types; \<^verbatim>\<open>INIT\<close> is \<^verbatim>\<open>const_new()\<close> for each.\<close>

definition spin_raw_lock :: "'a lock_op" where [wdu_defs]: "spin_raw_lock = SpinLock_lock"
definition spin_raw_unlock :: "'a lock_op" where [wdu_defs]: "spin_raw_unlock = SpinLock_unlock"
definition stack_raw_lock :: "'a lock_op" where [wdu_defs]: "stack_raw_lock = StackSpinLock_lock_stack"
definition stack_raw_unlock :: "'a lock_op" where [wdu_defs]: "stack_raw_unlock = StackSpinLock_unlock_stack"
definition dpc_raw_lock :: "'a lock_op" where [wdu_defs]: "dpc_raw_lock = DpcSpinLock_lock_at_dpc"
definition dpc_raw_unlock :: "'a lock_op" where [wdu_defs]: "dpc_raw_unlock = DpcSpinLock_unlock_at_dpc"

text \<open>Trying is \<^verbatim>\<open>unimplemented!()\<close> for the three types: it panics.\<close>

definition spin_raw_INIT :: WduSpinLock where "spin_raw_INIT = spin_const_new"
definition stack_raw_INIT :: WduSpinLock where "stack_raw_INIT = spin_const_new"
definition dpc_raw_INIT :: WduSpinLock where "dpc_raw_INIT = spin_const_new"

definition spin_raw_try_lock :: "WduSpinLock \<Rightarrow> 'a kstate_scheme \<Rightarrow> (bool \<times> WduSpinLock \<times> 'a kstate_scheme) option" where
  "spin_raw_try_lock self s = None"

definition stack_raw_try_lock :: "WduSpinLock \<Rightarrow> 'a kstate_scheme \<Rightarrow> (bool \<times> WduSpinLock \<times> 'a kstate_scheme) option" where
  "stack_raw_try_lock self s = None"

definition dpc_raw_try_lock :: "WduSpinLock \<Rightarrow> 'a kstate_scheme \<Rightarrow> (bool \<times> WduSpinLock \<times> 'a kstate_scheme) option" where
  "dpc_raw_try_lock self s = None"

section \<open>The IRQL along a log\<close>

fun irql_step :: "u8 \<Rightarrow> kevent \<Rightarrow> u8" where
  "irql_step i (Lock (KeAcquireSpinLockRaiseToDpc p), r) = DISPATCH_LEVEL"
| "irql_step i (Lock (KeReleaseSpinLock p n), r) = n"
| "irql_step i (Lock (KeAcquireInStackQueuedSpinLock p q), r) = DISPATCH_LEVEL"
| "irql_step i (Lock (KeReleaseInStackQueuedSpinLock q), r) = lq_OldIrql q"
| "irql_step i (Lock (KeAcquireSpinLockForDpc p), r) = DISPATCH_LEVEL"
| "irql_step i (Lock (KeReleaseSpinLockForDpc p n), r) = n"
| "irql_step i (Io (IoReleaseCancelSpinLock n), r) = n"
| "irql_step i _ = i"

definition irql_after :: "u8 \<Rightarrow> kevent list \<Rightarrow> u8" where
  "irql_after i h = foldl irql_step i h"

text \<open>
  What the routines document: they report the IRQL at which they are called, the in-stack queued
  one in the queue handle. \<open>i0\<close> is the IRQL before the first call.
\<close>

definition reports_irql :: "u8 \<Rightarrow> kernel \<Rightarrow> bool" where
  "reports_irql i0 K \<longleftrightarrow>
     (\<forall>h. r_u8 (K h (Lock KeGetCurrentIrql)) = irql_after i0 h) \<and>
     (\<forall>h p. r_u8 (K h (Lock (KeAcquireSpinLockRaiseToDpc p))) = irql_after i0 h) \<and>
     (\<forall>h p. r_u8 (K h (Lock (KeAcquireSpinLockForDpc p))) = irql_after i0 h) \<and>
     (\<forall>h p q. lq_OldIrql (r_queue (K h (Lock (KeAcquireInStackQueuedSpinLock p q)))) = irql_after i0 h)"

lemma irql_after_append [simp]: "irql_after i (h @ g) = foldl irql_step (irql_after i h) g"
  by (simp add: irql_after_def)

lemma irql_after_Nil [simp]: "irql_after i [] = i"
  by (simp add: irql_after_def)

lemma reports_irqlD [simp]:
  assumes "reports_irql i0 K"
  shows "r_u8 (K h (Lock KeGetCurrentIrql)) = irql_after i0 h"
    "r_u8 (K h (Lock (KeAcquireSpinLockRaiseToDpc p))) = irql_after i0 h"
    "r_u8 (K h (Lock (KeAcquireSpinLockForDpc p))) = irql_after i0 h"
    "lq_OldIrql (r_queue (K h (Lock (KeAcquireInStackQueuedSpinLock p q)))) = irql_after i0 h"
  using assms by (simp_all add: reports_irql_def)

section \<open>The lock calls of a log\<close>

text \<open>
  The pair of operations a lock is used with, and what the kernel is told of it: which lock a call
  of the log acquires or releases, and with the routine of which pair. The release of an in-stack
  queued lock names no lock but the queue handle, which the acquisition has filled in with the
  address of the lock (\<open>names_lock\<close>).
\<close>

datatype lock_kind = Plain | InStack | ForDpc | AtDpc

datatype lock_call = Acquired lock_kind ptr | Released lock_kind ptr

fun lock_event :: "kevent \<Rightarrow> lock_call option" where
  "lock_event (Lock (KeAcquireSpinLockRaiseToDpc p), r) = Some (Acquired Plain p)"
| "lock_event (Lock (KeReleaseSpinLock p n), r) = Some (Released Plain p)"
| "lock_event (Lock (KeAcquireInStackQueuedSpinLock p q), r) = Some (Acquired InStack p)"
| "lock_event (Lock (KeReleaseInStackQueuedSpinLock q), r) = Some (Released InStack (lq_Lock q))"
| "lock_event (Lock (KeAcquireSpinLockForDpc p), r) = Some (Acquired ForDpc p)"
| "lock_event (Lock (KeReleaseSpinLockForDpc p n), r) = Some (Released ForDpc p)"
| "lock_event (Lock (KeAcquireSpinLockAtDpcLevel p), r) = Some (Acquired AtDpc p)"
| "lock_event (Lock (KeReleaseSpinLockFromDpcLevel p), r) = Some (Released AtDpc p)"
| "lock_event _ = None"

definition lock_calls :: "kevent list \<Rightarrow> lock_call list" where
  "lock_calls g = List.map_filter lock_event g"

definition names_lock :: "kernel \<Rightarrow> bool" where
  "names_lock K \<longleftrightarrow> (\<forall>h p q. lq_Lock (r_queue (K h (Lock (KeAcquireInStackQueuedSpinLock p q)))) = p)"

lemma lock_calls_append [simp]: "lock_calls (g @ g') = lock_calls g @ lock_calls g'"
  by (simp add: lock_calls_def map_filter_def)

lemma lock_calls_Nil [simp]: "lock_calls [] = []"
  by (simp add: lock_calls_def map_filter_def)

lemma lock_calls_one [simp]: "lock_calls [e] = (case lock_event e of None \<Rightarrow> [] | Some c \<Rightarrow> [c])"
  by (simp add: lock_calls_def map_filter_def split: option.split)

lemma assert_irql_holds:
  assumes "reports_irql i0 K" "P (irql_after i0 (klog s))"
  obtains g where "assert_irql K P s = Some (s\<lparr>klog := klog s @ g\<rparr>)" "\<forall>i. foldl irql_step i g = i"
    "lock_calls g = []"
proof (cases "debug_assertions s")
  case True
  let ?g = "[(Lock KeGetCurrentIrql, K (klog s) (Lock KeGetCurrentIrql))]"
  have "assert_irql K P s = Some (s\<lparr>klog := klog s @ ?g\<rparr>)"
    using assms True by (simp add: assert_irql_def current_irql_def sys_eq)
  then show ?thesis by (rule that) simp_all
next
  case False
  then show ?thesis
    using that [of "[]"] by (simp add: assert_irql_def)
qed

section \<open>The interface of an IRQL-raising lock\<close>

text \<open>
  The operations of one pair, \<open>kind\<close>. \<open>ready i l\<close>: lock \<open>l\<close> is free and may be acquired at IRQL \<open>i\<close>;
  \<open>held p i l\<close>: it is held as the lock at \<open>p\<close> and its release goes back to \<open>i\<close>; \<open>unheld l\<close>: it has no
  queue handle. An acquisition tells the kernel to acquire the lock at the address it is called
  with, and nothing else of any lock; a release tells it to release that lock.
\<close>

locale irql_lock =
  fixes kind :: lock_kind
    and acq rel :: "'a lock_op"
    and ready :: "u8 \<Rightarrow> WduSpinLock \<Rightarrow> bool"
    and held :: "ptr \<Rightarrow> u8 \<Rightarrow> WduSpinLock \<Rightarrow> bool"
    and unheld :: "WduSpinLock \<Rightarrow> bool"
  assumes acq_ok: "reports_irql i0 K \<Longrightarrow> names_lock K \<Longrightarrow> ready (irql_after i0 (klog s)) l \<Longrightarrow>
      \<exists>l' g. acq K at l s = Some (l', s\<lparr>klog := klog s @ g\<rparr>) \<and> held at (irql_after i0 (klog s)) l' \<and>
        foldl irql_step (irql_after i0 (klog s)) g = DISPATCH_LEVEL \<and> lock_calls g = [Acquired kind at]"
    and rel_ok: "reports_irql i0 K \<Longrightarrow> held at i l \<Longrightarrow> irql_after i0 (klog s) = DISPATCH_LEVEL \<Longrightarrow>
      \<exists>l' g. rel K at l s = Some (l', s\<lparr>klog := klog s @ g\<rparr>) \<and> unheld l' \<and>
        foldl irql_step DISPATCH_LEVEL g = i \<and> lock_calls g = [Released kind at]"
begin

text \<open>A critical section around a body that leaves the IRQL and the lock alone.\<close>

lemma critical_section:
  assumes law: "reports_irql i0 K" "names_lock K" and "ready (irql_after i0 (klog s)) l"
    and body: "\<And>l s'. held at (irql_after i0 (klog s)) l \<Longrightarrow> irql_after i0 (klog s') = DISPATCH_LEVEL \<Longrightarrow>
      \<exists>t g. body l s' = Some t \<and> klog t = klog s' @ g \<and> lock_calls g = cs \<and>
        irql_after i0 (klog t) = DISPATCH_LEVEL"
  shows "\<exists>l' t g. (acq K at l s \<bind> (\<lambda>(l, s). body l s \<bind> rel K at l)) = Some (l', t) \<and>
    unheld l' \<and> irql_after i0 (klog t) = irql_after i0 (klog s) \<and>
    klog t = klog s @ g \<and> lock_calls g = Acquired kind at # cs @ [Released kind at]"
proof -
  obtain l1 g where a: "acq K at l s = Some (l1, s\<lparr>klog := klog s @ g\<rparr>)"
    "held at (irql_after i0 (klog s)) l1" "irql_after i0 (klog (s\<lparr>klog := klog s @ g\<rparr>)) = DISPATCH_LEVEL"
    "lock_calls g = [Acquired kind at]"
    using acq_ok [OF law assms(3), of at] by auto
  obtain t g1 where b: "body l1 (s\<lparr>klog := klog s @ g\<rparr>) = Some t" "klog t = (klog s @ g) @ g1"
    "lock_calls g1 = cs" "irql_after i0 (klog t) = DISPATCH_LEVEL"
    using body [OF a(2,3)] by auto
  obtain l2 g' where c: "rel K at l1 t = Some (l2, t\<lparr>klog := klog t @ g'\<rparr>)" "unheld l2"
    "foldl irql_step DISPATCH_LEVEL g' = irql_after i0 (klog s)" "lock_calls g' = [Released kind at]"
    using rel_ok [OF law(1) a(2) b(4)] by blast
  have "irql_after i0 (klog t @ g') = irql_after i0 (klog s)"
    using b(4) c(3) by simp
  moreover have "klog t @ g' = klog s @ (g @ g1 @ g')"
    using b(2) by simp
  moreover have "lock_calls (g @ g1 @ g') = Acquired kind at # cs @ [Released kind at]"
    using a(4) b(3) c(4) by simp
  moreover have "(acq K at l s \<bind> (\<lambda>(l, s). body l s \<bind> rel K at l)) = Some (l2, t\<lparr>klog := klog t @ g'\<rparr>)"
    using a(1) b(1) c(1) by simp
  ultimately show ?thesis
    using c(2) by (intro exI [of _ l2] exI [of _ "t\<lparr>klog := klog t @ g'\<rparr>"] exI [of _ "g @ g1 @ g'"]) simp
qed

end

definition spin_unheld :: "WduSpinLock \<Rightarrow> bool" where
  "spin_unheld l \<longleftrightarrow> sp_lockhandle l = None"

definition spin_ready :: "u8 \<Rightarrow> WduSpinLock \<Rightarrow> bool" where
  "spin_ready i l \<longleftrightarrow> i \<le> DISPATCH_LEVEL \<and> spin_unheld l"

definition spin_held :: "ptr \<Rightarrow> u8 \<Rightarrow> WduSpinLock \<Rightarrow> bool" where
  "spin_held p i l \<longleftrightarrow> sp_old_irql l = i \<and> spin_unheld l"

definition dpc_ready :: "u8 \<Rightarrow> WduSpinLock \<Rightarrow> bool" where
  "dpc_ready i l \<longleftrightarrow> i = DISPATCH_LEVEL \<and> spin_unheld l"

definition dpc_held :: "ptr \<Rightarrow> u8 \<Rightarrow> WduSpinLock \<Rightarrow> bool" where
  "dpc_held p i l \<longleftrightarrow> dpc_ready i l"

definition stack_held :: "ptr \<Rightarrow> u8 \<Rightarrow> WduSpinLock \<Rightarrow> bool" where
  "stack_held p i l \<longleftrightarrow> (\<exists>q. sp_lockhandle l = Some q \<and> lq_Lock q = p \<and> lq_OldIrql q = i)"

lemmas spin_states =
  spin_unheld_def spin_ready_def spin_held_def dpc_ready_def dpc_held_def stack_held_def

lemma assert_le_dispatch:
  assumes "reports_irql i0 K" "irql_after i0 (klog s) \<le> DISPATCH_LEVEL"
  obtains g where "assert_irql K (\<lambda>irql. irql \<le> DISPATCH_LEVEL) s = Some (s\<lparr>klog := klog s @ g\<rparr>)"
    "\<forall>i. foldl irql_step i g = i" "lock_calls g = []"
  using assert_irql_holds [of i0 K "\<lambda>irql. irql \<le> DISPATCH_LEVEL" s] assms by blast

lemma assert_dispatch:
  assumes "reports_irql i0 K" "irql_after i0 (klog s) = DISPATCH_LEVEL"
  obtains g where "assert_irql K (\<lambda>irql. irql = DISPATCH_LEVEL) s = Some (s\<lparr>klog := klog s @ g\<rparr>)"
    "\<forall>i. foldl irql_step i g = i" "lock_calls g = []"
  using assert_irql_holds [of i0 K "\<lambda>irql. irql = DISPATCH_LEVEL" s] assms by blast

lemma assert_ge_dispatch:
  assumes "reports_irql i0 K" "irql_after i0 (klog s) = DISPATCH_LEVEL"
  obtains g where "assert_irql K (\<lambda>irql. DISPATCH_LEVEL \<le> irql) s = Some (s\<lparr>klog := klog s @ g\<rparr>)"
    "\<forall>i. foldl irql_step i g = i" "lock_calls g = []"
  using assert_irql_holds [of i0 K "\<lambda>irql. DISPATCH_LEVEL \<le> irql" s] assms by auto

interpretation plain_lock: irql_lock Plain spin_raw_lock spin_raw_unlock spin_ready spin_held spin_unheld
proof (unfold_locales, goal_cases)
  case (1 i0 K s l at)
  then obtain g where "assert_irql K (\<lambda>irql. irql \<le> DISPATCH_LEVEL) s = Some (s\<lparr>klog := klog s @ g\<rparr>)"
    "\<forall>i. foldl irql_step i g = i" "lock_calls g = []"
    by (auto simp: spin_states elim: assert_le_dispatch)
  with 1 show ?case
    by (auto simp: wdu_defs spin_acquire_def sys_eq spin_states)
next
  case (2 i0 K at i l s)
  then obtain g where "assert_irql K (\<lambda>irql. irql = DISPATCH_LEVEL) s = Some (s\<lparr>klog := klog s @ g\<rparr>)"
    "lock_calls g = []"
    by (blast elim: assert_dispatch)
  with 2 show ?case
    by (auto simp: wdu_defs spin_release_def sys_eq spin_states)
qed

interpretation threaded_dpc_lock: irql_lock ForDpc spin_acquire_for_dpc spin_release_for_dpc
  spin_ready spin_held spin_unheld
proof (unfold_locales, goal_cases)
  case (1 i0 K s l at)
  then obtain g where "assert_irql K (\<lambda>irql. irql \<le> DISPATCH_LEVEL) s = Some (s\<lparr>klog := klog s @ g\<rparr>)"
    "\<forall>i. foldl irql_step i g = i" "lock_calls g = []"
    by (auto simp: spin_states elim: assert_le_dispatch)
  with 1 show ?case
    by (auto simp: spin_acquire_for_dpc_def sys_eq spin_states)
next
  case (2 i0 K at i l s)
  then obtain g where "assert_irql K (\<lambda>irql. irql = DISPATCH_LEVEL) s = Some (s\<lparr>klog := klog s @ g\<rparr>)"
    "lock_calls g = []"
    by (blast elim: assert_dispatch)
  with 2 show ?case
    by (auto simp: spin_release_for_dpc_def sys_eq spin_states)
qed

interpretation stack_lock: irql_lock InStack stack_raw_lock stack_raw_unlock spin_ready stack_held spin_unheld
proof (unfold_locales, goal_cases)
  case (1 i0 K s l at)
  then obtain g where "assert_irql K (\<lambda>irql. irql \<le> DISPATCH_LEVEL) s = Some (s\<lparr>klog := klog s @ g\<rparr>)"
    "\<forall>i. foldl irql_step i g = i" "lock_calls g = []"
    by (auto simp: spin_states elim: assert_le_dispatch)
  with 1 show ?case
    by (auto simp: wdu_defs spin_acquire_in_stack_def spin_in_stack_prepare_def sys_eq spin_states names_lock_def)
next
  case (2 i0 K at i l s)
  then obtain q where q: "sp_lockhandle l = Some q" "lq_Lock q = at" "lq_OldIrql q = i"
    by (auto simp: spin_states)
  let ?g = "[(Lock (KeReleaseInStackQueuedSpinLock q), K (klog s) (Lock (KeReleaseInStackQueuedSpinLock q)))]"
  show ?case
    using q by (auto simp: wdu_defs spin_release_in_stack_def sys_eq spin_states intro!: exI [of _ ?g])
qed

interpretation dpc_lock: irql_lock AtDpc dpc_raw_lock dpc_raw_unlock dpc_ready dpc_held spin_unheld
proof (unfold_locales, goal_cases)
  case (1 i0 K s l at)
  then obtain g where "assert_irql K (\<lambda>irql. DISPATCH_LEVEL \<le> irql) s = Some (s\<lparr>klog := klog s @ g\<rparr>)"
    "\<forall>i. foldl irql_step i g = i" "lock_calls g = []"
    by (auto simp: spin_states elim: assert_ge_dispatch)
  with 1 show ?case
    by (auto simp: wdu_defs spin_acquire_at_dpc_def sys_eq spin_states)
next
  case (2 i0 K at i l s)
  obtain g where "assert_irql K (\<lambda>irql. DISPATCH_LEVEL \<le> irql) s = Some (s\<lparr>klog := klog s @ g\<rparr>)"
    "\<forall>i. foldl irql_step i g = i" "lock_calls g = []"
    using assert_ge_dispatch [OF 2(1,3)] by blast
  with 2(2) show ?case
    by (auto simp: wdu_defs spin_release_from_dpc_def sys_eq spin_states)
qed

section \<open>Nested critical sections\<close>

text \<open>
  A client's use of a family of spin locks (by address): a tree of critical sections, each with
  the pair of operations it uses. \<open>nested i held prog\<close>: no section acquires a lock that is held
  around it (which would deadlock), and a section that uses the operations at DPC level starts
  at that level.
\<close>

datatype critical = Section lock_kind ptr "critical list"

fun kind_acquire :: "lock_kind \<Rightarrow> 'a lock_op" where
  "kind_acquire Plain = spin_raw_lock"
| "kind_acquire InStack = stack_raw_lock"
| "kind_acquire ForDpc = spin_acquire_for_dpc"
| "kind_acquire AtDpc = dpc_raw_lock"

fun kind_release :: "lock_kind \<Rightarrow> 'a lock_op" where
  "kind_release Plain = spin_raw_unlock"
| "kind_release InStack = stack_raw_unlock"
| "kind_release ForDpc = spin_release_for_dpc"
| "kind_release AtDpc = dpc_raw_unlock"

fun kind_held :: "lock_kind \<Rightarrow> ptr \<Rightarrow> u8 \<Rightarrow> WduSpinLock \<Rightarrow> bool" where
  "kind_held InStack = stack_held"
| "kind_held AtDpc = dpc_held"
| "kind_held _ = spin_held"

fun run_critical :: "kernel \<Rightarrow> critical \<Rightarrow> (ptr \<Rightarrow> WduSpinLock) \<Rightarrow> 'a kstate_scheme
    \<Rightarrow> ((ptr \<Rightarrow> WduSpinLock) \<times> 'a kstate_scheme) option"
  and run_criticals :: "kernel \<Rightarrow> critical list \<Rightarrow> (ptr \<Rightarrow> WduSpinLock) \<Rightarrow> 'a kstate_scheme
    \<Rightarrow> ((ptr \<Rightarrow> WduSpinLock) \<times> 'a kstate_scheme) option" where
  "run_critical K (Section k p body) L s = do {
     (l, s) \<leftarrow> kind_acquire k K p (L p) s;
     (L, s) \<leftarrow> run_criticals K body (L(p := l)) s;
     (l, s) \<leftarrow> kind_release k K p (L p) s;
     Some (L(p := l), s)
   }"
| "run_criticals K [] L s = Some (L, s)"
| "run_criticals K (c # cs) L s = do {
     (L, s) \<leftarrow> run_critical K c L s;
     run_criticals K cs L s
   }"

fun nested :: "u8 \<Rightarrow> ptr set \<Rightarrow> critical \<Rightarrow> bool" where
  "nested i H (Section k p body) \<longleftrightarrow>
     p \<notin> H \<and> (k = AtDpc \<longrightarrow> i = DISPATCH_LEVEL) \<and>
     list_all (nested DISPATCH_LEVEL (insert p H)) body"

text \<open>
  The calls a tree of sections should make: each lock is acquired, the sections inside run, and the
  same lock is released by the other routine of its pair. \<open>lock_step\<close> follows the locks that are held
  along a list of calls, as a stack: only the lock acquired last can be released.
\<close>

fun section_calls :: "critical \<Rightarrow> lock_call list" where
  "section_calls (Section k p body) = Acquired k p # concat (map section_calls body) @ [Released k p]"

fun lock_step :: "(lock_kind \<times> ptr) list \<Rightarrow> lock_call \<Rightarrow> (lock_kind \<times> ptr) list" where
  "lock_step H (Acquired k p) = (k, p) # H"
| "lock_step (h # H) (Released k p) = (if h = (k, p) then H else h # H)"
| "lock_step [] (Released k p) = []"

lemma section_calls_balanced: "foldl lock_step H (section_calls c) = H"
proof (induction c arbitrary: H)
  case (Section k p body)
  then have "foldl lock_step H' (concat (map section_calls cs)) = H'" if "set cs \<subseteq> set body" for cs H'
    using that by (induction cs) auto
  then show ?case by simp
qed

lemma sections_calls_balanced: "foldl lock_step H (concat (map section_calls cs)) = H"
  by (induction cs) (simp_all add: section_calls_balanced)

lemma kind_acquire_ok:
  assumes "reports_irql i0 K" "names_lock K" "irql_after i0 (klog s) \<le> DISPATCH_LEVEL" "spin_unheld l"
    and "k = AtDpc \<longrightarrow> irql_after i0 (klog s) = DISPATCH_LEVEL"
  shows "\<exists>l' g. kind_acquire k K p l s = Some (l', s\<lparr>klog := klog s @ g\<rparr>) \<and>
    kind_held k p (irql_after i0 (klog s)) l' \<and>
    foldl irql_step (irql_after i0 (klog s)) g = DISPATCH_LEVEL \<and> lock_calls g = [Acquired k p]"
  using assms
    plain_lock.acq_ok [OF assms(1,2), of s l p] stack_lock.acq_ok [OF assms(1,2), of s l p]
    threaded_dpc_lock.acq_ok [OF assms(1,2), of s l p] dpc_lock.acq_ok [OF assms(1,2), of s l p]
  by (cases k) (simp_all add: spin_ready_def dpc_ready_def)

lemma kind_release_ok:
  assumes "reports_irql i0 K" "kind_held k p i l" "irql_after i0 (klog s) = DISPATCH_LEVEL"
  shows "\<exists>l' g. kind_release k K p l s = Some (l', s\<lparr>klog := klog s @ g\<rparr>) \<and> spin_unheld l' \<and>
    foldl irql_step DISPATCH_LEVEL g = i \<and> lock_calls g = [Released k p]"
  using assms
    plain_lock.rel_ok [OF assms(1), of p i l s] stack_lock.rel_ok [OF assms(1), of p i l s]
    threaded_dpc_lock.rel_ok [OF assms(1), of p i l s] dpc_lock.rel_ok [OF assms(1), of p i l s]
  by (cases k) simp_all

text \<open>
  What running sections keeps: the locks held around them, the IRQL, and that no other lock has a
  queue handle; and the calls they make.
\<close>

definition locks_kept :: "ptr set \<Rightarrow> (ptr \<Rightarrow> WduSpinLock) \<Rightarrow> (ptr \<Rightarrow> WduSpinLock) \<Rightarrow> bool" where
  "locks_kept H L L' \<longleftrightarrow> (\<forall>p\<in>H. L' p = L p) \<and> (\<forall>p. p \<notin> H \<longrightarrow> spin_unheld (L' p))"

definition ran :: "u8 \<Rightarrow> lock_call list \<Rightarrow> 'a kstate_scheme \<Rightarrow> 'a kstate_scheme \<Rightarrow> bool" where
  "ran i0 cs s t \<longleftrightarrow> irql_after i0 (klog t) = irql_after i0 (klog s) \<and>
     (\<exists>g. klog t = klog s @ g \<and> lock_calls g = cs)"

lemma ran_refl: "ran i0 [] s s"
  by (auto simp: ran_def intro!: exI [of _ "[]"])

lemma ran_trans: "ran i0 cs s t \<Longrightarrow> ran i0 ds t u \<Longrightarrow> ran i0 (cs @ ds) s u"
  unfolding ran_def by (metis append_assoc lock_calls_append)

lemma run_critical_ok:
  "reports_irql i0 K \<Longrightarrow> names_lock K \<Longrightarrow> nested (irql_after i0 (klog s)) H c \<Longrightarrow>
     irql_after i0 (klog s) \<le> DISPATCH_LEVEL \<Longrightarrow> (\<forall>p. p \<notin> H \<longrightarrow> spin_unheld (L p)) \<Longrightarrow>
     \<exists>L' t. run_critical K c L s = Some (L', t) \<and> locks_kept H L L' \<and> ran i0 (section_calls c) s t"
  and run_criticals_ok:
  "reports_irql i0 K \<Longrightarrow> names_lock K \<Longrightarrow> list_all (nested (irql_after i0 (klog s)) H) cs \<Longrightarrow>
     irql_after i0 (klog s) \<le> DISPATCH_LEVEL \<Longrightarrow> (\<forall>p. p \<notin> H \<longrightarrow> spin_unheld (L p)) \<Longrightarrow>
     \<exists>L' t. run_criticals K cs L s = Some (L', t) \<and> locks_kept H L L' \<and>
       ran i0 (concat (map section_calls cs)) s t"
proof (induction K c L s and K cs L s arbitrary: H and H rule: run_critical_run_criticals.induct)
  case (1 K k p body L s)
  obtain l g where a: "kind_acquire k K p (L p) s = Some (l, s\<lparr>klog := klog s @ g\<rparr>)"
    "kind_held k p (irql_after i0 (klog s)) l" "foldl irql_step (irql_after i0 (klog s)) g = DISPATCH_LEVEL"
    "lock_calls g = [Acquired k p]"
    using kind_acquire_ok [OF "1.prems"(1,2,4), of "L p" k p] "1.prems"(3,5) by auto
  obtain L' t where b: "run_criticals K body (L(p := l)) (s\<lparr>klog := klog s @ g\<rparr>) = Some (L', t)"
    "locks_kept (insert p H) (L(p := l)) L'"
    "ran i0 (concat (map section_calls body)) (s\<lparr>klog := klog s @ g\<rparr>) t"
    using "1.IH" [OF a(1) refl, of "insert p H"] "1.prems" a(3) by (auto simp: fun_upd_def)
  then have "kind_held k p (irql_after i0 (klog s)) (L' p)" and i: "irql_after i0 (klog t) = DISPATCH_LEVEL"
    using a(2,3) by (simp_all add: locks_kept_def ran_def)
  then obtain l' g' where c: "kind_release k K p (L' p) t = Some (l', t\<lparr>klog := klog t @ g'\<rparr>)"
    "spin_unheld l'" "foldl irql_step DISPATCH_LEVEL g' = irql_after i0 (klog s)"
    "lock_calls g' = [Released k p]"
    using kind_release_ok [OF "1.prems"(1) _ i, of k p _ "L' p"] by blast
  have "ran i0 (section_calls (Section k p body)) s (t\<lparr>klog := klog t @ g'\<rparr>)"
    using a(4) b(3) c(3,4) i by (auto simp: ran_def)
  moreover have "run_critical K (Section k p body) L s = Some (L'(p := l'), t\<lparr>klog := klog t @ g'\<rparr>)"
    using a(1) b(1) c(1) by simp
  ultimately show ?case
    using b(2) c(2) "1.prems"(3) by (auto simp: locks_kept_def)
next
  case (2 K L s)
  then show ?case by (simp add: locks_kept_def ran_refl)
next
  case (3 K c cs L s)
  obtain L1 t where a: "run_critical K c L s = Some (L1, t)" "locks_kept H L L1" "ran i0 (section_calls c) s t"
    using "3.IH"(1) [of H] "3.prems" by auto
  then have i: "irql_after i0 (klog t) = irql_after i0 (klog s)"
    by (simp add: ran_def)
  obtain L2 u where "run_criticals K cs L1 t = Some (L2, u)" "locks_kept H L1 L2"
    "ran i0 (concat (map section_calls cs)) t u"
    using "3.IH"(2) [OF a(1) refl, of H] "3.prems" a(2) i by (auto simp: locks_kept_def)
  with a show ?case by (auto simp: locks_kept_def intro: ran_trans)
qed

text \<open>
  C9. A client that nests its critical sections properly, with any mix of the four pairs of
  operations, never trips a debug assertion of the spin locks and is back at the IRQL where it
  started, at passive level or any level up to dispatch. The calls it makes on locks are exactly
  those of its sections: each section acquires its own lock with the acquire routine of its pair and
  releases that lock with the release routine of the same pair after the sections inside it, so
  that no lock is left held, and no queue handle is left in a lock.
\<close>

theorem nested_sections_restore_irql:
  assumes "reports_irql i0 K" "names_lock K" "irql_after i0 (klog s) \<le> DISPATCH_LEVEL"
    and "list_all (nested (irql_after i0 (klog s)) {}) cs" "\<forall>p. sp_lockhandle (L p) = None"
  shows "\<exists>L' t g. run_criticals K cs L s = Some (L', t) \<and> klog t = klog s @ g \<and>
    irql_after i0 (klog t) = irql_after i0 (klog s) \<and>
    lock_calls g = concat (map section_calls cs) \<and> foldl lock_step [] (lock_calls g) = [] \<and>
    (\<forall>p. sp_lockhandle (L' p) = None)"
proof -
  obtain L' t where "run_criticals K cs L s = Some (L', t)" "locks_kept {} L L'"
    "ran i0 (concat (map section_calls cs)) s t"
    using run_criticals_ok [OF assms(1,2,4,3), of L] assms(5) by (auto simp: spin_unheld_def)
  then show ?thesis
    by (auto simp: ran_def locks_kept_def spin_unheld_def sections_calls_balanced)
qed

text \<open>A kernel that keeps both laws.\<close>

definition irql_kernel :: kernel where
  "irql_kernel h c = reply0\<lparr>r_u8 := irql_after 0 h,
     r_queue := \<lparr>lq_Next = 0,
       lq_Lock = (case c of Lock (KeAcquireInStackQueuedSpinLock p q) \<Rightarrow> p | _ \<Rightarrow> 0),
       lq_OldIrql = irql_after 0 h\<rparr>\<rparr>"

lemma irql_kernel_reports: "reports_irql 0 irql_kernel"
  by (simp add: reports_irql_def irql_kernel_def)

lemma irql_kernel_names: "names_lock irql_kernel"
  by (simp add: names_lock_def irql_kernel_def)

theorem nested_sections_restore_irql_witness:
  "\<exists>L' t. run_criticals irql_kernel
       [Section Plain 0x10 [Section AtDpc 0x20 [], Section InStack 0x30 [Section ForDpc 0x20 []]]]
       (\<lambda>_. spin_new) kst0 = Some (L', t) \<and>
     irql_after 0 (klog t) = 0 \<and>
     lock_calls (klog t) = [Acquired Plain 0x10, Acquired AtDpc 0x20, Released AtDpc 0x20,
       Acquired InStack 0x30, Acquired ForDpc 0x20, Released ForDpc 0x20, Released InStack 0x30,
       Released Plain 0x10] \<and> (\<forall>p. sp_lockhandle (L' p) = None)"
  using nested_sections_restore_irql [OF irql_kernel_reports irql_kernel_names, of kst0
      "[Section Plain 0x10 [Section AtDpc 0x20 [], Section InStack 0x30 [Section ForDpc 0x20 []]]]"
      "\<lambda>_. spin_new"]
  by (auto simp: spin_new_def)

text \<open>
  The queue handle of an in-stack acquisition is stored before the lock is owned: in a build
  without debug assertions, once a second caller has begun to acquire a lock that is held, the
  holder's release no longer passes the handle the lock was acquired with but a zeroed one.
\<close>

lemma in_stack_handle_clobbered:
  assumes "\<not> debug_assertions s" "sp_lockhandle l = Some q"
  shows "\<exists>l' t. spin_in_stack_prepare K l s = Some (l', t) \<and>
    (\<exists>l'' u. spin_release_in_stack K at l' t = Some (l'', u) \<and>
      fst (last (klog u)) = Lock (KeReleaseInStackQueuedSpinLock lock_handle_default))"
  using assms
  by (simp add: spin_in_stack_prepare_def spin_release_in_stack_def assert_irql_def sys_eq)

end
