(* ===== verification/Wdu_Locks.thy ===== *)
theory Wdu_Locks
  imports Wdu_Core
begin

text \<open>
  \<^verbatim>\<open>src/sync/mod.rs\<close>, \<^verbatim>\<open>mutex.rs\<close>, \<^verbatim>\<open>pushlock.rs\<close>, \<^verbatim>\<open>eresource.rs\<close>, \<^verbatim>\<open>remove_lock.rs\<close> and
  \<^verbatim>\<open>rundown_protection.rs\<close>. An object whose content belongs to the kernel is represented by its
  address, the fields the crate itself keeps by a record beside it.

  The \<^verbatim>\<open>lock_api\<close> adapters of these modules compute \<^verbatim>\<open>&self as *const _ as *mut Self\<close>. In a method
  with receiver \<^verbatim>\<open>&self\<close> that is the address of the local variable which holds the reference, not
  the address of the object: the adapters take both, the object and the frame slot of the
  reference.
\<close>

section \<open>src/sync/mod.rs\<close>

definition enter_critical_region :: "kernel \<Rightarrow> 'a kstate_scheme \<Rightarrow> 'a kstate_scheme" where
  "enter_critical_region K s = sysv K (Rw KeEnterCriticalRegion) s"

definition leave_critical_region :: "kernel \<Rightarrow> 'a kstate_scheme \<Rightarrow> 'a kstate_scheme" where
  "leave_critical_region K s = sysv K (Rw KeLeaveCriticalRegion) s"

definition wait_single_object ::
  "kernel \<Rightarrow> ptr \<Rightarrow> i32 \<Rightarrow> ProcessorMode \<Rightarrow> bool \<Rightarrow> i64 \<Rightarrow> 'a kstate_scheme \<Rightarrow> ntstatus \<times> 'a kstate_scheme" where
  "wait_single_object K object wait_reason mode alertable timeout s =
     (let (r, s) = sys K (Obj (KeWaitForSingleObject object wait_reason (processor_mode_into mode)
            (u8_of_bool alertable) timeout)) s
      in (r_status r, s))"

definition wait_multiple_objects :: "'a kstate_scheme \<Rightarrow> 'a kstate_scheme option" where
  "wait_multiple_objects s = None"

text \<open>\<^verbatim>\<open>&self as *const _ as *mut Self\<close>: \<open>self\<close> is the object, \<open>slot\<close> the variable that refers to it.\<close>

definition self_cast :: "ptr \<Rightarrow> ptr \<Rightarrow> ptr" where
  "self_cast self slot = slot"

section \<open>src/sync/mutex.rs\<close>

type_synonym WduMutant = ptr
type_synonym WduGuardedMutex = ptr

definition mutant_init :: "kernel \<Rightarrow> WduMutant \<Rightarrow> 'a kstate_scheme \<Rightarrow> 'a kstate_scheme" where
  "mutant_init K self s = sysv K (Lock (KeInitializeMutex self 0)) s"

definition mutant_release :: "kernel \<Rightarrow> WduMutant \<Rightarrow> bool \<Rightarrow> 'a kstate_scheme \<Rightarrow> 'a kstate_scheme" where
  "mutant_release K self wait s = sysv K (Lock (KeReleaseMutex self (u8_of_bool wait))) s"

definition mutant_read_state :: "kernel \<Rightarrow> WduMutant \<Rightarrow> 'a kstate_scheme \<Rightarrow> i32 \<times> 'a kstate_scheme" where
  "mutant_read_state K self s =
     (let (r, s) = sys K (Lock (KeReadStateMutex self)) s in (r_status r, s))"

text \<open>Of the \<^verbatim>\<open>FAST_MUTEX\<close> the crate writes the count and passes the address of the event, 24 bytes in.\<close>

record WduFastMutex =
  fm_Count :: i32

definition FM_LOCK_BIT :: u32 where [nt_consts]: "FM_LOCK_BIT = 1"
definition FAST_MUTEX_Event :: ptr where "FAST_MUTEX_Event = 24"
definition SynchronizationEvent_type :: i32 where [nt_consts]: "SynchronizationEvent_type = 1"

definition fast_new :: WduFastMutex where
  "fast_new = \<lparr>fm_Count = 0\<rparr>"

definition fast_init :: "kernel \<Rightarrow> ptr \<Rightarrow> WduFastMutex \<Rightarrow> 'a kstate_scheme \<Rightarrow> WduFastMutex \<times> 'a kstate_scheme" where
  "fast_init K at self s =
     (self\<lparr>fm_Count := FM_LOCK_BIT\<rparr>,
      sysv K (Obj (KeInitializeEvent (at + FAST_MUTEX_Event) SynchronizationEvent_type (u8_of_bool False))) s)"

definition fast_acquire :: "kernel \<Rightarrow> ptr \<Rightarrow> 'a kstate_scheme \<Rightarrow> 'a kstate_scheme" where
  "fast_acquire K at s = sysv K (Lock (ExAcquireFastMutex at)) s"

definition fast_acquire_unsafe :: "kernel \<Rightarrow> ptr \<Rightarrow> 'a kstate_scheme \<Rightarrow> 'a kstate_scheme" where
  "fast_acquire_unsafe K at s = sysv K (Lock (ExAcquireFastMutexUnsafe at)) s"

definition fast_try_acquire :: "kernel \<Rightarrow> ptr \<Rightarrow> 'a kstate_scheme \<Rightarrow> bool \<times> 'a kstate_scheme" where
  "fast_try_acquire K at s =
     (let (r, s) = sys K (Lock (ExTryToAcquireFastMutex at)) s in (r_u8 r = u8_of_bool True, s))"

definition fast_release :: "kernel \<Rightarrow> ptr \<Rightarrow> 'a kstate_scheme \<Rightarrow> 'a kstate_scheme" where
  "fast_release K at s = sysv K (Lock (ExReleaseFastMutex at)) s"

definition fast_release_unsafe :: "kernel \<Rightarrow> ptr \<Rightarrow> 'a kstate_scheme \<Rightarrow> 'a kstate_scheme" where
  "fast_release_unsafe K at s = sysv K (Lock (ExReleaseFastMutexUnsafe at)) s"

definition guarded_init :: "kernel \<Rightarrow> WduGuardedMutex \<Rightarrow> 'a kstate_scheme \<Rightarrow> 'a kstate_scheme" where
  "guarded_init K self s = sysv K (Lock (KeInitializeGuardedMutex self)) s"

definition guarded_acquire :: "kernel \<Rightarrow> WduGuardedMutex \<Rightarrow> 'a kstate_scheme \<Rightarrow> 'a kstate_scheme" where
  "guarded_acquire K self s = sysv K (Lock (KeAcquireGuardedMutex self)) s"

definition guarded_acquire_unsafe :: "kernel \<Rightarrow> WduGuardedMutex \<Rightarrow> 'a kstate_scheme \<Rightarrow> 'a kstate_scheme" where
  "guarded_acquire_unsafe K self s = sysv K (Lock (KeAcquireGuardedMutexUnsafe self)) s"

definition guarded_try_acquire :: "kernel \<Rightarrow> WduGuardedMutex \<Rightarrow> 'a kstate_scheme \<Rightarrow> bool \<times> 'a kstate_scheme" where
  "guarded_try_acquire K self s =
     (let (r, s) = sys K (Lock (KeTryToAcquireGuardedMutex self)) s in (r_u8 r = u8_of_bool True, s))"

definition guarded_release :: "kernel \<Rightarrow> WduGuardedMutex \<Rightarrow> 'a kstate_scheme \<Rightarrow> 'a kstate_scheme" where
  "guarded_release K self s = sysv K (Lock (KeReleaseGuardedMutex self)) s"

definition guarded_release_unsafe :: "kernel \<Rightarrow> WduGuardedMutex \<Rightarrow> 'a kstate_scheme \<Rightarrow> 'a kstate_scheme" where
  "guarded_release_unsafe K self s = sysv K (Lock (KeReleaseGuardedMutexUnsafe self)) s"

subsection \<open>The \<^verbatim>\<open>lock_api\<close> adapters\<close>

text \<open>\<open>init_lock\<close> writes the count over the frame slot; the mutex itself does not change.\<close>

definition fast_init_lock ::
  "kernel \<Rightarrow> ptr \<Rightarrow> ptr \<Rightarrow> WduFastMutex \<Rightarrow> 'a kstate_scheme \<Rightarrow> WduFastMutex \<times> 'a kstate_scheme" where
  "fast_init_lock K self slot obj s =
     (if self_cast self slot = self then fast_init K self obj s
      else (obj, snd (fast_init K (self_cast self slot) fast_new s)))"

definition fast_lock :: "kernel \<Rightarrow> ptr \<Rightarrow> ptr \<Rightarrow> 'a kstate_scheme \<Rightarrow> 'a kstate_scheme" where
  "fast_lock K self slot s = fast_acquire K (self_cast self slot) s"

definition fast_try_lock :: "kernel \<Rightarrow> ptr \<Rightarrow> ptr \<Rightarrow> 'a kstate_scheme \<Rightarrow> bool \<times> 'a kstate_scheme" where
  "fast_try_lock K self slot s = fast_try_acquire K (self_cast self slot) s"

definition fast_unlock :: "kernel \<Rightarrow> ptr \<Rightarrow> ptr \<Rightarrow> 'a kstate_scheme \<Rightarrow> 'a kstate_scheme" where
  "fast_unlock K self slot s = fast_release K (self_cast self slot) s"

definition guarded_init_lock :: "kernel \<Rightarrow> ptr \<Rightarrow> ptr \<Rightarrow> 'a kstate_scheme \<Rightarrow> 'a kstate_scheme" where
  "guarded_init_lock K self slot s = guarded_init K (self_cast self slot) s"

definition guarded_lock :: "kernel \<Rightarrow> ptr \<Rightarrow> ptr \<Rightarrow> 'a kstate_scheme \<Rightarrow> 'a kstate_scheme" where
  "guarded_lock K self slot s = guarded_acquire K (self_cast self slot) s"

definition guarded_try_lock :: "kernel \<Rightarrow> ptr \<Rightarrow> ptr \<Rightarrow> 'a kstate_scheme \<Rightarrow> bool \<times> 'a kstate_scheme" where
  "guarded_try_lock K self slot s = guarded_try_acquire K (self_cast self slot) s"

definition guarded_unlock :: "kernel \<Rightarrow> ptr \<Rightarrow> ptr \<Rightarrow> 'a kstate_scheme \<Rightarrow> 'a kstate_scheme" where
  "guarded_unlock K self slot s = guarded_release K (self_cast self slot) s"

text \<open>\<^verbatim>\<open>RawMutex\<close>: the methods of the trait call the adapters above, which come first in method lookup.\<close>

definition fast_const_new :: WduFastMutex where
  "fast_const_new = \<lparr>fm_Count = 0\<rparr>"

definition fast_raw_INIT :: WduFastMutex where
  "fast_raw_INIT = fast_const_new"

definition fast_raw_lock :: "kernel \<Rightarrow> ptr \<Rightarrow> ptr \<Rightarrow> 'a kstate_scheme \<Rightarrow> 'a kstate_scheme" where
  "fast_raw_lock K self slot s = fast_lock K self slot s"

definition fast_raw_try_lock :: "kernel \<Rightarrow> ptr \<Rightarrow> ptr \<Rightarrow> 'a kstate_scheme \<Rightarrow> bool \<times> 'a kstate_scheme" where
  "fast_raw_try_lock K self slot s = fast_try_lock K self slot s"

definition fast_raw_unlock :: "kernel \<Rightarrow> ptr \<Rightarrow> ptr \<Rightarrow> 'a kstate_scheme \<Rightarrow> 'a kstate_scheme" where
  "fast_raw_unlock K self slot s = fast_unlock K self slot s"

definition guarded_raw_lock :: "kernel \<Rightarrow> ptr \<Rightarrow> ptr \<Rightarrow> 'a kstate_scheme \<Rightarrow> 'a kstate_scheme" where
  "guarded_raw_lock K self slot s = guarded_lock K self slot s"

definition guarded_raw_try_lock :: "kernel \<Rightarrow> ptr \<Rightarrow> ptr \<Rightarrow> 'a kstate_scheme \<Rightarrow> bool \<times> 'a kstate_scheme" where
  "guarded_raw_try_lock K self slot s = guarded_try_lock K self slot s"

definition guarded_raw_unlock :: "kernel \<Rightarrow> ptr \<Rightarrow> ptr \<Rightarrow> 'a kstate_scheme \<Rightarrow> 'a kstate_scheme" where
  "guarded_raw_unlock K self slot s = guarded_unlock K self slot s"

section \<open>src/sync/pushlock.rs\<close>

datatype PushLockAccess = AccessNone | AccessExclusive | AccessShared

record WduPushLock =
  pl_access :: PushLockAccess
  pl_pushlock :: usize

definition EX_DEFAULT_PUSH_LOCK_FLAGS :: u32 where [nt_consts]: "EX_DEFAULT_PUSH_LOCK_FLAGS = 0"

definition push_new :: WduPushLock where
  "push_new = \<lparr>pl_access = AccessNone, pl_pushlock = 0\<rparr>"

definition push_const_new :: WduPushLock where
  "push_const_new = \<lparr>pl_access = AccessNone, pl_pushlock = 0\<rparr>"

definition push_init :: "kernel \<Rightarrow> ptr \<Rightarrow> WduPushLock \<Rightarrow> 'a kstate_scheme \<Rightarrow> WduPushLock \<times> 'a kstate_scheme" where
  "push_init K at self s =
     (let (r, s) = sys K (Rw (ExInitializePushLock at)) s in (self\<lparr>pl_pushlock := r_u64 r\<rparr>, s))"

definition push_acquired_shared ::
  "kernel \<Rightarrow> ptr \<Rightarrow> WduPushLock \<Rightarrow> 'a kstate_scheme \<Rightarrow> WduPushLock \<times> 'a kstate_scheme" where
  "push_acquired_shared K at self s =
     (let (r, s) = sys K (Rw (ExAcquirePushLockSharedEx at EX_DEFAULT_PUSH_LOCK_FLAGS)) s
      in (self\<lparr>pl_pushlock := r_u64 r, pl_access := AccessShared\<rparr>, s))"

definition push_acquire_exclusive ::
  "kernel \<Rightarrow> ptr \<Rightarrow> WduPushLock \<Rightarrow> 'a kstate_scheme \<Rightarrow> WduPushLock \<times> 'a kstate_scheme" where
  "push_acquire_exclusive K at self s =
     (let (r, s) = sys K (Rw (ExAcquirePushLockExclusiveEx at EX_DEFAULT_PUSH_LOCK_FLAGS)) s
      in (self\<lparr>pl_pushlock := r_u64 r, pl_access := AccessExclusive\<rparr>, s))"

text \<open>The recorded access stays as it was after a release.\<close>

definition push_release ::
  "kernel \<Rightarrow> ptr \<Rightarrow> WduPushLock \<Rightarrow> 'a kstate_scheme \<Rightarrow> WduPushLock \<times> 'a kstate_scheme" where
  "push_release K at self s =
     (case pl_access self of
        AccessShared \<Rightarrow>
          let (r, s) = sys K (Rw (ExReleasePushLockSharedEx at EX_DEFAULT_PUSH_LOCK_FLAGS)) s
          in (self\<lparr>pl_pushlock := r_u64 r\<rparr>, s)
      | AccessExclusive \<Rightarrow>
          let (r, s) = sys K (Rw (ExReleasePushLockExclusiveEx at EX_DEFAULT_PUSH_LOCK_FLAGS)) s
          in (self\<lparr>pl_pushlock := r_u64 r\<rparr>, s)
      | AccessNone \<Rightarrow> (self, s))"

subsection \<open>The \<^verbatim>\<open>lock_api\<close> adapters\<close>

text \<open>
  The adapters work on whatever lies at the cast pointer: \<open>obj\<close> is the lock's structure there
  (the lock itself only if the pointer is the lock's address).
\<close>

definition push_init_lock ::
  "kernel \<Rightarrow> ptr \<Rightarrow> ptr \<Rightarrow> WduPushLock \<Rightarrow> 'a kstate_scheme \<Rightarrow> WduPushLock \<times> 'a kstate_scheme" where
  "push_init_lock K self slot obj s = push_init K (self_cast self slot) obj s"

definition push_lock_shared ::
  "kernel \<Rightarrow> ptr \<Rightarrow> ptr \<Rightarrow> WduPushLock \<Rightarrow> 'a kstate_scheme \<Rightarrow> WduPushLock \<times> 'a kstate_scheme" where
  "push_lock_shared K self slot obj s = push_acquired_shared K (self_cast self slot) obj s"

definition push_lock_exclusive ::
  "kernel \<Rightarrow> ptr \<Rightarrow> ptr \<Rightarrow> WduPushLock \<Rightarrow> 'a kstate_scheme \<Rightarrow> WduPushLock \<times> 'a kstate_scheme" where
  "push_lock_exclusive K self slot obj s = push_acquire_exclusive K (self_cast self slot) obj s"

definition push_unlock ::
  "kernel \<Rightarrow> ptr \<Rightarrow> ptr \<Rightarrow> WduPushLock \<Rightarrow> 'a kstate_scheme \<Rightarrow> WduPushLock \<times> 'a kstate_scheme" where
  "push_unlock K self slot obj s = push_release K (self_cast self slot) obj s"

definition push_raw_lock_shared ::
  "kernel \<Rightarrow> ptr \<Rightarrow> ptr \<Rightarrow> WduPushLock \<Rightarrow> 'a kstate_scheme \<Rightarrow> WduPushLock \<times> 'a kstate_scheme" where
  "push_raw_lock_shared K self slot obj s =
     push_lock_shared K self slot obj (enter_critical_region K s)"

text \<open>The source has \<^verbatim>\<open>unimplemented!()\<close> for both ways of trying: they panic.\<close>

definition push_raw_try_lock_shared :: "'a kstate_scheme \<Rightarrow> (bool \<times> 'a kstate_scheme) option" where
  "push_raw_try_lock_shared s = None"

definition push_raw_try_lock_exclusive :: "'a kstate_scheme \<Rightarrow> (bool \<times> 'a kstate_scheme) option" where
  "push_raw_try_lock_exclusive s = None"

definition push_raw_unlock_shared ::
  "kernel \<Rightarrow> ptr \<Rightarrow> ptr \<Rightarrow> WduPushLock \<Rightarrow> 'a kstate_scheme \<Rightarrow> WduPushLock \<times> 'a kstate_scheme" where
  "push_raw_unlock_shared K self slot obj s =
     (let (obj, s) = push_unlock K self slot obj s in (obj, leave_critical_region K s))"

definition push_raw_lock_exclusive ::
  "kernel \<Rightarrow> ptr \<Rightarrow> ptr \<Rightarrow> WduPushLock \<Rightarrow> 'a kstate_scheme \<Rightarrow> WduPushLock \<times> 'a kstate_scheme" where
  "push_raw_lock_exclusive K self slot obj s =
     push_lock_exclusive K self slot obj (enter_critical_region K s)"

definition push_raw_unlock_exclusive ::
  "kernel \<Rightarrow> ptr \<Rightarrow> ptr \<Rightarrow> WduPushLock \<Rightarrow> 'a kstate_scheme \<Rightarrow> WduPushLock \<times> 'a kstate_scheme" where
  "push_raw_unlock_exclusive K self slot obj s =
     (let (obj, s) = push_unlock K self slot obj s in (obj, leave_critical_region K s))"

section \<open>src/sync/eresource.rs\<close>

type_synonym WduEResource = ptr

definition eresource_init :: "kernel \<Rightarrow> WduEResource \<Rightarrow> 'a kstate_scheme \<Rightarrow> 'a kstate_scheme" where
  "eresource_init K self s = sysv K (Rw (ExInitializeResourceLite self)) s"

definition eresource_delete :: "kernel \<Rightarrow> WduEResource \<Rightarrow> 'a kstate_scheme \<Rightarrow> 'a kstate_scheme" where
  "eresource_delete K self s = sysv K (Rw (ExDeleteResourceLite self)) s"

text \<open>
  \<^verbatim>\<open>default()\<close> initialises the resource in a local variable, which links the variable's address into
  the system's list of resources, and then returns the structure by value: the result lives at
  another address.
\<close>

definition eresource_default :: "kernel \<Rightarrow> ptr \<Rightarrow> ptr \<Rightarrow> 'a kstate_scheme \<Rightarrow> WduEResource \<times> 'a kstate_scheme" where
  "eresource_default K local dest s = (dest, eresource_init K local s)"

definition eresource_drop :: "kernel \<Rightarrow> WduEResource \<Rightarrow> 'a kstate_scheme \<Rightarrow> 'a kstate_scheme" where
  "eresource_drop K self s = eresource_delete K self s"

definition eresource_acquired_shared :: "kernel \<Rightarrow> WduEResource \<Rightarrow> bool \<Rightarrow> 'a kstate_scheme \<Rightarrow> bool \<times> 'a kstate_scheme" where
  "eresource_acquired_shared K self wait s =
     (let (r, s) = sys K (Rw (ExAcquireResourceSharedLite self (u8_of_bool wait))) s
      in (r_u8 r = u8_of_bool True, s))"

definition eresource_acquire_exclusive :: "kernel \<Rightarrow> WduEResource \<Rightarrow> bool \<Rightarrow> 'a kstate_scheme \<Rightarrow> bool \<times> 'a kstate_scheme" where
  "eresource_acquire_exclusive K self wait s =
     (let (r, s) = sys K (Rw (ExAcquireResourceExclusiveLite self (u8_of_bool wait))) s
      in (r_u8 r = u8_of_bool True, s))"

definition eresource_convert_to_shared :: "kernel \<Rightarrow> WduEResource \<Rightarrow> 'a kstate_scheme \<Rightarrow> 'a kstate_scheme" where
  "eresource_convert_to_shared K self s = sysv K (Rw (ExConvertExclusiveToSharedLite self)) s"

definition eresource_release :: "kernel \<Rightarrow> WduEResource \<Rightarrow> 'a kstate_scheme \<Rightarrow> 'a kstate_scheme" where
  "eresource_release K self s = sysv K (Rw (ExReleaseResourceLite self)) s"

subsection \<open>The \<^verbatim>\<open>lock_api\<close> adapters\<close>

definition eresource_init_lock :: "kernel \<Rightarrow> ptr \<Rightarrow> ptr \<Rightarrow> 'a kstate_scheme \<Rightarrow> 'a kstate_scheme" where
  "eresource_init_lock K self slot s = eresource_init K (self_cast self slot) s"

definition eresource_lock_shared :: "kernel \<Rightarrow> ptr \<Rightarrow> ptr \<Rightarrow> 'a kstate_scheme \<Rightarrow> 'a kstate_scheme" where
  "eresource_lock_shared K self slot s = snd (eresource_acquired_shared K (self_cast self slot) True s)"

definition eresource_try_lock_shared :: "kernel \<Rightarrow> ptr \<Rightarrow> ptr \<Rightarrow> 'a kstate_scheme \<Rightarrow> bool \<times> 'a kstate_scheme" where
  "eresource_try_lock_shared K self slot s = eresource_acquired_shared K (self_cast self slot) False s"

definition eresource_unlock_shared :: "kernel \<Rightarrow> ptr \<Rightarrow> ptr \<Rightarrow> 'a kstate_scheme \<Rightarrow> 'a kstate_scheme" where
  "eresource_unlock_shared K self slot s = eresource_release K (self_cast self slot) s"

definition eresource_lock_exclusive :: "kernel \<Rightarrow> ptr \<Rightarrow> ptr \<Rightarrow> 'a kstate_scheme \<Rightarrow> 'a kstate_scheme" where
  "eresource_lock_exclusive K self slot s = snd (eresource_acquire_exclusive K (self_cast self slot) True s)"

definition eresource_try_lock_exclusive :: "kernel \<Rightarrow> ptr \<Rightarrow> ptr \<Rightarrow> 'a kstate_scheme \<Rightarrow> bool \<times> 'a kstate_scheme" where
  "eresource_try_lock_exclusive K self slot s = eresource_acquire_exclusive K (self_cast self slot) False s"

definition eresource_unlock_exclusive :: "kernel \<Rightarrow> ptr \<Rightarrow> ptr \<Rightarrow> 'a kstate_scheme \<Rightarrow> 'a kstate_scheme" where
  "eresource_unlock_exclusive K self slot s = eresource_release K (self_cast self slot) s"

text \<open>\<^verbatim>\<open>RawRwLock for WduEResource\<close>.\<close>

definition eresource_raw_lock_shared :: "kernel \<Rightarrow> ptr \<Rightarrow> ptr \<Rightarrow> 'a kstate_scheme \<Rightarrow> 'a kstate_scheme" where
  "eresource_raw_lock_shared K self slot s = eresource_lock_shared K self slot (enter_critical_region K s)"

definition eresource_raw_try_lock_shared :: "kernel \<Rightarrow> ptr \<Rightarrow> ptr \<Rightarrow> 'a kstate_scheme \<Rightarrow> bool \<times> 'a kstate_scheme" where
  "eresource_raw_try_lock_shared K self slot s = eresource_try_lock_shared K self slot (enter_critical_region K s)"

definition eresource_raw_unlock_shared :: "kernel \<Rightarrow> ptr \<Rightarrow> ptr \<Rightarrow> 'a kstate_scheme \<Rightarrow> 'a kstate_scheme" where
  "eresource_raw_unlock_shared K self slot s = leave_critical_region K (eresource_unlock_shared K self slot s)"

definition eresource_raw_lock_exclusive :: "kernel \<Rightarrow> ptr \<Rightarrow> ptr \<Rightarrow> 'a kstate_scheme \<Rightarrow> 'a kstate_scheme" where
  "eresource_raw_lock_exclusive K self slot s = eresource_lock_exclusive K self slot (enter_critical_region K s)"

definition eresource_raw_try_lock_exclusive :: "kernel \<Rightarrow> ptr \<Rightarrow> ptr \<Rightarrow> 'a kstate_scheme \<Rightarrow> bool \<times> 'a kstate_scheme" where
  "eresource_raw_try_lock_exclusive K self slot s =
     eresource_try_lock_exclusive K self slot (enter_critical_region K s)"

definition eresource_raw_unlock_exclusive :: "kernel \<Rightarrow> ptr \<Rightarrow> ptr \<Rightarrow> 'a kstate_scheme \<Rightarrow> 'a kstate_scheme" where
  "eresource_raw_unlock_exclusive K self slot s =
     leave_critical_region K (eresource_unlock_exclusive K self slot s)"

section \<open>src/sync/remove_lock.rs\<close>

text \<open>The tag of the last \<^verbatim>\<open>acquire\<close>; the \<^verbatim>\<open>IO_REMOVE_LOCK\<close> at address \<open>at\<close> is the kernel's.\<close>

record WduRemoveLock =
  rl_lock_tag :: "usize option"

definition tag_ptr :: "usize option \<Rightarrow> ptr" where
  "tag_ptr tag = (case tag of None \<Rightarrow> null | Some tag \<Rightarrow> tag)"

definition remove_new :: WduRemoveLock where
  "remove_new = \<lparr>rl_lock_tag = None\<rparr>"

definition remove_init :: "kernel \<Rightarrow> ptr \<Rightarrow> u32 \<Rightarrow> u32 \<Rightarrow> u32 \<Rightarrow> 'a kstate_scheme \<Rightarrow> 'a kstate_scheme" where
  "remove_init K at tag max_min high_water s =
     sysv K (Rw (IoInitializeRemoveLockEx at tag max_min high_water)) s"

definition remove_acquire ::
  "kernel \<Rightarrow> ptr \<Rightarrow> usize option \<Rightarrow> WduRemoveLock \<Rightarrow> 'a kstate_scheme \<Rightarrow> ntstatus \<times> WduRemoveLock \<times> 'a kstate_scheme" where
  "remove_acquire K at tag self s =
     (let self = self\<lparr>rl_lock_tag := tag\<rparr>;
          (r, s) = sys K (Rw (IoAcquireRemoveLockEx at (tag_ptr (rl_lock_tag self)))) s
      in (r_status r, self, s))"

definition remove_release :: "kernel \<Rightarrow> ptr \<Rightarrow> WduRemoveLock \<Rightarrow> 'a kstate_scheme \<Rightarrow> WduRemoveLock \<times> 'a kstate_scheme" where
  "remove_release K at self s =
     (let s = sysv K (Rw (IoReleaseRemoveLockEx at (tag_ptr (rl_lock_tag self)))) s
      in (self\<lparr>rl_lock_tag := None\<rparr>, s))"

definition remove_release_and_wait ::
  "kernel \<Rightarrow> ptr \<Rightarrow> WduRemoveLock \<Rightarrow> 'a kstate_scheme \<Rightarrow> WduRemoveLock \<times> 'a kstate_scheme" where
  "remove_release_and_wait K at self s =
     (let s = sysv K (Rw (IoReleaseRemoveLockAndWaitEx at (tag_ptr (rl_lock_tag self)))) s
      in (self\<lparr>rl_lock_tag := None\<rparr>, s))"

section \<open>src/sync/rundown_protection.rs\<close>

record WduRundownProtection =
  rd_Count :: u64

definition rundown_new :: WduRundownProtection where
  "rundown_new = \<lparr>rd_Count = 0\<rparr>"

text \<open>The routines write the reference count at address \<open>at\<close>; the answer's \<open>r_u64\<close> is the new one.\<close>

definition rundown_call ::
  "kernel \<Rightarrow> rw_call \<Rightarrow> WduRundownProtection \<Rightarrow> 'a kstate_scheme \<Rightarrow> bool \<times> WduRundownProtection \<times> 'a kstate_scheme" where
  "rundown_call K c self s =
     (let (r, s) = sys K (Rw c) s in (r_u8 r = u8_of_bool True, self\<lparr>rd_Count := r_u64 r\<rparr>, s))"

definition rundown_init ::
  "kernel \<Rightarrow> ptr \<Rightarrow> WduRundownProtection \<Rightarrow> 'a kstate_scheme \<Rightarrow> WduRundownProtection \<times> 'a kstate_scheme" where
  "rundown_init K at self s = snd (rundown_call K (ExInitializeRundownProtection at) self s)"

definition rundown_acquire ::
  "kernel \<Rightarrow> ptr \<Rightarrow> WduRundownProtection \<Rightarrow> 'a kstate_scheme \<Rightarrow> bool \<times> WduRundownProtection \<times> 'a kstate_scheme" where
  "rundown_acquire K at self s = rundown_call K (ExAcquireRundownProtection at) self s"

definition rundown_acquire_ex ::
  "kernel \<Rightarrow> ptr \<Rightarrow> u32 \<Rightarrow> WduRundownProtection \<Rightarrow> 'a kstate_scheme \<Rightarrow> bool \<times> WduRundownProtection \<times> 'a kstate_scheme" where
  "rundown_acquire_ex K at count self s = rundown_call K (ExAcquireRundownProtectionEx at count) self s"

definition rundown_release ::
  "kernel \<Rightarrow> ptr \<Rightarrow> WduRundownProtection \<Rightarrow> 'a kstate_scheme \<Rightarrow> WduRundownProtection \<times> 'a kstate_scheme" where
  "rundown_release K at self s = snd (rundown_call K (ExReleaseRundownProtection at) self s)"

definition rundown_wait ::
  "kernel \<Rightarrow> ptr \<Rightarrow> WduRundownProtection \<Rightarrow> 'a kstate_scheme \<Rightarrow> WduRundownProtection \<times> 'a kstate_scheme" where
  "rundown_wait K at self s = snd (rundown_call K (ExWaitForRundownProtectionRelease at) self s)"

definition rundown_completed ::
  "kernel \<Rightarrow> ptr \<Rightarrow> WduRundownProtection \<Rightarrow> 'a kstate_scheme \<Rightarrow> WduRundownProtection \<times> 'a kstate_scheme" where
  "rundown_completed K at self s = snd (rundown_call K (ExRundownCompleted at) self s)"

definition rundown_reinit ::
  "kernel \<Rightarrow> ptr \<Rightarrow> WduRundownProtection \<Rightarrow> 'a kstate_scheme \<Rightarrow> WduRundownProtection \<times> 'a kstate_scheme" where
  "rundown_reinit K at self s = snd (rundown_call K (ExReInitializeRundownProtection at) self s)"

definition rundown_drop ::
  "kernel \<Rightarrow> ptr \<Rightarrow> WduRundownProtection \<Rightarrow> 'a kstate_scheme \<Rightarrow> WduRundownProtection \<times> 'a kstate_scheme" where
  "rundown_drop K at self s = rundown_wait K at self s"

section \<open>Critical regions\<close>

text \<open>How many critical regions the thread has entered and not left.\<close>

fun region_delta :: "kevent list \<Rightarrow> int" where
  "region_delta [] = 0"
| "region_delta ((c, r) # es) =
     (case c of Rw KeEnterCriticalRegion \<Rightarrow> 1 | Rw KeLeaveCriticalRegion \<Rightarrow> - 1 | _ \<Rightarrow> 0) + region_delta es"

lemma region_delta_append [simp]: "region_delta (xs @ ys) = region_delta xs + region_delta ys"
  by (induction xs rule: region_delta.induct) simp_all

text \<open>
  The interface of the reader-writer adapters: a lock enters one region, the matching unlock
  leaves one.
\<close>

locale region_lock =
  fixes rlock runlock :: "kernel \<Rightarrow> ptr \<Rightarrow> ptr \<Rightarrow> 'o \<Rightarrow> 'a kstate_scheme \<Rightarrow> 'o \<times> 'a kstate_scheme"
  assumes rlock_enters: "rlock K self slot obj s = (obj', s') \<Longrightarrow> region_delta (klog s') = region_delta (klog s) + 1"
    and runlock_leaves: "runlock K self slot obj s = (obj', s') \<Longrightarrow> region_delta (klog s') = region_delta (klog s) - 1"
begin

lemma guarded_balanced:
  assumes "rlock K self slot obj s = (obj1, s1)" "region_delta (klog s2) = region_delta (klog s1)"
    and "runlock K self slot' obj2 s2 = (obj3, s3)"
  shows "region_delta (klog s3) = region_delta (klog s)"
  using rlock_enters [OF assms(1)] runlock_leaves [OF assms(3)] assms(2) by simp

lemma guarded_balanced_snd:
  assumes "region_delta (klog s2) = region_delta (klog (snd (rlock K self slot obj s)))"
  shows "region_delta (klog (snd (runlock K self slot' obj2 s2))) = region_delta (klog s)"
  using guarded_balanced [OF prod.collapse [symmetric] assms prod.collapse [symmetric]] .

end

lemma push_release_region: "push_release K p obj s = (obj', s') \<Longrightarrow> region_delta (klog s') = region_delta (klog s)"
  by (auto simp: push_release_def sys_eq split: PushLockAccess.splits)

interpretation push_shared: region_lock push_raw_lock_shared push_raw_unlock_shared
  by unfold_locales
     (auto simp: push_raw_lock_shared_def push_lock_shared_def push_acquired_shared_def push_raw_unlock_shared_def
        push_unlock_def enter_critical_region_def leave_critical_region_def sys_eq split: prod.splits
        dest!: push_release_region)

interpretation push_exclusive: region_lock push_raw_lock_exclusive push_raw_unlock_exclusive
  by unfold_locales
     (auto simp: push_raw_lock_exclusive_def push_lock_exclusive_def push_acquire_exclusive_def
        push_raw_unlock_exclusive_def push_unlock_def enter_critical_region_def leave_critical_region_def
        sys_eq split: prod.splits dest!: push_release_region)

interpretation eresource_shared: region_lock
    "\<lambda>K self slot (_ :: unit) s. ((), eresource_raw_lock_shared K self slot s)"
    "\<lambda>K self slot (_ :: unit) s. ((), eresource_raw_unlock_shared K self slot s)"
  by unfold_locales
     (auto simp: eresource_raw_lock_shared_def eresource_lock_shared_def eresource_acquired_shared_def
        eresource_raw_unlock_shared_def eresource_unlock_shared_def eresource_release_def
        enter_critical_region_def leave_critical_region_def sys_eq)

interpretation eresource_exclusive: region_lock
    "\<lambda>K self slot (_ :: unit) s. ((), eresource_raw_lock_exclusive K self slot s)"
    "\<lambda>K self slot (_ :: unit) s. ((), eresource_raw_unlock_exclusive K self slot s)"
  by unfold_locales
     (auto simp: eresource_raw_lock_exclusive_def eresource_lock_exclusive_def eresource_acquire_exclusive_def
        eresource_raw_unlock_exclusive_def eresource_unlock_exclusive_def eresource_release_def
        enter_critical_region_def leave_critical_region_def sys_eq)

text \<open>
  C25. A guard of the push lock or of the executive resource leaves the thread's critical regions
  balanced: after the lock, a body that is itself balanced, and the unlock, as many regions are
  entered as before, in shared and in exclusive mode.
\<close>

theorem rwlock_guards_balanced:
  fixes body :: "'a kstate_scheme \<Rightarrow> 'a kstate_scheme"
  assumes "\<And>s. region_delta (klog (body s)) = region_delta (klog s)"
  shows "region_delta (klog (snd (push_raw_unlock_shared K p f2 obj2
           (body (snd (push_raw_lock_shared K p f1 obj1 s)))))) = region_delta (klog s)
    \<and> region_delta (klog (snd (push_raw_unlock_exclusive K p f2 obj2
           (body (snd (push_raw_lock_exclusive K p f1 obj1 s)))))) = region_delta (klog s)
    \<and> region_delta (klog (eresource_raw_unlock_shared K p f2
           (body (eresource_raw_lock_shared K p f1 s)))) = region_delta (klog s)
    \<and> region_delta (klog (eresource_raw_unlock_exclusive K p f2
           (body (eresource_raw_lock_exclusive K p f1 s)))) = region_delta (klog s)"
  using push_shared.guarded_balanced_snd [OF assms] push_exclusive.guarded_balanced_snd [OF assms]
    eresource_shared.guarded_balanced [OF refl assms refl]
    eresource_exclusive.guarded_balanced [OF refl assms refl]
  by simp

theorem rwlock_guards_balanced_witness:
  "region_delta (klog (snd (push_raw_unlock_shared (\<lambda>_ _. reply0) 0x10 0x20 push_new
       (snd (push_raw_lock_shared (\<lambda>_ _. reply0) 0x10 0x28 push_new
          kst0))))) = 0"
  using rwlock_guards_balanced [where body = "\<lambda>s. s" and s = kst0 and K = "\<lambda>_ _. reply0" and p = "0x10"
      and ?f2.0 = "0x20" and ?f1.0 = "0x28" and ?obj1.0 = push_new and ?obj2.0 = push_new]
  by simp

text \<open>
  A failed \<^verbatim>\<open>try_lock\<close> of the executive resource, shared or exclusive, leaves one more critical
  region entered than before: the adapter enters the region before it tries, and there is no
  guard whose drop would leave it.
\<close>

lemma eresource_failed_try_keeps_region:
  "(\<not> fst (eresource_raw_try_lock_shared K self slot s) \<longrightarrow>
     region_delta (klog (snd (eresource_raw_try_lock_shared K self slot s))) = region_delta (klog s) + 1) \<and>
   (\<not> fst (eresource_raw_try_lock_exclusive K self slot s) \<longrightarrow>
     region_delta (klog (snd (eresource_raw_try_lock_exclusive K self slot s))) = region_delta (klog s) + 1)"
  by (simp add: eresource_raw_try_lock_shared_def eresource_try_lock_shared_def eresource_acquired_shared_def
      eresource_raw_try_lock_exclusive_def eresource_try_lock_exclusive_def eresource_acquire_exclusive_def
      enter_critical_region_def sys_eq)

text \<open>
  The \<^verbatim>\<open>lock_api\<close> adapters of the fast and the guarded mutex do not use the mutex they are
  called on: two different mutexes locked, tried or unlocked from the same frame make the very
  same kernel calls, on the address of the frame's reference variable.
\<close>

lemma mutex_adapters_ignore_object:
  "fast_lock K p slot s = fast_lock K q slot s \<and>
   fast_try_lock K p slot s = fast_try_lock K q slot s \<and>
   fast_unlock K p slot s = fast_unlock K q slot s \<and>
   guarded_lock K p slot s = guarded_lock K q slot s \<and>
   guarded_try_lock K p slot s = guarded_try_lock K q slot s \<and>
   guarded_unlock K p slot s = guarded_unlock K q slot s \<and>
   fst (last (klog (fast_lock K p slot s))) = Lock (ExAcquireFastMutex slot)"
  by (simp add: fast_lock_def fast_try_lock_def fast_unlock_def guarded_lock_def guarded_try_lock_def
      guarded_unlock_def self_cast_def fast_acquire_def)

section \<open>Push lock and remove lock holds\<close>

text \<open>How often a push lock is held in each mode, and which tags hold a remove lock, after a log.\<close>

fun push_holds :: "ptr \<Rightarrow> kevent list \<Rightarrow> int \<times> int" where
  "push_holds p [] = (0, 0)"
| "push_holds p ((c, r) # es) =
     (let (sh, ex) = push_holds p es in
      case c of
        Rw (ExAcquirePushLockSharedEx q f) \<Rightarrow> (if q = p then sh + 1 else sh, ex)
      | Rw (ExReleasePushLockSharedEx q f) \<Rightarrow> (if q = p then sh - 1 else sh, ex)
      | Rw (ExAcquirePushLockExclusiveEx q f) \<Rightarrow> (sh, if q = p then ex + 1 else ex)
      | Rw (ExReleasePushLockExclusiveEx q f) \<Rightarrow> (sh, if q = p then ex - 1 else ex)
      | _ \<Rightarrow> (sh, ex))"

fun remove_tags :: "ptr \<Rightarrow> kevent list \<Rightarrow> ptr \<Rightarrow> int" where
  "remove_tags p [] t = 0"
| "remove_tags p ((c, r) # es) t =
     (case c of
        Rw (IoAcquireRemoveLockEx q u) \<Rightarrow> (if q = p \<and> u = t \<and> r_status r = STATUS_SUCCESS then 1 else 0)
      | Rw (IoReleaseRemoveLockEx q u) \<Rightarrow> (if q = p \<and> u = t then - 1 else 0)
      | Rw (IoReleaseRemoveLockAndWaitEx q u) \<Rightarrow> (if q = p \<and> u = t then - 1 else 0)
      | _ \<Rightarrow> 0) + remove_tags p es t"

lemma remove_tags_append [simp]: "remove_tags p (xs @ ys) t = remove_tags p xs t + remove_tags p ys t"
  by (induction p xs t rule: remove_tags.induct) simp_all

lemma push_holds_append:
  "push_holds p (xs @ ys) =
     (fst (push_holds p xs) + fst (push_holds p ys), snd (push_holds p xs) + snd (push_holds p ys))"
  by (induction p xs rule: push_holds.induct)
     (auto simp: Let_def split: prod.splits kcall.splits rw_call.splits)

text \<open>
  A push lock released after an acquisition in either mode is released in the mode it was
  acquired in; but since the release does not reset the recorded access, a second release
  releases the lock once more.
\<close>

lemma push_release_mode:
  "push_release K p (fst (push_acquired_shared K p l s)) (snd (push_acquired_shared K p l s)) = (l1, s1) \<Longrightarrow>
   push_release K p (fst (push_acquire_exclusive K p l s)) (snd (push_acquire_exclusive K p l s)) = (l2, s2) \<Longrightarrow>
   push_holds p (klog s1) = push_holds p (klog s) \<and> push_holds p (klog s2) = push_holds p (klog s) \<and>
   push_holds p (klog (snd (push_release K p l1 s1))) =
     (fst (push_holds p (klog s)) - 1, snd (push_holds p (klog s)))"
  by (auto simp: push_release_def push_acquired_shared_def push_acquire_exclusive_def sys_eq push_holds_append)

text \<open>
  The remove lock keeps one tag: acquired and released in turn, every tag that was taken is
  given back; acquired twice with different tags and then released twice, the first tag stays
  outstanding and the second release names a null tag that was never acquired.
\<close>

lemma remove_lock_tags:
  assumes "remove_acquire K p (Some a) l s = (0, l1, s1)" "remove_acquire K p (Some b) l1 s1 = (0, l2, s2)"
    and "a \<noteq> b" "a \<noteq> null" "b \<noteq> null"
    and "remove_release K p l2 s2 = (l3, s3)" "remove_release K p l3 s3 = (l4, s4)"
  shows "remove_tags p (klog (snd (remove_release K p l1 s1))) t = remove_tags p (klog s) t \<and>
    remove_tags p (klog s4) a = remove_tags p (klog s) a + 1 \<and>
    remove_tags p (klog s4) b = remove_tags p (klog s) b \<and>
    remove_tags p (klog s4) null = remove_tags p (klog s) null - 1"
  using assms
  by (auto simp: remove_acquire_def remove_release_def tag_ptr_def sys_eq)

end
