(* ===== verification/Wdu_Objects.thy ===== *)
theory Wdu_Objects
  imports Wdu_Ustring
begin

text \<open>
  \<^verbatim>\<open>src/sync/event.rs\<close>, \<^verbatim>\<open>semaphore.rs\<close>, \<^verbatim>\<open>timer.rs\<close> and \<^verbatim>\<open>src/common/dpc.rs\<close>, \<^verbatim>\<open>process.rs\<close>,
  \<^verbatim>\<open>thread.rs\<close>, \<^verbatim>\<open>obj_attr.rs\<close>: wrappers of kernel objects. Events and semaphores are pointers that
  can be obtained from a handle; their common contract (one reference taken, one given back) is
  a locale.
\<close>

section \<open>src/sync/event.rs\<close>

datatype WduEventType = NotificationEvent | SynchronizationEvent

fun event_type_into :: "WduEventType \<Rightarrow> i32" where
  "event_type_into NotificationEvent = 0"
| "event_type_into SynchronizationEvent = 1"

record WduEvent =
  ev_event :: ptr

definition event_const_new :: WduEvent where
  "event_const_new = \<lparr>ev_event = null\<rparr>"

definition event_new :: WduEvent where
  "event_new = \<lparr>ev_event = null\<rparr>"

text \<open>A call that answers a \<^verbatim>\<open>LONG\<close>, as most of these routines do.\<close>

definition obj_long :: "kernel \<Rightarrow> obj_call \<Rightarrow> 'a kstate_scheme \<Rightarrow> i32 \<times> 'a kstate_scheme" where
  "obj_long K c s = (let (r, s) = sys K (Obj c) s in (r_status r, s))"

definition obj_bool :: "kernel \<Rightarrow> obj_call \<Rightarrow> 'a kstate_scheme \<Rightarrow> bool \<times> 'a kstate_scheme" where
  "obj_bool K c s = (let (r, s) = sys K (Obj c) s in (r_u8 r = u8_of_bool True, s))"

definition event_init :: "kernel \<Rightarrow> WduEvent \<Rightarrow> WduEventType \<Rightarrow> bool \<Rightarrow> 'a kstate_scheme \<Rightarrow> 'a kstate_scheme" where
  "event_init K self event_type state s =
     sysv K (Obj (KeInitializeEvent (ev_event self) (event_type_into event_type) (u8_of_bool state))) s"

definition event_reset :: "kernel \<Rightarrow> WduEvent \<Rightarrow> 'a kstate_scheme \<Rightarrow> i32 \<times> 'a kstate_scheme" where
  "event_reset K self s = obj_long K (KeResetEvent (ev_event self)) s"

definition event_clear :: "kernel \<Rightarrow> WduEvent \<Rightarrow> 'a kstate_scheme \<Rightarrow> 'a kstate_scheme" where
  "event_clear K self s = sysv K (Obj (KeClearEvent (ev_event self))) s"

definition event_set :: "kernel \<Rightarrow> WduEvent \<Rightarrow> i32 \<Rightarrow> bool \<Rightarrow> 'a kstate_scheme \<Rightarrow> i32 \<times> 'a kstate_scheme" where
  "event_set K self increment wait s = obj_long K (KeSetEvent (ev_event self) increment (u8_of_bool wait)) s"

definition event_read_state :: "kernel \<Rightarrow> WduEvent \<Rightarrow> 'a kstate_scheme \<Rightarrow> i32 \<times> 'a kstate_scheme" where
  "event_read_state K self s = obj_long K (KeReadStateEvent (ev_event self)) s"

definition event_pulse :: "kernel \<Rightarrow> WduEvent \<Rightarrow> i32 \<Rightarrow> bool \<Rightarrow> 'a kstate_scheme \<Rightarrow> i32 \<times> 'a kstate_scheme" where
  "event_pulse K self increment wait s = obj_long K (KePulseEvent (ev_event self) increment (u8_of_bool wait)) s"

text \<open>\<open>ty\<close> is the object type the kernel exports as \<^verbatim>\<open>ExEventObjectType\<close>.\<close>

definition event_ref_by_handle ::
  "kernel \<Rightarrow> ptr \<Rightarrow> handle \<Rightarrow> u32 \<Rightarrow> ProcessorMode \<Rightarrow> 'a kstate_scheme \<Rightarrow> (WduError, WduEvent) result \<times> 'a kstate_scheme" where
  "event_ref_by_handle K ty hdl access_mask access_mode s =
     (case ref_by_handle K hdl access_mask (Some ty) access_mode s of
        (Err e, s) \<Rightarrow> (Err e, s)
      | (Ok p, s) \<Rightarrow> (Ok (event_new\<lparr>ev_event := p\<rparr>), s))"

definition event_dereference :: "kernel \<Rightarrow> WduEvent \<Rightarrow> 'a kstate_scheme \<Rightarrow> 'a kstate_scheme" where
  "event_dereference K self s = dereference K (ev_event self) s"

section \<open>src/sync/semaphore.rs\<close>

record WduSemaphore =
  sm_semaphore :: ptr

definition semaphore_const_new :: WduSemaphore where
  "semaphore_const_new = \<lparr>sm_semaphore = null\<rparr>"

definition semaphore_new :: WduSemaphore where
  "semaphore_new = \<lparr>sm_semaphore = null\<rparr>"

definition semaphore_init :: "kernel \<Rightarrow> WduSemaphore \<Rightarrow> i32 \<Rightarrow> i32 \<Rightarrow> 'a kstate_scheme \<Rightarrow> 'a kstate_scheme" where
  "semaphore_init K self count limit s = sysv K (Obj (KeInitializeSemaphore (sm_semaphore self) count limit)) s"

definition semaphore_release ::
  "kernel \<Rightarrow> WduSemaphore \<Rightarrow> i32 \<Rightarrow> i32 \<Rightarrow> bool \<Rightarrow> 'a kstate_scheme \<Rightarrow> i32 \<times> 'a kstate_scheme" where
  "semaphore_release K self increment adjustment wait s =
     obj_long K (KeReleaseSemaphore (sm_semaphore self) increment adjustment (u8_of_bool wait)) s"

definition semaphore_read_state :: "kernel \<Rightarrow> WduSemaphore \<Rightarrow> 'a kstate_scheme \<Rightarrow> i32 \<times> 'a kstate_scheme" where
  "semaphore_read_state K self s = obj_long K (KeReadStateSemaphore (sm_semaphore self)) s"

definition semaphore_ref_by_handle ::
  "kernel \<Rightarrow> ptr \<Rightarrow> handle \<Rightarrow> u32 \<Rightarrow> ProcessorMode \<Rightarrow> 'a kstate_scheme
     \<Rightarrow> (WduError, WduSemaphore) result \<times> 'a kstate_scheme" where
  "semaphore_ref_by_handle K ty hdl access_mask access_mode s =
     (case ref_by_handle K hdl access_mask (Some ty) access_mode s of
        (Err e, s) \<Rightarrow> (Err e, s)
      | (Ok p, s) \<Rightarrow> (Ok (semaphore_new\<lparr>sm_semaphore := p\<rparr>), s))"

definition semaphore_dereference :: "kernel \<Rightarrow> WduSemaphore \<Rightarrow> 'a kstate_scheme \<Rightarrow> 'a kstate_scheme" where
  "semaphore_dereference K self s = dereference K (sm_semaphore self) s"

section \<open>src/sync/timer.rs\<close>

datatype WduTimerType = NotificationTimer | SynchronizationTimer

fun timer_type_into :: "WduTimerType \<Rightarrow> i32" where
  "timer_type_into NotificationTimer = 0"
| "timer_type_into SynchronizationTimer = 1"

datatype WduExTimerAttributes = HighResolution | NoWake | Notification | UnlimitedTolerance

fun ex_timer_attributes_into :: "WduExTimerAttributes \<Rightarrow> u32" where
  "ex_timer_attributes_into HighResolution = 4"
| "ex_timer_attributes_into NoWake = 8"
| "ex_timer_attributes_into Notification = push_bit 31 1"
| "ex_timer_attributes_into UnlimitedTolerance = - 1"

text \<open>A \<^verbatim>\<open>WduTimer\<close> is the \<^verbatim>\<open>KTIMER\<close> at its address; a \<^verbatim>\<open>WduExTimer\<close> is a pointer.\<close>

type_synonym WduTimer = ptr

record WduExTimer =
  et_timer :: ptr

definition timer_init :: "kernel \<Rightarrow> WduTimer \<Rightarrow> 'a kstate_scheme \<Rightarrow> 'a kstate_scheme" where
  "timer_init K self s = sysv K (Obj (KeInitializeTimer self)) s"

text \<open>\<^verbatim>\<open>init_ex\<close> initialises a local variable and returns it by value, at another address.\<close>

definition timer_init_ex ::
  "kernel \<Rightarrow> WduTimerType \<Rightarrow> ptr \<Rightarrow> ptr \<Rightarrow> 'a kstate_scheme \<Rightarrow> WduTimer \<times> 'a kstate_scheme" where
  "timer_init_ex K timer_type local dest s =
     (dest, sysv K (Obj (KeInitializeTimerEx local (timer_type_into timer_type))) s)"

definition timer_cancel :: "kernel \<Rightarrow> WduTimer \<Rightarrow> 'a kstate_scheme \<Rightarrow> bool \<times> 'a kstate_scheme" where
  "timer_cancel K self s = obj_bool K (KeCancelTimer self) s"

definition timer_read_state :: "kernel \<Rightarrow> WduTimer \<Rightarrow> 'a kstate_scheme \<Rightarrow> bool \<times> 'a kstate_scheme" where
  "timer_read_state K self s = obj_bool K (KeReadStateTimer self) s"

text \<open>A DPC argument is the address of its \<^verbatim>\<open>KDPC\<close>, or null for none.\<close>

definition dpc_ptr :: "ptr option \<Rightarrow> ptr" where
  "dpc_ptr dpc = (case dpc of None \<Rightarrow> null | Some p \<Rightarrow> p)"

definition timer_set_coalescable ::
  "kernel \<Rightarrow> WduTimer \<Rightarrow> i64 \<Rightarrow> u32 \<Rightarrow> u32 \<Rightarrow> ptr option \<Rightarrow> 'a kstate_scheme \<Rightarrow> bool \<times> 'a kstate_scheme" where
  "timer_set_coalescable K self duetime period tolerable_delay dpc s =
     obj_bool K (KeSetCoalescableTimer self duetime period tolerable_delay (dpc_ptr dpc)) s"

definition timer_set :: "kernel \<Rightarrow> WduTimer \<Rightarrow> i64 \<Rightarrow> ptr option \<Rightarrow> 'a kstate_scheme \<Rightarrow> bool \<times> 'a kstate_scheme" where
  "timer_set K self duetime dpc s = obj_bool K (KeSetTimer self duetime (dpc_ptr dpc)) s"

definition timer_set_ex :: "kernel \<Rightarrow> WduTimer \<Rightarrow> i64 \<Rightarrow> i32 \<Rightarrow> 'a kstate_scheme \<Rightarrow> bool \<times> 'a kstate_scheme" where
  "timer_set_ex K self duetime period s = obj_bool K (KeSetTimerEx self duetime period null) s"

definition ex_timer_init :: WduExTimer where
  "ex_timer_init = \<lparr>et_timer = null\<rparr>"

definition ex_timer_delete :: "kernel \<Rightarrow> WduExTimer \<Rightarrow> bool \<Rightarrow> bool \<Rightarrow> 'a kstate_scheme \<Rightarrow> bool \<times> 'a kstate_scheme" where
  "ex_timer_delete K self cancel wait s =
     obj_bool K (ExDeleteTimer (et_timer self) (u8_of_bool cancel) (u8_of_bool wait)) s"

definition ex_timer_set :: "kernel \<Rightarrow> WduExTimer \<Rightarrow> i64 \<Rightarrow> i64 \<Rightarrow> 'a kstate_scheme \<Rightarrow> bool \<times> 'a kstate_scheme" where
  "ex_timer_set K self duetime period s = obj_bool K (ExSetTimer (et_timer self) duetime period) s"

definition ex_timer_cancel :: "kernel \<Rightarrow> WduExTimer \<Rightarrow> 'a kstate_scheme \<Rightarrow> bool \<times> 'a kstate_scheme" where
  "ex_timer_cancel K self s = obj_bool K (ExCancelTimer (et_timer self)) s"

section \<open>src/common/dpc.rs\<close>

text \<open>
  The crate's part of a DPC: the context and the routine (a function of the client, by its
  address). The \<^verbatim>\<open>KDPC\<close> is the first field, so the DPC's address is the structure's.
\<close>

record 'c WduDpc =
  dpc_context :: "'c option"
  dpc_routine :: "fnptr option"

definition dpc_new :: "'c WduDpc" where
  "dpc_new = \<lparr>dpc_context = None, dpc_routine = None\<rparr>"

text \<open>\<open>custom_dpc_fn\<close> is the address of \<^verbatim>\<open>custom_dpc\<close>.\<close>

definition dpc_init ::
  "kernel \<Rightarrow> fnptr \<Rightarrow> ptr \<Rightarrow> fnptr \<Rightarrow> 'c option \<Rightarrow> 'c WduDpc \<Rightarrow> 'a kstate_scheme \<Rightarrow> 'c WduDpc \<times> 'a kstate_scheme" where
  "dpc_init K custom_dpc_fn at routine context self s =
     (self\<lparr>dpc_routine := Some routine, dpc_context := context\<rparr>,
      sysv K (Obj (KeInitializeDpc at custom_dpc_fn at)) s)"

text \<open>
  \<^verbatim>\<open>insert\<close> passes the addresses of its own parameters (\<open>slot1\<close>, \<open>slot2\<close>, in its frame), which are
  gone when the DPC runs.
\<close>

definition dpc_insert ::
  "kernel \<Rightarrow> ptr \<Rightarrow> ptr \<Rightarrow> ptr \<Rightarrow> 'u option \<Rightarrow> 'v option \<Rightarrow> 'a kstate_scheme \<Rightarrow> bool \<times> 'a kstate_scheme" where
  "dpc_insert K at slot1 slot2 arg1 arg2 s =
     obj_bool K (KeInsertQueueDpc at
       (case arg1 of None \<Rightarrow> null | Some _ \<Rightarrow> slot1)
       (case arg2 of None \<Rightarrow> null | Some _ \<Rightarrow> slot2)) s"

text \<open>
  The entry point the kernel calls: the context pointer is taken as the structure, found in the
  memory of DPC objects (\<open>objs\<close>); its routine, if any, runs on the structure at that address.
  \<open>run\<close> gives the client's routines.
\<close>

definition custom_dpc ::
  "(fnptr \<Rightarrow> ptr \<Rightarrow> 'w \<Rightarrow> 'w option) \<Rightarrow> ('w \<Rightarrow> ptr \<rightharpoonup> 'c WduDpc) \<Rightarrow> ptr \<Rightarrow> 'w \<Rightarrow> 'w option" where
  "custom_dpc run objs ctx w = do {
     wdu_dpc \<leftarrow> objs w ctx;
     case dpc_routine wdu_dpc of None \<Rightarrow> Some w | Some rtn \<Rightarrow> run rtn ctx w
   }"

definition dpc_context_as_ref :: "'c WduDpc \<Rightarrow> 'c option" where
  "dpc_context_as_ref self = dpc_context self"

text \<open>\<open>f\<close> is what the client does through the reference, if there is a context.\<close>

definition dpc_context_as_mut_ref :: "('c \<Rightarrow> 'c) \<Rightarrow> 'c WduDpc \<Rightarrow> 'c WduDpc" where
  "dpc_context_as_mut_ref f self = self\<lparr>dpc_context := map_option f (dpc_context self)\<rparr>"

text \<open>Not implemented in the source: both bodies are empty.\<close>

definition dpc_remove :: "'c WduDpc \<Rightarrow> 'a kstate_scheme \<Rightarrow> 'c WduDpc \<times> 'a kstate_scheme" where
  "dpc_remove self s = (self, s)"

definition dpc_set_importance :: "'c WduDpc \<Rightarrow> 'a kstate_scheme \<Rightarrow> 'c WduDpc \<times> 'a kstate_scheme" where
  "dpc_set_importance self s = (self, s)"

section \<open>src/common/process.rs and src/common/thread.rs\<close>

type_synonym WduProcess = ptr
type_synonym WduThread = ptr

definition ps_ptr :: "kernel \<Rightarrow> ps_call \<Rightarrow> 'a kstate_scheme \<Rightarrow> ptr \<times> 'a kstate_scheme" where
  "ps_ptr K c s = (let (r, s) = sys K (Ps c) s in (r_ptr r, s))"

definition ps_u64 :: "kernel \<Rightarrow> ps_call \<Rightarrow> 'a kstate_scheme \<Rightarrow> u64 \<times> 'a kstate_scheme" where
  "ps_u64 K c s = (let (r, s) = sys K (Ps c) s in (r_u64 r, s))"

definition current_process :: "kernel \<Rightarrow> 'a kstate_scheme \<Rightarrow> WduProcess \<times> 'a kstate_scheme" where
  "current_process K s = ps_ptr K IoGetCurrentProcess s"

definition current_process_id :: "kernel \<Rightarrow> 'a kstate_scheme \<Rightarrow> handle \<times> 'a kstate_scheme" where
  "current_process_id K s = ps_ptr K PsGetCurrentProcessId s"

definition exit_time :: "kernel \<Rightarrow> 'a kstate_scheme \<Rightarrow> i64 \<times> 'a kstate_scheme" where
  "exit_time K s = ps_u64 K PsGetProcessExitTime s"

definition process_id :: "kernel \<Rightarrow> WduProcess \<Rightarrow> 'a kstate_scheme \<Rightarrow> handle \<times> 'a kstate_scheme" where
  "process_id K self s = ps_ptr K (PsGetProcessId self) s"

definition create_time :: "kernel \<Rightarrow> WduProcess \<Rightarrow> 'a kstate_scheme \<Rightarrow> i64 \<times> 'a kstate_scheme" where
  "create_time K self s = ps_u64 K (PsGetProcessCreateTimeQuadPart self) s"

definition exit_status :: "kernel \<Rightarrow> WduProcess \<Rightarrow> 'a kstate_scheme \<Rightarrow> ntstatus \<times> 'a kstate_scheme" where
  "exit_status K self s = (let (r, s) = sys K (Ps (PsGetProcessExitStatus self)) s in (r_status r, s))"

definition start_key :: "kernel \<Rightarrow> WduProcess \<Rightarrow> 'a kstate_scheme \<Rightarrow> u64 \<times> 'a kstate_scheme" where
  "start_key K self s = ps_u64 K (PsGetProcessStartKey self) s"

text \<open>\<open>lit\<close> is the address of the 22 units of the routine's name, which has no terminator.\<close>

definition protection ::
  "kernel \<Rightarrow> ptr \<Rightarrow> WduProcess \<Rightarrow> 'a ustate_scheme \<Rightarrow> u8 option \<times> 'a ustate_scheme" where
  "protection K lit self s =
     (let ps_protection = str_from_slice \<lparr>sl_ptr = lit, sl_len = 22\<rparr>;
          (pfn, s) = get_system_routine_addr K ps_protection s
      in case pfn of
           None \<Rightarrow> (None, s)
         | Some pfn \<Rightarrow> let (r, s) = sys K (Ps (CallPsGetProcessProtection pfn self)) s in (Some (r_u8 r), s))"

definition current_thread_id :: "kernel \<Rightarrow> 'a kstate_scheme \<Rightarrow> handle \<times> 'a kstate_scheme" where
  "current_thread_id K s = ps_ptr K PsGetCurrentThreadId s"

definition thread_process_id :: "kernel \<Rightarrow> WduThread \<Rightarrow> 'a kstate_scheme \<Rightarrow> handle \<times> 'a kstate_scheme" where
  "thread_process_id K self s = ps_ptr K (PsGetThreadProcessId self) s"

definition thread_create_time :: "kernel \<Rightarrow> WduThread \<Rightarrow> 'a kstate_scheme \<Rightarrow> i64 \<times> 'a kstate_scheme" where
  "thread_create_time K self s = ps_u64 K (PsGetThreadCreateTime self) s"

text \<open>
  Both types are transparent wrappers of a pointer, displayed as \<^verbatim>\<open>{:#X}\<close>: the address in upper-case
  hexadecimal digits without leading zeros.
\<close>

definition process_inner :: "WduProcess \<Rightarrow> ptr" where "process_inner self = self"
definition process_wrap :: "ptr \<Rightarrow> WduProcess" where "process_wrap process = process"
definition thread_inner :: "WduThread \<Rightarrow> ptr" where "thread_inner self = self"
definition thread_wrap :: "ptr \<Rightarrow> WduThread" where "thread_wrap thread = thread"

fun hex_digits :: "nat \<Rightarrow> string" where
  "hex_digits n = (if n < 16 then [] else hex_digits (n div 16)) @ [''0123456789ABCDEF'' ! (n mod 16)]"

declare hex_digits.simps [simp del]

definition process_fmt :: "WduProcess \<Rightarrow> string" where
  "process_fmt self = ''0x'' @ hex_digits (unat self)"

definition thread_fmt :: "WduThread \<Rightarrow> string" where
  "thread_fmt self = ''0x'' @ hex_digits (unat self)"

text \<open>What is displayed can be read back: the digits are those of the address.\<close>

definition hex_value :: "string \<Rightarrow> nat" where
  "hex_value ds = foldl (\<lambda>v d. 16 * v + the (position (\<lambda>c. c = d) ''0123456789ABCDEF'')) 0 ds"

lemma hex_digit_value:
  assumes "n < 16"
  shows "position (\<lambda>c. c = ''0123456789ABCDEF'' ! n) ''0123456789ABCDEF'' = Some n"
proof -
  have "list_all (\<lambda>n. position (\<lambda>c. c = ''0123456789ABCDEF'' ! n) ''0123456789ABCDEF'' = Some n) [0..<16]"
    by code_simp
  then show ?thesis
    using assms by (simp add: list_all_iff)
qed

lemma hex_value_digits: "hex_value (hex_digits n) = n"
proof (induction n rule: hex_digits.induct)
  case (1 n)
  have "hex_value (ds @ [''0123456789ABCDEF'' ! (n mod 16)]) = 16 * hex_value ds + n mod 16" for ds
    using hex_digit_value [of "n mod 16"] by (simp add: hex_value_def)
  then show ?case
    using 1 by (simp add: hex_digits.simps [of n]) (simp add: hex_value_def)
qed

section \<open>src/common/obj_attr.rs\<close>

record WduObjectAttributes =
  obj_attr :: OBJECT_ATTRIBUTES

definition obj_attr_default :: WduObjectAttributes where
  "obj_attr_default = \<lparr>obj_attr = \<lparr>oa_Length = 0, oa_RootDirectory = 0, oa_ObjectName = null,
     oa_Attributes = 0, oa_SecurityDescriptor = null, oa_SecurityQualityOfService = null\<rparr>\<rparr>"

definition obj_attr_root_dir :: "handle \<Rightarrow> WduObjectAttributes \<Rightarrow> WduObjectAttributes" where
  "obj_attr_root_dir hdl self = self\<lparr>obj_attr := (obj_attr self)\<lparr>oa_RootDirectory := hdl\<rparr>\<rparr>"

text \<open>
  The name is a parameter by value: its address is that of the parameter (\<open>slot\<close>), and the string
  is dropped when the function returns.
\<close>

definition obj_attr_object_name ::
  "kernel \<Rightarrow> ptr \<Rightarrow> WduUnicodeString \<Rightarrow> WduObjectAttributes \<Rightarrow> 'a kstate_scheme \<Rightarrow> WduObjectAttributes \<times> 'a kstate_scheme" where
  "obj_attr_object_name K slot obj_name self s =
     (self\<lparr>obj_attr := (obj_attr self)\<lparr>oa_ObjectName := slot\<rparr>\<rparr>, ustring_drop K obj_name s)"

text \<open>\<^verbatim>\<open>WduObjHandleAttributes\<close> is a bit set; its bits are cast to \<^verbatim>\<open>u32\<close>.\<close>

definition obj_attr_attributes :: "i32 \<Rightarrow> WduObjectAttributes \<Rightarrow> WduObjectAttributes" where
  "obj_attr_attributes bits self = self\<lparr>obj_attr := (obj_attr self)\<lparr>oa_Attributes := bits\<rparr>\<rparr>"

datatype WduObjHandleAttributes = AttrInherit | AttrPermanent | AttrExclusive | AttrCaseInsensitive | AttrOpenIf
  | AttrKernelHandle | AttrForceAccessCheck | AttrDontReparse | AttrIgnoreImpersonatedDeviceMap | AttrValidAttributes

fun obj_attr_bits :: "WduObjHandleAttributes \<Rightarrow> i32" where
  "obj_attr_bits AttrInherit = 0x2"
| "obj_attr_bits AttrPermanent = 0x10"
| "obj_attr_bits AttrExclusive = 0x20"
| "obj_attr_bits AttrCaseInsensitive = 0x40"
| "obj_attr_bits AttrOpenIf = 0x80"
| "obj_attr_bits AttrKernelHandle = 0x200"
| "obj_attr_bits AttrForceAccessCheck = 0x400"
| "obj_attr_bits AttrDontReparse = 0x1000"
| "obj_attr_bits AttrIgnoreImpersonatedDeviceMap = 0x800"
| "obj_attr_bits AttrValidAttributes = 0x1FF2"

definition obj_attr_security_descriptor :: "WduObjectAttributes \<Rightarrow> WduObjectAttributes option" where
  "obj_attr_security_descriptor self = None"

definition obj_attr_build :: "WduObjectAttributes \<Rightarrow> WduObjectAttributes" where
  "obj_attr_build self = self\<lparr>obj_attr := (obj_attr self)\<lparr>oa_Length := 48\<rparr>\<rparr>"

section \<open>Objects referenced by handle\<close>

locale handle_object =
  fixes obj_open :: "kernel \<Rightarrow> ptr \<Rightarrow> handle \<Rightarrow> u32 \<Rightarrow> ProcessorMode \<Rightarrow> 'a kstate_scheme
      \<Rightarrow> (WduError, 'o) result \<times> 'a kstate_scheme"
    and obj_close :: "kernel \<Rightarrow> 'o \<Rightarrow> 'a kstate_scheme \<Rightarrow> 'a kstate_scheme"
    and obj_ptr :: "'o \<Rightarrow> ptr"
  assumes open_ok: "obj_open K ty h m a s = (Ok ob, s') \<Longrightarrow>
      ref_delta p (klog s') = ref_delta p (klog s) + (if p = obj_ptr ob then 1 else 0)"
    and open_err: "obj_open K ty h m a s = (Err e, s') \<Longrightarrow> ref_delta p (klog s') = ref_delta p (klog s)"
    and close_ref: "ref_delta p (klog (obj_close K ob s)) =
      ref_delta p (klog s) - (if p = obj_ptr ob then 1 else 0)"
begin

text \<open>Uses of an object between its opening and its closing that take no references themselves.\<close>

lemma open_use_close:
  assumes "obj_open K ty h m a s = (Ok ob, s1)" "ref_delta p (klog s2) = ref_delta p (klog s1)"
  shows "ref_delta p (klog (obj_close K ob s2)) = ref_delta p (klog s)"
  using open_ok [OF assms(1)] assms(2) by (simp add: close_ref)

lemma outcome:
  "case obj_open K ty h m a s of
      (Ok ob, s1) \<Rightarrow> ref_delta p (klog s1) = ref_delta p (klog s) + (if p = obj_ptr ob then 1 else 0) \<and>
        (\<forall>s2. ref_delta p (klog s2) = ref_delta p (klog s1) \<longrightarrow>
          ref_delta p (klog (obj_close K ob s2)) = ref_delta p (klog s))
    | (Err e, s1) \<Rightarrow> ref_delta p (klog s1) = ref_delta p (klog s)"
proof (cases "obj_open K ty h m a s")
  case (Pair res s1)
  then show ?thesis
  proof (cases res)
    case (Inl e)
    then show ?thesis using Pair open_err by simp
  next
    case (Inr ob)
    with Pair have op: "obj_open K ty h m a s = (Ok ob, s1)" by simp
    from open_ok [OF op, of p] open_use_close [OF op] show ?thesis by (simp add: op)
  qed
qed

end

interpretation event_object: handle_object event_ref_by_handle event_dereference ev_event
proof (unfold_locales, goal_cases)
  case (1 K ty h m a s ob s' p)
  then obtain q where "ref_by_handle K h m (Some ty) a s = (Ok q, s')" "ev_event ob = q"
    by (auto simp: event_ref_by_handle_def split: prod.splits sum.splits)
  from ref_by_handle_delta [OF this(1)] this(2) show ?case by auto
next
  case (2 K ty h m a s e s' p)
  then have "ref_by_handle K h m (Some ty) a s = (Err e, s')"
    by (auto simp: event_ref_by_handle_def split: prod.splits sum.splits)
  from ref_by_handle_delta [OF this] show ?case by simp
qed (simp add: event_dereference_def)

interpretation semaphore_object: handle_object semaphore_ref_by_handle semaphore_dereference sm_semaphore
proof (unfold_locales, goal_cases)
  case (1 K ty h m a s ob s' p)
  then obtain q where "ref_by_handle K h m (Some ty) a s = (Ok q, s')" "sm_semaphore ob = q"
    by (auto simp: semaphore_ref_by_handle_def split: prod.splits sum.splits)
  from ref_by_handle_delta [OF this(1)] this(2) show ?case by auto
next
  case (2 K ty h m a s e s' p)
  then have "ref_by_handle K h m (Some ty) a s = (Err e, s')"
    by (auto simp: semaphore_ref_by_handle_def split: prod.splits sum.splits)
  from ref_by_handle_delta [OF this] show ?case by simp
qed (simp add: semaphore_dereference_def)

text \<open>
  C28. An event obtained from a handle holds one reference on its object and on no other; used, by
  anything that keeps the count, and dereferenced, it leaves every object's reference count as it
  was; an open that fails takes no reference. The same holds for a semaphore.
\<close>

theorem handle_refs_balanced:
  fixes s :: "'a kstate_scheme"
  shows "(case event_ref_by_handle K ty h m a s of
      (Ok ob, s1) \<Rightarrow> ref_delta p (klog s1) = ref_delta p (klog s) + (if p = ev_event ob then 1 else 0) \<and>
        (\<forall>s2 :: 'a kstate_scheme. ref_delta p (klog s2) = ref_delta p (klog s1) \<longrightarrow>
          ref_delta p (klog (event_dereference K ob s2)) = ref_delta p (klog s))
    | (Err e, s1) \<Rightarrow> ref_delta p (klog s1) = ref_delta p (klog s)) \<and>
    (case semaphore_ref_by_handle K ty h m a s of
      (Ok ob, s1) \<Rightarrow> ref_delta p (klog s1) = ref_delta p (klog s) + (if p = sm_semaphore ob then 1 else 0) \<and>
        (\<forall>s2 :: 'a kstate_scheme. ref_delta p (klog s2) = ref_delta p (klog s1) \<longrightarrow>
          ref_delta p (klog (semaphore_dereference K ob s2)) = ref_delta p (klog s))
    | (Err e, s1) \<Rightarrow> ref_delta p (klog s1) = ref_delta p (klog s))"
  by (intro conjI event_object.outcome semaphore_object.outcome)

text \<open>An event and a semaphore that are opened, and a kernel that refuses.\<close>

theorem handle_refs_balanced_witness:
  "\<exists>ev s1 sem s2 e s3. event_ref_by_handle (\<lambda>_ _. reply0\<lparr>r_out := 0x70\<rparr>) 0x1 0x4 2 UserMode kst0 = (Ok ev, s1) \<and>
    ref_delta 0x70 (klog s1) = 1 \<and> ref_delta 0x70 (klog (event_dereference (\<lambda>_ _. reply0\<lparr>r_out := 0x70\<rparr>) ev s1)) = 0 \<and>
    semaphore_ref_by_handle (\<lambda>_ _. reply0\<lparr>r_out := 0x70\<rparr>) 0x1 0x4 2 UserMode kst0 = (Ok sem, s2) \<and>
    ref_delta 0x70 (klog (semaphore_dereference (\<lambda>_ _. reply0\<lparr>r_out := 0x70\<rparr>) sem s2)) = 0 \<and>
    semaphore_ref_by_handle (\<lambda>_ _. reply0\<lparr>r_status := STATUS_UNSUCCESSFUL\<rparr>) 0x1 0x4 2 UserMode kst0 = (Err e, s3) \<and>
    ref_delta 0x70 (klog s3) = 0"
proof -
  let ?K = "\<lambda>_ _. reply0\<lparr>r_out := 0x70\<rparr>" and ?F = "\<lambda>_ _. reply0\<lparr>r_status := STATUS_UNSUCCESSFUL\<rparr>"
  obtain ev s1 where 1: "event_ref_by_handle ?K 0x1 0x4 2 UserMode kst0 = (Ok ev, s1)"
    by (simp add: event_ref_by_handle_def ref_by_handle_def sys_eq)
  then have ev: "ev_event ev = 0x70"
    by (auto simp: event_ref_by_handle_def ref_by_handle_def sys_eq)
  obtain sem s2 where 2: "semaphore_ref_by_handle ?K 0x1 0x4 2 UserMode kst0 = (Ok sem, s2)"
    by (simp add: semaphore_ref_by_handle_def ref_by_handle_def sys_eq)
  obtain e s3 where 3: "semaphore_ref_by_handle ?F 0x1 0x4 2 UserMode kst0 = (Err e, s3)"
    by (simp add: semaphore_ref_by_handle_def ref_by_handle_def sys_eq nt_consts)
  note K = handle_refs_balanced [where K = ?K and ty = "0x1" and h = "0x4" and m = 2 and a = UserMode and s = kst0 and p = "0x70",
      unfolded 1 2]
    and F = handle_refs_balanced [where K = ?F and ty = "0x1" and h = "0x4" and m = 2 and a = UserMode and s = kst0 and p = "0x70",
      unfolded 3]
  show ?thesis
    using 1 2 3 K F ev by auto
qed

text \<open>
  Setting the object name frees the name: \<^verbatim>\<open>object_name\<close> takes its string by value, so for a
  string from \<^verbatim>\<open>create\<close> the attributes end up with a pointer into the finished frame whose
  characters' pool block has just been freed.
\<close>

lemma object_name_is_freed:
  assumes "us_alloc name = Some AllocPool"
    and "pool_blocks (klog s) (Buffer (us_string name)) = Some (n, STRING_ALLOC_TAG)"
  shows "oa_ObjectName (obj_attr (fst (obj_attr_object_name K slot name attr s))) = slot \<and>
    pool_blocks (klog (snd (obj_attr_object_name K slot name attr s))) (Buffer (us_string name)) = None"
  using assms by (simp add: obj_attr_object_name_def ustring_drop_def free_buffer_def)

lemma object_name_is_freed_witness:
  "\<exists>name s. ustring_create kernel0 src0 PoolFlagPaged st0 = Some (Ok name, s) \<and>
    pool_blocks (klog s) (Buffer (us_string name)) \<noteq> None \<and>
    pool_blocks (klog (snd (obj_attr_object_name kernel0 0x500 name obj_attr_default s))) (Buffer (us_string name)) = None"
proof -
  obtain name s where create: "ustring_create kernel0 src0 PoolFlagPaged st0 = Some (Ok name, s)"
    using create_src0 by blast
  have "sl_len src0 < 32768"
    by (simp add: src0_def)
  note owned = create_owned_block [OF _ this create]
  then show ?thesis
    using create object_name_is_freed [OF owned, of kernel0 "0x500" obj_attr_default] by auto
qed

text \<open>
  C29. A DPC runs the routine it was initialised with: when the kernel calls \<^verbatim>\<open>custom_dpc\<close> with the
  context that \<^verbatim>\<open>init\<close> registered, and the structure is still at the address it was initialised
  at, the routine runs on that structure, which holds the context given to \<^verbatim>\<open>init\<close>; if the memory
  there is gone, the call is a fault.
\<close>

theorem dpc_runs_its_routine:
  assumes "dpc_init K cd at routine context d s = (d', s')" "objs w at = Some d'"
  shows "\<exists>ctx. fst (last (klog s')) = Obj (KeInitializeDpc at cd ctx) \<and>
    dpc_context d' = context \<and> custom_dpc run objs ctx w = run routine at w \<and>
    (\<forall>w'. objs w' at = None \<longrightarrow> custom_dpc run objs ctx w' = None)"
  using assms by (auto simp: dpc_init_def custom_dpc_def)

theorem dpc_runs_its_routine_witness:
  "\<exists>d' s'. dpc_init (\<lambda>_ _. reply0) 0x9 0x40 0x77 (Some (5::nat)) dpc_new kst0 = (d', s') \<and>
    dpc_context d' = Some 5 \<and>
    custom_dpc (\<lambda>f at w. Some ((f, at) # w)) (\<lambda>_. [0x40 \<mapsto> d']) 0x40 [] = Some [(0x77, 0x40)]"
proof -
  obtain d' s' where d: "dpc_init (\<lambda>_ _. reply0) 0x9 0x40 0x77 (Some (5::nat)) dpc_new kst0 = (d', s')"
    by force
  then have "fst (last (klog s')) = Obj (KeInitializeDpc 0x40 0x9 0x40)"
    by (auto simp: dpc_init_def)
  with d show ?thesis
    using dpc_runs_its_routine [OF d, of "\<lambda>_. [0x40 \<mapsto> d']" "[]" "\<lambda>f at w. Some ((f, at) # w)"] by auto
qed

end
