(* ===== verification/Wdu_IoState.thy ===== *)
theory Wdu_IoState
  imports Wdu_Ustring
begin

text \<open>
  The data of the I/O modules (\<^verbatim>\<open>src/io\<close>, \<^verbatim>\<open>src/memory/mdl.rs\<close>, \<^verbatim>\<open>src/common/driver.rs\<close>): the
  fields of the Windows structures they read and write, their own structures, and the memory in
  which both are found by address. A dereference of an address that holds no such structure is
  a fault (\<open>None\<close>).
\<close>

section \<open>Windows structures\<close>

record MDL =
  MdlFlags :: "16 word"
  MappedSystemVa :: ptr
  StartVa :: ptr
  ByteOffset :: u32
  ByteCount :: u32

record FILE_OBJECT =
  FileName :: UNICODE_STRING
  FsContext :: ptr
  FsContext2 :: ptr

text \<open>
  The parameters of a stack location are a union; the crate reads it as the raw device-control
  structure or as the parameters of a create request (whose security context is null or gives
  the desired access).
\<close>

record DeviceIoControlRaw =
  OutputBufferLength :: usize
  InputBufferLength :: usize
  IoControlCode :: usize
  Type3InputBuffer :: ptr

record create_params =
  cp_SecurityContext :: "u32 option"
  cp_FileAttributes :: u16
  cp_ShareAccess :: u16

record IO_STACK_LOCATION =
  sl_MajorFunction :: u8
  sl_Control :: u8
  sl_FileObject :: ptr
  sl_DeviceIoControl :: DeviceIoControlRaw
  sl_Create :: create_params

text \<open>An IRP with its current stack location.\<close>

record IRP =
  irp_CurrentLocation :: i8
  irp_StackCount :: i8
  irp_CurrentStack :: IO_STACK_LOCATION
  irp_Status :: ntstatus
  irp_Information :: usize
  irp_SystemBuffer :: ptr
  irp_UserBuffer :: ptr
  irp_MdlAddress :: ptr
  irp_OriginalFileObject :: ptr
  irp_Cancel :: u8
  irp_CancelIrql :: u8
  irp_RequestorMode :: i8
  irp_DriverContext3 :: ptr
  irp_CancelRoutine :: "fnptr option"

text \<open>\<open>dro_AddDevice\<close> is \<open>None\<close> when the driver object has no extension.\<close>

record DRIVER_OBJECT =
  dro_DeviceObject :: ptr
  dro_AddDevice :: "fnptr option option"
  dro_DriverUnload :: "fnptr option"
  dro_MajorFunction :: "fnptr option list"

definition IRP_MJ_CREATE :: u32 where [nt_consts]: "IRP_MJ_CREATE = 0"
definition IRP_MJ_CLOSE :: u32 where [nt_consts]: "IRP_MJ_CLOSE = 2"
definition IRP_MJ_READ :: u32 where [nt_consts]: "IRP_MJ_READ = 3"
definition IRP_MJ_WRITE :: u32 where [nt_consts]: "IRP_MJ_WRITE = 4"
definition IRP_MJ_DEVICE_CONTROL :: u32 where [nt_consts]: "IRP_MJ_DEVICE_CONTROL = 14"
definition IRP_MJ_CLEANUP :: u32 where [nt_consts]: "IRP_MJ_CLEANUP = 18"

section \<open>Structures of the crate\<close>

datatype MajorFunction = MjCreate | MjClose | MjCleanup | MjRead | MjWrite | MjDeviceControl

record WduIrp =
  wi_irp :: ptr
  wi_mj :: MajorFunction
  wi_cancel :: "fnptr option"

datatype WduDeviceType = DtACPI | DtDiskFileSystem | DtDisk | DtFileSystem | DtMassStorage | DtUnknown

datatype WduDeviceChars =
    DcNone | DcRemovableMedia | DcReadOnly | DcWriteOnce | DcRemote | DcMounted | DcVirtualVolume
  | DcAutoGeneratedName | DcSecureOpen | DcAllowAppContainerTraversal | DcPortableDevice | DcRequireSecCheck

record WduDevice =
  wd_device_type :: WduDeviceType
  wd_characteristics :: WduDeviceChars
  wd_exclusive :: bool
  wd_device :: ptr

text \<open>The client's routines are function addresses.\<close>

record FileObjDispatch =
  fd_create :: "fnptr option"
  fd_close :: "fnptr option"
  fd_cleanup :: "fnptr option"

record IoDispath =
  id_read :: "fnptr option"
  id_write :: "fnptr option"
  id_ioctl :: "fnptr option"

record WduDriver =
  wr_init :: bool
  wr_driver :: ptr
  wr_add_device :: "fnptr option"
  wr_unload :: "fnptr option"
  wr_io :: IoDispath
  wr_fileobj :: FileObjDispatch

section \<open>The memory of structures\<close>

text \<open>
  \<open>wdu_devices\<close> is what lies at the start of a device extension, \<open>wdu_drivers\<close> at a driver
  extension, \<open>irp_boxes\<close> in the boxes behind cancelable IRPs; \<open>client\<close> holds the client's own
  values: boxed file contexts and its part of a device extension.
\<close>

record 'c iostate = ustate +
  irps :: "ptr \<rightharpoonup> IRP"
  mdls :: "ptr \<rightharpoonup> MDL"
  file_objs :: "ptr \<rightharpoonup> FILE_OBJECT"
  devices :: "ptr \<rightharpoonup> DEVICE_OBJECT"
  drivers :: "ptr \<rightharpoonup> DRIVER_OBJECT"
  wdu_devices :: "ptr \<rightharpoonup> WduDevice"
  wdu_drivers :: "ptr \<rightharpoonup> WduDriver"
  irp_boxes :: "ptr \<rightharpoonup> WduIrp"
  client :: "ptr \<rightharpoonup> 'c"

definition io0 :: "'c iostate" where
  "io0 = \<lparr>klog = [], debug_assertions = True, umem = \<lambda>a. 0, try_non_paged = False,
     irps = Map.empty, mdls = Map.empty, file_objs = Map.empty, devices = Map.empty,
     drivers = Map.empty, wdu_devices = Map.empty, wdu_drivers = Map.empty,
     irp_boxes = Map.empty, client = Map.empty\<rparr>"

lemma io0_simps [simp]:
  "klog io0 = []" "debug_assertions io0 = True" "irps io0 = Map.empty" "mdls io0 = Map.empty"
  "file_objs io0 = Map.empty" "devices io0 = Map.empty" "drivers io0 = Map.empty"
  "wdu_devices io0 = Map.empty" "wdu_drivers io0 = Map.empty" "irp_boxes io0 = Map.empty"
  "client io0 = Map.empty" "umem io0 = (\<lambda>a. 0)" "try_non_paged io0 = False"
  by (simp_all add: io0_def)

end
