(* ===== verification/Wdu_Mdl.thy ===== *)
theory Wdu_Mdl
  imports Wdu_IoState
begin

text \<open>
  \<^verbatim>\<open>src/memory/mdl.rs\<close>: memory descriptor lists, their locking and their release by \<^verbatim>\<open>drop\<close>. The
  lemmas follow which MDLs a log leaves allocated and which it leaves with locked pages.
\<close>

section \<open>Definitions\<close>

definition MDL_MAPPED_TO_SYSTEM_VA :: u32 where "MDL_MAPPED_TO_SYSTEM_VA = 1"
definition MDL_SOURCE_IS_NONPAGED_POOL :: u32 where "MDL_SOURCE_IS_NONPAGED_POOL = 4"

datatype WduMdlError = AllocateError

record WduMdl =
  md_mdl :: ptr
  md_lock :: bool
  md_alloc :: bool

datatype LockOperation = IoReadAccess | IoWriteAccess | IoModifyAccess

fun lock_operation_into :: "LockOperation \<Rightarrow> i32" where
  "lock_operation_into IoReadAccess = 0"
| "lock_operation_into IoWriteAccess = 1"
| "lock_operation_into IoModifyAccess = 2"

text \<open>The flags of the bit set \<^verbatim>\<open>PagePriority\<close>.\<close>

definition PagePriority_Low :: u32 where "PagePriority_Low = 0"
definition PagePriority_High :: u32 where "PagePriority_High = 32"
definition PagePriority_MdlMappingWithGuardPtes :: u32 where "PagePriority_MdlMappingWithGuardPtes = 0x20000000"
definition PagePriority_MdlMappingNoWrite :: u32 where "PagePriority_MdlMappingNoWrite = 0x80000000"
definition PagePriority_Normal :: u32 where "PagePriority_Normal = 16"
definition PagePriority_MdlMappingNoExecute :: u32 where "PagePriority_MdlMappingNoExecute = 0x40000000"

definition MmCached :: i32 where [nt_consts]: "MmCached = 1"

definition mdl_wrap :: "ptr \<Rightarrow> WduMdl" where
  "mdl_wrap mdl = \<lparr>md_mdl = mdl, md_lock = False, md_alloc = False\<rparr>"

text \<open>\<open>irp\<close> is the IRP's address, or \<open>None\<close>.\<close>

definition mdl_allocate ::
  "kernel \<Rightarrow> ptr \<Rightarrow> u32 \<Rightarrow> bool \<Rightarrow> ptr option \<Rightarrow> 'a kstate_scheme \<Rightarrow> (WduMdlError, WduMdl) result \<times> 'a kstate_scheme" where
  "mdl_allocate K va len secondary irp s =
     (let (r, s) = sys K (Io (IoAllocateMdl va len (u8_of_bool secondary) (u8_of_bool False)
            (case irp of None \<Rightarrow> null | Some irp \<Rightarrow> irp))) s
      in if r_ptr r = null then (Err AllocateError, s)
         else (Ok \<lparr>md_mdl = r_ptr r, md_lock = False, md_alloc = True\<rparr>, s))"

text \<open>The flags are compared in 16 bits, as the field has.\<close>

definition get_system_addr ::
  "kernel \<Rightarrow> WduMdl \<Rightarrow> u32 \<Rightarrow> ('c, 'a) iostate_scheme \<Rightarrow> (ptr \<times> ('c, 'a) iostate_scheme) option" where
  "get_system_addr K self priority s =
     (if md_mdl self = null then Some (null, s)
      else do {
        mdl \<leftarrow> mdls s (md_mdl self);
        let flags = (ucast (MDL_MAPPED_TO_SYSTEM_VA OR MDL_SOURCE_IS_NONPAGED_POOL) :: 16 word);
        if MdlFlags mdl AND flags \<noteq> 0 then Some (MappedSystemVa mdl, s)
        else do {
          let (r, s) = sys K (Io (MmMapLockedPagesSpecifyCache (md_mdl self)
                 (processor_mode_into KernelMode) MmCached null 0 priority)) s;
          Some (r_ptr r, s)
        }
      })"

definition get_va :: "WduMdl \<Rightarrow> ('c, 'a) iostate_scheme \<Rightarrow> ptr option" where
  "get_va self s =
     (if md_mdl self = null then Some null
      else do { mdl \<leftarrow> mdls s (md_mdl self); Some (StartVa mdl + ucast (ByteOffset mdl)) })"

definition get_base_va :: "WduMdl \<Rightarrow> ('c, 'a) iostate_scheme \<Rightarrow> ptr option" where
  "get_base_va self s =
     (if md_mdl self = null then Some null
      else do { mdl \<leftarrow> mdls s (md_mdl self); Some (StartVa mdl) })"

definition mdl_free :: "kernel \<Rightarrow> WduMdl \<Rightarrow> 'a kstate_scheme \<Rightarrow> 'a kstate_scheme" where
  "mdl_free K self s = sysv K (Io (IoFreeMdl (md_mdl self))) s"

text \<open>
  \<^verbatim>\<open>MmProbeAndLockPages\<close> returns nothing, but raises an exception when the pages cannot be accessed or
  locked; nothing in the crate catches it. The status of the answer is the code of that exception,
  \<open>STATUS_SUCCESS\<close> when the routine returns; an exception is a fault of the caller.
\<close>

definition probe_and_lock ::
  "kernel \<Rightarrow> WduMdl \<Rightarrow> ProcessorMode \<Rightarrow> LockOperation \<Rightarrow> 'a kstate_scheme \<Rightarrow> (WduMdl \<times> 'a kstate_scheme) option" where
  "probe_and_lock K self access_mode lock_op s = do {
     let (r, s) = sys K (Io (MmProbeAndLockPages (md_mdl self) (processor_mode_into access_mode)
            (lock_operation_into lock_op))) s;
     rust_assert (r_status r = STATUS_SUCCESS);
     Some (self\<lparr>md_lock := True\<rparr>, s)
   }"

definition mdl_unlock :: "kernel \<Rightarrow> WduMdl \<Rightarrow> 'a kstate_scheme \<Rightarrow> WduMdl \<times> 'a kstate_scheme" where
  "mdl_unlock K self s =
     (let s = sysv K (Io (MmUnlockPages (md_mdl self))) s in (self\<lparr>md_lock := False\<rparr>, s))"

definition byte_count :: "WduMdl \<Rightarrow> ('c, 'a) iostate_scheme \<Rightarrow> usize option" where
  "byte_count self s =
     (if md_mdl self = null then Some 0
      else do { mdl \<leftarrow> mdls s (md_mdl self); Some (ucast (ByteCount mdl)) })"

definition mdl_drop :: "kernel \<Rightarrow> WduMdl \<Rightarrow> 'a kstate_scheme \<Rightarrow> 'a kstate_scheme" where
  "mdl_drop K self s =
     (let (self, s) = (if md_lock self then mdl_unlock K self s else (self, s))
      in if md_alloc self then mdl_free K self s else s)"

text \<open>The derived \<^verbatim>\<open>Clone\<close> copies the pointer and both flags.\<close>

definition mdl_clone :: "WduMdl \<Rightarrow> WduMdl" where
  "mdl_clone self = \<lparr>md_mdl = md_mdl self, md_lock = md_lock self, md_alloc = md_alloc self\<rparr>"

section \<open>Accounting\<close>

text \<open>For one MDL address: how often it was allocated and not freed, and locked and not unlocked.\<close>

fun mdl_counts :: "ptr \<Rightarrow> kevent list \<Rightarrow> int \<times> int" where
  "mdl_counts p [] = (0, 0)"
| "mdl_counts p ((c, r) # es) =
     (let (al, lk) = mdl_counts p es in
      case c of
        Io (IoAllocateMdl v n a b i) \<Rightarrow> (if r_ptr r = p \<and> p \<noteq> null then al + 1 else al, lk)
      | Io (IoFreeMdl q) \<Rightarrow> (if q = p then al - 1 else al, lk)
      | Io (MmProbeAndLockPages q m oper) \<Rightarrow> (al, if q = p then lk + 1 else lk)
      | Io (MmUnlockPages q) \<Rightarrow> (al, if q = p then lk - 1 else lk)
      | _ \<Rightarrow> (al, lk))"

lemma mdl_counts_append:
  "mdl_counts p (xs @ ys) =
     (fst (mdl_counts p xs) + fst (mdl_counts p ys), snd (mdl_counts p xs) + snd (mdl_counts p ys))"
  by (induction p xs rule: mdl_counts.induct)
     (auto simp: Let_def split: prod.splits kcall.splits io_call.splits)

text \<open>What one value of the type is responsible for.\<close>

definition mdl_owes :: "ptr \<Rightarrow> WduMdl \<Rightarrow> int \<times> int" where
  "mdl_owes p m =
     (if md_alloc m \<and> md_mdl m = p then 1 else 0, if md_lock m \<and> md_mdl m = p then 1 else 0)"

lemma mdl_drop_counts:
  "mdl_counts p (klog (mdl_drop K m s)) =
     (fst (mdl_counts p (klog s)) - fst (mdl_owes p m), snd (mdl_counts p (klog s)) - snd (mdl_owes p m))"
  by (simp add: mdl_drop_def mdl_unlock_def mdl_free_def mdl_owes_def mdl_counts_append)

lemma mdl_allocate_counts:
  assumes "mdl_allocate K va len sec irp s = (Ok m, s')"
  shows "mdl_counts p (klog s') =
      (fst (mdl_counts p (klog s)) + fst (mdl_owes p m), snd (mdl_counts p (klog s)) + snd (mdl_owes p m))"
  using assms
  by (auto simp: mdl_allocate_def mdl_owes_def mdl_counts_append sys_eq split: if_splits)

lemma mdl_allocate_failed_counts:
  assumes "mdl_allocate K va len sec irp s = (Err e, s')"
  shows "mdl_counts p (klog s') = mdl_counts p (klog s)"
  using assms by (auto simp: mdl_allocate_def mdl_counts_append sys_eq split: if_splits)

lemma probe_and_lock_counts:
  assumes "\<not> md_lock m" "probe_and_lock K m mode oper s = Some (m', s')"
  shows "mdl_counts p (klog s') =
      (fst (mdl_counts p (klog s)) - fst (mdl_owes p m) + fst (mdl_owes p m'),
       snd (mdl_counts p (klog s)) - snd (mdl_owes p m) + snd (mdl_owes p m'))"
  using assms by (auto simp: probe_and_lock_def mdl_owes_def mdl_counts_append sys_eq rust_assert_def split: if_splits)

text \<open>
  C20. An MDL that is allocated, locked at most once and dropped is unlocked and freed exactly once:
  for every address, the allocations and page locks are balanced as before. A failed allocation
  leaves nothing behind.
\<close>

theorem mdl_drop_balanced:
  assumes "mdl_allocate K va len sec irp s = (res, s1)"
    and "case res of
        Inl e \<Rightarrow> s2 = s1
      | Inr m \<Rightarrow> s2 = mdl_drop K m s1 \<or>
          (\<exists>mode oper m' s'. probe_and_lock K m mode oper s1 = Some (m', s') \<and> s2 = mdl_drop K m' s')"
  shows "mdl_counts p (klog s2) = mdl_counts p (klog s)"
proof (cases res)
  case (Inl e)
  then show ?thesis
    using assms mdl_allocate_failed_counts [of K va len sec irp s e s1 p] by simp
next
  case (Inr m)
  then have alloc: "mdl_allocate K va len sec irp s = (Ok m, s1)" and "\<not> md_lock m"
    using assms(1) by (auto simp: mdl_allocate_def sys_eq split: if_splits)
  then show ?thesis
    using assms(2) Inr mdl_allocate_counts [OF alloc, of p] probe_and_lock_counts [OF \<open>\<not> md_lock m\<close>, of K _ _ s1 _ _ p]
    by (auto simp: mdl_drop_counts)
qed

theorem mdl_drop_balanced_witness:
  "\<exists>m s1 m' s2. mdl_allocate (\<lambda>_ _. reply0\<lparr>r_ptr := 0x900\<rparr>) 0x5000 64 False None kst0 = (Ok m, s1) \<and>
    probe_and_lock (\<lambda>_ _. reply0\<lparr>r_ptr := 0x900\<rparr>) m UserMode IoReadAccess s1 = Some (m', s2) \<and>
    mdl_counts 0x900 (klog s2) = (1, 1) \<and>
    mdl_counts 0x900 (klog (mdl_drop (\<lambda>_ _. reply0\<lparr>r_ptr := 0x900\<rparr>) m' s2)) = (0, 0)"
proof -
  let ?K = "\<lambda>_ _. reply0\<lparr>r_ptr := 0x900\<rparr>"
  obtain m s1 where a: "mdl_allocate ?K 0x5000 64 False None kst0 = (Ok m, s1)"
    by (simp add: mdl_allocate_def sys_eq)
  obtain m' s2 where b: "probe_and_lock ?K m UserMode IoReadAccess s1 = Some (m', s2)"
    by (simp add: probe_and_lock_def sys_eq rust_assert_def nt_consts)
  have "mdl_counts 0x900 (klog s2) = (1, 1)"
    using a b by (auto simp: mdl_allocate_def probe_and_lock_def sys_eq rust_assert_def nt_consts)
  moreover have "mdl_counts 0x900 (klog (mdl_drop ?K m' s2)) = mdl_counts 0x900 (klog kst0)"
    using b by (intro mdl_drop_balanced [OF a]) auto
  ultimately show ?thesis using a b by auto
qed

text \<open>
  \<^verbatim>\<open>WduMdl\<close> derives \<^verbatim>\<open>Clone\<close> and frees in \<^verbatim>\<open>Drop\<close>: dropping an allocated MDL and its clone frees the
  MDL once more than it was allocated.
\<close>

lemma mdl_clone_double_free:
  assumes "mdl_allocate K va len sec irp s = (Ok m, s1)"
  shows "fst (mdl_counts (md_mdl m) (klog (mdl_drop K (mdl_clone m) (mdl_drop K m s1)))) =
    fst (mdl_counts (md_mdl m) (klog s)) - 1"
proof -
  have "md_alloc m"
    using assms by (auto simp: mdl_allocate_def sys_eq split: if_splits)
  then show ?thesis
    using mdl_allocate_counts [OF assms, of "md_mdl m"]
    by (simp add: mdl_drop_counts mdl_owes_def mdl_clone_def)
qed

end
