(* ===== verification/Wdu_Irp.thy ===== *)
theory Wdu_Irp
  imports Wdu_Mdl Wdu_Ioctl
begin

text \<open>
  \<^verbatim>\<open>src/io/irp.rs\<close>, \<^verbatim>\<open>file_obj.rs\<close>, \<^verbatim>\<open>create.rs\<close> and \<^verbatim>\<open>device_control.rs\<close>: the IRP wrapper with
  completion and cancellation, the contexts of file objects, and the views of create and device
  control requests. Once \<^verbatim>\<open>IofCompleteRequest\<close> has been called the IRP is the I/O manager's again:
  it is no longer mapped, and touching it is a fault.
\<close>

section \<open>src/io/irp.rs\<close>

text \<open>\<^verbatim>\<open>From<u32>\<close>: any other code is \<^verbatim>\<open>todo!()\<close>.\<close>

definition major_from :: "u32 \<Rightarrow> MajorFunction option" where
  "major_from v =
     (if v = IRP_MJ_CREATE then Some MjCreate
      else if v = IRP_MJ_CLOSE then Some MjClose
      else if v = IRP_MJ_CLEANUP then Some MjCleanup
      else if v = IRP_MJ_READ then Some MjRead
      else if v = IRP_MJ_WRITE then Some MjWrite
      else if v = IRP_MJ_DEVICE_CONTROL then Some MjDeviceControl
      else panic)"

fun mj_is_io :: "MajorFunction \<Rightarrow> bool" where
  "mj_is_io MjWrite = True"
| "mj_is_io MjRead = True"
| "mj_is_io MjDeviceControl = True"
| "mj_is_io _ = False"

fun mj_is_fileobj :: "MajorFunction \<Rightarrow> bool" where
  "mj_is_fileobj MjCreate = True"
| "mj_is_fileobj MjClose = True"
| "mj_is_fileobj MjCleanup = True"
| "mj_is_fileobj _ = False"

text \<open>Power and PnP requests are \<^verbatim>\<open>todo!()\<close>.\<close>

definition mj_is_power :: "MajorFunction \<Rightarrow> bool option" where "mj_is_power mj = None"
definition mj_is_pnp :: "MajorFunction \<Rightarrow> bool option" where "mj_is_pnp mj = None"

record WduIoStatus =
  ios_status :: ntstatus
  ios_info :: usize

definition io_status_new :: WduIoStatus where
  "io_status_new = \<lparr>ios_status = STATUS_UNSUCCESSFUL, ios_info = 0\<rparr>"

definition new_with_status :: "ntstatus \<Rightarrow> WduIoStatus" where
  "new_with_status status = \<lparr>ios_status = status, ios_info = 0\<rparr>"

definition success_no_info :: WduIoStatus where
  "success_no_info = \<lparr>ios_status = STATUS_SUCCESS, ios_info = 0\<rparr>"

definition success_with_info :: "usize \<Rightarrow> WduIoStatus" where
  "success_with_info info = \<lparr>ios_status = STATUS_SUCCESS, ios_info = info\<rparr>"

definition set_status :: "ntstatus \<Rightarrow> WduIoStatus \<Rightarrow> WduIoStatus" where
  "set_status status self = self\<lparr>ios_status := status\<rparr>"

definition set_info :: "usize \<Rightarrow> WduIoStatus \<Rightarrow> WduIoStatus" where
  "set_info info self = self\<lparr>ios_info := info\<rparr>"

text \<open>
  \<^verbatim>\<open>assert!((*irp).CurrentLocation <= (*irp).StackCount + 1)\<close> on \<^verbatim>\<open>i8\<close> values: the addition panics on
  overflow in debug builds and wraps otherwise.
\<close>

definition current_stack :: "ptr \<Rightarrow> ('c, 'a) iostate_scheme \<Rightarrow> IO_STACK_LOCATION option" where
  "current_stack p s = do {
     irp \<leftarrow> irps s p;
     rust_assert (debug_assertions s \<longrightarrow> irp_StackCount irp \<noteq> 0x7F);
     rust_assert (irp_CurrentLocation irp \<le>s irp_StackCount irp + 1);
     Some (irp_CurrentStack irp)
   }"

definition current_stack_as_mut ::
  "ptr \<Rightarrow> (IO_STACK_LOCATION \<Rightarrow> IO_STACK_LOCATION) \<Rightarrow> ('c, 'a) iostate_scheme \<Rightarrow> ('c, 'a) iostate_scheme option" where
  "current_stack_as_mut p f s = do {
     irp \<leftarrow> irps s p;
     rust_assert (debug_assertions s \<longrightarrow> irp_StackCount irp \<noteq> 0x7F);
     rust_assert (irp_CurrentLocation irp \<le>s irp_StackCount irp + 1);
     Some (s\<lparr>irps := (irps s)(p \<mapsto> irp\<lparr>irp_CurrentStack := f (irp_CurrentStack irp)\<rparr>)\<rparr>)
   }"

definition irp_wrap :: "ptr \<Rightarrow> ('c, 'a) iostate_scheme \<Rightarrow> WduIrp option" where
  "irp_wrap p s = do {
     sl \<leftarrow> current_stack p s;
     mj \<leftarrow> major_from (ucast (sl_MajorFunction sl));
     Some \<lparr>wi_irp = p, wi_mj = mj, wi_cancel = None\<rparr>
   }"

definition complete_request :: "kernel \<Rightarrow> WduIrp \<Rightarrow> i8 \<Rightarrow> ('c, 'a) iostate_scheme \<Rightarrow> ('c, 'a) iostate_scheme option" where
  "complete_request K self boost s = do {
     irp \<leftarrow> irps s (wi_irp self);
     let s = sysv K (Io (IofCompleteRequest (wi_irp self) (irp_Status irp) (irp_Information irp) boost)) s;
     Some (s\<lparr>irps := (irps s)(wi_irp self := None)\<rparr>)
   }"

definition forward_sync :: "kernel \<Rightarrow> WduIrp \<Rightarrow> WduDevice \<Rightarrow> 'a kstate_scheme \<Rightarrow> bool \<times> 'a kstate_scheme" where
  "forward_sync K self device s =
     (let (r, s) = sys K (Io (IoForwardIrpSynchronously (wd_device device) (wi_irp self))) s
      in (r_u8 r = 1, s))"

definition irp_complete ::
  "kernel \<Rightarrow> WduIrp \<Rightarrow> WduIoStatus \<Rightarrow> ('c, 'a) iostate_scheme \<Rightarrow> ('c, 'a) iostate_scheme option" where
  "irp_complete K self io_status s =
     (if wi_irp self = null then Some s
      else do {
        irp \<leftarrow> irps s (wi_irp self);
        let s = s\<lparr>irps := (irps s)(wi_irp self \<mapsto>
               irp\<lparr>irp_Status := ios_status io_status, irp_Information := ios_info io_status\<rparr>)\<rparr>;
        complete_request K self 0 s
      })"

definition system_buffer :: "WduIrp \<Rightarrow> ('c, 'a) iostate_scheme \<Rightarrow> ptr option" where
  "system_buffer self s = map_option irp_SystemBuffer (irps s (wi_irp self))"

definition user_buffer :: "WduIrp \<Rightarrow> ('c, 'a) iostate_scheme \<Rightarrow> ptr option" where
  "user_buffer self s = map_option irp_UserBuffer (irps s (wi_irp self))"

definition mdl_address :: "WduIrp \<Rightarrow> ('c, 'a) iostate_scheme \<Rightarrow> WduMdl option" where
  "mdl_address self s = map_option (\<lambda>irp. mdl_wrap (irp_MdlAddress irp)) (irps s (wi_irp self))"

text \<open>A \<^verbatim>\<open>WduFileObject\<close> is a pointer; \<open>irp_file_object\<close> is \<^verbatim>\<open>WduIrp::file_object\<close>.\<close>

record WduFileObject =
  fo_file_object :: ptr

definition fo_wrap :: "ptr \<Rightarrow> WduFileObject" where
  "fo_wrap fo = \<lparr>fo_file_object = fo\<rparr>"

definition irp_file_object :: "WduIrp \<Rightarrow> ('c, 'a) iostate_scheme \<Rightarrow> WduFileObject option" where
  "irp_file_object self s = map_option (\<lambda>sl. fo_wrap (sl_FileObject sl)) (current_stack (wi_irp self) s)"

definition original_file_object :: "WduIrp \<Rightarrow> ('c, 'a) iostate_scheme \<Rightarrow> WduFileObject option" where
  "original_file_object self s =
     map_option (\<lambda>irp. fo_wrap (irp_OriginalFileObject irp)) (irps s (wi_irp self))"

definition is_cancel :: "WduIrp \<Rightarrow> ('c, 'a) iostate_scheme \<Rightarrow> bool option" where
  "is_cancel self s = map_option (\<lambda>irp. irp_Cancel irp = u8_of_bool True) (irps s (wi_irp self))"

definition SL_PENDING_RETURNED :: u32 where [nt_consts]: "SL_PENDING_RETURNED = 1"

definition mark_pending :: "WduIrp \<Rightarrow> ('c, 'a) iostate_scheme \<Rightarrow> ('c, 'a) iostate_scheme option" where
  "mark_pending self s =
     current_stack_as_mut (wi_irp self)
       (\<lambda>sl. sl\<lparr>sl_Control := sl_Control sl OR ucast SL_PENDING_RETURNED\<rparr>) s"

definition release_cancel_lock :: "kernel \<Rightarrow> WduIrp \<Rightarrow> ('c, 'a) iostate_scheme \<Rightarrow> ('c, 'a) iostate_scheme option" where
  "release_cancel_lock K self s = do {
     irp \<leftarrow> irps s (wi_irp self);
     Some (sysv K (Io (IoReleaseCancelSpinLock (irp_CancelIrql irp))) s)
   }"

definition irp_processor_mode :: "WduIrp \<Rightarrow> ('c, 'a) iostate_scheme \<Rightarrow> ProcessorMode option" where
  "irp_processor_mode self s = do {
     irp \<leftarrow> irps s (wi_irp self);
     processor_mode_from (irp_RequestorMode irp)
   }"

text \<open>The context of a cancelable IRP: a boxed copy of the wrapper (24 bytes) in \<^verbatim>\<open>DriverContext[3]\<close>.\<close>

definition irp_set_context :: "kernel \<Rightarrow> WduIrp \<Rightarrow> ('c, 'a) iostate_scheme \<Rightarrow> ('c, 'a) iostate_scheme option" where
  "irp_set_context K self s = do {
     (b, s) \<leftarrow> rust_alloc K 24 s;
     let s = s\<lparr>irp_boxes := (irp_boxes s)(b \<mapsto> self)\<rparr>;
     irp \<leftarrow> irps s (wi_irp self);
     Some (s\<lparr>irps := (irps s)(wi_irp self \<mapsto> irp\<lparr>irp_DriverContext3 := b\<rparr>)\<rparr>)
   }"

definition irp_clear_context :: "WduIrp \<Rightarrow> ('c, 'a) iostate_scheme \<Rightarrow> ('c, 'a) iostate_scheme option" where
  "irp_clear_context self s = do {
     irp \<leftarrow> irps s (wi_irp self);
     Some (s\<lparr>irps := (irps s)(wi_irp self \<mapsto> irp\<lparr>irp_DriverContext3 := null\<rparr>)\<rparr>)
   }"

text \<open>\<^verbatim>\<open>Box::from_raw\<close>: the box must be live.\<close>

definition irp_from_context :: "ptr \<Rightarrow> ('c, 'a) iostate_scheme \<Rightarrow> (ptr \<times> WduIrp) option" where
  "irp_from_context p s = do {
     irp \<leftarrow> irps s p;
     w \<leftarrow> irp_boxes s (irp_DriverContext3 irp);
     Some (irp_DriverContext3 irp, w)
   }"

definition irp_box_drop :: "kernel \<Rightarrow> ptr \<Rightarrow> ('c, 'a) iostate_scheme \<Rightarrow> ('c, 'a) iostate_scheme" where
  "irp_box_drop K b s =
     (let s = sysv K (Pool (RustDealloc b)) s in s\<lparr>irp_boxes := (irp_boxes s)(b := None)\<rparr>)"

definition irp_set_cancel_routine ::
  "ptr \<Rightarrow> fnptr option \<Rightarrow> ('c, 'a) iostate_scheme \<Rightarrow> ('c, 'a) iostate_scheme option" where
  "irp_set_cancel_routine p f s = do {
     irp \<leftarrow> irps s p;
     Some (s\<lparr>irps := (irps s)(p \<mapsto> irp\<lparr>irp_CancelRoutine := f\<rparr>)\<rparr>)
   }"

text \<open>\<open>cr_fn\<close> is the address of \<^verbatim>\<open>cancel_routine\<close>.\<close>

definition set_cancel_rtn ::
  "kernel \<Rightarrow> fnptr \<Rightarrow> WduIrp \<Rightarrow> fnptr option \<Rightarrow> ('c, 'a) iostate_scheme
     \<Rightarrow> (fnptr option \<times> WduIrp \<times> ('c, 'a) iostate_scheme) option" where
  "set_cancel_rtn K cr_fn self cancel s = do {
     let prev = wi_cancel self;
     let self = self\<lparr>wi_cancel := cancel\<rparr>;
     if cancel \<noteq> None
     then do {
       s \<leftarrow> irp_set_context K self s;
       s \<leftarrow> irp_set_cancel_routine (wi_irp self) (Some cr_fn) s;
       Some (prev, self, s)
     }
     else do {
       s \<leftarrow> irp_set_cancel_routine (wi_irp self) None s;
       (b, w) \<leftarrow> irp_from_context (wi_irp self) s;
       s \<leftarrow> irp_clear_context self (irp_box_drop K b s);
       Some (prev, self, s)
     }
   }"

definition wrap_device :: "ptr \<Rightarrow> WduDevice" where
  "wrap_device device =
     \<lparr>wd_device_type = DtUnknown, wd_characteristics = DcNone, wd_exclusive = False, wd_device = device\<rparr>"

text \<open>
  The entry point the kernel calls to cancel. \<open>run\<close> gives the client's cancel routines; the box is
  dropped at the end, the pointer to it stays in the IRP.
\<close>

definition cancel_routine ::
  "kernel \<Rightarrow> (fnptr \<Rightarrow> WduDevice \<Rightarrow> WduIrp \<Rightarrow> ('c, 'a) iostate_scheme \<Rightarrow> (WduIrp \<times> ('c, 'a) iostate_scheme) option)
     \<Rightarrow> ptr \<Rightarrow> ptr \<Rightarrow> ('c, 'a) iostate_scheme \<Rightarrow> ('c, 'a) iostate_scheme option" where
  "cancel_routine K run device irp s = do {
     let device = wrap_device device;
     original_irp \<leftarrow> irp_wrap irp s;
     (b, wdu_irp) \<leftarrow> irp_from_context irp s;
     s \<leftarrow> (case wi_cancel wdu_irp of
             None \<Rightarrow> Some s
           | Some pfn \<Rightarrow> map_option snd (run pfn device original_irp s));
     Some (irp_box_drop K b s)
   }"

section \<open>src/io/file_obj.rs\<close>

definition fo_is_valid :: "WduFileObject \<Rightarrow> bool" where
  "fo_is_valid self \<longleftrightarrow> fo_file_object self \<noteq> null"

definition fo_file_name :: "WduFileObject \<Rightarrow> ('c, 'a) iostate_scheme \<Rightarrow> WduUnicodeStr option" where
  "fo_file_name self s =
     map_option (\<lambda>fo. str_from_ptr (Some (FileName fo))) (file_objs s (fo_file_object self))"

text \<open>
  The two context slots. A context of \<open>n\<close> bytes is boxed (a zero-sized one is not allocated: its
  box is a dangling non-null address); an earlier context in the slot is not freed.
\<close>

definition box_new ::
  "kernel \<Rightarrow> nat \<Rightarrow> 'c \<Rightarrow> ('c, 'a) iostate_scheme \<Rightarrow> (ptr \<times> ('c, 'a) iostate_scheme) option" where
  "box_new K n c s = do {
     (b, s) \<leftarrow> (if n = 0 then Some (1, s) else rust_alloc K (of_nat n) s);
     Some (b, s\<lparr>client := (client s)(b \<mapsto> c)\<rparr>)
   }"

definition fo_set_context ::
  "kernel \<Rightarrow> nat \<Rightarrow> WduFileObject \<Rightarrow> 'c \<Rightarrow> ('c, 'a) iostate_scheme \<Rightarrow> ('c, 'a) iostate_scheme option" where
  "fo_set_context K n self context s = do {
     (b, s) \<leftarrow> box_new K n context s;
     fo \<leftarrow> file_objs s (fo_file_object self);
     Some (s\<lparr>file_objs := (file_objs s)(fo_file_object self \<mapsto> fo\<lparr>FsContext := b\<rparr>)\<rparr>)
   }"

definition fo_set_context2 ::
  "kernel \<Rightarrow> nat \<Rightarrow> WduFileObject \<Rightarrow> 'c \<Rightarrow> ('c, 'a) iostate_scheme \<Rightarrow> ('c, 'a) iostate_scheme option" where
  "fo_set_context2 K n self context s = do {
     (b, s) \<leftarrow> box_new K n context s;
     fo \<leftarrow> file_objs s (fo_file_object self);
     Some (s\<lparr>file_objs := (file_objs s)(fo_file_object self \<mapsto> fo\<lparr>FsContext2 := b\<rparr>)\<rparr>)
   }"

text \<open>
  \<^verbatim>\<open>context\<close> rebuilds the box from the pointer in the slot, without reading what it points to
  (\<open>None\<close> inside \<open>Some\<close>: the slot is null). The slot keeps the pointer, so each call makes another
  owner of the same block. The reference forms read through the pointer.
\<close>

definition fo_read :: "ptr \<Rightarrow> ('c, 'a) iostate_scheme \<Rightarrow> 'c option option" where
  "fo_read p s = (if p = null then Some None else map_option Some (client s p))"

definition box_from_raw :: "ptr \<Rightarrow> ptr option" where
  "box_from_raw p = (if p = null then None else Some p)"

definition fo_context :: "WduFileObject \<Rightarrow> ('c, 'a) iostate_scheme \<Rightarrow> ptr option option" where
  "fo_context self s = do { fo \<leftarrow> file_objs s (fo_file_object self); Some (box_from_raw (FsContext fo)) }"

definition fo_context2 :: "WduFileObject \<Rightarrow> ('c, 'a) iostate_scheme \<Rightarrow> ptr option option" where
  "fo_context2 self s = do { fo \<leftarrow> file_objs s (fo_file_object self); Some (box_from_raw (FsContext2 fo)) }"

definition fo_context_as_ref :: "WduFileObject \<Rightarrow> ('c, 'a) iostate_scheme \<Rightarrow> 'c option option" where
  "fo_context_as_ref self s = do { fo \<leftarrow> file_objs s (fo_file_object self); fo_read (FsContext fo) s }"

definition fo_context2_as_ref :: "WduFileObject \<Rightarrow> ('c, 'a) iostate_scheme \<Rightarrow> 'c option option" where
  "fo_context2_as_ref self s = do { fo \<leftarrow> file_objs s (fo_file_object self); fo_read (FsContext2 fo) s }"

text \<open>The mutable forms give the address through which the client reads and writes.\<close>

definition fo_context_as_mut_ref :: "WduFileObject \<Rightarrow> ('c, 'a) iostate_scheme \<Rightarrow> ptr option option" where
  "fo_context_as_mut_ref self s = do {
     fo \<leftarrow> file_objs s (fo_file_object self);
     Some (if FsContext fo = null then None else Some (FsContext fo))
   }"

definition fo_context2_as_mut_ref :: "WduFileObject \<Rightarrow> ('c, 'a) iostate_scheme \<Rightarrow> ptr option option" where
  "fo_context2_as_mut_ref self s = do {
     fo \<leftarrow> file_objs s (fo_file_object self);
     Some (if FsContext2 fo = null then None else Some (FsContext2 fo))
   }"

text \<open>
  The box of \<open>n\<close> bytes that \<^verbatim>\<open>context\<close> returned goes out of scope: what it holds is dropped, and the
  block is freed unless it has no size. A box whose contents are gone cannot be dropped again.
\<close>

definition box_drop :: "kernel \<Rightarrow> nat \<Rightarrow> ptr \<Rightarrow> ('c, 'a) iostate_scheme \<Rightarrow> ('c, 'a) iostate_scheme option" where
  "box_drop K n b s = do {
     c \<leftarrow> client s b;
     Some (if n = 0 then s else sysv K (Pool (RustDealloc b)) (s\<lparr>client := (client s)(b := None)\<rparr>))
   }"

section \<open>src/io/create.rs\<close>

record WduCreate =
  wc_file_object :: WduFileObject
  wc_desired_access :: u32
  wc_file_attributes :: u16
  wc_share_access :: u16

definition create_new :: "WduIrp \<Rightarrow> ('c, 'a) iostate_scheme \<Rightarrow> WduCreate option" where
  "create_new irp s = do {
     sl \<leftarrow> current_stack (wi_irp irp) s;
     let create_params = sl_Create sl;
     let desired_access = (case cp_SecurityContext create_params of None \<Rightarrow> 0 | Some a \<Rightarrow> a);
     fo \<leftarrow> original_file_object irp s;
     Some \<lparr>wc_file_object = fo, wc_desired_access = desired_access,
           wc_file_attributes = cp_FileAttributes create_params,
           wc_share_access = cp_ShareAccess create_params\<rparr>
   }"

section \<open>src/io/device_control.rs\<close>

datatype WduIocltBuffers =
    BufUnknown
  | Buffered ptr
  | Direct ptr WduMdl
  | Neither ptr ptr

record WduDeviceControl =
  dc_ioctl :: u32
  dc_out_buf_len :: usize
  dc_in_buf_len :: usize
  dc_buffer :: WduIocltBuffers

definition device_control_new :: "WduIrp \<Rightarrow> ('c, 'a) iostate_scheme \<Rightarrow> WduDeviceControl option" where
  "device_control_new irp s = do {
     sl \<leftarrow> current_stack (wi_irp irp) s;
     let params = sl_DeviceIoControl sl;
     let ioctl = (ucast (IoControlCode params) :: u32);
     let method_bits = method_from_ioctl ioctl;
     buffer \<leftarrow>
       (if method_bits = METHOD_BUFFERED then map_option Buffered (system_buffer irp s)
        else if method_bits = METHOD_IN_DIRECT \<or> method_bits = METHOD_OUT_DIRECT then do {
          b \<leftarrow> system_buffer irp s;
          m \<leftarrow> mdl_address irp s;
          Some (Direct b m)
        }
        else if method_bits = METHOD_NEITHER then
          map_option (Neither (Type3InputBuffer params)) (user_buffer irp s)
        else Some BufUnknown);
     Some \<lparr>dc_ioctl = ioctl, dc_out_buf_len = OutputBufferLength params,
           dc_in_buf_len = InputBufferLength params, dc_buffer = buffer\<rparr>
   }"

fun input_buffer_of :: "WduIocltBuffers \<Rightarrow> ptr" where
  "input_buffer_of (Buffered b) = b"
| "input_buffer_of (Neither i u) = i"
| "input_buffer_of (Direct i m) = i"
| "input_buffer_of BufUnknown = null"

definition input_buffer :: "WduDeviceControl \<Rightarrow> ptr" where
  "input_buffer self = input_buffer_of (dc_buffer self)"

definition output_buffer ::
  "kernel \<Rightarrow> WduDeviceControl \<Rightarrow> ('c, 'a) iostate_scheme \<Rightarrow> (ptr \<times> ('c, 'a) iostate_scheme) option" where
  "output_buffer K self s =
     (case dc_buffer self of
        Buffered b \<Rightarrow> Some (b, s)
      | Neither i u \<Rightarrow> Some (u, s)
      | Direct i mdl \<Rightarrow> get_system_addr K mdl (PagePriority_Normal OR PagePriority_MdlMappingNoExecute) s
      | BufUnknown \<Rightarrow> Some (null, s))"

definition mdl_byte_count :: "WduDeviceControl \<Rightarrow> ('c, 'a) iostate_scheme \<Rightarrow> usize option" where
  "mdl_byte_count self s =
     (case dc_buffer self of Direct i mdl \<Rightarrow> byte_count mdl s | _ \<Rightarrow> Some 0)"

section \<open>Completion\<close>

lemma irp_complete_eq:
  assumes "irps s (wi_irp w) = Some irp" "wi_irp w \<noteq> null"
  shows "irp_complete K w st s =
    Some (let c = Io (IofCompleteRequest (wi_irp w) (ios_status st) (ios_info st) 0)
          in s\<lparr>klog := klog s @ [(c, K (klog s) c)], irps := (irps s)(wi_irp w := None)\<rparr>)"
  using assms by (simp add: irp_complete_def complete_request_def Let_def)

text \<open>The completions of one IRP that a log contains.\<close>

definition completions :: "ptr \<Rightarrow> kevent list \<Rightarrow> (ntstatus \<times> usize) list" where
  "completions p es = List.map_filter (\<lambda>(c, r). case c of
       Io (IofCompleteRequest q st n b) \<Rightarrow> if q = p then Some (st, n) else None | _ \<Rightarrow> None) es"

lemma completions_append [simp]: "completions p (xs @ ys) = completions p xs @ completions p ys"
  by (simp add: completions_def map_filter_def)

lemma completions_Nil [simp]: "completions p [] = []"
  by (simp add: completions_def map_filter_def)

lemma completions_Cons [simp]:
  "completions p ((c, r) # es) =
     (case c of Io (IofCompleteRequest q st n b) \<Rightarrow> if q = p then [(st, n)] else [] | _ \<Rightarrow> []) @ completions p es"
  by (simp add: completions_def map_filter_def split: kcall.split io_call.split)

text \<open>
  C15. Completing a live IRP reports exactly the given status and information to the I/O manager,
  once, and gives the IRP up: completing it again is a fault.
\<close>

theorem complete_once:
  assumes "irps s (wi_irp w) = Some irp" "wi_irp w \<noteq> null"
  shows "\<exists>t. irp_complete K w st s = Some t \<and>
    completions (wi_irp w) (klog t) = completions (wi_irp w) (klog s) @ [(ios_status st, ios_info st)] \<and>
    irp_complete K w st' t = None"
  using assms
  by (simp add: irp_complete_eq Let_def) (simp add: irp_complete_def)

definition stack0 :: IO_STACK_LOCATION where
  "stack0 = \<lparr>sl_MajorFunction = 14, sl_Control = 0, sl_FileObject = 0x60,
     sl_DeviceIoControl = \<lparr>OutputBufferLength = 8, InputBufferLength = 16, IoControlCode = 0x22E004,
       Type3InputBuffer = 0x7000\<rparr>,
     sl_Create = \<lparr>cp_SecurityContext = None, cp_FileAttributes = 0, cp_ShareAccess = 0\<rparr>\<rparr>"

definition irp0 :: IRP where
  "irp0 = \<lparr>irp_CurrentLocation = 1, irp_StackCount = 1, irp_CurrentStack = stack0, irp_Status = 0,
     irp_Information = 0, irp_SystemBuffer = 0x8000, irp_UserBuffer = 0x9000, irp_MdlAddress = 0,
     irp_OriginalFileObject = 0x60, irp_Cancel = 0, irp_CancelIrql = 2, irp_RequestorMode = 1,
     irp_DriverContext3 = 0, irp_CancelRoutine = None\<rparr>"

definition wirp0 :: WduIrp where
  "wirp0 = \<lparr>wi_irp = 0x50, wi_mj = MjDeviceControl, wi_cancel = None\<rparr>"

theorem complete_once_witness:
  "\<exists>t. irp_complete (\<lambda>_ _. reply0) wirp0 (success_with_info 4) (io0\<lparr>irps := [0x50 \<mapsto> irp0]\<rparr> :: nat iostate) = Some t \<and>
    completions 0x50 (klog t) = [(0, 4)] \<and> irp_complete (\<lambda>_ _. reply0) wirp0 io_status_new t = None"
  using complete_once [of "io0\<lparr>irps := [0x50 \<mapsto> irp0]\<rparr> :: nat iostate" wirp0 irp0 "\<lambda>_ _. reply0"
      "success_with_info 4" io_status_new]
  by (simp add: wirp0_def success_with_info_def)

section \<open>Cancellation\<close>

lemma irp_set_context_eq:
  assumes "irps s (wi_irp w) = Some irp" "r_ptr (K (klog s) (Pool (RustAlloc 24))) = b" "b \<noteq> null"
  shows "irp_set_context K w s = Some (s\<lparr>klog := klog s @ [(Pool (RustAlloc 24), K (klog s) (Pool (RustAlloc 24)))],
    irp_boxes := (irp_boxes s)(b \<mapsto> w), irps := (irps s)(wi_irp w \<mapsto> irp\<lparr>irp_DriverContext3 := b\<rparr>)\<rparr>)"
  using assms by (auto simp: irp_set_context_def rust_alloc_def sys_eq)

lemma set_cancel_rtn_some_eq:
  assumes "irps s (wi_irp w) = Some irp" "r_ptr (K (klog s) (Pool (RustAlloc 24))) = b" "b \<noteq> null"
  shows "set_cancel_rtn K cr w (Some f) s = Some (wi_cancel w, w\<lparr>wi_cancel := Some f\<rparr>,
    s\<lparr>klog := klog s @ [(Pool (RustAlloc 24), K (klog s) (Pool (RustAlloc 24)))],
      irp_boxes := (irp_boxes s)(b \<mapsto> w\<lparr>wi_cancel := Some f\<rparr>),
      irps := (irps s)(wi_irp w \<mapsto> irp\<lparr>irp_DriverContext3 := b, irp_CancelRoutine := Some cr\<rparr>)\<rparr>)"
  using assms irp_set_context_eq [of s "w\<lparr>wi_cancel := Some f\<rparr>" irp K b]
  by (simp add: set_cancel_rtn_def irp_set_cancel_routine_def Let_def)

lemma set_cancel_rtn_none_eq:
  assumes "irps s (wi_irp w) = Some irp" "irp_boxes s (irp_DriverContext3 irp) = Some v"
  shows "set_cancel_rtn K cr w None s = Some (wi_cancel w, w\<lparr>wi_cancel := None\<rparr>,
    s\<lparr>klog := klog s @ [(Pool (RustDealloc (irp_DriverContext3 irp)),
         K (klog s) (Pool (RustDealloc (irp_DriverContext3 irp))))],
      irp_boxes := (irp_boxes s)(irp_DriverContext3 irp := None),
      irps := (irps s)(wi_irp w \<mapsto> irp\<lparr>irp_CancelRoutine := None, irp_DriverContext3 := null\<rparr>)\<rparr>)"
  using assms
  by (simp add: set_cancel_rtn_def irp_set_cancel_routine_def irp_from_context_def irp_clear_context_def
      irp_box_drop_def Let_def)

lemma set_cancel_rtn_some_alloc:
  assumes "set_cancel_rtn K cr w (Some f) s = Some (prev, w', s')"
  obtains irp where "irps s (wi_irp w) = Some irp" "r_ptr (K (klog s) (Pool (RustAlloc 24))) \<noteq> null"
  using assms
  by (auto simp: set_cancel_rtn_def irp_set_context_def rust_alloc_def sys_eq panic_def Let_def
      bind_eq_Some_conv split: if_splits)

text \<open>
  A cancel routine that is set and cleared again leaves the heap as it was, the IRP without a
  cancel routine and context, and each call returns the routine the wrapper had before.
\<close>

lemma set_clear_cancel_balanced:
  assumes "heap_fresh K" "set_cancel_rtn K cr w (Some f) s = Some (prev, w', s')"
  shows "\<exists>w'' t irp. set_cancel_rtn K cr w' None s' = Some (Some f, w'', t) \<and> prev = wi_cancel w \<and>
    wi_cancel w'' = None \<and> heap_blocks (klog t) = heap_blocks (klog s) \<and>
    irps t (wi_irp w) = Some irp \<and> irp_CancelRoutine irp = None \<and> irp_DriverContext3 irp = null"
proof -
  let ?b = "r_ptr (K (klog s) (Pool (RustAlloc 24)))"
  obtain irp where irp: "irps s (wi_irp w) = Some irp" and b: "?b \<noteq> null"
    using set_cancel_rtn_some_alloc [OF assms(2)] .
  have eqs: "prev = wi_cancel w" "w' = w\<lparr>wi_cancel := Some f\<rparr>"
    "s' = s\<lparr>klog := klog s @ [(Pool (RustAlloc 24), K (klog s) (Pool (RustAlloc 24)))],
      irp_boxes := (irp_boxes s)(?b \<mapsto> w\<lparr>wi_cancel := Some f\<rparr>),
      irps := (irps s)(wi_irp w \<mapsto> irp\<lparr>irp_DriverContext3 := ?b, irp_CancelRoutine := Some cr\<rparr>)\<rparr>"
    using assms(2) by (auto simp: set_cancel_rtn_some_eq [where w = w and s = s and K = K, OF irp refl b])
  have "heap_blocks (klog s) ?b = None"
    using assms(1) b by (simp add: heap_fresh_def)
  moreover have "irps s' (wi_irp w') = Some (irp\<lparr>irp_DriverContext3 := ?b, irp_CancelRoutine := Some cr\<rparr>)"
    "irp_boxes s' ?b = Some (w\<lparr>wi_cancel := Some f\<rparr>)"
    by (simp_all add: eqs)
  ultimately show ?thesis
    using b by (simp add: set_cancel_rtn_none_eq) (simp add: eqs fun_upd_idem)
qed

definition cancel_st0 :: "nat iostate" where
  "cancel_st0 = io0\<lparr>irps := [0x50 \<mapsto> irp0]\<rparr>"

lemma set_cancel_example:
  "\<exists>prev w' s'. set_cancel_rtn kernel0 0x77 wirp0 (Some 0x99) cancel_st0 = Some (prev, w', s') \<and>
     irp_wrap 0x50 s' = Some wirp0"
  using set_cancel_rtn_some_eq [of cancel_st0 wirp0 irp0 kernel0 "0x1000" "0x77" "0x99"]
  by (simp add: cancel_st0_def wirp0_def irp_wrap_def current_stack_def irp0_def stack0_def major_from_def nt_consts
      word_sle_eq)

text \<open>
  C24. When the kernel cancels an IRP after \<^verbatim>\<open>set_cancel_rtn(Some(f))\<close>, the routine that runs is \<open>f\<close>, on
  a wrapper of that IRP, whatever \<open>f\<close> does, completing the IRP included; no other routine of the
  client runs. The entry point returns when \<open>f\<close> returns and fails when it fails, and after it the
  boxed context has been freed once; it leaves the IRPs as \<open>f\<close> does. If \<open>f\<close> leaves the IRP as it was,
  and \<^verbatim>\<open>set_cancel_rtn(None)\<close> is then called on the still pending IRP, it would free that context a
  second time.
\<close>

theorem cancel_runs_handler:
  assumes "set_cancel_rtn K cr w (Some f) s = Some (prev, w', s')"
    and "irp_wrap (wi_irp w) s' = Some orig"
  shows "case run f (wrap_device dev) orig s' of
      None \<Rightarrow> cancel_routine K run dev (wi_irp w) s' = None
    | Some (orig', s'') \<Rightarrow>
        (\<exists>b t. b = r_ptr (K (klog s) (Pool (RustAlloc 24))) \<and> cancel_routine K run dev (wi_irp w) s' = Some t \<and>
          klog t = klog s'' @ [(Pool (RustDealloc b), K (klog s'') (Pool (RustDealloc b)))] \<and>
          irps t = irps s'' \<and> irp_boxes t = (irp_boxes s'')(b := None) \<and>
          (irps s'' (wi_irp w) = irps s' (wi_irp w) \<longrightarrow> set_cancel_rtn K cr w' None t = None))"
proof -
  define b where "b = r_ptr (K (klog s) (Pool (RustAlloc 24)))"
  obtain irp where irp: "irps s (wi_irp w) = Some irp" and b: "b \<noteq> null"
    using set_cancel_rtn_some_alloc [OF assms(1)] unfolding b_def .
  have eqs: "w' = w\<lparr>wi_cancel := Some f\<rparr>"
    "irps s' (wi_irp w) = Some (irp\<lparr>irp_DriverContext3 := b, irp_CancelRoutine := Some cr\<rparr>)"
    "irp_boxes s' b = Some (w\<lparr>wi_cancel := Some f\<rparr>)"
    using assms(1)
    by (auto simp: set_cancel_rtn_some_eq [where w = w and s = s and K = K, OF irp b_def [symmetric] b])
  have run: "cancel_routine K run dev (wi_irp w) s' =
      map_option (\<lambda>(orig', s''). irp_box_drop K b s'') (run f (wrap_device dev) orig s')"
    using assms(2) eqs
    by (cases "run f (wrap_device dev) orig s'") (auto simp: cancel_routine_def irp_from_context_def)
  show ?thesis
    using eqs
    by (auto simp: run irp_box_drop_def Let_def set_cancel_rtn_def irp_set_cancel_routine_def irp_from_context_def
        b_def [symmetric] split: option.split)
qed

text \<open>A routine that completes the IRP as cancelled, and one that leaves it pending.\<close>

theorem cancel_runs_handler_witness:
  "\<exists>prev w' s' t u. set_cancel_rtn kernel0 0x77 wirp0 (Some 0x99) cancel_st0 = Some (prev, w', s') \<and>
    cancel_routine kernel0
      (\<lambda>f d w s. if f = 0x99 then map_option (Pair w) (irp_complete kernel0 w \<lparr>ios_status = STATUS_CANCELLED, ios_info = 0\<rparr> s) else None)
      0x40 0x50 s' = Some t \<and>
    irps t 0x50 = None \<and> completions 0x50 (klog t) = [(STATUS_CANCELLED, 0)] \<and>
    cancel_routine kernel0 (\<lambda>f d w s. if f = 0x99 then Some (w, s) else None) 0x40 0x50 s' = Some u \<and>
    set_cancel_rtn kernel0 0x77 w' None u = None"
proof -
  let ?r = "\<lambda>f d w s. if f = 0x99 then map_option (Pair w) (irp_complete kernel0 w \<lparr>ios_status = STATUS_CANCELLED, ios_info = 0\<rparr> s) else None"
  obtain prev w' s' where a: "set_cancel_rtn kernel0 0x77 wirp0 (Some 0x99) cancel_st0 = Some (prev, w', s')"
    and b: "irp_wrap 0x50 s' = Some wirp0"
    using set_cancel_example by blast
  have p: "wi_irp wirp0 = 0x50"
    by (simp add: wirp0_def)
  have w: "irp_wrap (wi_irp wirp0) s' = Some wirp0"
    using b by (simp add: p)
  obtain irp where "irps s' 0x50 = Some irp"
    using b by (auto simp: irp_wrap_def bind_eq_Some_conv current_stack_def)
  moreover have "completions 0x50 (klog s') = []"
    using a set_cancel_rtn_some_eq [of cancel_st0 wirp0 irp0 kernel0 "0x1000" "0x77" "0x99"]
    by (auto simp: cancel_st0_def wirp0_def)
  ultimately obtain s'' where c: "irp_complete kernel0 wirp0 \<lparr>ios_status = STATUS_CANCELLED, ios_info = 0\<rparr> s' = Some s''"
    "irps s'' 0x50 = None" "completions 0x50 (klog s'') = [(STATUS_CANCELLED, 0)]"
    using irp_complete_eq [of s' wirp0 irp kernel0 "\<lparr>ios_status = STATUS_CANCELLED, ios_info = 0\<rparr>"] p
    by (simp add: Let_def)
  show ?thesis
    using a c cancel_runs_handler [OF a w, where run = ?r and dev = "0x40"]
      cancel_runs_handler [OF a w, where run = "\<lambda>f d w s. if f = 0x99 then Some (w, s) else None" and dev = "0x40"]
    by (auto simp: p)
qed

section \<open>Context slots of a file object\<close>

text \<open>
  The interface the two slots share, for contexts of a non-zero size: a context that was set is in
  a block of its own, is the one read back, and its block is what \<^verbatim>\<open>context\<close> gives, as often as it is
  asked: what the slot holds depends on the file object alone.
\<close>

locale context_slot =
  fixes cset :: "kernel \<Rightarrow> nat \<Rightarrow> WduFileObject \<Rightarrow> 'c \<Rightarrow> ('c, 'a) iostate_scheme \<Rightarrow> ('c, 'a) iostate_scheme option"
    and cref :: "WduFileObject \<Rightarrow> ('c, 'a) iostate_scheme \<Rightarrow> 'c option option"
    and ctake :: "WduFileObject \<Rightarrow> ('c, 'a) iostate_scheme \<Rightarrow> ptr option option"
  assumes cset_ctake: "0 < n \<Longrightarrow> cset K n fo c s = Some s' \<Longrightarrow>
      ctake fo s' = Some (Some (r_ptr (K (klog s) (Pool (RustAlloc (of_nat n)))))) \<and>
      client s' (r_ptr (K (klog s) (Pool (RustAlloc (of_nat n))))) = Some c"
    and cset_log: "0 < n \<Longrightarrow> cset K n fo c s = Some s' \<Longrightarrow>
      klog s' = klog s @ [(Pool (RustAlloc (of_nat n)), K (klog s) (Pool (RustAlloc (of_nat n))))] \<and>
      r_ptr (K (klog s) (Pool (RustAlloc (of_nat n)))) \<noteq> null"
    and ctake_slot: "file_objs t = file_objs s \<Longrightarrow> ctake fo t = ctake fo s"
    and ctake_cref: "ctake fo s = Some (Some b) \<Longrightarrow> cref fo s = map_option Some (client s b)"
begin

text \<open>
  A context set at open, and taken and dropped once at close, leaves the heap as it was. The slot
  then dangles: it still gives the block, which can neither be read nor dropped again.
\<close>

lemma set_take_drop:
  assumes "heap_fresh K" "0 < n" "cset K n fo c s = Some s1"
  defines "b \<equiv> r_ptr (K (klog s) (Pool (RustAlloc (of_nat n))))"
  obtains t where "ctake fo s1 = Some (Some b)" "cref fo s1 = Some (Some c)"
    "box_drop K n b s1 = Some t" "heap_blocks (klog t) = heap_blocks (klog s)" "heap_blocks (klog s) b = None"
    "ctake fo t = Some (Some b)" "cref fo t = None" "box_drop K n b t = None"
proof -
  let ?t = "s1\<lparr>client := (client s1)(b := None), klog := klog s1 @ [(Pool (RustDealloc b), K (klog s1) (Pool (RustDealloc b)))]\<rparr>"
  have log: "klog s1 = klog s @ [(Pool (RustAlloc (of_nat n)), K (klog s) (Pool (RustAlloc (of_nat n))))]"
    and b: "b \<noteq> null"
    using cset_log [OF assms(2,3)] by (auto simp: b_def)
  have take: "ctake fo s1 = Some (Some b)" "client s1 b = Some c"
    using cset_ctake [OF assms(2,3)] by (auto simp: b_def)
  then have drop: "box_drop K n b s1 = Some ?t"
    using assms(2) by (simp add: box_drop_def)
  have fresh: "heap_blocks (klog s) b = None"
    using assms(1) b by (simp add: heap_fresh_def b_def)
  then have heap: "heap_blocks (klog ?t) = heap_blocks (klog s)"
    using b by (simp add: log fun_upd_idem b_def [symmetric])
  have again: "ctake fo ?t = Some (Some b)"
    using take(1) ctake_slot [of ?t s1] by simp
  have gone: "cref fo ?t = None" "box_drop K n b ?t = None"
    using ctake_cref [OF again] by (simp_all add: box_drop_def)
  show thesis
    by (rule that [OF take(1) _ drop heap fresh again gone]) (use ctake_cref [OF take(1)] take(2) in simp)
qed

text \<open>Setting a second context over the first leaks the first.\<close>

lemma set_set_leaks:
  assumes "heap_fresh K" "0 < n" "cset K n fo c s = Some s1" "cset K n fo d s1 = Some s2"
  shows "\<exists>b u. ctake fo s2 = Some (Some b) \<and> cref fo s2 = Some (Some d) \<and> box_drop K n b s2 = Some u \<and>
    heap_blocks (klog u) = (heap_blocks (klog s))(r_ptr (K (klog s) (Pool (RustAlloc (of_nat n)))) \<mapsto> of_nat n)"
proof -
  have "heap_blocks (klog s1) = (heap_blocks (klog s))(r_ptr (K (klog s) (Pool (RustAlloc (of_nat n)))) \<mapsto> of_nat n)"
    using cset_log [OF assms(2,3)] by simp
  with set_take_drop [OF assms(1,2,4)] show ?thesis by metis
qed

lemma lifecycle:
  assumes "heap_fresh K" "0 < n" "cset K n fo c s = Some s1"
  shows "\<exists>b t. ctake fo s1 = Some (Some b) \<and> cref fo s1 = Some (Some c) \<and>
    box_drop K n b s1 = Some t \<and> heap_blocks (klog t) = heap_blocks (klog s) \<and>
    ctake fo t = Some (Some b) \<and> heap_blocks (klog t) b = None \<and> cref fo t = None \<and> box_drop K n b t = None \<and>
    (\<forall>d s2. cset K n fo d s1 = Some s2 \<longrightarrow>
      (\<exists>b' u. ctake fo s2 = Some (Some b') \<and> cref fo s2 = Some (Some d) \<and> box_drop K n b' s2 = Some u \<and>
        heap_blocks (klog u) = (heap_blocks (klog s))(b \<mapsto> of_nat n)))"
proof -
  let ?b = "r_ptr (K (klog s) (Pool (RustAlloc (of_nat n))))"
  obtain t where t: "ctake fo s1 = Some (Some ?b)" "cref fo s1 = Some (Some c)" "box_drop K n ?b s1 = Some t"
    "heap_blocks (klog t) = heap_blocks (klog s)" "heap_blocks (klog s) ?b = None"
    "ctake fo t = Some (Some ?b)" "cref fo t = None" "box_drop K n ?b t = None"
    using set_take_drop [OF assms] .
  show ?thesis
    using t set_set_leaks [OF assms] by (intro exI [of _ ?b] exI [of _ t]) simp
qed

end

lemma box_newD:
  assumes "box_new K n c s = Some (b, s')" "0 < n"
  shows "b = r_ptr (K (klog s) (Pool (RustAlloc (of_nat n))))" "b \<noteq> null"
    "s' = s\<lparr>klog := klog s @ [(Pool (RustAlloc (of_nat n)), K (klog s) (Pool (RustAlloc (of_nat n))))],
       client := (client s)(b \<mapsto> c)\<rparr>"
  using assms by (auto simp: box_new_def rust_alloc_def sys_eq panic_def split: if_splits)

lemma fo_set_contextE:
  assumes "fo_set_context K n fo c s = Some s'" "0 < n"
  obtains f b where "file_objs s (fo_file_object fo) = Some f"
    "b = r_ptr (K (klog s) (Pool (RustAlloc (of_nat n))))" "b \<noteq> null"
    "s' = s\<lparr>klog := klog s @ [(Pool (RustAlloc (of_nat n)), K (klog s) (Pool (RustAlloc (of_nat n))))],
       client := (client s)(b \<mapsto> c), file_objs := (file_objs s)(fo_file_object fo \<mapsto> f\<lparr>FsContext := b\<rparr>)\<rparr>"
proof -
  obtain b s1 where b: "box_new K n c s = Some (b, s1)"
    using assms(1) by (auto simp: fo_set_context_def bind_eq_Some_conv)
  show ?thesis
    using assms(1) box_newD [OF b assms(2)] b by (auto simp: fo_set_context_def bind_eq_Some_conv intro: that)
qed

lemma fo_set_context2E:
  assumes "fo_set_context2 K n fo c s = Some s'" "0 < n"
  obtains f b where "file_objs s (fo_file_object fo) = Some f"
    "b = r_ptr (K (klog s) (Pool (RustAlloc (of_nat n))))" "b \<noteq> null"
    "s' = s\<lparr>klog := klog s @ [(Pool (RustAlloc (of_nat n)), K (klog s) (Pool (RustAlloc (of_nat n))))],
       client := (client s)(b \<mapsto> c), file_objs := (file_objs s)(fo_file_object fo \<mapsto> f\<lparr>FsContext2 := b\<rparr>)\<rparr>"
proof -
  obtain b s1 where b: "box_new K n c s = Some (b, s1)"
    using assms(1) by (auto simp: fo_set_context2_def bind_eq_Some_conv)
  show ?thesis
    using assms(1) box_newD [OF b assms(2)] b by (auto simp: fo_set_context2_def bind_eq_Some_conv intro: that)
qed

interpretation fs_context: context_slot fo_set_context fo_context_as_ref fo_context
proof (unfold_locales, goal_cases)
  case (4 fo s b)
  then show ?case
    by (auto simp: fo_context_def fo_context_as_ref_def box_from_raw_def fo_read_def bind_eq_Some_conv split: if_splits)
qed (auto simp: fo_context_def box_from_raw_def elim!: fo_set_contextE)

interpretation fs_context2: context_slot fo_set_context2 fo_context2_as_ref fo_context2
proof (unfold_locales, goal_cases)
  case (4 fo s b)
  then show ?case
    by (auto simp: fo_context2_def fo_context2_as_ref_def box_from_raw_def fo_read_def bind_eq_Some_conv split: if_splits)
qed (auto simp: fo_context2_def box_from_raw_def elim!: fo_set_context2E)

text \<open>
  C23. A context stored in either of the two slots of a file object is the one that \<^verbatim>\<open>context\<close> and the
  reference form give back; when the box that \<^verbatim>\<open>context\<close> gives is dropped, the heap is as it was before
  the context was stored. But the slot is not cleared: \<^verbatim>\<open>context\<close> gives the same block again after that,
  although it is no longer on the heap, so that a second owner frees memory that is gone. A context
  that is overwritten before it is taken stays allocated for ever.
\<close>

theorem file_context_lifecycle:
  assumes slot: "(cset, cref, ctake) = (fo_set_context, fo_context_as_ref, fo_context) \<or>
      (cset, cref, ctake) = (fo_set_context2, fo_context2_as_ref, fo_context2)"
    and "heap_fresh K" "0 < n" "cset K n fo c s = Some s1"
  shows "\<exists>b t. ctake fo s1 = Some (Some b) \<and> cref fo s1 = Some (Some c) \<and>
    box_drop K n b s1 = Some t \<and> heap_blocks (klog t) = heap_blocks (klog s) \<and>
    ctake fo t = Some (Some b) \<and> heap_blocks (klog t) b = None \<and> cref fo t = None \<and> box_drop K n b t = None \<and>
    (\<forall>d s2. cset K n fo d s1 = Some s2 \<longrightarrow>
      (\<exists>b' u. ctake fo s2 = Some (Some b') \<and> cref fo s2 = Some (Some d) \<and> box_drop K n b' s2 = Some u \<and>
        heap_blocks (klog u) = (heap_blocks (klog s))(b \<mapsto> of_nat n)))"
  using slot
proof (elim disjE)
  assume "(cset, cref, ctake) = (fo_set_context, fo_context_as_ref, fo_context)"
  then show ?thesis using fs_context.lifecycle [OF assms(2,3)] assms(4) by simp
next
  assume "(cset, cref, ctake) = (fo_set_context2, fo_context2_as_ref, fo_context2)"
  then show ?thesis using fs_context2.lifecycle [OF assms(2,3)] assms(4) by simp
qed

theorem file_context_lifecycle_witness:
  "\<exists>s1 b t. fo_set_context2 kernel0 16 (fo_wrap 0x60) (7::nat)
       (io0\<lparr>file_objs := [0x60 \<mapsto> \<lparr>FileName = \<lparr>Length = 0, MaximumLength = 0, Buffer = 0\<rparr>, FsContext = 0, FsContext2 = 0\<rparr>]\<rparr>) = Some s1 \<and>
     fo_context2 (fo_wrap 0x60) s1 = Some (Some b) \<and> fo_context2_as_ref (fo_wrap 0x60) s1 = Some (Some 7) \<and>
     box_drop kernel0 16 b s1 = Some t \<and> heap_blocks (klog t) = Map.empty \<and>
     fo_context2 (fo_wrap 0x60) t = Some (Some b) \<and> box_drop kernel0 16 b t = None"
proof -
  let ?s = "io0\<lparr>file_objs := [0x60 \<mapsto> \<lparr>FileName = \<lparr>Length = 0, MaximumLength = 0, Buffer = 0\<rparr>, FsContext = 0, FsContext2 = 0\<rparr>]\<rparr> :: nat iostate"
  obtain s1 where a: "fo_set_context2 kernel0 16 (fo_wrap 0x60) 7 ?s = Some s1"
    by (simp add: fo_set_context2_def box_new_def rust_alloc_def sys_eq fo_wrap_def)
  show ?thesis
    using a file_context_lifecycle [OF disjI2 [OF refl] kernel0_fresh(2) _ a] by auto
qed

section \<open>Buffers of a device control request\<close>

text \<open>
  C21. The buffers of a device control request follow the transfer method in its code: for a code
  built by \<^verbatim>\<open>encode_ioctl!\<close>, the request is buffered in the system buffer, direct (system buffer and
  MDL) for the two direct methods, or neither (the caller's pointers), and its code and lengths
  are those of the stack location.
\<close>

theorem device_control_buffers:
  assumes "irps s (wi_irp w) = Some irp" "current_stack (wi_irp w) s = Some sl"
    and "IoControlCode (sl_DeviceIoControl sl) = ucast (encode_ioctl d f m a)" "ioctl_fields_ok d f m a"
  shows "\<exists>dc. device_control_new w s = Some dc \<and> dc_ioctl dc = encode_ioctl d f m a \<and>
    dc_in_buf_len dc = InputBufferLength (sl_DeviceIoControl sl) \<and>
    dc_out_buf_len dc = OutputBufferLength (sl_DeviceIoControl sl) \<and>
    dc_buffer dc =
      (if m = METHOD_BUFFERED then Buffered (irp_SystemBuffer irp)
       else if m = METHOD_NEITHER then Neither (Type3InputBuffer (sl_DeviceIoControl sl)) (irp_UserBuffer irp)
       else Direct (irp_SystemBuffer irp) (mdl_wrap (irp_MdlAddress irp)))"
proof -
  have "unat m < 4"
    using assms(4) by (simp add: ioctl_fields_ok_def word_less_nat_alt)
  then have "unat m = 0 \<or> unat m = 1 \<or> unat m = 2 \<or> unat m = 3" by linarith
  then have "m = 0 \<or> m = 1 \<or> m = 2 \<or> m = 3"
    by (simp add: word_unat_eq_iff)
  moreover have "(ucast (ucast c :: usize) :: u32) = c" for c
    by (rule bit_word_eqI) (simp add: bit_simps)
  ultimately show ?thesis
    using assms ioctl_decode(1) [OF assms(4)]
    by (auto simp: Let_def device_control_new_def system_buffer_def user_buffer_def mdl_address_def nt_consts
        METHOD_BUFFERED_def METHOD_IN_DIRECT_def METHOD_OUT_DIRECT_def METHOD_NEITHER_def)
qed

theorem device_control_buffers_witness:
  "\<exists>dc. device_control_new wirp0 (io0\<lparr>irps := [0x50 \<mapsto> irp0\<lparr>irp_CurrentStack :=
        stack0\<lparr>sl_DeviceIoControl := (sl_DeviceIoControl stack0)\<lparr>IoControlCode := ucast (encode_ioctl 40000 0x902 0 0)\<rparr>\<rparr>\<rparr>]\<rparr> :: nat iostate)
      = Some dc \<and> dc_buffer dc = Buffered 0x8000 \<and> dc_in_buf_len dc = 16 \<and> dc_out_buf_len dc = 8"
proof -
  let ?sl = "stack0\<lparr>sl_DeviceIoControl := (sl_DeviceIoControl stack0)\<lparr>IoControlCode := ucast (encode_ioctl 40000 0x902 0 0)\<rparr>\<rparr>"
  let ?irp = "irp0\<lparr>irp_CurrentStack := ?sl\<rparr>"
  let ?s = "io0\<lparr>irps := [0x50 \<mapsto> ?irp]\<rparr> :: nat iostate"
  have "irps ?s (wi_irp wirp0) = Some ?irp" "current_stack (wi_irp wirp0) ?s = Some ?sl"
    by (simp_all add: wirp0_def current_stack_def irp0_def word_sle_eq)
  from device_control_buffers [OF this, of 40000 "0x902" 0 0] show ?thesis
    by (auto simp: ioctl_fields_ok_def METHOD_BUFFERED_def irp0_def stack0_def)
qed

end
