(* ===== verification/Wdu_Driver.thy ===== *)
theory Wdu_Driver
  imports Wdu_Irp
begin

text \<open>
  \<^verbatim>\<open>src/io/device.rs\<close> and \<^verbatim>\<open>src/common/driver.rs\<close>: the device wrapper, a copy of which is kept at
  the start of the device extension, and the driver builder, a copy of which is kept in the
  driver object's extension and through which the entry points find the client's handlers.
\<close>

section \<open>src/io/device.rs\<close>

datatype WduDeviceError = DevCreateError ntstatus | InvalidBuilderState | GenericError ntstatus

fun device_type_into :: "WduDeviceType \<Rightarrow> u32" where
  "device_type_into DtACPI = 0x32"
| "device_type_into DtDiskFileSystem = 0x8"
| "device_type_into DtDisk = 0x7"
| "device_type_into DtFileSystem = 0x9"
| "device_type_into DtMassStorage = 0x2D"
| "device_type_into DtUnknown = 0x22"

fun device_chars_into :: "WduDeviceChars \<Rightarrow> u32" where
  "device_chars_into DcNone = 0x0"
| "device_chars_into DcRemovableMedia = 0x1"
| "device_chars_into DcReadOnly = 0x2"
| "device_chars_into DcWriteOnce = 0x8"
| "device_chars_into DcRemote = 0x10"
| "device_chars_into DcMounted = 0x20"
| "device_chars_into DcVirtualVolume = 0x40"
| "device_chars_into DcAutoGeneratedName = 0x80"
| "device_chars_into DcSecureOpen = 0x100"
| "device_chars_into DcAllowAppContainerTraversal = 0x20000"
| "device_chars_into DcPortableDevice = 0x40000"
| "device_chars_into DcRequireSecCheck = 0x100000"

definition device_default :: WduDevice where
  "device_default =
     \<lparr>wd_device_type = DtUnknown, wd_characteristics = DcNone, wd_exclusive = False, wd_device = null\<rparr>"

definition device_extension :: "WduDevice \<Rightarrow> ('c, 'a) iostate_scheme \<Rightarrow> ptr option" where
  "device_extension self s = map_option do_DeviceExtension (devices s (wd_device self))"

definition device_get_driver :: "WduDevice \<Rightarrow> ('c, 'a) iostate_scheme \<Rightarrow> ptr option" where
  "device_get_driver self s = map_option do_DriverObject (devices s (wd_device self))"

definition device_exclusive :: "bool \<Rightarrow> WduDevice \<Rightarrow> WduDevice" where
  "device_exclusive exclusive self = self\<lparr>wd_exclusive := exclusive\<rparr>"

definition device_device_type :: "WduDeviceType \<Rightarrow> WduDevice \<Rightarrow> WduDevice" where
  "device_device_type device_type self = self\<lparr>wd_device_type := device_type\<rparr>"

definition device_characteristics :: "WduDeviceChars \<Rightarrow> WduDevice \<Rightarrow> WduDevice" where
  "device_characteristics characteristics self = self\<lparr>wd_characteristics := characteristics\<rparr>"

definition device_set_flags :: "WduDevice \<Rightarrow> u32 \<Rightarrow> ('c, 'a) iostate_scheme \<Rightarrow> ('c, 'a) iostate_scheme option" where
  "device_set_flags self flags s = do {
     d \<leftarrow> devices s (wd_device self);
     Some (s\<lparr>devices := (devices s)(wd_device self \<mapsto> d\<lparr>do_Flags := do_Flags d OR flags\<rparr>)\<rparr>)
   }"

text \<open>The size of the structure: a pointer, two one-byte enums and a flag, rounded up to 16 bytes.\<close>

definition sizeof_WduDevice :: nat where
  "sizeof_WduDevice = 16"

text \<open>
  \<open>n\<close> is the size of the client's extension type and \<open>z\<close> its value when all bytes are zero, as the
  system leaves them. The routine writes the new device's address; the device object it created
  is in the answer.
\<close>

definition device_build ::
  "kernel \<Rightarrow> nat \<Rightarrow> 'c \<Rightarrow> WduDevice \<Rightarrow> WduDriver \<Rightarrow> WduUnicodeStr option \<Rightarrow> ('c, 'a) iostate_scheme
     \<Rightarrow> ((WduDeviceError, WduDevice) result \<times> ('c, 'a) iostate_scheme) option" where
  "device_build K n z self driver device_name s = do {
     let name = as_unicode_string (case device_name of None \<Rightarrow> str_default | Some name \<Rightarrow> name);
     let ext_size = sizeof_WduDevice + n;
     let (r, s) = sys K (Io (IoCreateDevice (wr_driver driver) (of_nat ext_size) (ustr_of s name)
            (device_type_into (wd_device_type self)) (device_chars_into (wd_characteristics self))
            (u8_of_bool (wd_exclusive self)))) s;
     if r_status r \<noteq> STATUS_SUCCESS then Some (Err (DevCreateError (r_status r)), s)
     else do {
       let self = self\<lparr>wd_device := r_out r\<rparr>;
       let s = s\<lparr>devices := (devices s)(r_out r \<mapsto> r_device r),
                  client := (client s)(do_DeviceExtension (r_device r) + of_nat sizeof_WduDevice \<mapsto> z)\<rparr>;
       ext \<leftarrow> device_extension self s;
       Some (Ok self, s\<lparr>wdu_devices := (wdu_devices s)(ext \<mapsto> self)\<rparr>)
     }
   }"

definition device_delete :: "kernel \<Rightarrow> WduDevice \<Rightarrow> ('c, 'a) iostate_scheme \<Rightarrow> ('c, 'a) iostate_scheme" where
  "device_delete K self s =
     (if wd_device self \<noteq> null
      then (sysv K (Io (IoDeleteDevice (wd_device self))) s)\<lparr>devices := (devices s)(wd_device self := None)\<rparr>
      else s)"

definition device_symbolic_name ::
  "kernel \<Rightarrow> WduUnicodeStr \<Rightarrow> WduUnicodeStr \<Rightarrow> 'a ustate_scheme \<Rightarrow> (WduDeviceError, unit) result \<times> 'a ustate_scheme" where
  "device_symbolic_name K device_name symbolic_name s =
     (let (r, s) = sys K (Io (IoCreateSymbolicLink (ustr_of s (as_unicode_string symbolic_name))
            (ustr_of s (as_unicode_string device_name)))) s
      in if r_status r \<noteq> STATUS_SUCCESS then (Err (GenericError (r_status r)), s) else (Ok (), s))"

definition delete_symbolic_name ::
  "kernel \<Rightarrow> WduUnicodeStr \<Rightarrow> 'a ustate_scheme \<Rightarrow> (WduDeviceError, unit) result \<times> 'a ustate_scheme" where
  "delete_symbolic_name K symbolic_name s =
     (let (r, s) = sys K (Io (IoDeleteSymbolicLink (ustr_of s (as_unicode_string symbolic_name)))) s
      in if r_status r \<noteq> STATUS_SUCCESS then (Err (GenericError (r_status r)), s) else (Ok (), s))"

definition get_wdu_device :: "ptr \<Rightarrow> ('c, 'a) iostate_scheme \<Rightarrow> WduDevice option" where
  "get_wdu_device device s = do {
     d \<leftarrow> devices s device;
     wdu_devices s (do_DeviceExtension d)
   }"

text \<open>The client's part of the extension starts behind the crate's.\<close>

definition extension_as_ptr :: "WduDevice \<Rightarrow> ('c, 'a) iostate_scheme \<Rightarrow> ptr option" where
  "extension_as_ptr self s = map_option (\<lambda>e. e + of_nat sizeof_WduDevice) (device_extension self s)"

definition extension_as_ref :: "WduDevice \<Rightarrow> ('c, 'a) iostate_scheme \<Rightarrow> 'c option" where
  "extension_as_ref self s = do { p \<leftarrow> extension_as_ptr self s; client s p }"

definition extension_as_mut_ref ::
  "WduDevice \<Rightarrow> ('c \<Rightarrow> 'c) \<Rightarrow> ('c, 'a) iostate_scheme \<Rightarrow> ('c, 'a) iostate_scheme option" where
  "extension_as_mut_ref self f s = do {
     p \<leftarrow> extension_as_ptr self s;
     c \<leftarrow> client s p;
     Some (s\<lparr>client := (client s)(p \<mapsto> f c)\<rparr>)
   }"

text \<open>\<^verbatim>\<open>extension\<close> is a bitwise copy (\<^verbatim>\<open>ptr::read\<close>): the value stays in the extension as well.\<close>

definition extension_read :: "WduDevice \<Rightarrow> ('c, 'a) iostate_scheme \<Rightarrow> 'c option" where
  "extension_read self s = do { p \<leftarrow> extension_as_ptr self s; client s p }"

section \<open>src/common/driver.rs\<close>

datatype WduDriverError = DriverExtAllocFailed | AlreadyInit

definition create_irp :: "fnptr \<Rightarrow> FileObjDispatch \<Rightarrow> FileObjDispatch" where
  "create_irp create self = self\<lparr>fd_create := Some create\<rparr>"

definition close_irp :: "fnptr \<Rightarrow> FileObjDispatch \<Rightarrow> FileObjDispatch" where
  "close_irp close self = self\<lparr>fd_close := Some close\<rparr>"

definition cleanup_irp :: "fnptr \<Rightarrow> FileObjDispatch \<Rightarrow> FileObjDispatch" where
  "cleanup_irp cleanup self = self\<lparr>fd_cleanup := Some cleanup\<rparr>"

definition read_irp :: "fnptr \<Rightarrow> IoDispath \<Rightarrow> IoDispath" where
  "read_irp rd self = self\<lparr>id_read := Some rd\<rparr>"

definition write_irp :: "fnptr \<Rightarrow> IoDispath \<Rightarrow> IoDispath" where
  "write_irp wr self = self\<lparr>id_write := Some wr\<rparr>"

definition ioctl_irp :: "fnptr \<Rightarrow> IoDispath \<Rightarrow> IoDispath" where
  "ioctl_irp ioct self = self\<lparr>id_ioctl := Some ioct\<rparr>"

definition fileobj_default :: FileObjDispatch where
  "fileobj_default = \<lparr>fd_create = None, fd_close = None, fd_cleanup = None\<rparr>"

definition io_default :: IoDispath where
  "io_default = \<lparr>id_read = None, id_write = None, id_ioctl = None\<rparr>"

definition driver_new :: "ptr \<Rightarrow> WduDriver" where
  "driver_new driver = \<lparr>wr_init = False, wr_driver = driver, wr_add_device = None, wr_unload = None,
     wr_io = io_default, wr_fileobj = fileobj_default\<rparr>"

definition driver_device :: "WduDriver \<Rightarrow> ('c, 'a) iostate_scheme \<Rightarrow> WduDevice option" where
  "driver_device self s = map_option (\<lambda>d. wrap_device (dro_DeviceObject d)) (drivers s (wr_driver self))"

text \<open>The addresses of the crate's entry points.\<close>

record entry_points =
  ep_dispatch_handler :: fnptr
  ep_driver_unload :: fnptr
  ep_add_device :: fnptr

definition device_add ::
  "entry_points \<Rightarrow> WduDriver \<Rightarrow> fnptr \<Rightarrow> ('c, 'a) iostate_scheme \<Rightarrow> (WduDriver \<times> ('c, 'a) iostate_scheme) option" where
  "device_add ep self device_add_fn s = do {
     d \<leftarrow> drivers s (wr_driver self);
     let s = (if dro_AddDevice d \<noteq> None
       then s\<lparr>drivers := (drivers s)(wr_driver self \<mapsto> d\<lparr>dro_AddDevice := Some (Some (ep_add_device ep))\<rparr>)\<rparr>
       else s);
     Some (self\<lparr>wr_add_device := Some device_add_fn\<rparr>, s)
   }"

definition driver_unload_builder ::
  "entry_points \<Rightarrow> WduDriver \<Rightarrow> fnptr \<Rightarrow> ('c, 'a) iostate_scheme \<Rightarrow> (WduDriver \<times> ('c, 'a) iostate_scheme) option" where
  "driver_unload_builder ep self unload s = do {
     d \<leftarrow> drivers s (wr_driver self);
     Some (self\<lparr>wr_unload := Some unload\<rparr>,
           s\<lparr>drivers := (drivers s)(wr_driver self \<mapsto> d\<lparr>dro_DriverUnload := Some (ep_driver_unload ep)\<rparr>)\<rparr>)
   }"

text \<open>The loop over major codes; an index outside the array panics.\<close>

fun install_majors :: "fnptr \<Rightarrow> u32 list \<Rightarrow> fnptr option list \<Rightarrow> fnptr option list option" where
  "install_majors pfn [] table = Some table"
| "install_majors pfn (major # majors) table =
     (if unat major < length table
      then install_majors pfn majors (table[unat major := Some pfn])
      else panic)"

definition install ::
  "fnptr \<Rightarrow> u32 list \<Rightarrow> WduDriver \<Rightarrow> ('c, 'a) iostate_scheme \<Rightarrow> ('c, 'a) iostate_scheme option" where
  "install pfn majors self s = do {
     d \<leftarrow> drivers s (wr_driver self);
     table \<leftarrow> install_majors pfn majors (dro_MajorFunction d);
     Some (s\<lparr>drivers := (drivers s)(wr_driver self \<mapsto> d\<lparr>dro_MajorFunction := table\<rparr>)\<rparr>)
   }"

definition driver_file_object ::
  "entry_points \<Rightarrow> WduDriver \<Rightarrow> FileObjDispatch \<Rightarrow> ('c, 'a) iostate_scheme \<Rightarrow> (WduDriver \<times> ('c, 'a) iostate_scheme) option" where
  "driver_file_object ep self dispatch_rtns s = do {
     s \<leftarrow> install (ep_dispatch_handler ep) [IRP_MJ_CREATE, IRP_MJ_CLOSE, IRP_MJ_CLEANUP] self s;
     Some (self\<lparr>wr_fileobj := dispatch_rtns\<rparr>, s)
   }"

definition driver_io ::
  "entry_points \<Rightarrow> WduDriver \<Rightarrow> IoDispath \<Rightarrow> ('c, 'a) iostate_scheme \<Rightarrow> (WduDriver \<times> ('c, 'a) iostate_scheme) option" where
  "driver_io ep self dispatch_rtns s = do {
     s \<leftarrow> install (ep_dispatch_handler ep) [IRP_MJ_READ, IRP_MJ_WRITE, IRP_MJ_DEVICE_CONTROL] self s;
     Some (self\<lparr>wr_io := dispatch_rtns\<rparr>, s)
   }"

text \<open>\<open>WKR_DRIVER_ID\<close> is the address of \<^verbatim>\<open>get_wdu_driver\<close>; the structure's size is the system's business.\<close>

definition driver_alloc_ext ::
  "kernel \<Rightarrow> fnptr \<Rightarrow> u32 \<Rightarrow> WduDriver \<Rightarrow> ('c, 'a) iostate_scheme
     \<Rightarrow> (WduDriverError, unit) result \<times> WduDriver \<times> ('c, 'a) iostate_scheme" where
  "driver_alloc_ext K wkr_driver_id sizeof self s =
     (let (r, s) = sys K (Io (IoAllocateDriverObjectExtension (wr_driver self) wkr_driver_id sizeof)) s
      in if r_status r \<noteq> STATUS_SUCCESS then (Err DriverExtAllocFailed, self, s)
         else let self = self\<lparr>wr_init := True\<rparr>
              in (Ok (), self, s\<lparr>wdu_drivers := (wdu_drivers s)(r_out r \<mapsto> self)\<rparr>))"

definition driver_build ::
  "kernel \<Rightarrow> fnptr \<Rightarrow> u32 \<Rightarrow> WduDriver \<Rightarrow> ('c, 'a) iostate_scheme
     \<Rightarrow> (WduDriverError, WduDriver) result \<times> ('c, 'a) iostate_scheme" where
  "driver_build K wkr_driver_id sizeof self s =
     (if wr_init self then (Err AlreadyInit, s)
      else case driver_alloc_ext K wkr_driver_id sizeof self s of
          (Err e, self, s) \<Rightarrow> (Err e, s)
        | (Ok u, self, s) \<Rightarrow> (Ok self, s))"

definition get_wdu_driver :: "kernel \<Rightarrow> fnptr \<Rightarrow> ptr \<Rightarrow> 'a kstate_scheme \<Rightarrow> ptr \<times> 'a kstate_scheme" where
  "get_wdu_driver K wkr_driver_id driver s =
     (let (r, s) = sys K (Io (IoGetDriverObjectExtension driver wkr_driver_id)) s in (r_ptr r, s))"

text \<open>The client's handlers, by address; each may change the wrapper of the IRP and the state.\<close>

record ('c, 'a) handlers =
  h_create :: "fnptr \<Rightarrow> WduDevice \<Rightarrow> WduIrp \<Rightarrow> WduCreate \<Rightarrow> ('c, 'a) iostate_scheme
     \<Rightarrow> (WduIrp \<times> ('c, 'a) iostate_scheme) option"
  h_close :: "fnptr \<Rightarrow> WduDevice \<Rightarrow> WduIrp \<Rightarrow> WduFileObject \<Rightarrow> ('c, 'a) iostate_scheme
     \<Rightarrow> (WduIrp \<times> ('c, 'a) iostate_scheme) option"
  h_rw :: "fnptr \<Rightarrow> WduDevice \<Rightarrow> WduIrp \<Rightarrow> usize \<Rightarrow> ('c, 'a) iostate_scheme
     \<Rightarrow> (ntstatus \<times> WduIrp \<times> ('c, 'a) iostate_scheme) option"
  h_ioctl :: "fnptr \<Rightarrow> WduDevice \<Rightarrow> WduIrp \<Rightarrow> WduDeviceControl \<Rightarrow> ('c, 'a) iostate_scheme
     \<Rightarrow> (ntstatus \<times> WduIrp \<times> ('c, 'a) iostate_scheme) option"
  h_unload :: "fnptr \<Rightarrow> WduDriver \<Rightarrow> ('c, 'a) iostate_scheme \<Rightarrow> ('c, 'a) iostate_scheme option"
  h_add_device :: "fnptr \<Rightarrow> WduDriver \<Rightarrow> ('c, 'a) iostate_scheme \<Rightarrow> (ntstatus \<times> ('c, 'a) iostate_scheme) option"

definition fo_dispatch ::
  "('c, 'a) handlers \<Rightarrow> WduDriver \<Rightarrow> WduDevice \<Rightarrow> WduIrp \<Rightarrow> ('c, 'a) iostate_scheme
     \<Rightarrow> (WduIrp \<times> ('c, 'a) iostate_scheme) option" where
  "fo_dispatch H self device irp s =
     (case wi_mj irp of
        MjCreate \<Rightarrow> (case fd_create (wr_fileobj self) of
            None \<Rightarrow> Some (irp, s)
          | Some pfn \<Rightarrow> do { create \<leftarrow> create_new irp s; h_create H pfn device irp create s })
      | MjClose \<Rightarrow> (case fd_close (wr_fileobj self) of
            None \<Rightarrow> Some (irp, s)
          | Some pfn \<Rightarrow> do { fo \<leftarrow> irp_file_object irp s; h_close H pfn device irp fo s })
      | MjCleanup \<Rightarrow> (case fd_cleanup (wr_fileobj self) of
            None \<Rightarrow> Some (irp, s)
          | Some pfn \<Rightarrow> do { fo \<leftarrow> irp_file_object irp s; h_close H pfn device irp fo s })
      | _ \<Rightarrow> panic)"

definition io_dispatch ::
  "('c, 'a) handlers \<Rightarrow> WduDriver \<Rightarrow> WduDevice \<Rightarrow> WduIrp \<Rightarrow> ('c, 'a) iostate_scheme
     \<Rightarrow> (ntstatus \<times> WduIrp \<times> ('c, 'a) iostate_scheme) option" where
  "io_dispatch H self device irp s =
     (case wi_mj irp of
        MjRead \<Rightarrow> (case id_read (wr_io self) of
            None \<Rightarrow> Some (STATUS_SUCCESS, irp, s)
          | Some pfn \<Rightarrow> h_rw H pfn device irp 0 s)
      | MjWrite \<Rightarrow> (case id_write (wr_io self) of
            None \<Rightarrow> Some (STATUS_SUCCESS, irp, s)
          | Some pfn \<Rightarrow> h_rw H pfn device irp 0 s)
      | MjDeviceControl \<Rightarrow> (case id_ioctl (wr_io self) of
            None \<Rightarrow> Some (STATUS_SUCCESS, irp, s)
          | Some pfn \<Rightarrow> do { ioctl \<leftarrow> device_control_new irp s; h_ioctl H pfn device irp ioctl s })
      | _ \<Rightarrow> panic)"

text \<open>
  The power and PnP tests come last and are \<^verbatim>\<open>todo!()\<close>: an IRP that is neither a file object nor
  an I/O request panics there.
\<close>

definition dispatch_handler ::
  "kernel \<Rightarrow> fnptr \<Rightarrow> ('c, 'a) handlers \<Rightarrow> ptr \<Rightarrow> ptr \<Rightarrow> ('c, 'a) iostate_scheme
     \<Rightarrow> (ntstatus \<times> ('c, 'a) iostate_scheme) option" where
  "dispatch_handler K wkr_driver_id H device irp s = do {
     wdu_irp \<leftarrow> irp_wrap irp s;
     wdu_device \<leftarrow> get_wdu_device device s;
     drv \<leftarrow> device_get_driver wdu_device s;
     let (p, s) = get_wdu_driver K wkr_driver_id drv s;
     if p = null then Some (STATUS_SUCCESS, s)
     else do {
       wdu_driver \<leftarrow> wdu_drivers s p;
       if mj_is_fileobj (wi_mj wdu_irp)
       then map_option (\<lambda>(_, s). (STATUS_SUCCESS, s)) (fo_dispatch H wdu_driver wdu_device wdu_irp s)
       else if mj_is_io (wi_mj wdu_irp)
       then map_option (\<lambda>(status, _, s). (status, s)) (io_dispatch H wdu_driver wdu_device wdu_irp s)
       else panic
     }
   }"

definition unload_internal ::
  "('c, 'a) handlers \<Rightarrow> WduDriver \<Rightarrow> ('c, 'a) iostate_scheme \<Rightarrow> ('c, 'a) iostate_scheme option" where
  "unload_internal H self s =
     (case wr_unload self of None \<Rightarrow> Some s | Some unload \<Rightarrow> h_unload H unload self s)"

definition add_device_internal ::
  "('c, 'a) handlers \<Rightarrow> WduDriver \<Rightarrow> WduDevice \<Rightarrow> ('c, 'a) iostate_scheme
     \<Rightarrow> (ntstatus \<times> ('c, 'a) iostate_scheme) option" where
  "add_device_internal H self device s =
     (case wr_add_device self of None \<Rightarrow> Some (STATUS_SUCCESS, s) | Some f \<Rightarrow> h_add_device H f self s)"

text \<open>Power and PnP dispatch and the builder's steps for them are \<^verbatim>\<open>todo!()\<close>.\<close>

definition driver_power :: "WduDriver \<Rightarrow> WduDriver option" where "driver_power self = None"
definition driver_pnp :: "WduDriver \<Rightarrow> WduDriver option" where "driver_pnp self = None"

definition power_dispatch ::
  "WduDriver \<Rightarrow> WduDevice \<Rightarrow> WduIrp \<Rightarrow> ('c, 'a) iostate_scheme \<Rightarrow> (ntstatus \<times> WduIrp \<times> ('c, 'a) iostate_scheme) option" where
  "power_dispatch self device irp s = None"

definition pnp_dispatch :: "WduDriver \<Rightarrow> ('c, 'a) iostate_scheme \<Rightarrow> (ntstatus \<times> ('c, 'a) iostate_scheme) option" where
  "pnp_dispatch self s = None"

definition driver_unload ::
  "kernel \<Rightarrow> fnptr \<Rightarrow> ('c, 'a) handlers \<Rightarrow> ptr \<Rightarrow> ('c, 'a) iostate_scheme \<Rightarrow> ('c, 'a) iostate_scheme option" where
  "driver_unload K wkr_driver_id H driver s = do {
     let (p, s) = get_wdu_driver K wkr_driver_id driver s;
     if p = null then Some s
     else do {
       wdu_driver \<leftarrow> wdu_drivers s p;
       rust_assert (wr_init wdu_driver);
       unload_internal H wdu_driver s
     }
   }"

definition add_device ::
  "kernel \<Rightarrow> fnptr \<Rightarrow> ('c, 'a) handlers \<Rightarrow> ptr \<Rightarrow> ptr \<Rightarrow> ('c, 'a) iostate_scheme
     \<Rightarrow> (ntstatus \<times> ('c, 'a) iostate_scheme) option" where
  "add_device K wkr_driver_id H driver pdo s = do {
     let (p, s) = get_wdu_driver K wkr_driver_id driver s;
     if p = null then Some (STATUS_SUCCESS, s)
     else do {
       wdu_driver \<leftarrow> wdu_drivers s p;
       add_device_internal H wdu_driver (wrap_device pdo) s
     }
   }"

section \<open>Devices\<close>

text \<open>
  C26. \<^verbatim>\<open>build\<close> asks the kernel once for a device, with the type, characteristics and exclusivity that
  were set, the name (an empty one if there is none) and an extension for the wrapper and the
  client's part. If the kernel's answer is not success, that status is the error and nothing has
  changed. Otherwise the device is found again from the device object the kernel passes to an entry
  point: the wrapper in its extension is the one \<^verbatim>\<open>build\<close> returned, with what was set and the new
  device's address, and the client's part starts behind it; every other device whose extension lies
  elsewhere is found as before; and after \<^verbatim>\<open>delete\<close> the device is not found any more.
\<close>

theorem device_build_find:
  assumes "device_build K n z self drv name s = Some (res, s')"
  shows "\<exists>r. klog s' = klog s @ [(Io (IoCreateDevice (wr_driver drv) (of_nat (sizeof_WduDevice + n))
        (ustr_of s (as_unicode_string (case name of None \<Rightarrow> str_default | Some nm \<Rightarrow> nm)))
        (device_type_into (wd_device_type self)) (device_chars_into (wd_characteristics self))
        (u8_of_bool (wd_exclusive self))), r)] \<and>
    (if r_status r = STATUS_SUCCESS
     then \<exists>d. res = Ok d \<and> d = self\<lparr>wd_device := r_out r\<rparr> \<and>
       get_wdu_device (r_out r) s' = Some d \<and> extension_as_ref d s' = Some z \<and>
       (\<forall>p q. p \<noteq> r_out r \<longrightarrow> devices s p = Some q \<longrightarrow> do_DeviceExtension q \<noteq> do_DeviceExtension (r_device r) \<longrightarrow>
         get_wdu_device p s' = get_wdu_device p s) \<and>
       (r_out r \<noteq> null \<longrightarrow> get_wdu_device (r_out r) (device_delete K d s') = None)
     else res = Err (DevCreateError (r_status r)) \<and>
       devices s' = devices s \<and> wdu_devices s' = wdu_devices s \<and> client s' = client s)"
proof -
  define c where "c = Io (IoCreateDevice (wr_driver drv) (of_nat (sizeof_WduDevice + n))
      (ustr_of s (as_unicode_string (case name of None \<Rightarrow> str_default | Some nm \<Rightarrow> nm)))
      (device_type_into (wd_device_type self)) (device_chars_into (wd_characteristics self))
      (u8_of_bool (wd_exclusive self)))"
  let ?r = "K (klog s) c"
  have "\<exists>r. klog s' = klog s @ [(c, r)] \<and>
    (if r_status r = STATUS_SUCCESS
     then \<exists>d. res = Ok d \<and> d = self\<lparr>wd_device := r_out r\<rparr> \<and>
       get_wdu_device (r_out r) s' = Some d \<and> extension_as_ref d s' = Some z \<and>
       (\<forall>p q. p \<noteq> r_out r \<longrightarrow> devices s p = Some q \<longrightarrow> do_DeviceExtension q \<noteq> do_DeviceExtension (r_device r) \<longrightarrow>
         get_wdu_device p s' = get_wdu_device p s) \<and>
       (r_out r \<noteq> null \<longrightarrow> get_wdu_device (r_out r) (device_delete K d s') = None)
     else res = Err (DevCreateError (r_status r)) \<and>
       devices s' = devices s \<and> wdu_devices s' = wdu_devices s \<and> client s' = client s)"
  proof (cases "r_status ?r = STATUS_SUCCESS")
    case True
    with assms have res: "res = Ok (self\<lparr>wd_device := r_out ?r\<rparr>)"
      and s': "s' = s\<lparr>klog := klog s @ [(c, ?r)], devices := (devices s)(r_out ?r \<mapsto> r_device ?r),
        client := (client s)(do_DeviceExtension (r_device ?r) + of_nat sizeof_WduDevice \<mapsto> z),
        wdu_devices := (wdu_devices s)(do_DeviceExtension (r_device ?r) \<mapsto> self\<lparr>wd_device := r_out ?r\<rparr>)\<rparr>"
      by (auto simp: device_build_def c_def [symmetric] Let_def sys_eq device_extension_def simp del: of_nat_add)
    then show ?thesis
      using True
      by (intro exI [of _ ?r]) (simp add: device_extension_def get_wdu_device_def extension_as_ref_def
        extension_as_ptr_def device_delete_def)
  next
    case False
    with assms have "res = Err (DevCreateError (r_status ?r))" "s' = s\<lparr>klog := klog s @ [(c, ?r)]\<rparr>"
      by (auto simp: device_build_def c_def [symmetric] Let_def sys_eq simp del: of_nat_add)
    then show ?thesis
      using False by (intro exI [of _ ?r]) simp
  qed
  then show ?thesis unfolding c_def .
qed

definition dev_kernel :: kernel where
  "dev_kernel h c = reply0\<lparr>r_out := 0x300,
     r_device := \<lparr>do_DriverObject = 0x20, do_DeviceExtension = 0x340, do_Flags = 0\<rparr>\<rparr>"

lemma dev_kernel_simps [simp]:
  "r_status (dev_kernel h c) = 0" "r_out (dev_kernel h c) = 0x300"
  "do_DeviceExtension (r_device (dev_kernel h c)) = 0x340" "do_DriverObject (r_device (dev_kernel h c)) = 0x20"
  by (simp_all add: dev_kernel_def)

theorem device_build_find_witness:
  "\<exists>d s' t. device_build dev_kernel 8 (0::nat) (device_exclusive True device_default) (driver_new 0x20) None io0 = Some (Ok d, s') \<and>
    get_wdu_device (wd_device d) s' = Some d \<and> wd_exclusive d \<and> extension_as_ref d s' = Some 0 \<and>
    device_build (\<lambda>_ _. reply0\<lparr>r_status := STATUS_UNSUCCESSFUL\<rparr>) 8 (0::nat) device_default (driver_new 0x20) None io0 =
      Some (Err (DevCreateError STATUS_UNSUCCESSFUL), t) \<and> devices t = Map.empty"
proof -
  let ?K = "\<lambda>_ _. reply0\<lparr>r_status := STATUS_UNSUCCESSFUL\<rparr>"
  obtain d s' where a: "device_build dev_kernel 8 (0::nat) (device_exclusive True device_default) (driver_new 0x20) None io0
      = Some (Ok d, s')"
    and r: "r_status (snd (last (klog s'))) = 0"
    by (simp add: device_build_def Let_def sys_eq device_extension_def)
  obtain e t where b: "device_build ?K 8 (0::nat) device_default (driver_new 0x20) None io0 = Some (e, t)"
    and f: "r_status (snd (last (klog t))) = STATUS_UNSUCCESSFUL"
    by (simp add: device_build_def Let_def sys_eq nt_consts)
  show ?thesis
    using device_build_find [OF a] device_build_find [OF b] r f a b
    by (auto simp: device_exclusive_def nt_consts io0_def)
qed

section \<open>The dispatch table\<close>

lemma install_majors_eq:
  "\<forall>m\<in>set majors. unat m < length table \<Longrightarrow>
     \<exists>table'. install_majors pfn majors table = Some table' \<and> length table' = length table \<and>
       (\<forall>i<length table. table' ! i = (if i \<in> unat ` set majors then Some pfn else table ! i))"
proof (induction majors arbitrary: table)
  case (Cons m ms)
  then show ?case
    using Cons.IH [of "table[unat m := Some pfn]"] by (auto simp: nth_list_update)
qed simp

text \<open>
  The builder's \<^verbatim>\<open>file_object\<close> and \<^verbatim>\<open>io\<close> steps install the crate's dispatch routine for exactly
  the six major functions it handles (create, close, cleanup, read, write, device control), leave
  the other 22 entries of the driver object's table as they were, and never index out of it.
\<close>

lemma builder_installs_majors:
  assumes "drivers s (wr_driver drv) = Some d" "length (dro_MajorFunction d) = 28"
  shows "\<exists>drv1 s1 drv2 s2 d2. driver_file_object ep drv fo s = Some (drv1, s1) \<and>
    driver_io ep drv1 io s1 = Some (drv2, s2) \<and> drv2 = drv\<lparr>wr_fileobj := fo, wr_io := io\<rparr> \<and>
    drivers s2 (wr_driver drv) = Some d2 \<and> length (dro_MajorFunction d2) = 28 \<and>
    (\<forall>i<28. dro_MajorFunction d2 ! i =
      (if i \<in> {0, 2, 3, 4, 14, 18} then Some (ep_dispatch_handler ep) else dro_MajorFunction d ! i))"
proof -
  let ?pfn = "ep_dispatch_handler ep" and ?fo = "[IRP_MJ_CREATE, IRP_MJ_CLOSE, IRP_MJ_CLEANUP]"
    and ?io = "[IRP_MJ_READ, IRP_MJ_WRITE, IRP_MJ_DEVICE_CONTROL]"
  obtain t1 where t1: "install_majors ?pfn ?fo (dro_MajorFunction d) = Some t1" "length t1 = 28"
    "\<forall>i<28. t1 ! i = (if i \<in> {0, 2, 18} then Some ?pfn else dro_MajorFunction d ! i)"
    using install_majors_eq [of ?fo "dro_MajorFunction d" ?pfn] assms(2) by (auto simp: nt_consts)
  obtain t2 where t2: "install_majors ?pfn ?io t1 = Some t2" "length t2 = 28"
    "\<forall>i<28. t2 ! i = (if i \<in> {3, 4, 14} then Some ?pfn else t1 ! i)"
    using install_majors_eq [of ?io t1 ?pfn] t1(2) by (auto simp: nt_consts)
  have fo: "driver_file_object ep drv fo s =
      Some (drv\<lparr>wr_fileobj := fo\<rparr>, s\<lparr>drivers := (drivers s)(wr_driver drv \<mapsto> d\<lparr>dro_MajorFunction := t1\<rparr>)\<rparr>)"
    using assms(1) t1(1) by (simp add: driver_file_object_def install_def del: install_majors.simps)
  have "driver_io ep (drv\<lparr>wr_fileobj := fo\<rparr>) io (s\<lparr>drivers := (drivers s)(wr_driver drv \<mapsto> d\<lparr>dro_MajorFunction := t1\<rparr>)\<rparr>) =
      Some (drv\<lparr>wr_fileobj := fo, wr_io := io\<rparr>, s\<lparr>drivers := (drivers s)(wr_driver drv \<mapsto> d\<lparr>dro_MajorFunction := t2\<rparr>)\<rparr>)"
    using t2(1) by (simp add: driver_io_def install_def del: install_majors.simps)
  with fo t1(3) t2(2,3) show ?thesis by auto
qed

definition drvobj0 :: DRIVER_OBJECT where
  "drvobj0 = \<lparr>dro_DeviceObject = 0, dro_AddDevice = None, dro_DriverUnload = None,
     dro_MajorFunction = replicate 28 (Some 0x11)\<rparr>"

definition ep0 :: entry_points where
  "ep0 = \<lparr>ep_dispatch_handler = 0xD1, ep_driver_unload = 0xD2, ep_add_device = 0xD3\<rparr>"

section \<open>Dispatch\<close>

text \<open>
  The driver object extension a log leaves: the last one that was allocated for the driver and
  the identification address. The system finds it again (\<open>finds_driver_ext\<close>).
\<close>

fun driver_ext_step :: "ptr \<Rightarrow> fnptr \<Rightarrow> kevent \<Rightarrow> ptr \<Rightarrow> ptr" where
  "driver_ext_step drv i (Io (IoAllocateDriverObjectExtension d j n), r) p =
     (if d = drv \<and> j = i \<and> r_status r = STATUS_SUCCESS then r_out r else p)"
| "driver_ext_step drv i _ p = p"

definition driver_ext :: "ptr \<Rightarrow> fnptr \<Rightarrow> kevent list \<Rightarrow> ptr" where
  "driver_ext drv i es = fold (driver_ext_step drv i) es null"

definition finds_driver_ext :: "kernel \<Rightarrow> bool" where
  "finds_driver_ext K \<longleftrightarrow>
     (\<forall>h drv i. r_ptr (K h (Io (IoGetDriverObjectExtension drv i))) = driver_ext drv i h)"

lemma driver_ext_append [simp]:
  "driver_ext drv i (es @ fs) = fold (driver_ext_step drv i) fs (driver_ext drv i es)"
  by (simp add: driver_ext_def)

lemma driver_build_ext:
  assumes "driver_build K i n drv s = (Ok drv', s')"
  shows "drv' = drv\<lparr>wr_init := True\<rparr>" "wdu_drivers s' (driver_ext (wr_driver drv) i (klog s')) = Some drv'"
  using assms
  by (auto simp: driver_build_def driver_alloc_ext_def Let_def sys_eq split: if_splits)

text \<open>What is known of an object the kernel says it has made.\<close>

definition makes_objects :: "kernel \<Rightarrow> bool" where
  "makes_objects K \<longleftrightarrow>
     (\<forall>h d i n. r_status (K h (Io (IoAllocateDriverObjectExtension d i n))) = STATUS_SUCCESS \<longrightarrow>
        r_out (K h (Io (IoAllocateDriverObjectExtension d i n))) \<noteq> null) \<and>
     (\<forall>h d n name ty ch ex r. r = K h (Io (IoCreateDevice d n name ty ch ex)) \<longrightarrow> r_status r = STATUS_SUCCESS \<longrightarrow>
        do_DriverObject (r_device r) = d \<and> do_DeviceExtension (r_device r) + of_nat sizeof_WduDevice \<noteq> null)"

lemma driver_build_ext_not_null:
  assumes "makes_objects K" "driver_build K i n d s = (Ok d', t)"
  shows "driver_ext (wr_driver d) i (klog t) \<noteq> null"
  using assms
  by (auto simp: driver_build_def driver_alloc_ext_def sys_eq Let_def makes_objects_def split: if_splits)

lemma makes_device:
  assumes "makes_objects K" "r_status (K h (Io (IoCreateDevice d n name ty ch ex))) = STATUS_SUCCESS"
  shows "do_DriverObject (r_device (K h (Io (IoCreateDevice d n name ty ch ex)))) = d"
    "do_DeviceExtension (r_device (K h (Io (IoCreateDevice d n name ty ch ex)))) + of_nat sizeof_WduDevice \<noteq> null"
  using assms unfolding makes_objects_def by blast+

lemma get_wdu_driver_found:
  assumes "finds_driver_ext K"
  shows "fst (get_wdu_driver K i drv s) = driver_ext drv i (klog s)"
  using assms by (simp add: get_wdu_driver_def finds_driver_ext_def sys_eq)

lemma get_wdu_driver_frame [simp]:
  "wdu_drivers (snd (get_wdu_driver K i drv s)) = wdu_drivers s"
  "irps (snd (get_wdu_driver K i drv s)) = irps s"
  by (simp_all add: get_wdu_driver_def sys_eq)

lemma major_is_fileobj_or_io: "mj_is_fileobj m \<longleftrightarrow> \<not> mj_is_io m"
  by (cases m) simp_all

lemma dispatch_handler_eq:
  assumes "finds_driver_ext K" "irp_wrap irp s = Some w" "get_wdu_device dev s = Some d"
    "device_get_driver d s = Some drvobj" "driver_ext drvobj i (klog s) \<noteq> null"
    "wdu_drivers s (driver_ext drvobj i (klog s)) = Some drv"
  shows "dispatch_handler K i H dev irp s =
    (let s' = snd (get_wdu_driver K i drvobj s) in
     if mj_is_fileobj (wi_mj w)
     then map_option (\<lambda>(_, s). (STATUS_SUCCESS, s)) (fo_dispatch H drv d w s')
     else map_option (\<lambda>(status, _, s). (status, s)) (io_dispatch H drv d w s'))"
  using assms get_wdu_driver_found [OF assms(1), of i drvobj s]
  by (simp add: dispatch_handler_def Let_def case_prod_beta major_is_fileobj_or_io)

text \<open>
  What the client may expect of a request, by the handlers it gave to the builder: the handler of
  the request's major function runs, on a view of the request; without one, nothing happens.
\<close>

definition deliver ::
  "('c, 'a) handlers \<Rightarrow> FileObjDispatch \<Rightarrow> IoDispath \<Rightarrow> WduDevice \<Rightarrow> WduIrp \<Rightarrow> ('c, 'a) iostate_scheme
     \<Rightarrow> (ntstatus \<times> ('c, 'a) iostate_scheme) option" where
  "deliver H fd io d w s =
     (let close = (\<lambda>f. case f of
            None \<Rightarrow> Some (STATUS_SUCCESS, s)
          | Some f \<Rightarrow> do { fo \<leftarrow> irp_file_object w s; (w', t) \<leftarrow> h_close H f d w fo s; Some (STATUS_SUCCESS, t) });
          rw = (\<lambda>f. case f of
            None \<Rightarrow> Some (STATUS_SUCCESS, s)
          | Some f \<Rightarrow> do { (st, w', t) \<leftarrow> h_rw H f d w 0 s; Some (st, t) })
      in case wi_mj w of
        MjCreate \<Rightarrow> (case fd_create fd of
            None \<Rightarrow> Some (STATUS_SUCCESS, s)
          | Some f \<Rightarrow> do { c \<leftarrow> create_new w s; (w', t) \<leftarrow> h_create H f d w c s; Some (STATUS_SUCCESS, t) })
      | MjClose \<Rightarrow> close (fd_close fd)
      | MjCleanup \<Rightarrow> close (fd_cleanup fd)
      | MjRead \<Rightarrow> rw (id_read io)
      | MjWrite \<Rightarrow> rw (id_write io)
      | MjDeviceControl \<Rightarrow> (case id_ioctl io of
            None \<Rightarrow> Some (STATUS_SUCCESS, s)
          | Some f \<Rightarrow> do { dc \<leftarrow> device_control_new w s; (st, w', t) \<leftarrow> h_ioctl H f d w dc s; Some (st, t) }))"

lemma dispatch_deliver:
  "(if mj_is_fileobj (wi_mj w)
    then map_option (\<lambda>(_, s). (STATUS_SUCCESS, s)) (fo_dispatch H drv d w s)
    else map_option (\<lambda>(status, _, s). (status, s)) (io_dispatch H drv d w s))
   = deliver H (wr_fileobj drv) (wr_io drv) d w s"
  by (cases "wi_mj w")
     (auto simp: fo_dispatch_def io_dispatch_def deliver_def Let_def split: option.splits Option.bind_splits)

lemma built_dispatch:
  assumes "finds_driver_ext K" "driver_build K i n drv s = (Ok drv', s1)"
    and "driver_ext (wr_driver drv) i (klog s2) = driver_ext (wr_driver drv) i (klog s1)"
    and "driver_ext (wr_driver drv) i (klog s1) \<noteq> null" "wdu_drivers s2 = wdu_drivers s1"
    and "irp_wrap irp s2 = Some w" "get_wdu_device dev s2 = Some d" "device_get_driver d s2 = Some (wr_driver drv)"
  shows "dispatch_handler K i H dev irp s2 =
    deliver H (wr_fileobj drv) (wr_io drv) d w (snd (get_wdu_driver K i (wr_driver drv) s2))"
proof -
  have drv': "wr_io drv' = wr_io drv" "wr_fileobj drv' = wr_fileobj drv"
    using driver_build_ext(1) [OF assms(2)] by auto
  show ?thesis
    using dispatch_handler_eq [OF assms(1,6,7,8)] driver_build_ext(2) [OF assms(2)] assms(3,4,5)
    by (simp add: Let_def dispatch_deliver drv')
qed

text \<open>
  C2. The kernel's dispatch call reaches the handler the client gave to the builder: after
  \<^verbatim>\<open>build\<close>, for an IRP of any installed major function on a device of the driver, the dispatch
  routine runs exactly that handler (the read and write handlers with offset 0, the device
  control handler with the decoded request), on the device wrapper from the extension and a
  wrapper of the IRP, and returns its status; it does not panic on its own.
\<close>

theorem dispatch_reaches_handler:
  assumes "finds_driver_ext K" "driver_build K i n drv s = (Ok drv', s1)"
    and "driver_ext (wr_driver drv) i (klog s2) = driver_ext (wr_driver drv) i (klog s1)"
    and "driver_ext (wr_driver drv) i (klog s1) \<noteq> null" "wdu_drivers s2 = wdu_drivers s1"
    and "irp_wrap irp s2 = Some w" "get_wdu_device dev s2 = Some d" "device_get_driver d s2 = Some (wr_driver drv)"
  shows "dispatch_handler K i H dev irp s2 =
    deliver H (wr_fileobj drv) (wr_io drv) d w (snd (get_wdu_driver K i (wr_driver drv) s2))"
  by (rule built_dispatch [OF assms])

definition ext_kernel :: kernel where
  "ext_kernel h c =
     (case c of
        Io (IoGetDriverObjectExtension d i) \<Rightarrow> reply0\<lparr>r_ptr := driver_ext d i h\<rparr>
      | _ \<Rightarrow> reply0\<lparr>r_out := 0x700\<rparr>)"

lemma ext_kernel_finds: "finds_driver_ext ext_kernel"
  by (simp add: finds_driver_ext_def ext_kernel_def)

definition hs0 :: "(nat, unit) handlers" where
  "hs0 = \<lparr>h_create = \<lambda>f d w c s. Some (w, s), h_close = \<lambda>f d w fo s. Some (w, s),
     h_rw = \<lambda>f d w n s. Some (STATUS_SUCCESS, w, s),
     h_ioctl = \<lambda>f d w dc s. map_option (\<lambda>t. (STATUS_SUCCESS, w, t)) (irp_complete ext_kernel w success_no_info s),
     h_unload = \<lambda>f d s. Some s, h_add_device = \<lambda>f d s. Some (STATUS_SUCCESS, s)\<rparr>"

definition drv0 :: WduDriver where
  "drv0 = (driver_new 0x20)\<lparr>wr_io := ioctl_irp 0xC2 io_default\<rparr>"

text \<open>A built driver with one device and a pending request of the given major function at \<open>0x50\<close>.\<close>

definition built_st :: "u8 \<Rightarrow> nat iostate" where
  "built_st major = (snd (driver_build ext_kernel 0xF 64 drv0 io0))\<lparr>
     irps := [0x50 \<mapsto> irp0\<lparr>irp_CurrentStack := stack0\<lparr>sl_MajorFunction := major\<rparr>\<rparr>],
     devices := [0x300 \<mapsto> \<lparr>do_DriverObject = 0x20, do_DeviceExtension = 0x340, do_Flags = 0\<rparr>],
     wdu_devices := [0x340 \<mapsto> wrap_device 0x300]\<rparr>"

lemma built_st_facts:
  "\<exists>d s1. driver_build ext_kernel 0xF 64 drv0 io0 = (Ok d, s1 :: nat iostate) \<and>
     driver_ext 0x20 0xF (klog s1) = 0x700 \<and> klog (built_st m) = klog s1 \<and>
     wdu_drivers (built_st m) = wdu_drivers s1"
  "wr_driver drv0 = 0x20" "get_wdu_device 0x300 (built_st m) = Some (wrap_device 0x300)"
  "device_get_driver (wrap_device 0x300) (built_st m) = Some 0x20"
  by (auto simp: built_st_def driver_build_def driver_alloc_ext_def drv0_def driver_new_def ext_kernel_def sys_eq
      get_wdu_device_def device_get_driver_def wrap_device_def driver_ext_def Let_def)

lemma built_st_wrap:
  "irp_wrap 0x50 (built_st 14) = Some wirp0"
  "irp_wrap 0x50 (built_st 3) = Some (wirp0\<lparr>wi_mj := MjRead\<rparr>)"
  by (simp_all add: irp_wrap_def current_stack_def built_st_def irp0_def stack0_def word_sle_eq major_from_def
      nt_consts wirp0_def)

theorem dispatch_reaches_handler_witness:
  "dispatch_handler ext_kernel 0xF hs0 0x300 0x50 (built_st 14) =
     deliver hs0 fileobj_default (ioctl_irp 0xC2 io_default) (wrap_device 0x300) wirp0
       (snd (get_wdu_driver ext_kernel 0xF 0x20 (built_st 14)))"
proof -
  obtain d s1 where b: "driver_build ext_kernel 0xF 64 drv0 io0 = (Ok d, s1 :: nat iostate)"
    "driver_ext 0x20 0xF (klog s1) = 0x700" "klog (built_st 14) = klog s1" "wdu_drivers (built_st 14) = wdu_drivers s1"
    using built_st_facts(1) [of 14] by blast
  show ?thesis
    using dispatch_reaches_handler [OF ext_kernel_finds b(1), of "built_st 14" "0x50" wirp0 "0x300"] b
    by (simp add: built_st_facts built_st_wrap) (simp add: drv0_def driver_new_def)
qed

text \<open>
  A request whose major function is installed but whose handler the client left out is
  answered with \<^verbatim>\<open>STATUS_SUCCESS\<close> and never completed: the IRP stays with the driver and its
  completion is never reported.
\<close>

lemma unset_handler_never_completes:
  assumes "finds_driver_ext K" "driver_build K i n drv s = (Ok drv', s1)"
    and "driver_ext (wr_driver drv) i (klog s2) = driver_ext (wr_driver drv) i (klog s1)"
    and "driver_ext (wr_driver drv) i (klog s1) \<noteq> null" "wdu_drivers s2 = wdu_drivers s1"
    and "irp_wrap irp s2 = Some w" "get_wdu_device dev s2 = Some d" "device_get_driver d s2 = Some (wr_driver drv)"
    and "wi_mj w = MjRead" "id_read (wr_io drv) = None"
  shows "\<exists>t. dispatch_handler K i H dev irp s2 = Some (STATUS_SUCCESS, t) \<and> irps t = irps s2 \<and>
    completions irp (klog t) = completions irp (klog s2)"
  using built_dispatch [OF assms(1-8), of H] assms(9,10)
  by (simp add: deliver_def get_wdu_driver_def sys_eq)

end
