(* ===== verification/Wdu_Notify.thy ===== *)
theory Wdu_Notify
  imports Wdu_Irp
begin

text \<open>
  \<^verbatim>\<open>src/callbacks/mod.rs\<close>, \<^verbatim>\<open>image.rs\<close>, \<^verbatim>\<open>process.rs\<close> and \<^verbatim>\<open>thread.rs\<close>: the owners of a load-image, a
  process and a thread notify routine. Each keeps the routine it registered, in order to remove
  it when it is told to or dropped. The interface \<open>notify_owner\<close> states what the three share and
  proves, once, how the owner's field relates to the routines the kernel holds.
\<close>

section \<open>Errors\<close>

datatype WduCallbackError =
    CbInsufficientResources
  | CbNotRegistered
  | CbRegisterError ntstatus
  | CbUnregisterError ntstatus
  | CbNtStatus ntstatus
  | CbCreateError ntstatus
  | CbOpenError ntstatus

section \<open>Load-image notification\<close>

record WduImageCallback =
  ic_callback :: "fnptr option"

definition image_default :: WduImageCallback where
  "image_default = \<lparr>ic_callback = None\<rparr>"

definition image_register ::
  "kernel \<Rightarrow> fnptr option \<Rightarrow> WduImageCallback \<Rightarrow> 'a kstate_scheme
     \<Rightarrow> ((WduCallbackError, unit) result \<times> WduImageCallback \<times> 'a kstate_scheme) option" where
  "image_register K callback self s = do {
     rust_assert (callback \<noteq> None);
     let (r, s) = sys K (Ps (PsSetLoadImageNotifyRoutine (the callback))) s;
     Some (if r_status r \<noteq> STATUS_SUCCESS then (Err (CbRegisterError (r_status r)), self, s)
           else (Ok (), self\<lparr>ic_callback := callback\<rparr>, s))
   }"

definition image_unregister ::
  "kernel \<Rightarrow> WduImageCallback \<Rightarrow> 'a kstate_scheme
     \<Rightarrow> (WduCallbackError, unit) result \<times> WduImageCallback \<times> 'a kstate_scheme" where
  "image_unregister K self s =
     (case ic_callback self of
        None \<Rightarrow> (Err CbNotRegistered, self, s)
      | Some cb \<Rightarrow>
          (let (r, s) = sys K (Ps (PsRemoveLoadImageNotifyRoutine cb)) s in
           if r_status r \<noteq> STATUS_SUCCESS then (Err (CbUnregisterError (r_status r)), self, s)
           else (Ok (), self\<lparr>ic_callback := None\<rparr>, s)))"

definition image_drop :: "kernel \<Rightarrow> WduImageCallback \<Rightarrow> 'a kstate_scheme \<Rightarrow> 'a kstate_scheme" where
  "image_drop K self s = snd (snd (image_unregister K self s))"

section \<open>Process notification\<close>

datatype PsCallbackVersion =
    PsNotifyRoutine "fnptr option"
  | PsNotifyRoutineEx fnptr
  | PsNotifyRoutineEx2 fnptr

record WduPsCallback =
  pc_callback :: "PsCallbackVersion option"

definition ps_default :: WduPsCallback where
  "ps_default = \<lparr>pc_callback = None\<rparr>"

definition PsCreateProcessNotifySubsystems :: i32 where
  [nt_consts]: "PsCreateProcessNotifySubsystems = 0"

definition control_call :: "PsCallbackVersion \<Rightarrow> bool \<Rightarrow> kcall" where
  "control_call callback remove =
     (case callback of
        PsNotifyRoutine cb \<Rightarrow> Ps (PsSetCreateProcessNotifyRoutine cb (u8_of_bool remove))
      | PsNotifyRoutineEx cb \<Rightarrow> Ps (PsSetCreateProcessNotifyRoutineEx cb remove)
      | PsNotifyRoutineEx2 cb \<Rightarrow>
          Ps (PsSetCreateProcessNotifyRoutineEx2 PsCreateProcessNotifySubsystems cb remove))"

definition control_callbacks ::
  "kernel \<Rightarrow> PsCallbackVersion \<Rightarrow> bool \<Rightarrow> 'a kstate_scheme \<Rightarrow> ntstatus \<times> 'a kstate_scheme" where
  "control_callbacks K callback remove s =
     (let (r, s) = sys K (control_call callback remove) s in (r_status r, s))"

definition ps_register ::
  "kernel \<Rightarrow> PsCallbackVersion \<Rightarrow> WduPsCallback \<Rightarrow> 'a kstate_scheme
     \<Rightarrow> (WduCallbackError, unit) result \<times> WduPsCallback \<times> 'a kstate_scheme" where
  "ps_register K callback self s =
     (let (status, s) = control_callbacks K callback False s in
      if status \<noteq> STATUS_SUCCESS then (Err (CbRegisterError status), self, s)
      else (Ok (), self\<lparr>pc_callback := Some callback\<rparr>, s))"

definition ps_unregister ::
  "kernel \<Rightarrow> WduPsCallback \<Rightarrow> 'a kstate_scheme
     \<Rightarrow> (WduCallbackError, unit) result \<times> WduPsCallback \<times> 'a kstate_scheme" where
  "ps_unregister K self s =
     (case pc_callback self of
        None \<Rightarrow> (Err CbNotRegistered, self, s)
      | Some cb \<Rightarrow>
          (let (status, s) = control_callbacks K cb True s in
           if status \<noteq> STATUS_SUCCESS then (Err (CbUnregisterError status), self, s)
           else (Ok (), self\<lparr>pc_callback := None\<rparr>, s)))"

definition ps_drop :: "kernel \<Rightarrow> WduPsCallback \<Rightarrow> 'a kstate_scheme \<Rightarrow> 'a kstate_scheme" where
  "ps_drop K self s = snd (snd (ps_unregister K self s))"

text \<open>
  The information about a created process. The address a routine gets is null (\<open>None\<close>) when the
  process exits; reading a field through it is then a fault. The two string pointers are null or
  point to a structure.
\<close>

record PS_CREATE_NOTIFY_INFO =
  ni_Flags :: u32
  ni_ParentProcessId :: handle
  ni_CreatingThreadId :: "handle \<times> handle"
  ni_FileObject :: ptr
  ni_ImageFileName :: "UNICODE_STRING option"
  ni_CommandLine :: "UNICODE_STRING option"
  ni_CreationStatus :: ntstatus

type_synonym WduPsCreateNotifyInfo = "PS_CREATE_NOTIFY_INFO option"

definition ni_is_exit :: "WduPsCreateNotifyInfo \<Rightarrow> bool" where
  "ni_is_exit self \<longleftrightarrow> self = None"

definition ni_set_status :: "ntstatus \<Rightarrow> WduPsCreateNotifyInfo \<Rightarrow> WduPsCreateNotifyInfo option" where
  "ni_set_status status self = map_option (\<lambda>i. Some (i\<lparr>ni_CreationStatus := status\<rparr>)) self"

definition ni_parent_pid :: "WduPsCreateNotifyInfo \<Rightarrow> handle option" where
  "ni_parent_pid self = map_option ni_ParentProcessId self"

definition ni_cmdline :: "WduPsCreateNotifyInfo \<Rightarrow> WduUnicodeStr option" where
  "ni_cmdline self = map_option (\<lambda>i. str_from_ptr (ni_CommandLine i)) self"

definition ni_image_filename :: "WduPsCreateNotifyInfo \<Rightarrow> WduUnicodeStr option" where
  "ni_image_filename self = map_option (\<lambda>i. str_from_ptr (ni_ImageFileName i)) self"

definition ni_fileobj :: "WduPsCreateNotifyInfo \<Rightarrow> WduFileObject option" where
  "ni_fileobj self = map_option (\<lambda>i. fo_wrap (ni_FileObject i)) self"

definition ni_client_id :: "WduPsCreateNotifyInfo \<Rightarrow> (handle \<times> handle) option" where
  "ni_client_id self = map_option ni_CreatingThreadId self"

definition ni_open_name_available :: "WduPsCreateNotifyInfo \<Rightarrow> bool option" where
  "ni_open_name_available self = map_option (\<lambda>i. ni_Flags i AND 1 = 1) self"

section \<open>Thread notification\<close>

datatype ThCallbackVersion =
    ThNotifyRoutine "fnptr option"
  | ThNotifyRoutineEx i32 "fnptr option"

record WduThCallback =
  tc_callback :: "ThCallbackVersion option"

definition th_const_new :: WduThCallback where
  "th_const_new = \<lparr>tc_callback = None\<rparr>"

definition th_register ::
  "kernel \<Rightarrow> ThCallbackVersion \<Rightarrow> WduThCallback \<Rightarrow> 'a kstate_scheme
     \<Rightarrow> (WduCallbackError, unit) result \<times> WduThCallback \<times> 'a kstate_scheme" where
  "th_register K callback self s =
     (let (r, s) = sys K (case callback of
            ThNotifyRoutine cb \<Rightarrow> Ps (PsSetCreateThreadNotifyRoutine cb)
          | ThNotifyRoutineEx notify_type cb \<Rightarrow> Ps (PsSetCreateThreadNotifyRoutineEx notify_type cb)) s in
      if r_status r \<noteq> STATUS_SUCCESS then (Err (CbRegisterError (r_status r)), self, s)
      else (Ok (), self\<lparr>tc_callback := Some callback\<rparr>, s))"

fun th_routine :: "ThCallbackVersion \<Rightarrow> fnptr option" where
  "th_routine (ThNotifyRoutine cb) = cb"
| "th_routine (ThNotifyRoutineEx _ cb) = cb"

definition th_unregister ::
  "kernel \<Rightarrow> WduThCallback \<Rightarrow> 'a kstate_scheme
     \<Rightarrow> (WduCallbackError, unit) result \<times> WduThCallback \<times> 'a kstate_scheme" where
  "th_unregister K self s =
     (case tc_callback self of
        None \<Rightarrow> (Err CbNotRegistered, self, s)
      | Some cb \<Rightarrow>
          (let (r, s) = sys K (Ps (PsRemoveCreateThreadNotifyRoutine (th_routine cb))) s in
           if r_status r \<noteq> STATUS_SUCCESS then (Err (CbUnregisterError (r_status r)), self, s)
           else (Ok (), self\<lparr>tc_callback := None\<rparr>, s)))"

definition th_drop :: "kernel \<Rightarrow> WduThCallback \<Rightarrow> 'a kstate_scheme \<Rightarrow> 'a kstate_scheme" where
  "th_drop K self s = snd (snd (th_unregister K self s))"

section \<open>What the kernel holds\<close>

text \<open>
  The registrations a log leaves in place: a successful call that adds a routine adds its key,
  one that removes it takes one occurrence of the key away.
\<close>

fun live :: "(kcall \<Rightarrow> 'k option) \<Rightarrow> (kcall \<Rightarrow> 'k option) \<Rightarrow> kevent list \<Rightarrow> 'k list \<Rightarrow> 'k list" where
  "live added removed [] ks = ks"
| "live added removed ((c, r) # l) ks =
     live added removed l
       (if r_status r \<noteq> STATUS_SUCCESS then ks
        else case added c of Some k \<Rightarrow> k # ks
           | None \<Rightarrow> (case removed c of Some k \<Rightarrow> remove1 k ks | None \<Rightarrow> ks))"

lemma live_append [simp]:
  "live a d (l @ l') ks = live a d l' (live a d l ks)"
  by (induction a d l ks rule: live.induct) simp_all

text \<open>A client's use of an owner: registrations and unregistrations in any order.\<close>

datatype 'cb notify_op = Register 'cb | Unregister

fun run_notify ::
  "('cb \<Rightarrow> 'w \<Rightarrow> 's \<Rightarrow> (WduCallbackError, unit) result \<times> 'w \<times> 's)
     \<Rightarrow> ('w \<Rightarrow> 's \<Rightarrow> (WduCallbackError, unit) result \<times> 'w \<times> 's)
     \<Rightarrow> 'cb notify_op list \<Rightarrow> 'w \<Rightarrow> 's \<Rightarrow> 'w \<times> 's" where
  "run_notify reg unreg [] w s = (w, s)"
| "run_notify reg unreg (Register cb # ops) w s =
     (case reg cb w s of (_, w', s') \<Rightarrow> run_notify reg unreg ops w' s')"
| "run_notify reg unreg (Unregister # ops) w s =
     (case unreg w s of (_, w', s') \<Rightarrow> run_notify reg unreg ops w' s')"

text \<open>No registration while the owner still has a routine: the field can hold only one.\<close>

fun one_at_a_time ::
  "('cb \<Rightarrow> 'w \<Rightarrow> 's \<Rightarrow> (WduCallbackError, unit) result \<times> 'w \<times> 's)
     \<Rightarrow> ('w \<Rightarrow> 's \<Rightarrow> (WduCallbackError, unit) result \<times> 'w \<times> 's)
     \<Rightarrow> ('w \<Rightarrow> 'cb option) \<Rightarrow> 'cb notify_op list \<Rightarrow> 'w \<Rightarrow> 's \<Rightarrow> bool" where
  "one_at_a_time reg unreg slot [] w s = True"
| "one_at_a_time reg unreg slot (Register cb # ops) w s =
     (slot w = None \<and> (case reg cb w s of (_, w', s') \<Rightarrow> one_at_a_time reg unreg slot ops w' s'))"
| "one_at_a_time reg unreg slot (Unregister # ops) w s =
     (case unreg w s of (_, w', s') \<Rightarrow> one_at_a_time reg unreg slot ops w' s')"

definition slot_list :: "('cb \<Rightarrow> 'k) \<Rightarrow> 'cb option \<Rightarrow> 'k list" where
  "slot_list key c = (case c of None \<Rightarrow> [] | Some cb \<Rightarrow> [key cb])"

lemma slot_list_simps [simp]: "slot_list key None = []" "slot_list key (Some cb) = [key cb]"
  by (simp_all add: slot_list_def)

section \<open>The interface of an owner\<close>

locale notify_owner =
  fixes reg :: "kernel \<Rightarrow> 'cb \<Rightarrow> 'w \<Rightarrow> 'a kstate_scheme \<Rightarrow> (WduCallbackError, unit) result \<times> 'w \<times> 'a kstate_scheme"
    and unreg :: "kernel \<Rightarrow> 'w \<Rightarrow> 'a kstate_scheme \<Rightarrow> (WduCallbackError, unit) result \<times> 'w \<times> 'a kstate_scheme"
    and slot :: "'w \<Rightarrow> 'cb option"
    and key :: "'cb \<Rightarrow> 'k"
    and added :: "kcall \<Rightarrow> 'k option"
    and removed :: "kcall \<Rightarrow> 'k option"
    and add_call :: "'cb \<Rightarrow> kcall"
    and rem_call :: "'cb \<Rightarrow> kcall"
  assumes added_add [simp]: "added (add_call cb) = Some (key cb)"
    and added_rem [simp]: "added (rem_call cb) = None"
    and removed_rem [simp]: "removed (rem_call cb) = Some (key cb)"
    and reg_ok: "r_status (K (klog s) (add_call cb)) = STATUS_SUCCESS \<Longrightarrow>
      \<exists>w'. reg K cb w s = (Ok (), w', sysv K (add_call cb) s) \<and> slot w' = Some cb"
    and reg_err: "r_status (K (klog s) (add_call cb)) \<noteq> STATUS_SUCCESS \<Longrightarrow>
      reg K cb w s = (Err (CbRegisterError (r_status (K (klog s) (add_call cb)))), w,
                      sysv K (add_call cb) s)"
    and unreg_none: "slot w = None \<Longrightarrow> unreg K w s = (Err CbNotRegistered, w, s)"
    and unreg_ok: "slot w = Some cb \<Longrightarrow> r_status (K (klog s) (rem_call cb)) = STATUS_SUCCESS \<Longrightarrow>
      \<exists>w'. unreg K w s = (Ok (), w', sysv K (rem_call cb) s) \<and> slot w' = None"
    and unreg_err: "slot w = Some cb \<Longrightarrow> r_status (K (klog s) (rem_call cb)) \<noteq> STATUS_SUCCESS \<Longrightarrow>
      unreg K w s = (Err (CbUnregisterError (r_status (K (klog s) (rem_call cb)))), w,
                     sysv K (rem_call cb) s)"
begin

text \<open>Both operations change what the kernel holds in step with the owner's field.\<close>

lemma reg_live:
  assumes "reg K cb w s = (x, w', s')"
  shows "live added removed (klog s') ks =
           (if x = Ok () then key cb # live added removed (klog s) ks
            else live added removed (klog s) ks) \<and>
         slot w' = (if x = Ok () then Some cb else slot w)"
proof (cases "r_status (K (klog s) (add_call cb)) = STATUS_SUCCESS")
  case True
  with reg_ok [of K s cb w] assms show ?thesis
    by auto
next
  case False
  with reg_err [of K s cb w] assms show ?thesis
    by auto
qed

lemma unreg_live:
  assumes "unreg K w s = (x, w', s')"
  shows "live added removed (klog s') ks =
           (case slot w of Some cb \<Rightarrow> if x = Ok () then remove1 (key cb) (live added removed (klog s) ks)
                                      else live added removed (klog s) ks
            | None \<Rightarrow> live added removed (klog s) ks) \<and>
         slot w' = (if x = Ok () then None else slot w)"
proof (cases "slot w")
  case None
  with unreg_none [OF None, of K s] assms show ?thesis
    by auto
next
  case (Some cb)
  show ?thesis
  proof (cases "r_status (K (klog s) (rem_call cb)) = STATUS_SUCCESS")
    case True
    with unreg_ok [of w cb K s] Some assms show ?thesis
      by auto
  next
    case False
    with unreg_err [of w cb K s] Some assms show ?thesis
      by auto
  qed
qed

lemma run_live:
  assumes "one_at_a_time (reg K) (unreg K) slot ops w s"
    and "live added removed (klog s) [] = slot_list key (slot w)"
    and "run_notify (reg K) (unreg K) ops w s = (w', s')"
  shows "live added removed (klog s') [] = slot_list key (slot w')"
  using assms
proof (induction ops arbitrary: w s)
  case (Cons op ops)
  show ?case
  proof (cases op)
    case (Register cb)
    obtain x w1 s1 where 1: "reg K cb w s = (x, w1, s1)"
      by (metis prod_cases3)
    from Cons.prems Register have "slot w = None"
      by simp
    with reg_live [OF 1, of "[]"] Cons.prems(2)
    have "live added removed (klog s1) [] = slot_list key (slot w1)"
      by (auto split: if_splits)
    with Cons.IH [of w1 s1] Cons.prems Register 1 show ?thesis
      by simp
  next
    case Unregister
    obtain x w1 s1 where 1: "unreg K w s = (x, w1, s1)"
      by (metis prod_cases3)
    with unreg_live [OF 1, of "[]"] Cons.prems(2)
    have "live added removed (klog s1) [] = slot_list key (slot w1)"
      by (auto split: if_splits option.splits)
    with Cons.IH [of w1 s1] Cons.prems Unregister 1 show ?thesis
      by simp
  qed
qed simp

text \<open>A second registration replaces the field, and the first routine can no longer be removed.\<close>

lemma reg_twice_leaks:
  assumes "reg K c1 w s = (Ok (), w1, s1)" "reg K c2 w1 s1 = (Ok (), w2, s2)"
    and "unreg K w2 s2 = (Ok (), w3, s3)"
    and "live added removed (klog s) [] = []"
  shows "slot w3 = None \<and> live added removed (klog s3) [] = [key c1]"
  using reg_live [OF assms(1), of "[]"] reg_live [OF assms(2), of "[]"]
        unreg_live [OF assms(3), of "[]"] assms(4)
  by simp

end


section \<open>The three owners\<close>

definition image_added :: "kcall \<Rightarrow> fnptr option" where
  "image_added c = (case c of Ps p \<Rightarrow> (case p of PsSetLoadImageNotifyRoutine f \<Rightarrow> Some f | _ \<Rightarrow> None) | _ \<Rightarrow> None)"

definition image_removed :: "kcall \<Rightarrow> fnptr option" where
  "image_removed c =
     (case c of Ps p \<Rightarrow> (case p of PsRemoveLoadImageNotifyRoutine f \<Rightarrow> Some f | _ \<Rightarrow> None) | _ \<Rightarrow> None)"

definition ps_controlled :: "bool \<Rightarrow> kcall \<Rightarrow> PsCallbackVersion option" where
  "ps_controlled remove c =
     (case c of Ps p \<Rightarrow>
        (case p of
           PsSetCreateProcessNotifyRoutine cb b \<Rightarrow>
             if b = u8_of_bool remove then Some (PsNotifyRoutine cb) else None
         | PsSetCreateProcessNotifyRoutineEx cb b \<Rightarrow>
             if b = remove then Some (PsNotifyRoutineEx cb) else None
         | PsSetCreateProcessNotifyRoutineEx2 t cb b \<Rightarrow>
             if b = remove then Some (PsNotifyRoutineEx2 cb) else None
         | _ \<Rightarrow> None)
      | _ \<Rightarrow> None)"

definition th_added :: "kcall \<Rightarrow> fnptr option option" where
  "th_added c =
     (case c of Ps p \<Rightarrow>
        (case p of PsSetCreateThreadNotifyRoutine cb \<Rightarrow> Some cb
         | PsSetCreateThreadNotifyRoutineEx t cb \<Rightarrow> Some cb | _ \<Rightarrow> None)
      | _ \<Rightarrow> None)"

definition th_removed :: "kcall \<Rightarrow> fnptr option option" where
  "th_removed c =
     (case c of Ps p \<Rightarrow> (case p of PsRemoveCreateThreadNotifyRoutine cb \<Rightarrow> Some cb | _ \<Rightarrow> None) | _ \<Rightarrow> None)"

text \<open>The load-image owner registers only routines that are not null; it panics otherwise.\<close>

interpretation image_owner: notify_owner
  "\<lambda>K cb w s. the (image_register K (Some cb) w s)" image_unregister ic_callback "\<lambda>f. f"
  image_added image_removed "\<lambda>f. Ps (PsSetLoadImageNotifyRoutine f)" "\<lambda>f. Ps (PsRemoveLoadImageNotifyRoutine f)"
  by unfold_locales
     (auto simp: image_register_def image_unregister_def image_added_def image_removed_def)

interpretation ps_owner: notify_owner
  ps_register ps_unregister pc_callback "\<lambda>v. v"
  "ps_controlled False" "ps_controlled True" "\<lambda>v. control_call v False" "\<lambda>v. control_call v True"
  by unfold_locales
     (auto simp: ps_register_def ps_unregister_def control_callbacks_def ps_controlled_def
        control_call_def split: PsCallbackVersion.splits)

interpretation th_owner: notify_owner
  th_register th_unregister tc_callback th_routine th_added th_removed
  "case_ThCallbackVersion (\<lambda>cb. Ps (PsSetCreateThreadNotifyRoutine cb))
     (\<lambda>t cb. Ps (PsSetCreateThreadNotifyRoutineEx t cb))"
  "\<lambda>v. Ps (PsRemoveCreateThreadNotifyRoutine (th_routine v))"
  by unfold_locales
     (auto simp: th_register_def th_unregister_def th_added_def th_removed_def
        split: ThCallbackVersion.splits)

section \<open>Properties\<close>

lemma live_none: "\<forall>e\<in>set l. a (fst e) = None \<and> d (fst e) = None \<Longrightarrow> live a d l ks = ks"
  by (induction a d l ks rule: live.induct) auto

text \<open>
  C17. The process-notification owner and the kernel agree, whatever the kernel answers. Start
  with a fresh owner and a log in which no process routine is registered; let the client
  register (in any of the three versions) and unregister in any order, without registering while
  a routine is held. Then the routines the kernel holds are exactly the one in the owner's field,
  and dropping the owner leaves none, unless the kernel refuses the removal: then that routine
  stays registered although its owner is gone.
\<close>

theorem ps_owner_tracks_kernel:
  assumes "live (ps_controlled False) (ps_controlled True) (klog s) [] = []"
    and "one_at_a_time (ps_register K) (ps_unregister K) pc_callback ops ps_default s"
    and "run_notify (ps_register K) (ps_unregister K) ops ps_default s = (w, s')"
  shows "live (ps_controlled False) (ps_controlled True) (klog s') [] = slot_list (\<lambda>v. v) (pc_callback w) \<and>
         live (ps_controlled False) (ps_controlled True) (klog (ps_drop K w s')) [] =
           (case pc_callback w of None \<Rightarrow> []
            | Some v \<Rightarrow> if r_status (K (klog s') (control_call v True)) = STATUS_SUCCESS then [] else [v])"
proof
  show 1: "live (ps_controlled False) (ps_controlled True) (klog s') [] = slot_list (\<lambda>v. v) (pc_callback w)"
    using ps_owner.run_live [OF assms(2) _ assms(3)] assms(1) by (simp add: ps_default_def)
  obtain x w2 s2 where u: "ps_unregister K w s' = (x, w2, s2)"
    by (metis prod_cases3)
  have "x = (case pc_callback w of None \<Rightarrow> Err CbNotRegistered
      | Some v \<Rightarrow> if r_status (K (klog s') (control_call v True)) = STATUS_SUCCESS then Ok ()
                  else Err (CbUnregisterError (r_status (K (klog s') (control_call v True)))))"
    using u by (auto simp: ps_unregister_def control_callbacks_def split: option.splits if_splits)
  with ps_owner.unreg_live [OF u, of "[]"] u 1
  show "live (ps_controlled False) (ps_controlled True) (klog (ps_drop K w s')) [] =
           (case pc_callback w of None \<Rightarrow> []
            | Some v \<Rightarrow> if r_status (K (klog s') (control_call v True)) = STATUS_SUCCESS then [] else [v])"
    by (simp add: ps_drop_def split: option.splits)
qed

theorem ps_owner_tracks_kernel_witness:
  "live (ps_controlled False) (ps_controlled True)
     (klog (ps_drop (\<lambda>_ _. reply0) \<lparr>pc_callback = Some (PsNotifyRoutineEx 0x20)\<rparr>
       (snd (run_notify (ps_register (\<lambda>_ _. reply0)) (ps_unregister (\<lambda>_ _. reply0))
          [Register (PsNotifyRoutine (Some 0x10)), Unregister, Register (PsNotifyRoutineEx 0x20)]
          ps_default kst0)))) [] = []"
proof -
  let ?ops = "[Register (PsNotifyRoutine (Some 0x10)), Unregister, Register (PsNotifyRoutineEx 0x20)]"
  obtain s' where s': "run_notify (ps_register (\<lambda>_ _. reply0)) (ps_unregister (\<lambda>_ _. reply0)) ?ops ps_default kst0
      = (\<lparr>pc_callback = Some (PsNotifyRoutineEx 0x20)\<rparr>, s')"
    by (simp add: ps_register_def ps_unregister_def control_callbacks_def ps_default_def)
  have d: "one_at_a_time (ps_register (\<lambda>_ _. reply0)) (ps_unregister (\<lambda>_ _. reply0)) pc_callback ?ops ps_default kst0"
    by (simp add: ps_register_def ps_unregister_def control_callbacks_def ps_default_def)
  show ?thesis
    using ps_owner_tracks_kernel [OF _ d s'] s' by simp
qed

text \<open>
  The field of a thread-notification owner holds one routine, and \<^verbatim>\<open>register\<close> does not look at
  it: a second successful registration forgets the first routine. Unregistering (or dropping) the
  owner then removes the second only, and the first stays registered with the kernel for good.
\<close>

lemma th_register_twice_leaks:
  assumes "th_register K c1 w s = (Ok (), w1, s1)" "th_register K c2 w1 s1 = (Ok (), w2, s2)"
    and "r_status (K (klog s2) (Ps (PsRemoveCreateThreadNotifyRoutine (th_routine c2)))) = STATUS_SUCCESS"
    and "live th_added th_removed (klog s) [] = []"
  shows "live th_added th_removed (klog (th_drop K w2 s2)) [] = [th_routine c1]"
proof -
  have "tc_callback w2 = Some c2"
    using th_owner.reg_live [OF assms(2), of "[]"] by simp
  then obtain w3 where u: "th_unregister K w2 s2 = (Ok (), w3, th_drop K w2 s2)"
    using assms(3) by (simp add: th_unregister_def th_drop_def)
  show ?thesis
    using th_owner.reg_twice_leaks [OF assms(1,2) u assms(4)] by simp
qed

lemma th_register_twice_leaks_witness:
  "\<exists>w1 s1 w2 s2.
     th_register (\<lambda>_ _. reply0) (ThNotifyRoutine (Some 0x10)) th_const_new kst0 = (Ok (), w1, s1) \<and>
     th_register (\<lambda>_ _. reply0) (ThNotifyRoutineEx 0 (Some 0x20)) w1 s1 = (Ok (), w2, s2) \<and>
     live th_added th_removed (klog (th_drop (\<lambda>_ _. reply0) w2 s2)) [] = [Some 0x10]"
proof -
  let ?K = "\<lambda>_ _. reply0"
  obtain w1 s1 where 1: "th_register ?K (ThNotifyRoutine (Some 0x10)) th_const_new kst0 = (Ok (), w1, s1)"
    by (simp add: th_register_def)
  obtain w2 s2 where 2: "th_register ?K (ThNotifyRoutineEx 0 (Some 0x20)) w1 s1 = (Ok (), w2, s2)"
    by (simp add: th_register_def)
  show ?thesis
    using th_register_twice_leaks [OF 1 2] 1 2 by simp
qed

text \<open>The accessors fault on the null information of an exiting process.\<close>

lemma exit_info_faults:
  assumes "ni_is_exit i"
  shows "ni_parent_pid i = None" "ni_cmdline i = None" "ni_image_filename i = None"
    "ni_fileobj i = None" "ni_set_status st i = None"
  using assms
  by (simp_all add: ni_is_exit_def ni_parent_pid_def ni_cmdline_def ni_image_filename_def
        ni_fileobj_def ni_set_status_def)

end
