(* ===== verification/Wdu_Ob.thy ===== *)
theory Wdu_Ob
  imports Wdu_Notify Wdu_Objects
begin

text \<open>
  \<^verbatim>\<open>src/callbacks/ob.rs\<close>: object-manager callbacks. A \<open>WduObCallback\<close> collects registrations (an
  object type, a mask of operations, a routine to run before and one to run after, a context),
  registers two routines of its own with the kernel, and these dispatch to the registrations that
  match the operation at hand. The kernel finds the object again by the address it was registered
  with, so the object lives in the state's memory.
\<close>

section \<open>Windows structures\<close>

definition OB_OPERATION_HANDLE_CREATE :: u32 where [nt_consts]: "OB_OPERATION_HANDLE_CREATE = 1"
definition OB_OPERATION_HANDLE_DUPLICATE :: u32 where [nt_consts]: "OB_OPERATION_HANDLE_DUPLICATE = 2"
definition OB_FLT_REGISTRATION_VERSION :: u16 where [nt_consts]: "OB_FLT_REGISTRATION_VERSION = 0x100"
definition OB_PREOP_SUCCESS :: i32 where [nt_consts]: "OB_PREOP_SUCCESS = 0"

text \<open>
  The parameters are a union whose two members start with the same two access masks.
\<close>

record OB_PRE_OPERATION_PARAMETERS =
  pp_DesiredAccess :: u32
  pp_OriginalDesiredAccess :: u32

record OB_PRE_OPERATION_INFORMATION =
  pre_Operation :: u32
  pre_Flags :: u32
  pre_Object :: ptr
  pre_ObjectType :: ptr
  pre_CallContext :: ptr
  pre_Parameters :: OB_PRE_OPERATION_PARAMETERS

record OB_POST_OPERATION_INFORMATION =
  post_Operation :: u32
  post_Flags :: u32
  post_Object :: ptr
  post_ObjectType :: ptr
  post_CallContext :: ptr
  post_ReturnStatus :: ntstatus
  post_GrantedAccess :: u32

text \<open>
  The kernel's exported variables: for each object type the address of the variable and the
  pointer it holds.
\<close>

record exports =
  PsProcessType :: "ptr \<times> ptr"
  PsThreadType :: "ptr \<times> ptr"
  ExDesktopObjectType :: "ptr \<times> ptr"

section \<open>Structures of the crate\<close>

datatype ObjectType = OtUnknown | OtProcess | OtThread | OtDesktop

record WduObOpRegistration =
  op_ob_type :: ObjectType
  op_operations :: u32
  op_pre :: "fnptr option"
  op_post :: "fnptr option"
  op_context :: ptr

record WduObCallback =
  ob_handle :: ptr
  ob_operations :: "WduObOpRegistration list"

definition ob_const_new :: WduObCallback where
  "ob_const_new = \<lparr>ob_handle = null, ob_operations = []\<rparr>"

record 'c obstate = "'c iostate" +
  pre_infos :: "ptr \<rightharpoonup> OB_PRE_OPERATION_INFORMATION"
  post_infos :: "ptr \<rightharpoonup> OB_POST_OPERATION_INFORMATION"
  ob_callbacks :: "ptr \<rightharpoonup> WduObCallback"

section \<open>Pre-operation information\<close>

definition object_type_of :: "exports \<Rightarrow> ptr \<Rightarrow> ObjectType" where
  "object_type_of X object_type =
     (if object_type = snd (PsProcessType X) then OtProcess
      else if object_type = snd (PsThreadType X) then OtThread
      else if object_type = snd (ExDesktopObjectType X) then OtDesktop
      else OtUnknown)"

text \<open>\<^verbatim>\<open>set_context\<close> boxes a context of \<open>n\<close> bytes.\<close>

definition pre_set_context ::
  "kernel \<Rightarrow> nat \<Rightarrow> ptr \<Rightarrow> 'c \<Rightarrow> ('c, 'a) obstate_scheme \<Rightarrow> ('c, 'a) obstate_scheme option" where
  "pre_set_context K n self context s = do {
     i \<leftarrow> pre_infos s self;
     rust_assert (pre_CallContext i = null);
     (b, s) \<leftarrow> box_new K n context s;
     Some (s\<lparr>pre_infos := (pre_infos s)(self \<mapsto> i\<lparr>pre_CallContext := b\<rparr>)\<rparr>)
   }"

text \<open>With the feature \<^verbatim>\<open>allocator_api\<close> it is \<^verbatim>\<open>todo!()\<close>.\<close>

definition pre_set_context_fallible :: "ptr \<Rightarrow> 'c \<Rightarrow> ('c, 'a) obstate_scheme \<Rightarrow> ('c, 'a) obstate_scheme option" where
  "pre_set_context_fallible self context s = None"

definition pre_operation :: "ptr \<Rightarrow> ('c, 'a) obstate_scheme \<Rightarrow> u32 option" where
  "pre_operation self s = map_option pre_Operation (pre_infos s self)"

definition pre_object :: "ptr \<Rightarrow> ('c, 'a) obstate_scheme \<Rightarrow> ptr option" where
  "pre_object self s = map_option pre_Object (pre_infos s self)"

definition pre_object_type :: "exports \<Rightarrow> ptr \<Rightarrow> ('c, 'a) obstate_scheme \<Rightarrow> ObjectType option" where
  "pre_object_type X self s = map_option (\<lambda>i. object_type_of X (pre_ObjectType i)) (pre_infos s self)"

definition desired_access :: "ptr \<Rightarrow> ('c, 'a) obstate_scheme \<Rightarrow> u32 option" where
  "desired_access self s = do {
     i \<leftarrow> pre_infos s self;
     if pre_Operation i = OB_OPERATION_HANDLE_CREATE then Some (pp_DesiredAccess (pre_Parameters i))
     else if pre_Operation i = OB_OPERATION_HANDLE_DUPLICATE then Some (pp_DesiredAccess (pre_Parameters i))
     else panic
   }"

definition original_desired_access :: "ptr \<Rightarrow> ('c, 'a) obstate_scheme \<Rightarrow> u32 option" where
  "original_desired_access self s = do {
     i \<leftarrow> pre_infos s self;
     if pre_Operation i = OB_OPERATION_HANDLE_CREATE
       then Some (pp_OriginalDesiredAccess (pre_Parameters i))
     else if pre_Operation i = OB_OPERATION_HANDLE_DUPLICATE
       then Some (pp_OriginalDesiredAccess (pre_Parameters i))
     else panic
   }"

definition set_desired_access ::
  "ptr \<Rightarrow> u32 \<Rightarrow> ('c, 'a) obstate_scheme \<Rightarrow> ('c, 'a) obstate_scheme option" where
  "set_desired_access self access s = do {
     i \<leftarrow> pre_infos s self;
     rust_assert (pre_Operation i = OB_OPERATION_HANDLE_CREATE \<or>
                  pre_Operation i = OB_OPERATION_HANDLE_DUPLICATE);
     let i = i\<lparr>pre_Parameters := (pre_Parameters i)\<lparr>pp_DesiredAccess := access\<rparr>\<rparr>;
     Some (s\<lparr>pre_infos := (pre_infos s)(self \<mapsto> i)\<rparr>)
   }"

definition pre_is_kernel_handle :: "ptr \<Rightarrow> ('c, 'a) obstate_scheme \<Rightarrow> bool option" where
  "pre_is_kernel_handle self s = map_option (\<lambda>i. pre_Flags i AND 1 = 1) (pre_infos s self)"

section \<open>Post-operation information\<close>

text \<open>
  \<^verbatim>\<open>call_context\<close> gives the box back to the caller, who frees it; the structure keeps the pointer.
\<close>

definition call_context :: "ptr \<Rightarrow> ('c, 'a) obstate_scheme \<Rightarrow> ptr option option" where
  "call_context self s = do { i \<leftarrow> post_infos s self; Some (box_from_raw (post_CallContext i)) }"

definition post_operation :: "ptr \<Rightarrow> ('c, 'a) obstate_scheme \<Rightarrow> u32 option" where
  "post_operation self s = map_option post_Operation (post_infos s self)"

definition return_status :: "ptr \<Rightarrow> ('c, 'a) obstate_scheme \<Rightarrow> ntstatus option" where
  "return_status self s = map_option post_ReturnStatus (post_infos s self)"

definition post_object :: "ptr \<Rightarrow> ('c, 'a) obstate_scheme \<Rightarrow> ptr option" where
  "post_object self s = map_option post_Object (post_infos s self)"

definition post_object_type :: "exports \<Rightarrow> ptr \<Rightarrow> ('c, 'a) obstate_scheme \<Rightarrow> ObjectType option" where
  "post_object_type X self s = map_option (\<lambda>i. object_type_of X (post_ObjectType i)) (post_infos s self)"

definition granted_access :: "ptr \<Rightarrow> ('c, 'a) obstate_scheme \<Rightarrow> u32 option" where
  "granted_access self s = do {
     i \<leftarrow> post_infos s self;
     if post_Operation i = OB_OPERATION_HANDLE_CREATE \<or> post_Operation i = OB_OPERATION_HANDLE_DUPLICATE
       then Some (post_GrantedAccess i) else panic
   }"

definition post_is_kernel_handle :: "ptr \<Rightarrow> ('c, 'a) obstate_scheme \<Rightarrow> bool option" where
  "post_is_kernel_handle self s = map_option (\<lambda>i. post_Flags i AND 1 = 1) (post_infos s self)"

section \<open>Registrations\<close>

fun object_type_into :: "exports \<Rightarrow> ObjectType \<Rightarrow> ptr option" where
  "object_type_into X OtProcess = Some (fst (PsProcessType X))"
| "object_type_into X OtThread = Some (fst (PsThreadType X))"
| "object_type_into X OtDesktop = Some (fst (ExDesktopObjectType X))"
| "object_type_into X OtUnknown = panic"

definition op_default :: WduObOpRegistration where
  "op_default = \<lparr>op_ob_type = OtUnknown, op_operations = 0, op_pre = None, op_post = None, op_context = null\<rparr>"

definition op_set_ob_type :: "ObjectType \<Rightarrow> WduObOpRegistration \<Rightarrow> WduObOpRegistration" where
  "op_set_ob_type ob_type self = self\<lparr>op_ob_type := ob_type\<rparr>"

definition op_set_operations :: "u32 \<Rightarrow> WduObOpRegistration \<Rightarrow> WduObOpRegistration" where
  "op_set_operations operations self = self\<lparr>op_operations := operations\<rparr>"

definition op_set_pre :: "fnptr \<Rightarrow> WduObOpRegistration \<Rightarrow> WduObOpRegistration" where
  "op_set_pre pre self = self\<lparr>op_pre := Some pre\<rparr>"

definition op_set_post :: "fnptr \<Rightarrow> WduObOpRegistration \<Rightarrow> WduObOpRegistration" where
  "op_set_post post self = self\<lparr>op_post := Some post\<rparr>"

definition op_build :: "WduObOpRegistration \<Rightarrow> WduObOpRegistration" where
  "op_build self = self"

definition op_set_context :: "ptr \<Rightarrow> WduObOpRegistration \<Rightarrow> WduObOpRegistration" where
  "op_set_context context self = self\<lparr>op_context := context\<rparr>"

text \<open>The addresses of the two routines of the crate are parameters.\<close>

record ob_routines =
  pre_op_internal_fn :: fnptr
  post_op_internal_fn :: fnptr

definition into_native ::
  "exports \<Rightarrow> ob_routines \<Rightarrow> WduObOpRegistration \<Rightarrow> OB_OPERATION_REGISTRATION option" where
  "into_native X F self = do {
     object_type \<leftarrow> object_type_into X (op_ob_type self);
     Some \<lparr>or_ObjectType = object_type, or_Operations = op_operations self,
           or_PreOperation = (if op_pre self \<noteq> None then Some (pre_op_internal_fn F) else None),
           or_PostOperation = (if op_post self \<noteq> None then Some (post_op_internal_fn F) else None)\<rparr>
   }"

fun into_natives ::
  "exports \<Rightarrow> ob_routines \<Rightarrow> WduObOpRegistration list \<Rightarrow> OB_OPERATION_REGISTRATION list option" where
  "into_natives X F [] = Some []"
| "into_natives X F (op # ops) = do {
     n \<leftarrow> into_native X F op;
     ns \<leftarrow> into_natives X F ops;
     Some (n # ns)
   }"

section \<open>The callback object\<close>

definition ob_default :: WduObCallback where
  "ob_default = \<lparr>ob_handle = null, ob_operations = []\<rparr>"

text \<open>The vector's growth is not logged.\<close>

definition push_op_registration ::
  "ptr \<Rightarrow> WduObOpRegistration \<Rightarrow> ('c, 'a) obstate_scheme \<Rightarrow> ('c, 'a) obstate_scheme option" where
  "push_op_registration self op s = do {
     cb \<leftarrow> ob_callbacks s self;
     Some (s\<lparr>ob_callbacks := (ob_callbacks s)(self \<mapsto> cb\<lparr>ob_operations := ob_operations cb @ [op]\<rparr>)\<rparr>)
   }"

text \<open>
  \<^verbatim>\<open>register\<close> translates the registrations into a temporary vector (32 bytes an element, at
  least four elements), which is freed on return; \<open>r_out\<close> is what the location of the handle
  holds after the call.
\<close>

definition ob_register ::
  "kernel \<Rightarrow> exports \<Rightarrow> ob_routines \<Rightarrow> ptr \<Rightarrow> WduUnicodeStr \<Rightarrow> ('c, 'a) obstate_scheme
     \<Rightarrow> ((WduCallbackError, unit) result \<times> ('c, 'a) obstate_scheme) option" where
  "ob_register K X F self altitude s = do {
     cb \<leftarrow> ob_callbacks s self;
     let n = length (ob_operations cb);
     if n = 0 then Some (Err (CbNtStatus STATUS_INVALID_PARAMETER), s)
     else do {
       let (r, s) = sys K (Pool (RustAlloc (of_nat (32 * max 4 n)))) s;
       let vec = r_ptr r;
       if vec = null then Some (Err CbInsufficientResources, s)
       else do {
         operations \<leftarrow> into_natives X F (ob_operations cb);
         let callback_reg = \<lparr>cr_Version = OB_FLT_REGISTRATION_VERSION,
                             cr_OperationRegistrationCount = of_nat n,
                             cr_Altitude = as_unicode_string altitude,
                             cr_RegistrationContext = self,
                             cr_OperationRegistration = operations\<rparr>;
         let (r, s) = sys K (Ps (ObRegisterCallbacks callback_reg)) s;
         let s = s\<lparr>ob_callbacks := (ob_callbacks s)(self \<mapsto> cb\<lparr>ob_handle := r_out r\<rparr>)\<rparr>;
         let s = sysv K (Pool (RustDealloc vec)) s;
         Some (if r_status r \<noteq> STATUS_SUCCESS then Err (CbRegisterError (r_status r)) else Ok (), s)
       }
     }
   }"

definition ob_unregister ::
  "kernel \<Rightarrow> ptr \<Rightarrow> ('c, 'a) obstate_scheme
     \<Rightarrow> ((WduCallbackError, unit) result \<times> ('c, 'a) obstate_scheme) option" where
  "ob_unregister K self s = do {
     cb \<leftarrow> ob_callbacks s self;
     if ob_handle cb = null then Some (Err (CbUnregisterError STATUS_INTERNAL_ERROR), s)
     else do {
       let s = sysv K (Ps (ObUnRegisterCallbacks (ob_handle cb))) s;
       Some (Ok (), s\<lparr>ob_callbacks := (ob_callbacks s)(self \<mapsto> cb\<lparr>ob_handle := null\<rparr>)\<rparr>)
     }
   }"

definition ob_version :: "kernel \<Rightarrow> 'a kstate_scheme \<Rightarrow> u16 \<times> 'a kstate_scheme" where
  "ob_version K s = (let (r, s) = sys K (Ps ObGetFilterVersion) s in (r_u16 r, s))"

section \<open>Dispatch\<close>

text \<open>
  The routines a client registered are a parameter \<open>run\<close>: the address of the routine, the
  context if it is not null, and the information. The iterator is lazy: the filter looks at the
  information each time, after the routines before have run.
\<close>

type_synonym ('c, 'a) ob_run =
  "fnptr \<Rightarrow> ptr option \<Rightarrow> ptr \<Rightarrow> ('c, 'a) obstate_scheme \<Rightarrow> ('c, 'a) obstate_scheme option"

definition context_opt :: "ptr \<Rightarrow> ptr option" where
  "context_opt p = (if p = null then None else Some p)"

fun pre_each ::
  "exports \<Rightarrow> ('c, 'a) ob_run \<Rightarrow> ptr \<Rightarrow> WduObOpRegistration list \<Rightarrow> ('c, 'a) obstate_scheme
     \<Rightarrow> ('c, 'a) obstate_scheme option" where
  "pre_each X run op_data [] s = Some s"
| "pre_each X run op_data (op # ops) s = do {
     t \<leftarrow> pre_object_type X op_data s;
     opn \<leftarrow> pre_operation op_data s;
     s \<leftarrow> (if op_ob_type op = t \<and> op_operations op AND opn = opn
           then case op_pre op of None \<Rightarrow> Some s | Some f \<Rightarrow> run f (context_opt (op_context op)) op_data s
           else Some s);
     pre_each X run op_data ops s
   }"

definition pre_op_internal ::
  "exports \<Rightarrow> ('c, 'a) ob_run \<Rightarrow> ptr \<Rightarrow> ptr \<Rightarrow> ('c, 'a) obstate_scheme
     \<Rightarrow> (i32 \<times> ('c, 'a) obstate_scheme) option" where
  "pre_op_internal X run context op_info s = do {
     ob_cb \<leftarrow> ob_callbacks s context;
     s \<leftarrow> pre_each X run op_info (ob_operations ob_cb) s;
     Some (OB_PREOP_SUCCESS, s)
   }"

fun post_each ::
  "exports \<Rightarrow> ('c, 'a) ob_run \<Rightarrow> ptr \<Rightarrow> WduObOpRegistration list \<Rightarrow> ('c, 'a) obstate_scheme
     \<Rightarrow> ('c, 'a) obstate_scheme option" where
  "post_each X run op_data [] s = Some s"
| "post_each X run op_data (op # ops) s = do {
     t \<leftarrow> post_object_type X op_data s;
     opn \<leftarrow> post_operation op_data s;
     s \<leftarrow> (if op_ob_type op = t \<and> op_operations op AND opn = opn
           then case op_post op of None \<Rightarrow> Some s | Some f \<Rightarrow> run f (context_opt (op_context op)) op_data s
           else Some s);
     post_each X run op_data ops s
   }"

definition post_op_internal ::
  "exports \<Rightarrow> ('c, 'a) ob_run \<Rightarrow> ptr \<Rightarrow> ptr \<Rightarrow> ('c, 'a) obstate_scheme
     \<Rightarrow> ('c, 'a) obstate_scheme option" where
  "post_op_internal X run context op_info s = do {
     ob_cb \<leftarrow> ob_callbacks s context;
     post_each X run op_info (ob_operations ob_cb) s
   }"

section \<open>The contract of a dispatch\<close>

text \<open>The routines that an operation \<open>opn\<close> on an object of type \<open>t\<close> concerns, in registration order.\<close>

definition matching ::
  "(WduObOpRegistration \<Rightarrow> fnptr option) \<Rightarrow> ObjectType \<Rightarrow> u32 \<Rightarrow> WduObOpRegistration list
     \<Rightarrow> (fnptr \<times> ptr option) list" where
  "matching sel t opn ops =
     [(the (sel op), context_opt (op_context op)).
        op \<leftarrow> ops, op_ob_type op = t \<and> op_operations op AND opn = opn \<and> sel op \<noteq> None]"

fun run_all ::
  "(fnptr \<Rightarrow> ptr option \<Rightarrow> ptr \<Rightarrow> 's \<Rightarrow> 's option) \<Rightarrow> ptr \<Rightarrow> (fnptr \<times> ptr option) list \<Rightarrow> 's \<Rightarrow> 's option" where
  "run_all run i [] s = Some s"
| "run_all run i ((f, c) # calls) s = do { s \<leftarrow> run f c i s; run_all run i calls s }"

locale op_dispatch =
  fixes each :: "(fnptr \<Rightarrow> ptr option \<Rightarrow> ptr \<Rightarrow> 's \<Rightarrow> 's option) \<Rightarrow> ptr \<Rightarrow> WduObOpRegistration list \<Rightarrow> 's \<Rightarrow> 's option"
    and otype :: "ptr \<Rightarrow> 's \<Rightarrow> ObjectType option"
    and opn :: "ptr \<Rightarrow> 's \<Rightarrow> u32 option"
    and sel :: "WduObOpRegistration \<Rightarrow> fnptr option"
  assumes each_Nil: "each run i [] s = Some s"
    and each_skip: "otype i s = Some t \<Longrightarrow> opn i s = Some n \<Longrightarrow>
      \<not> (op_ob_type op = t \<and> op_operations op AND n = n \<and> sel op \<noteq> None) \<Longrightarrow>
      each run i (op # ops) s = each run i ops s"
    and each_run: "otype i s = Some t \<Longrightarrow> opn i s = Some n \<Longrightarrow>
      op_ob_type op = t \<Longrightarrow> op_operations op AND n = n \<Longrightarrow> sel op = Some f \<Longrightarrow>
      each run i (op # ops) s = do { s \<leftarrow> run f (context_opt (op_context op)) i s; each run i ops s }"
begin

lemma each_matching:
  assumes keep: "\<And>f c s s'. otype i s = Some t \<Longrightarrow> opn i s = Some n \<Longrightarrow> run f c i s = Some s' \<Longrightarrow>
      otype i s' = Some t \<and> opn i s' = Some n"
    and "otype i s = Some t" "opn i s = Some n"
  shows "each run i ops s = run_all run i (matching sel t n ops) s"
  using assms(2,3)
proof (induction ops arbitrary: s)
  case Nil
  then show ?case
    by (simp add: each_Nil matching_def)
next
  case (Cons op ops)
  show ?case
  proof (cases "op_ob_type op = t \<and> op_operations op AND n = n \<and> sel op \<noteq> None")
    case True
    then obtain f where f: "sel op = Some f"
      by blast
    with True have m: "matching sel t n (op # ops) = (f, context_opt (op_context op)) # matching sel t n ops"
      by (simp add: matching_def)
    show ?thesis
      using each_run [OF Cons.prems _ _ f] True m Cons.IH keep [OF Cons.prems]
      by (auto split: Option.bind_splits)
  next
    case False
    then have "matching sel t n (op # ops) = matching sel t n ops"
      by (auto simp: matching_def)
    with each_skip [OF Cons.prems False] Cons.IH [OF Cons.prems] show ?thesis
      by simp
  qed
qed

end

interpretation pre_dispatch: op_dispatch "pre_each X" "pre_object_type X" pre_operation op_pre for X
  by unfold_locales (auto split: option.splits)

interpretation post_dispatch: op_dispatch "post_each X" "post_object_type X" post_operation op_post for X
  by unfold_locales (auto split: option.splits)

section \<open>Properties\<close>

text \<open>
  What the dispatch asks of the routines: each leaves the operation and the object type of the
  information as they are (it may change the access and the context).
\<close>

definition keeps_pre :: "ptr \<Rightarrow> ('c, 'a) ob_run \<Rightarrow> bool" where
  "keeps_pre i run \<longleftrightarrow>
     (\<forall>f c s s' info. pre_infos s i = Some info \<and> run f c i s = Some s' \<longrightarrow>
        (\<exists>info'. pre_infos s' i = Some info' \<and> pre_Operation info' = pre_Operation info \<and>
                 pre_ObjectType info' = pre_ObjectType info))"

lemma keeps_preD:
  assumes "keeps_pre i run" "run f c i s = Some s'"
    and "pre_object_type X i s = Some t" "pre_operation i s = Some n"
  shows "pre_object_type X i s' = Some t \<and> pre_operation i s' = Some n"
proof -
  from assms(3) obtain info where i: "pre_infos s i = Some info"
    by (auto simp: pre_object_type_def)
  with assms(1,2) obtain info' where "pre_infos s' i = Some info'"
    "pre_Operation info' = pre_Operation info" "pre_ObjectType info' = pre_ObjectType info"
    unfolding keeps_pre_def by blast
  with i assms(3,4) show ?thesis
    by (simp add: pre_object_type_def pre_operation_def)
qed

lemma pre_op_matching:
  assumes "ob_callbacks s context = Some cb" "pre_infos s i = Some info" "keeps_pre i run"
  shows "pre_op_internal X run context i s =
     map_option (\<lambda>s. (OB_PREOP_SUCCESS, s))
       (run_all run i
          (matching op_pre (object_type_of X (pre_ObjectType info)) (pre_Operation info) (ob_operations cb)) s)"
proof -
  have "pre_each X run i (ob_operations cb) s =
      run_all run i
        (matching op_pre (object_type_of X (pre_ObjectType info)) (pre_Operation info) (ob_operations cb)) s"
    by (rule pre_dispatch.each_matching)
       (use assms keeps_preD [OF assms(3)] in \<open>auto simp: pre_object_type_def pre_operation_def\<close>)
  with assms(1) show ?thesis
    by (simp add: pre_op_internal_def map_option_case split: Option.bind_splits)
qed

text \<open>
  C10. When the kernel calls the pre-operation routine of a callback object, exactly the
  registrations run that have a pre-operation routine, are for the type of the object and have
  the operation's bits in their mask: each once, in the order in which they were pushed, with its
  own context (none if it is null), and the answer to the kernel is success. This holds for
  routines that leave the operation and the object type of the information alone; without that
  the lazy filter of the dispatch would judge later registrations by the changed values.
\<close>

theorem pre_op_runs_matching:
  assumes "ob_callbacks s context = Some cb" "pre_infos s i = Some info" "keeps_pre i run"
  shows "pre_op_internal X run context i s =
     map_option (\<lambda>s. (OB_PREOP_SUCCESS, s))
       (run_all run i
          (matching op_pre (object_type_of X (pre_ObjectType info)) (pre_Operation info) (ob_operations cb)) s)"
  using assms by (rule pre_op_matching)

definition exports0 :: exports where
  "exports0 = \<lparr>PsProcessType = (0x100, 0x180), PsThreadType = (0x200, 0x280),
               ExDesktopObjectType = (0x300, 0x380)\<rparr>"

definition info0 :: OB_PRE_OPERATION_INFORMATION where
  "info0 = \<lparr>pre_Operation = 1, pre_Flags = 0, pre_Object = 0x9000, pre_ObjectType = 0x180, pre_CallContext = null,
      pre_Parameters = \<lparr>pp_DesiredAccess = 0x1F, pp_OriginalDesiredAccess = 0x1F\<rparr>\<rparr>"

definition ob0 :: "unit obstate" where
  "ob0 = \<lparr>klog = [], debug_assertions = True, umem = \<lambda>a. 0, try_non_paged = False,
     irps = Map.empty, mdls = Map.empty, file_objs = Map.empty, devices = Map.empty,
     drivers = Map.empty, wdu_devices = Map.empty, wdu_drivers = Map.empty,
     irp_boxes = Map.empty, client = Map.empty, pre_infos = [0x10 \<mapsto> info0], post_infos = Map.empty,
     ob_callbacks = [0x20 \<mapsto> \<lparr>ob_handle = null, ob_operations =
       [op_set_pre 0x41 (op_set_operations 1 (op_set_ob_type OtProcess op_default)),
        op_set_pre 0x42 (op_set_operations 2 (op_set_ob_type OtProcess op_default)),
        op_set_pre 0x43 (op_set_operations 3 (op_set_ob_type OtThread op_default)),
        op_set_context 0x77 (op_set_pre 0x44 (op_set_operations 3 (op_set_ob_type OtProcess op_default)))]\<rparr>]\<rparr>"

text \<open>A routine that leaves a trace of its call in the context field.\<close>

definition tracing :: "(unit, 'a) ob_run" where
  "tracing f c i s = do {
     info \<leftarrow> pre_infos s i;
     Some (s\<lparr>pre_infos := (pre_infos s)(i \<mapsto> info\<lparr>pre_CallContext := pre_CallContext info * 0x100 + f\<rparr>)\<rparr>)
   }"

lemma tracing_keeps: "keeps_pre i tracing"
  by (auto simp: keeps_pre_def tracing_def)

theorem pre_op_runs_matching_witness:
  "map_option (\<lambda>(r, s). (r, map_option pre_CallContext (pre_infos s 0x10)))
     (pre_op_internal exports0 tracing 0x20 0x10 ob0) = Some (OB_PREOP_SUCCESS, Some 0x4144)"
proof -
  have m: "matching op_pre (object_type_of exports0 (pre_ObjectType info0)) (pre_Operation info0)
      (ob_operations (the (ob_callbacks ob0 0x20))) = [(0x41, None), (0x44, Some 0x77)]"
    by (simp add: matching_def ob0_def exports0_def info0_def object_type_of_def op_set_pre_def
        op_set_operations_def op_set_ob_type_def op_default_def op_set_context_def context_opt_def)
  have "ob_callbacks ob0 0x20 = Some (the (ob_callbacks ob0 0x20))" "pre_infos ob0 0x10 = Some info0"
    by (simp_all add: ob0_def)
  from pre_op_runs_matching [OF this tracing_keeps, of exports0] m show ?thesis
    by (simp add: tracing_def ob0_def info0_def)
qed

text \<open>The documented result of \<^verbatim>\<open>ObRegisterCallbacks\<close>: on success, a handle.\<close>

definition gives_ob_handle :: "kernel \<Rightarrow> bool" where
  "gives_ob_handle K \<longleftrightarrow>
     (\<forall>h c. r_status (K h (Ps (ObRegisterCallbacks c))) = STATUS_SUCCESS \<longrightarrow>
        r_out (K h (Ps (ObRegisterCallbacks c))) \<noteq> null)"

lemma into_natives_length: "into_natives X F ops = Some ns \<Longrightarrow> length ns = length ops"
  by (induction ops arbitrary: ns) (auto split: Option.bind_splits)

lemma ob_register_ok:
  assumes "ob_register K X F self alt s = Some (Ok (), s1)"
  obtains cb ns r1 r r2 where
    "ob_callbacks s self = Some cb" "ob_operations cb \<noteq> []" "into_natives X F (ob_operations cb) = Some ns"
    "r_status r = STATUS_SUCCESS"
    "r = K (klog s @ [(Pool (RustAlloc (of_nat (32 * max 4 (length (ob_operations cb))))), r1)])
         (Ps (ObRegisterCallbacks \<lparr>cr_Version = OB_FLT_REGISTRATION_VERSION,
                             cr_OperationRegistrationCount = of_nat (length (ob_operations cb)),
                             cr_Altitude = as_unicode_string alt, cr_RegistrationContext = self,
                             cr_OperationRegistration = ns\<rparr>))"
    "klog s1 = klog s @ [(Pool (RustAlloc (of_nat (32 * max 4 (length (ob_operations cb))))), r1),
       (Ps (ObRegisterCallbacks \<lparr>cr_Version = OB_FLT_REGISTRATION_VERSION,
                             cr_OperationRegistrationCount = of_nat (length (ob_operations cb)),
                             cr_Altitude = as_unicode_string alt, cr_RegistrationContext = self,
                             cr_OperationRegistration = ns\<rparr>), r),
       (Pool (RustDealloc (r_ptr r1)), r2)]"
    "ob_callbacks s1 = (ob_callbacks s)(self \<mapsto> cb\<lparr>ob_handle := r_out r\<rparr>)"
  using assms
  by (fastforce simp: ob_register_def Let_def bind_eq_Some_conv split: if_splits)

text \<open>
  C18. Registration and removal pair up. A successful \<^verbatim>\<open>register\<close> hands the kernel one native
  registration for each one pushed and the object's own address, frees the temporary vector it
  built, and keeps the handle. A following \<^verbatim>\<open>unregister\<close> returns exactly that handle to the kernel
  and clears it, so that a second \<^verbatim>\<open>unregister\<close> fails with an internal error and makes no call. The
  pushed registrations stay in the object. (The kernel is assumed to return a handle when it
  reports success.)
\<close>

theorem ob_register_unregister:
  assumes "ob_register K X F self alt s = Some (Ok (), s1)" "gives_ob_handle K"
  shows "\<exists>cb reg r s2 r2.
     ob_callbacks s self = Some cb \<and> length (cr_OperationRegistration reg) = length (ob_operations cb) \<and>
     cr_RegistrationContext reg = self \<and>
     (Ps (ObRegisterCallbacks reg), r) \<in> set (klog s1) \<and>
     (heap_blocks (klog s) = Map.empty \<longrightarrow> heap_blocks (klog s1) = Map.empty) \<and>
     ob_unregister K self s1 = Some (Ok (), s2) \<and>
     klog s2 = klog s1 @ [(Ps (ObUnRegisterCallbacks (r_out r)), r2)] \<and>
     ob_callbacks s2 self = Some (cb\<lparr>ob_handle := null\<rparr>) \<and>
     ob_unregister K self s2 = Some (Err (CbUnregisterError STATUS_INTERNAL_ERROR), s2)"
proof -
  from assms(1) obtain cb ns r1 r r2 where
    cb: "ob_callbacks s self = Some cb" and ns: "into_natives X F (ob_operations cb) = Some ns"
    and ok: "r_status r = STATUS_SUCCESS" and r: "r = K (klog s @ [(Pool (RustAlloc (of_nat (32 * max 4 (length (ob_operations cb))))), r1)])
         (Ps (ObRegisterCallbacks \<lparr>cr_Version = OB_FLT_REGISTRATION_VERSION,
                             cr_OperationRegistrationCount = of_nat (length (ob_operations cb)),
                             cr_Altitude = as_unicode_string alt, cr_RegistrationContext = self,
                             cr_OperationRegistration = ns\<rparr>))"
    and log: "klog s1 = klog s @ [(Pool (RustAlloc (of_nat (32 * max 4 (length (ob_operations cb))))), r1),
       (Ps (ObRegisterCallbacks \<lparr>cr_Version = OB_FLT_REGISTRATION_VERSION,
                             cr_OperationRegistrationCount = of_nat (length (ob_operations cb)),
                             cr_Altitude = as_unicode_string alt, cr_RegistrationContext = self,
                             cr_OperationRegistration = ns\<rparr>), r),
       (Pool (RustDealloc (r_ptr r1)), r2)]"
    and s1: "ob_callbacks s1 = (ob_callbacks s)(self \<mapsto> cb\<lparr>ob_handle := r_out r\<rparr>)"
    by (rule ob_register_ok)
  have h: "r_out r \<noteq> null"
    using assms(2) ok unfolding gives_ob_handle_def r by blast
  have heap: "heap_blocks (klog s) = Map.empty \<longrightarrow> heap_blocks (klog s1) = Map.empty"
    by (auto simp: log)
  let ?reg = "\<lparr>cr_Version = OB_FLT_REGISTRATION_VERSION,
                             cr_OperationRegistrationCount = of_nat (length (ob_operations cb)),
                             cr_Altitude = as_unicode_string alt, cr_RegistrationContext = self,
                             cr_OperationRegistration = ns\<rparr>"
  have "(Ps (ObRegisterCallbacks ?reg), r) \<in> set (klog s1)"
    by (simp add: log)
  with cb s1 h heap into_natives_length [OF ns] show ?thesis
    by (intro exI [of _ cb] exI [of _ ?reg] exI [of _ r]) (simp add: ob_unregister_def Let_def)
qed

definition ob_kernel :: kernel where
  "ob_kernel h c = reply0\<lparr>r_ptr := 0x1000, r_out := 0x5555\<rparr>"

theorem ob_register_unregister_witness:
  "gives_ob_handle ob_kernel \<and>
   (\<exists>s1 s2. ob_register ob_kernel exports0 \<lparr>pre_op_internal_fn = 1, post_op_internal_fn = 2\<rparr> 0x20 str_default ob0
        = Some (Ok (), s1) \<and>
      ob_unregister ob_kernel 0x20 s1 = Some (Ok (), s2) \<and>
      ob_unregister ob_kernel 0x20 s2 = Some (Err (CbUnregisterError STATUS_INTERNAL_ERROR), s2))"
proof -
  have g: "gives_ob_handle ob_kernel"
    by (simp add: gives_ob_handle_def ob_kernel_def)
  obtain s1 where s1: "ob_register ob_kernel exports0 \<lparr>pre_op_internal_fn = 1, post_op_internal_fn = 2\<rparr> 0x20
      str_default ob0 = Some (Ok (), s1)"
    by (simp add: ob_register_def Let_def ob0_def ob_kernel_def into_native_def op_set_pre_def
        op_set_operations_def op_set_ob_type_def op_default_def op_set_context_def)
  from ob_register_unregister [OF s1 g] g s1 show ?thesis
    by blast
qed

text \<open>A context can be set once for an operation: a second routine that sets one panics.\<close>

lemma set_context_twice:
  assumes "pre_set_context K n i c s = Some s1" "pre_infos s i = Some info"
  shows "pre_set_context K m i d s1 = None"
proof -
  from assms obtain b s' where b: "box_new K n c s = Some (b, s')"
    and s1: "s1 = s'\<lparr>pre_infos := (pre_infos s')(i \<mapsto> info\<lparr>pre_CallContext := b\<rparr>)\<rparr>"
    by (auto simp: pre_set_context_def bind_eq_Some_conv)
  from b have "b \<noteq> null"
    by (auto simp: box_new_def rust_alloc_def panic_def Let_def bind_eq_Some_conv split: if_splits)
  then show ?thesis
    by (simp add: s1 pre_set_context_def)
qed

end
