(* ===== verification/Wdu_CallbackObj.thy ===== *)
theory Wdu_CallbackObj
  imports Wdu_Notify Wdu_Objects
begin

text \<open>
  \<^verbatim>\<open>src/callbacks/callback.rs\<close>: callback objects of the executive, and \<^verbatim>\<open>src/callbacks/cm.rs\<close>:
  registry callbacks. A callback object is found again by an address the kernel was given, so the
  objects live in the state's memory.
\<close>

section \<open>Callback objects\<close>

record WduCallbackObject =
  co_object :: ptr
  co_handle :: ptr
  co_ctx :: ptr
  co_cb :: "fnptr option"

record costate = kstate +
  cb_objs :: "ptr \<rightharpoonup> WduCallbackObject"

definition callobj_new :: "ptr \<Rightarrow> WduCallbackObject" where
  "callobj_new ctx = \<lparr>co_object = null, co_handle = null, co_ctx = ctx, co_cb = None\<rparr>"

text \<open>The part of \<^verbatim>\<open>unregister\<close> that acts on the object as a value; \<^verbatim>\<open>drop\<close> runs it.\<close>

definition callobj_unregister_value ::
  "kernel \<Rightarrow> WduCallbackObject \<Rightarrow> 'a kstate_scheme \<Rightarrow> WduCallbackObject \<times> 'a kstate_scheme" where
  "callobj_unregister_value K self s =
     (self\<lparr>co_cb := None\<rparr>, sysv K (Ps (ExUnregisterCallback (co_handle self))) s)"

definition callobj_drop :: "kernel \<Rightarrow> WduCallbackObject \<Rightarrow> 'a kstate_scheme \<Rightarrow> 'a kstate_scheme" where
  "callobj_drop K self s = snd (callobj_unregister_value K self s)"

text \<open>On an error the object that was to be returned is dropped.\<close>

definition callobj_open ::
  "kernel \<Rightarrow> WduObjectAttributes \<Rightarrow> ptr \<Rightarrow> 'a kstate_scheme
     \<Rightarrow> (WduCallbackError, WduCallbackObject) result \<times> 'a kstate_scheme" where
  "callobj_open K attrs ctx s =
     (let cb_obj = callobj_new ctx;
          (r, s) = sys K (Ps (ExCreateCallback (obj_attr attrs) (u8_of_bool False) (u8_of_bool False))) s;
          cb_obj = cb_obj\<lparr>co_object := r_out r\<rparr>
      in if r_status r \<noteq> STATUS_SUCCESS
         then (Err (CbCreateError (r_status r)), callobj_drop K cb_obj s)
         else (Ok cb_obj, s))"

definition callobj_create ::
  "kernel \<Rightarrow> bool \<Rightarrow> WduObjectAttributes \<Rightarrow> ptr \<Rightarrow> 'a kstate_scheme
     \<Rightarrow> (WduCallbackError, WduCallbackObject) result \<times> 'a kstate_scheme" where
  "callobj_create K allow_multiple attrs ctx s =
     (let cb_obj = callobj_new ctx;
          (r, s) = sys K (Ps (ExCreateCallback (obj_attr attrs) (u8_of_bool True) (u8_of_bool allow_multiple))) s;
          cb_obj = cb_obj\<lparr>co_object := r_out r\<rparr>
      in if r_status r \<noteq> STATUS_SUCCESS
         then (Err (CbCreateError (r_status r)), callobj_drop K cb_obj s)
         else (Ok cb_obj, s))"

text \<open>
  \<^verbatim>\<open>register\<close> passes \<^verbatim>\<open>transmute(&self)\<close>: \<^verbatim>\<open>self\<close> is already a reference, so this is the address of
  the parameter that holds it, a slot of the function's own frame (\<open>slot\<close>). \<open>entry\<close> is the address
  of \<^verbatim>\<open>cb_internal\<close>.
\<close>

definition callobj_register ::
  "kernel \<Rightarrow> fnptr \<Rightarrow> ptr \<Rightarrow> ptr \<Rightarrow> fnptr \<Rightarrow> 'a costate_scheme
     \<Rightarrow> ((WduCallbackError, unit) result \<times> 'a costate_scheme) option" where
  "callobj_register K entry slot self cb s = do {
     obj \<leftarrow> cb_objs s self;
     let ptr = slot;
     let (r, s) = sys K (Ps (ExRegisterCallback (co_object obj) entry ptr)) s;
     if r_ptr r = null then Some (Err (CbRegisterError STATUS_UNSUCCESSFUL), s)
     else Some (Ok (), s\<lparr>cb_objs := (cb_objs s)(self \<mapsto> obj\<lparr>co_cb := Some cb, co_handle := r_ptr r\<rparr>)\<rparr>)
   }"

definition callobj_unregister :: "kernel \<Rightarrow> ptr \<Rightarrow> 'a costate_scheme \<Rightarrow> 'a costate_scheme option" where
  "callobj_unregister K self s = do {
     obj \<leftarrow> cb_objs s self;
     let (obj, s) = callobj_unregister_value K obj s;
     Some (s\<lparr>cb_objs := (cb_objs s)(self \<mapsto> obj)\<rparr>)
   }"

text \<open>The end of the object's life: \<^verbatim>\<open>drop\<close>, then its memory is gone.\<close>

definition callobj_end :: "kernel \<Rightarrow> ptr \<Rightarrow> 'a costate_scheme \<Rightarrow> 'a costate_scheme option" where
  "callobj_end K self s = do {
     obj \<leftarrow> cb_objs s self;
     let s = callobj_drop K obj s;
     Some (s\<lparr>cb_objs := (cb_objs s)(self := None)\<rparr>)
   }"

text \<open>The routine the kernel calls; the client's routine is a parameter.\<close>

definition cb_internal ::
  "(fnptr \<Rightarrow> ptr \<Rightarrow> ptr \<Rightarrow> ptr \<Rightarrow> 'a costate_scheme \<Rightarrow> 'a costate_scheme option)
     \<Rightarrow> ptr \<Rightarrow> ptr \<Rightarrow> ptr \<Rightarrow> 'a costate_scheme \<Rightarrow> 'a costate_scheme option" where
  "cb_internal run ctx arg1 arg2 s = do {
     obj \<leftarrow> cb_objs s ctx;
     case co_cb obj of None \<Rightarrow> Some s | Some pfn \<Rightarrow> run pfn (co_ctx obj) arg1 arg2 s
   }"

definition callobj_notify :: "kernel \<Rightarrow> ptr \<Rightarrow> ptr \<Rightarrow> ptr \<Rightarrow> 'a costate_scheme \<Rightarrow> 'a costate_scheme option" where
  "callobj_notify K self arg1 arg2 s = do {
     obj \<leftarrow> cb_objs s self;
     Some (sysv K (Ps (ExNotifyCallback (co_object obj) arg1 arg2)) s)
   }"

section \<open>Registry callbacks\<close>

record CmCallbackVersion =
  cv_minor :: u32
  cv_major :: u32

record WduCmCallback =
  cm_cookie :: i64
  cm_altitude :: WduUnicodeString

record WduCmKeyObject =
  ko_object_id :: usize
  ko_object_name :: WduUnicodeString

definition cm_default :: WduCmCallback where
  "cm_default = \<lparr>cm_cookie = 0, cm_altitude = ustring_default\<rparr>"

definition key_object_default :: WduCmKeyObject where
  "key_object_default = \<lparr>ko_object_id = 0, ko_object_name = ustring_default\<rparr>"

text \<open>\<^verbatim>\<open>Drop\<close> of the key object, then of its string.\<close>

definition key_object_drop :: "kernel \<Rightarrow> WduCmKeyObject \<Rightarrow> 'a kstate_scheme \<Rightarrow> 'a kstate_scheme" where
  "key_object_drop K self s =
     ustring_drop K (ko_object_name self)
       (sysv K (Ps (CmCallbackReleaseKeyObjectIDEx (us_string (ko_object_name self)))) s)"

text \<open>The assignment drops the string it replaces.\<close>

definition cm_set_altitude ::
  "kernel \<Rightarrow> WduUnicodeString \<Rightarrow> WduCmCallback \<Rightarrow> 'a kstate_scheme \<Rightarrow> WduCmCallback \<times> 'a kstate_scheme" where
  "cm_set_altitude K altitude self s =
     (self\<lparr>cm_altitude := altitude\<rparr>, ustring_drop K (cm_altitude self) s)"

text \<open>
  The routine that is registered is the crate's empty \<^verbatim>\<open>test\<close> (address \<open>test\<close>); \<open>r_u64\<close> is what the
  cookie's location holds after the call.
\<close>

definition cm_register ::
  "kernel \<Rightarrow> fnptr \<Rightarrow> WduCmCallback \<Rightarrow> 'a ustate_scheme
     \<Rightarrow> (WduCallbackError, unit) result \<times> WduCmCallback \<times> 'a ustate_scheme" where
  "cm_register K test self s =
     (let (r, s) = sys K (Ps (CmRegisterCallbackEx test (ustr_of s (us_string (cm_altitude self))))) s;
          self = self\<lparr>cm_cookie := r_u64 r\<rparr>
      in if r_status r \<noteq> STATUS_SUCCESS then (Err (CbRegisterError (r_status r)), self, s)
         else (Ok (), self, s))"

definition cm_unregister ::
  "kernel \<Rightarrow> WduCmCallback \<Rightarrow> 'a kstate_scheme
     \<Rightarrow> (WduCallbackError, unit) result \<times> WduCmCallback \<times> 'a kstate_scheme" where
  "cm_unregister K self s =
     (let (r, s) = sys K (Ps (CmUnRegisterCallback (cm_cookie self))) s
      in if r_status r \<noteq> STATUS_SUCCESS then (Err (CbNtStatus (r_status r)), self, s)
         else (Ok (), self, s))"

definition cm_version :: "kernel \<Rightarrow> 'a kstate_scheme \<Rightarrow> CmCallbackVersion \<times> 'a kstate_scheme" where
  "cm_version K s =
     (let (r, s) = sys K (Ps CmGetCallbackVersion) s
      in (\<lparr>cv_minor = snd (r_u32 r), cv_major = fst (r_u32 r)\<rparr>, s))"

text \<open>
  The routine writes the identifier and, behind its fourth argument, a pointer to the name; that
  argument is the address of a temporary, so the name does not reach the key object.
\<close>

definition key_object_id ::
  "kernel \<Rightarrow> ptr \<Rightarrow> WduCmCallback \<Rightarrow> 'a kstate_scheme
     \<Rightarrow> (WduCallbackError, WduCmKeyObject) result \<times> 'a kstate_scheme" where
  "key_object_id K object self s =
     (let key_object = key_object_default;
          (r, s) = sys K (Ps (CmCallbackGetKeyObjectIDEx (cm_cookie self) object 0)) s;
          key_object = key_object\<lparr>ko_object_id := r_u64 r\<rparr>
      in if r_status r \<noteq> STATUS_SUCCESS
         then (Err (CbNtStatus (r_status r)), key_object_drop K key_object s)
         else (Ok key_object, s))"

definition bound_transaction :: "kernel \<Rightarrow> ptr \<Rightarrow> WduCmCallback \<Rightarrow> 'a kstate_scheme \<Rightarrow> 'a kstate_scheme" where
  "bound_transaction K object self s = sysv K (Ps (CmGetBoundTransaction (cm_cookie self) object)) s"

section \<open>Properties\<close>

text \<open>
  After a successful \<^verbatim>\<open>register\<close> the object holds the client's routine and the kernel's handle,
  and calling \<^verbatim>\<open>cb_internal\<close> with the object's own address would run that routine with the object's
  context. But the context the kernel was given is the address of the parameter \<^verbatim>\<open>self\<close> in the
  frame of \<^verbatim>\<open>register\<close>: called with it, as the kernel does, \<^verbatim>\<open>cb_internal\<close> finds no callback object
  there and faults, whatever the arguments.
\<close>

lemma callback_context_is_frame_slot:
  assumes "callobj_register K entry slot self cb s = Some (Ok (), s1)"
    and "cb_objs s slot = None"
  shows "\<exists>obj r. cb_objs s self = Some obj \<and>
     klog s1 = klog s @ [(Ps (ExRegisterCallback (co_object obj) entry slot), r)] \<and>
     co_handle (the (cb_objs s1 self)) = r_ptr r \<and>
     cb_internal run self arg1 arg2 s1 = run cb (co_ctx obj) arg1 arg2 s1 \<and>
     cb_internal run slot arg1 arg2 s1 = None"
proof -
  from assms(1) obtain obj where obj: "cb_objs s self = Some obj"
    by (auto simp: callobj_register_def bind_eq_Some_conv)
  with assms have "slot \<noteq> self"
    by auto
  with obj assms show ?thesis
    by (auto simp: callobj_register_def Let_def cb_internal_def split: if_splits)
qed

definition co0 :: costate where
  "co0 = \<lparr>klog = [], debug_assertions = True,
     cb_objs = [0x100 \<mapsto> \<lparr>co_object = 0x500, co_handle = null, co_ctx = 0x600, co_cb = None\<rparr>]\<rparr>"

definition handle_kernel :: kernel where
  "handle_kernel h c = reply0\<lparr>r_ptr := 0x7000\<rparr>"

text \<open>
  The handle is never cleared, and \<^verbatim>\<open>unregister\<close> does not ask whether one is held. So an object
  that is unregistered by the client and then dropped returns the same handle to the kernel
  twice, an object dropped without ever having been registered returns the null handle, and so
  does a failing \<^verbatim>\<open>create\<close>.
\<close>

lemma callback_handle_returned_again:
  assumes "cb_objs s self = Some obj" "callobj_unregister K self s = Some s1" "callobj_end K self s1 = Some s2"
    and "r_status (K (klog t) (Ps (ExCreateCallback (obj_attr attrs) 1 (u8_of_bool multi)))) \<noteq> STATUS_SUCCESS"
  shows "map fst (klog s2) = map fst (klog s) @ [Ps (ExUnregisterCallback (co_handle obj)),
                                                 Ps (ExUnregisterCallback (co_handle obj))] \<and>
         map fst (klog (callobj_drop K (callobj_new ctx) t)) = map fst (klog t) @ [Ps (ExUnregisterCallback null)] \<and>
         map fst (klog (snd (callobj_create K multi attrs ctx t))) =
           map fst (klog t) @ [Ps (ExCreateCallback (obj_attr attrs) 1 (u8_of_bool multi)),
                               Ps (ExUnregisterCallback null)]"
  using assms
  by (auto simp: callobj_unregister_def callobj_end_def callobj_drop_def callobj_unregister_value_def
      callobj_new_def callobj_create_def Let_def)

text \<open>
  \<^verbatim>\<open>key_object_id\<close> returns the identifier the kernel wrote, but never the name: the key object's
  name stays the empty string, and what its drop releases is that empty string, not the name the
  kernel handed out. When the kernel reports an error, nothing was handed out, and the same
  release is made all the same.
\<close>

lemma key_object_name_lost:
  shows "case key_object_id K object self s of
     (Ok ko, s1) \<Rightarrow> ko_object_id ko = r_u64 (K (klog s) (Ps (CmCallbackGetKeyObjectIDEx (cm_cookie self) object 0))) \<and>
        ustring_is_empty (ko_object_name ko) \<and>
        map fst (klog (key_object_drop K ko s1)) = map fst (klog s) @
          [Ps (CmCallbackGetKeyObjectIDEx (cm_cookie self) object 0),
           Ps (CmCallbackReleaseKeyObjectIDEx \<lparr>Length = 0, MaximumLength = 0, Buffer = null\<rparr>)]
   | (Err e, s1) \<Rightarrow> map fst (klog s1) = map fst (klog s) @
          [Ps (CmCallbackGetKeyObjectIDEx (cm_cookie self) object 0),
           Ps (CmCallbackReleaseKeyObjectIDEx \<lparr>Length = 0, MaximumLength = 0, Buffer = null\<rparr>)]"
  by (simp add: key_object_id_def Let_def key_object_default_def key_object_drop_def ustring_drop_def
      ustring_default_def ustring_is_empty_def)

end
