(* ===== verification/Ex_Sioctl.thy ===== *)
theory Ex_Sioctl
  imports Wdu_Driver
begin

text \<open>
  \<^verbatim>\<open>examples/sioctl/src/lib.rs\<close>: a driver that answers device control requests of the four buffer
  methods with a constant string. Its state adds the bytes of memory, which it writes; formatting
  for the log is not modelled. Names that other drivers have too carry the prefix \<open>sioctl\<close>.
\<close>

section \<open>State and constants\<close>

record siostate = "unit iostate" +
  bytes :: "ptr \<Rightarrow> u8"

datatype SioctlError = SioDriverError | SioDeviceError | SioMdlError

fun sio_error_from_device :: "WduDeviceError \<Rightarrow> SioctlError" where
  "sio_error_from_device e = SioDeviceError"

fun sio_error_from_driver :: "WduDriverError \<Rightarrow> SioctlError" where
  "sio_error_from_driver e = SioDriverError"

fun sio_error_from_mdl :: "WduMdlError \<Rightarrow> SioctlError" where
  "sio_error_from_mdl e = SioMdlError"

definition SIOCTL_TYPE :: u32 where "SIOCTL_TYPE = 40000"

definition IOCTL_SIOCTL_METHOD_IN_DIRECT :: u32 where
  "IOCTL_SIOCTL_METHOD_IN_DIRECT = encode_ioctl SIOCTL_TYPE 0x900 METHOD_IN_DIRECT FILE_ANY_ACCESS"

definition IOCTL_SIOCTL_METHOD_OUT_DIRECT :: u32 where
  "IOCTL_SIOCTL_METHOD_OUT_DIRECT = encode_ioctl SIOCTL_TYPE 0x901 METHOD_OUT_DIRECT FILE_ANY_ACCESS"

definition IOCTL_SIOCTL_METHOD_BUFFERED :: u32 where
  "IOCTL_SIOCTL_METHOD_BUFFERED = encode_ioctl SIOCTL_TYPE 0x902 METHOD_BUFFERED FILE_ANY_ACCESS"

definition IOCTL_SIOCTL_METHOD_NEITHER :: u32 where
  "IOCTL_SIOCTL_METHOD_NEITHER = encode_ioctl SIOCTL_TYPE 0x903 METHOD_NEITHER FILE_ANY_ACCESS"

lemmas sioctl_codes =
  IOCTL_SIOCTL_METHOD_IN_DIRECT_def IOCTL_SIOCTL_METHOD_OUT_DIRECT_def
  IOCTL_SIOCTL_METHOD_BUFFERED_def IOCTL_SIOCTL_METHOD_NEITHER_def SIOCTL_TYPE_def encode_ioctl_def nt_consts

text \<open>The bytes of a string literal.\<close>

definition str_bytes :: "string \<Rightarrow> u8 list" where
  "str_bytes cs = map of_char cs"

definition sioctl_data :: "u8 list" where
  "sioctl_data = str_bytes ''String from Rust Device Driver!''"

definition sioctl_neither_data :: "u8 list" where
  "sioctl_neither_data = str_bytes ''String from Rust Device Driver (Method Neither)!''"

lemma length_data [simp]: "length sioctl_data = 31" "length sioctl_neither_data = 48"
  by (simp_all add: sioctl_data_def sioctl_neither_data_def str_bytes_def)

text \<open>\<^verbatim>\<open>ptr.copy_from(data.as_ptr(), data.len())\<close>: no check of the room at the destination.\<close>

definition copy_from :: "ptr \<Rightarrow> u8 list \<Rightarrow> ('a siostate_scheme) \<Rightarrow> ('a siostate_scheme)" where
  "copy_from dst data s =
     s\<lparr>bytes := (\<lambda>a. if unat (a - dst) < length data then data ! unat (a - dst) else bytes s a)\<rparr>"

section \<open>Requests\<close>

definition sioctl_create ::
  "kernel \<Rightarrow> WduDevice \<Rightarrow> WduIrp \<Rightarrow> WduCreate \<Rightarrow> 'a siostate_scheme \<Rightarrow> (WduIrp \<times> 'a siostate_scheme) option" where
  "sioctl_create K device request req_data s = do {
     s \<leftarrow> irp_complete K request success_no_info s;
     Some (request, s)
   }"

definition sioctl_close ::
  "kernel \<Rightarrow> WduDevice \<Rightarrow> WduIrp \<Rightarrow> WduFileObject \<Rightarrow> 'a siostate_scheme \<Rightarrow> (WduIrp \<times> 'a siostate_scheme) option" where
  "sioctl_close K device request file_object s = do {
     s \<leftarrow> irp_complete K request success_no_info s;
     Some (request, s)
   }"

text \<open>
  \<^verbatim>\<open>method_neither\<close>. Each MDL lives in a block of its own and is dropped at its end, on the error
  returns too. \<open>in_part\<close> and \<open>out_part\<close> are the two blocks; the first one's value is whether the
  mapping succeeded.
\<close>

definition sioctl_priority :: u32 where
  "sioctl_priority = PagePriority_Normal OR PagePriority_MdlMappingNoExecute"

definition in_part ::
  "kernel \<Rightarrow> WduDeviceControl \<Rightarrow> 'a siostate_scheme \<Rightarrow> ((SioctlError, unit) result \<times> 'a siostate_scheme) option" where
  "in_part K req_data s =
     (case mdl_allocate K (input_buffer req_data) (ucast (dc_in_buf_len req_data)) False None s of
        (Err e, s) \<Rightarrow> Some (Err (sio_error_from_mdl e), s)
      | (Ok in_mdl, s) \<Rightarrow> do {
          (in_mdl, s) \<leftarrow> probe_and_lock K in_mdl UserMode IoReadAccess s;
          (in_buf, s) \<leftarrow> get_system_addr K in_mdl sioctl_priority s;
          if in_buf = null then Some (Err SioMdlError, mdl_drop K in_mdl s)
          else do {
            n \<leftarrow> byte_count in_mdl s;
            Some (Ok (), mdl_drop K in_mdl s)
          }
        })"

definition out_part ::
  "kernel \<Rightarrow> WduDeviceControl \<Rightarrow> 'a siostate_scheme \<Rightarrow> ((SioctlError, usize) result \<times> 'a siostate_scheme) option" where
  "out_part K req_data s = do {
     (out, s) \<leftarrow> output_buffer K req_data s;
     case mdl_allocate K out (ucast (dc_out_buf_len req_data)) False None s of
       (Err e, s) \<Rightarrow> Some (Err (sio_error_from_mdl e), s)
     | (Ok out_mdl, s) \<Rightarrow> do {
         (out_mdl, s) \<leftarrow> probe_and_lock K out_mdl UserMode IoWriteAccess s;
         (out_buf, s) \<leftarrow> get_system_addr K out_mdl sioctl_priority s;
         if out_buf = null then Some (Err SioMdlError, mdl_drop K out_mdl s)
         else do {
           let s = copy_from out_buf sioctl_neither_data s;
           n \<leftarrow> byte_count out_mdl s;
           Some (Ok (if n < of_nat (length sioctl_neither_data) then n else of_nat (length sioctl_neither_data)),
                 mdl_drop K out_mdl s)
         }
       }
   }"

definition method_neither ::
  "kernel \<Rightarrow> WduDeviceControl \<Rightarrow> 'a siostate_scheme \<Rightarrow> ((SioctlError, usize) result \<times> 'a siostate_scheme) option" where
  "method_neither K req_data s = do {
     (r, s) \<leftarrow> in_part K req_data s;
     case r of Err e \<Rightarrow> Some (Err e, s) | Ok u \<Rightarrow> out_part K req_data s
   }"

text \<open>
  The match on the control code, with the I/O status it fills. The input slice is read through
  its pointer, which must not be null; it is only logged.
\<close>

definition sioctl_match ::
  "kernel \<Rightarrow> WduDeviceControl \<Rightarrow> ptr \<Rightarrow> WduIoStatus \<Rightarrow> 'a siostate_scheme
     \<Rightarrow> (ntstatus \<times> WduIoStatus \<times> 'a siostate_scheme) option" where
  "sioctl_match K req_data out_buf io_status s =
     (let ioctl = dc_ioctl req_data in
      if ioctl = IOCTL_SIOCTL_METHOD_BUFFERED \<or> ioctl = IOCTL_SIOCTL_METHOD_OUT_DIRECT then do {
        rust_assert (input_buffer req_data \<noteq> null);
        let s = copy_from out_buf sioctl_data s;
        let written_bytes = (if dc_out_buf_len req_data < of_nat (length sioctl_data)
                             then dc_out_buf_len req_data else of_nat (length sioctl_data));
        Some (STATUS_SUCCESS, set_info written_bytes io_status, s)
      }
      else if ioctl = IOCTL_SIOCTL_METHOD_IN_DIRECT then do {
        rust_assert (input_buffer req_data \<noteq> null);
        let s = copy_from out_buf sioctl_data s;
        n \<leftarrow> mdl_byte_count req_data s;
        Some (STATUS_SUCCESS, set_info n io_status, s)
      }
      else if ioctl = IOCTL_SIOCTL_METHOD_NEITHER then do {
        (r, s) \<leftarrow> method_neither K req_data s;
        case r of
          Ok written_bytes \<Rightarrow> Some (STATUS_SUCCESS, set_info written_bytes io_status, s)
        | Err e \<Rightarrow> Some (STATUS_INSUFFICIENT_RESOURCES, io_status, s)
      }
      else Some (STATUS_INVALID_DEVICE_REQUEST, io_status, s))"

definition sioctl_device_control ::
  "kernel \<Rightarrow> WduDevice \<Rightarrow> WduIrp \<Rightarrow> WduDeviceControl \<Rightarrow> 'a siostate_scheme
     \<Rightarrow> (ntstatus \<times> WduIrp \<times> 'a siostate_scheme) option" where
  "sioctl_device_control K device request req_data s =
     (let io_status = success_no_info in
      if dc_in_buf_len req_data = 0 \<or> dc_out_buf_len req_data = 0 then do {
        s \<leftarrow> irp_complete K request (set_status STATUS_INVALID_PARAMETER io_status) s;
        Some (STATUS_INVALID_PARAMETER, request, s)
      }
      else do {
        (out_buf, s) \<leftarrow> output_buffer K req_data s;
        if out_buf = null then do {
          s \<leftarrow> irp_complete K request (set_status STATUS_INSUFFICIENT_RESOURCES io_status) s;
          Some (STATUS_INSUFFICIENT_RESOURCES, request, s)
        }
        else do {
          (status, io_status, s) \<leftarrow> sioctl_match K req_data out_buf io_status s;
          s \<leftarrow> irp_complete K request (set_status status io_status) s;
          Some (status, request, s)
        }
      })"

section \<open>Loading and unloading\<close>

text \<open>
  The addresses of the driver's routines, of the crate's entry points and of the constant names;
  \<open>sx_sizeof\<close> is the size of the driver wrapper.
\<close>

record sioctl_env =
  sx_create :: fnptr
  sx_close :: fnptr
  sx_device_control :: fnptr
  sx_driver_unload :: fnptr
  sx_entry :: entry_points
  sx_driver_id :: fnptr
  sx_sizeof :: u32
  sx_device_name :: slice
  sx_win32_name :: slice
  sx_pool2_name :: ptr

definition sioctl_driver ::
  "sioctl_env \<Rightarrow> ptr \<Rightarrow> 'a siostate_scheme \<Rightarrow> (WduDriver \<times> 'a siostate_scheme) option" where
  "sioctl_driver E driver_object s = do {
     let fileobj = close_irp (sx_close E) (create_irp (sx_create E) fileobj_default);
     let io = ioctl_irp (sx_device_control E) io_default;
     (d, s) \<leftarrow> driver_unload_builder (sx_entry E) (driver_new driver_object) (sx_driver_unload E) s;
     (d, s) \<leftarrow> driver_file_object (sx_entry E) d fileobj s;
     driver_io (sx_entry E) d io s
   }"

definition sioctl_init ::
  "kernel \<Rightarrow> sioctl_env \<Rightarrow> ptr \<Rightarrow> 'a siostate_scheme \<Rightarrow> ((SioctlError, unit) result \<times> 'a siostate_scheme) option" where
  "sioctl_init K E driver_object s = do {
     let device_name = str_from_slice (sx_device_name E);
     let win32_name = str_from_slice (sx_win32_name E);
     (d, s) \<leftarrow> sioctl_driver E driver_object s;
     case driver_build K (sx_driver_id E) (sx_sizeof E) d s of
       (Err e, s) \<Rightarrow> Some (Err (sio_error_from_driver e), s)
     | (Ok wdu_driver, s) \<Rightarrow> do {
         (r, s) \<leftarrow> device_build K 0 () (device_characteristics DcSecureOpen (device_device_type DtUnknown device_default))
                    wdu_driver (Some device_name) s;
         case r of
           Err e \<Rightarrow> Some (Err (sio_error_from_device e), s)
         | Ok wdu_device \<Rightarrow>
             (case device_symbolic_name K device_name win32_name s of
                (Err e, s) \<Rightarrow> Some (Ok (), device_delete K wdu_device s)
              | (Ok u, s) \<Rightarrow> Some (Ok (), s))
       }
   }"

text \<open>\<^verbatim>\<open>DriverEntry\<close>: the logger's set-up is left out; the allocator's static is \<open>g\<close>.\<close>

definition sioctl_DriverEntry ::
  "kernel \<Rightarrow> sioctl_env \<Rightarrow> SimpleAlloc \<Rightarrow> ptr \<Rightarrow> 'a siostate_scheme \<Rightarrow> (ntstatus \<times> SimpleAlloc \<times> 'a siostate_scheme) option" where
  "sioctl_DriverEntry K E g driver_object s = do {
     let (g, s) = simple_init K (sx_pool2_name E) g s;
     (r, s) \<leftarrow> sioctl_init K E driver_object s;
     case r of Err e \<Rightarrow> Some (STATUS_UNSUCCESSFUL, g, s) | Ok u \<Rightarrow> Some (STATUS_SUCCESS, g, s)
   }"

definition sioctl_driver_unload ::
  "kernel \<Rightarrow> sioctl_env \<Rightarrow> WduDriver \<Rightarrow> 'a siostate_scheme \<Rightarrow> 'a siostate_scheme option" where
  "sioctl_driver_unload K E driver s = do {
     dev_obj \<leftarrow> driver_device driver s;
     let s = snd (delete_symbolic_name K (str_from_slice (sx_win32_name E)) s);
     Some (device_delete K dev_obj s)
   }"

section \<open>Lemmas\<close>

text \<open>The MDL structures behind the addresses that the kernel hands out are in memory.\<close>

definition mdls_mapped :: "kernel \<Rightarrow> WduDeviceControl \<Rightarrow> 'a siostate_scheme \<Rightarrow> bool" where
  "mdls_mapped K req s \<longleftrightarrow>
     (\<forall>h va n a b i. r_ptr (K h (Io (IoAllocateMdl va n a b i))) \<noteq> null \<longrightarrow>
        mdls s (r_ptr (K h (Io (IoAllocateMdl va n a b i)))) \<noteq> None) \<and>
     (case dc_buffer req of Direct i m \<Rightarrow> md_mdl m = null \<or> mdls s (md_mdl m) \<noteq> None | _ \<Rightarrow> True)"

text \<open>
  The handler of \<^verbatim>\<open>METHOD_NEITHER\<close> probes the caller's buffers without a handler for the exceptions
  this may raise; for a request of another method nothing is probed.
\<close>

definition probing_returns :: "kernel \<Rightarrow> WduDeviceControl \<Rightarrow> bool" where
  "probing_returns K req \<longleftrightarrow> dc_ioctl req = IOCTL_SIOCTL_METHOD_NEITHER \<longrightarrow>
     (\<forall>h m a l. r_status (K h (Io (MmProbeAndLockPages m a l))) = STATUS_SUCCESS)"

text \<open>
  The number of bytes reported with success, per method: the smaller of the output buffer's and the
  string's length for the buffered and the direct-output method, the byte count of the request's
  MDL for the direct-input method, and for the last one the smaller of the string's length and the
  byte count of the MDL allocated for the output buffer. No other control code succeeds.
\<close>

definition reported :: "kernel \<Rightarrow> WduDeviceControl \<Rightarrow> 'a siostate_scheme \<Rightarrow> usize \<Rightarrow> bool" where
  "reported K req s n \<longleftrightarrow>
     (if dc_ioctl req = IOCTL_SIOCTL_METHOD_BUFFERED \<or> dc_ioctl req = IOCTL_SIOCTL_METHOD_OUT_DIRECT
      then n = min (dc_out_buf_len req) 31
      else if dc_ioctl req = IOCTL_SIOCTL_METHOD_IN_DIRECT then mdl_byte_count req s = Some n
      else dc_ioctl req = IOCTL_SIOCTL_METHOD_NEITHER \<and>
        (\<exists>h va m. mdls s (r_ptr (K h (Io (IoAllocateMdl va (ucast (dc_out_buf_len req)) 0 0 null)))) = Some m \<and>
           n = min (ucast (ByteCount m)) 48))"

text \<open>A step that leaves the IRPs, the completions and the balance of all MDLs alone.\<close>

definition quiet :: "ptr \<Rightarrow> 'a siostate_scheme \<Rightarrow> 'a siostate_scheme \<Rightarrow> bool" where
  "quiet p s t \<longleftrightarrow> irps t = irps s \<and> mdls t = mdls s \<and>
     completions p (klog t) = completions p (klog s) \<and> (\<forall>q. mdl_counts q (klog t) = mdl_counts q (klog s))"

lemma quiet_refl [simp]: "quiet p s s"
  by (simp add: quiet_def)

lemma quiet_trans: "quiet p s t \<Longrightarrow> quiet p t u \<Longrightarrow> quiet p s u"
  by (simp add: quiet_def)

lemma quiet_mapped: "quiet p s t \<Longrightarrow> mdls_mapped K req t = mdls_mapped K req s"
  by (simp add: quiet_def mdls_mapped_def split: WduIocltBuffers.splits)

lemma quiet_copy_from [simp]: "quiet p s (copy_from dst data s)"
  by (simp add: quiet_def copy_from_def)

lemma output_buffer_quiet:
  assumes "mdls_mapped K req s"
  shows "\<exists>b t. output_buffer K req s = Some (b, t) \<and> quiet p s t"
  using assms
  by (auto simp: output_buffer_def get_system_addr_def mdls_mapped_def quiet_def mdl_counts_append Let_def
      split: WduIocltBuffers.splits)

lemmas mdl_ops_defs =
  mdl_allocate_def probe_and_lock_def get_system_addr_def byte_count_def mdl_drop_def mdl_unlock_def mdl_free_def

lemma mdls_mappedD:
  assumes "mdls_mapped K req s"
  shows "r_ptr (K h (Io (IoAllocateMdl va n a b i))) = null \<or>
         (\<exists>m. mdls s (r_ptr (K h (Io (IoAllocateMdl va n a b i)))) = Some m)"
  using assms unfolding mdls_mapped_def by (metis not_None_eq)

lemma if_less_min: "(if (a :: usize) < b then a else b) = min a b"
  by (auto simp: min_def)

lemma in_part_quiet:
  assumes "mdls_mapped K req s" "probing_returns K req" "dc_ioctl req = IOCTL_SIOCTL_METHOD_NEITHER"
  shows "\<exists>r t. in_part K req s = Some (r, t) \<and> quiet p s t"
  using mdls_mappedD [OF assms(1), of "klog s" "input_buffer req" "ucast (dc_in_buf_len req)" 0 0 null] assms(2,3)
  by (cases "r_ptr (K (klog s) (Io (IoAllocateMdl (input_buffer req) (ucast (dc_in_buf_len req)) 0 0 null))) = null")
     (auto simp: in_part_def mdl_ops_defs quiet_def mdl_counts_append Let_def probing_returns_def sys_eq)

lemma out_part_quiet:
  assumes "mdls_mapped K req s" "probing_returns K req" "dc_ioctl req = IOCTL_SIOCTL_METHOD_NEITHER"
  shows "\<exists>r t. out_part K req s = Some (r, t) \<and> quiet p s t \<and> (\<forall>n. r = Ok n \<longrightarrow> reported K req s n)"
proof -
  obtain b s1 where b: "output_buffer K req s = Some (b, s1)" "quiet p s s1"
    using output_buffer_quiet [OF assms(1)] by blast
  then have "mdls_mapped K req s1" and mdls: "mdls s1 = mdls s"
    using quiet_mapped assms(1) by (blast, simp add: quiet_def)
  have codes: "IOCTL_SIOCTL_METHOD_NEITHER \<noteq> IOCTL_SIOCTL_METHOD_BUFFERED"
    "IOCTL_SIOCTL_METHOD_NEITHER \<noteq> IOCTL_SIOCTL_METHOD_OUT_DIRECT"
    "IOCTL_SIOCTL_METHOD_NEITHER \<noteq> IOCTL_SIOCTL_METHOD_IN_DIRECT"
    by (simp_all add: sioctl_codes)
  let ?q = "r_ptr (K (klog s1) (Io (IoAllocateMdl b (ucast (dc_out_buf_len req)) 0 0 null)))"
  have "\<exists>r t. out_part K req s = Some (r, t) \<and> quiet p s1 t \<and>
      (\<forall>n. r = Ok n \<longrightarrow> (\<exists>m. mdls s1 ?q = Some m \<and> n = min (ucast (ByteCount m)) 48))"
    using mdls_mappedD [OF \<open>mdls_mapped K req s1\<close>, of "klog s1" b "ucast (dc_out_buf_len req)" 0 0 null] assms(2,3)
    by (cases "?q = null")
       (auto simp: out_part_def b mdl_ops_defs quiet_def mdl_counts_append copy_from_def Let_def probing_returns_def
         sys_eq if_less_min)
  then obtain r t where t: "out_part K req s = Some (r, t)" "quiet p s1 t"
    "\<forall>n. r = Ok n \<longrightarrow> (\<exists>m. mdls s1 ?q = Some m \<and> n = min (ucast (ByteCount m)) 48)"
    by blast
  have "reported K req s n" if "r = Ok n" for n
    using t(3) that codes assms(3) mdls by (auto simp: reported_def)
  with t(1) show ?thesis
    using quiet_trans [OF b(2) t(2)] by blast
qed

lemma quiet_reported: "quiet p s t \<Longrightarrow> reported K req t n = reported K req s n"
  by (simp add: quiet_def reported_def mdl_byte_count_def byte_count_def split: WduIocltBuffers.splits)

lemma method_neither_quiet:
  assumes "mdls_mapped K req s" "probing_returns K req" "dc_ioctl req = IOCTL_SIOCTL_METHOD_NEITHER"
  shows "\<exists>r t. method_neither K req s = Some (r, t) \<and> quiet p s t \<and> (\<forall>n. r = Ok n \<longrightarrow> reported K req s n)"
proof -
  obtain r s1 where 1: "in_part K req s = Some (r, s1)" "quiet p s s1"
    using in_part_quiet [OF assms] by blast
  obtain r' s2 where 2: "out_part K req s1 = Some (r', s2)" "quiet p s1 s2" "\<forall>n. r' = Ok n \<longrightarrow> reported K req s n"
    using out_part_quiet [OF _ assms(2,3), of s1 p] quiet_mapped [OF 1(2)] quiet_reported [OF 1(2)] assms(1) by blast
  show ?thesis
    using 1 2 quiet_trans [OF 1(2) 2(2)] by (cases r) (auto simp: method_neither_def)
qed

lemma sioctl_match_quiet:
  assumes "mdls_mapped K req s" "probing_returns K req" "input_buffer req \<noteq> null"
  shows "\<exists>st io t. sioctl_match K req out success_no_info s = Some (st, io, t) \<and> quiet p s t \<and>
     (if st = STATUS_SUCCESS then reported K req s (ios_info io) else ios_info io = 0)"
proof -
  have "mdl_byte_count req (copy_from out sioctl_data s) = mdl_byte_count req s" "\<exists>n. mdl_byte_count req s = Some n"
    using assms(1)
    by (auto simp: mdl_byte_count_def byte_count_def mdls_mapped_def copy_from_def split: WduIocltBuffers.splits)
  then obtain n where n: "mdl_byte_count req (copy_from out sioctl_data s) = Some n" "mdl_byte_count req s = Some n"
    by auto
  show ?thesis
  proof (cases "dc_ioctl req = IOCTL_SIOCTL_METHOD_NEITHER")
    case True
    then obtain r t where mn: "method_neither K req s = Some (r, t)" "quiet p s t"
      "\<forall>n. r = Ok n \<longrightarrow> reported K req s n"
      using method_neither_quiet [OF assms(1,2)] by blast
    then show ?thesis
      using True
      by (cases r) (simp_all add: sioctl_match_def Let_def set_info_def success_no_info_def sioctl_codes)
  next
    case False
    then show ?thesis
      using assms(3) n
      by (auto simp: sioctl_match_def Let_def set_info_def success_no_info_def reported_def if_less_min nt_consts)
  qed
qed

lemma quiet_complete:
  assumes "quiet (wi_irp w) s t" "irps s (wi_irp w) = Some irp" "wi_irp w \<noteq> null"
  shows "\<exists>u. irp_complete K w io t = Some u \<and>
     completions (wi_irp w) (klog u) = completions (wi_irp w) (klog s) @ [(ios_status io, ios_info io)] \<and>
     (\<forall>q. mdl_counts q (klog u) = mdl_counts q (klog s))"
proof -
  have "irps t (wi_irp w) = Some irp"
    using assms by (simp add: quiet_def)
  from irp_complete_eq [OF this assms(3)] assms(1) show ?thesis
    by (simp add: quiet_def Let_def mdl_counts_append)
qed

lemma device_control_answers:
  assumes "irps s (wi_irp w) = Some irp" "wi_irp w \<noteq> null" "mdls_mapped K req s" "probing_returns K req"
    and "input_buffer req \<noteq> null"
  shows "\<exists>st n t. sioctl_device_control K dev w req s = Some (st, w, t) \<and>
     completions (wi_irp w) (klog t) = completions (wi_irp w) (klog s) @ [(st, n)] \<and>
     (if st = STATUS_SUCCESS then reported K req s n else n = 0) \<and>
     (\<forall>p. mdl_counts p (klog t) = mdl_counts p (klog s))"
proof (cases "dc_in_buf_len req = 0 \<or> dc_out_buf_len req = 0")
  case True
  with quiet_complete [OF quiet_refl assms(1,2), of K "set_status STATUS_INVALID_PARAMETER success_no_info"]
  show ?thesis
    by (intro exI [of _ STATUS_INVALID_PARAMETER] exI [of _ 0])
       (auto simp: sioctl_device_control_def Let_def set_status_def success_no_info_def nt_consts)
next
  case False
  obtain b s1 where 1: "output_buffer K req s = Some (b, s1)" "quiet (wi_irp w) s s1"
    using output_buffer_quiet [OF assms(3)] by blast
  show ?thesis
  proof (cases "b = null")
    case True
    with False 1 quiet_complete [OF 1(2) assms(1,2), of K "set_status STATUS_INSUFFICIENT_RESOURCES success_no_info"]
    show ?thesis
      by (intro exI [of _ STATUS_INSUFFICIENT_RESOURCES] exI [of _ 0])
         (auto simp: sioctl_device_control_def Let_def set_status_def success_no_info_def nt_consts)
  next
    case nonnull: False
    have "mdls_mapped K req s1"
      using quiet_mapped [OF 1(2)] assms(3) by blast
    from sioctl_match_quiet [OF this assms(4,5), unfolded quiet_reported [OF 1(2)]] obtain st io s2 where
      2: "sioctl_match K req b success_no_info s1 = Some (st, io, s2)" "quiet (wi_irp w) s1 s2"
      "if st = STATUS_SUCCESS then reported K req s (ios_info io) else ios_info io = 0"
      by blast
    from False nonnull 1 2 quiet_complete [OF quiet_trans [OF 1(2) 2(2)] assms(1,2), of K "set_status st io"]
    show ?thesis
      by (intro exI [of _ st] exI [of _ "ios_info io"])
         (auto simp: sioctl_device_control_def Let_def set_status_def)
  qed
qed

section \<open>Properties\<close>

text \<open>
  C19. Every device control request the driver gets is answered once. For a live IRP with an input
  buffer whose MDLs are in memory, whatever the control code, the lengths and the kernel's answers
  (as long as probing the buffers of a \<^verbatim>\<open>METHOD_NEITHER\<close> request raises no exception), the handler
  returns, and it has completed the IRP exactly once, with the status it returns and no information
  unless that is success; every MDL it allocated or locked on the way has been unlocked and freed.
  The number of bytes reported with success is the one \<open>reported\<close> gives for the method.
\<close>

theorem sioctl_answers_once:
  assumes "irps s (wi_irp w) = Some irp" "wi_irp w \<noteq> null" "mdls_mapped K req s" "probing_returns K req"
    and "input_buffer req \<noteq> null"
  shows "\<exists>st n t. sioctl_device_control K dev w req s = Some (st, w, t) \<and>
     completions (wi_irp w) (klog t) = completions (wi_irp w) (klog s) @ [(st, n)] \<and>
     (if st = STATUS_SUCCESS then reported K req s n else n = 0) \<and>
     (\<forall>p. mdl_counts p (klog t) = mdl_counts p (klog s))"
  by (rule device_control_answers [OF assms])

definition sio0 :: siostate where
  "sio0 = \<lparr>klog = [], debug_assertions = True, umem = \<lambda>a. 0, try_non_paged = False,
     irps = [0x50 \<mapsto> irp0], mdls = [0x900 \<mapsto> \<lparr>MdlFlags = 0, MappedSystemVa = 0, StartVa = 0x8000, ByteOffset = 0, ByteCount = 64\<rparr>],
     file_objs = Map.empty, devices = Map.empty,
     drivers = [0x20 \<mapsto> drvobj0], wdu_devices = Map.empty, wdu_drivers = Map.empty,
     irp_boxes = Map.empty, client = Map.empty, bytes = \<lambda>a. 0\<rparr>"

definition mdl_kernel :: kernel where
  "mdl_kernel h c = reply0\<lparr>r_ptr := 0x900\<rparr>"

theorem sioctl_answers_once_witness:
  "\<exists>st n t. sioctl_device_control mdl_kernel device_default wirp0
       \<lparr>dc_ioctl = IOCTL_SIOCTL_METHOD_NEITHER, dc_out_buf_len = 64, dc_in_buf_len = 64, dc_buffer = Neither 0x6000 0x7000\<rparr>
       sio0 = Some (st, wirp0, t) \<and>
     completions 0x50 (klog t) = [(st, n)] \<and> (st = STATUS_SUCCESS \<longrightarrow> n = 48) \<and> mdl_counts 0x900 (klog t) = (0, 0)"
proof -
  let ?req = "\<lparr>dc_ioctl = IOCTL_SIOCTL_METHOD_NEITHER, dc_out_buf_len = 64, dc_in_buf_len = 64, dc_buffer = Neither 0x6000 0x7000\<rparr>"
  have "irps sio0 (wi_irp wirp0) = Some irp0" "wi_irp wirp0 \<noteq> null" "mdls_mapped mdl_kernel ?req sio0"
    "probing_returns mdl_kernel ?req" "input_buffer ?req \<noteq> null"
    by (simp_all add: sio0_def wirp0_def mdls_mapped_def mdl_kernel_def input_buffer_def probing_returns_def)
  moreover have "n = 48" if "reported mdl_kernel ?req sio0 n" for n
    using that by (simp add: reported_def sioctl_codes mdl_kernel_def sio0_def)
  ultimately show ?thesis
    using sioctl_answers_once [of sio0 wirp0 irp0 mdl_kernel ?req device_default]
    by (auto simp: sio0_def wirp0_def)
qed

text \<open>
  Where probing does raise: a \<^verbatim>\<open>METHOD_NEITHER\<close> request, with both buffers there and an MDL for the
  input, whose buffer the caller may not read, ends in the exception; the IRP is not completed.
\<close>

lemma sioctl_probe_raises:
  assumes "dc_ioctl req = IOCTL_SIOCTL_METHOD_NEITHER" "dc_buffer req = Neither i out" "out \<noteq> null"
    and "dc_in_buf_len req \<noteq> 0" "dc_out_buf_len req \<noteq> 0"
    and "r_ptr (K (klog s) (Io (IoAllocateMdl i (ucast (dc_in_buf_len req)) 0 0 null))) \<noteq> null"
    and "\<forall>h m. r_status (K h (Io (MmProbeAndLockPages m 1 0))) \<noteq> STATUS_SUCCESS"
  shows "sioctl_device_control K dev w req s = None"
  using assms
  by (simp add: sioctl_device_control_def output_buffer_def input_buffer_def sioctl_match_def method_neither_def
      in_part_def mdl_allocate_def probe_and_lock_def sys_eq Let_def sioctl_codes)

text \<open>
  C36. The string is copied before, and without, any look at the output buffer's length. A buffered
  request with a non-empty input and an output buffer of \<open>n\<close> bytes, \<open>0 < n < 31\<close>, is reported as
  successful with \<open>n\<close> bytes written; but all 31 bytes of the string are stored from the buffer's
  start, so the \<open>31 - n\<close> bytes behind the buffer the caller asked for are overwritten. No other
  byte of memory changes.
\<close>

theorem sioctl_writes_past_buffer:
  assumes "irps s (wi_irp w) = Some irp" "wi_irp w \<noteq> null" "dc_ioctl req = IOCTL_SIOCTL_METHOD_BUFFERED"
    and "dc_buffer req = Buffered b" "b \<noteq> null" "dc_in_buf_len req \<noteq> 0"
    and "0 < dc_out_buf_len req" "dc_out_buf_len req < 31"
  shows "\<exists>t. sioctl_device_control K dev w req s = Some (STATUS_SUCCESS, w, t) \<and>
     completions (wi_irp w) (klog t) = completions (wi_irp w) (klog s) @ [(STATUS_SUCCESS, dc_out_buf_len req)] \<and>
     (\<forall>i<31. bytes t (b + of_nat i) = sioctl_data ! i) \<and>
     (\<forall>a. unat (a - b) \<ge> 31 \<longrightarrow> bytes t a = bytes s a)"
proof -
  have small: "unat (of_nat i :: ptr) = i" if "i < 31" for i
    using that by (simp add: unat_of_nat)
  have req: "output_buffer K req s = Some (b, s)" "input_buffer req = b"
    using assms(4) by (simp_all add: output_buffer_def input_buffer_def)
  have "irps (copy_from b sioctl_data s) (wi_irp w) = Some irp"
    using assms(1) by (simp add: copy_from_def)
  from irp_complete_eq [OF this assms(2)] assms(3-8) req show ?thesis
    by (auto simp: sioctl_device_control_def sioctl_match_def Let_def set_info_def set_status_def
        success_no_info_def copy_from_def small)
qed

theorem sioctl_writes_past_buffer_witness:
  "\<exists>t. sioctl_device_control mdl_kernel device_default wirp0
       \<lparr>dc_ioctl = IOCTL_SIOCTL_METHOD_BUFFERED, dc_out_buf_len = 4, dc_in_buf_len = 1, dc_buffer = Buffered 0x6000\<rparr> sio0
       = Some (STATUS_SUCCESS, wirp0, t) \<and>
     completions 0x50 (klog t) = [(STATUS_SUCCESS, 4)] \<and> bytes sio0 0x601E = 0 \<and> bytes t 0x601E = 0x21"
proof -
  let ?req = "\<lparr>dc_ioctl = IOCTL_SIOCTL_METHOD_BUFFERED, dc_out_buf_len = 4, dc_in_buf_len = 1, dc_buffer = Buffered 0x6000\<rparr>"
  have f: "irps sio0 (wi_irp wirp0) = Some irp0" "wi_irp wirp0 \<noteq> null" "wi_irp wirp0 = 0x50" "klog sio0 = []" "bytes sio0 0x601E = 0"
    by (simp_all add: sio0_def wirp0_def)
  obtain t where t: "sioctl_device_control mdl_kernel device_default wirp0 ?req sio0 = Some (STATUS_SUCCESS, wirp0, t)"
    "completions (wi_irp wirp0) (klog t) = completions (wi_irp wirp0) (klog sio0) @ [(STATUS_SUCCESS, dc_out_buf_len ?req)]"
    "\<forall>i<31. bytes t (0x6000 + of_nat i) = sioctl_data ! i"
    using sioctl_writes_past_buffer [OF f(1,2), of ?req "0x6000" mdl_kernel device_default] by auto
  from t(3) have "bytes t (0x6000 + of_nat 30) = sioctl_data ! 30"
    by (rule allE [of _ 30]) simp
  then have "bytes t 0x601E = 0x21"
    by (simp add: sioctl_data_def str_bytes_def)
  with t(1,2) f show ?thesis
    by auto
qed

text \<open>
  When the symbolic link cannot be created, \<^verbatim>\<open>init\<close> deletes the device, and still reports
  success, and so does \<^verbatim>\<open>DriverEntry\<close>: the driver stays loaded with no device of its own.
\<close>

lemma sioctl_loads_without_device:
  assumes "sioctl_driver E drvobj s = Some (d, s1)" "driver_build K (sx_driver_id E) (sx_sizeof E) d s1 = (Ok drv, s2)"
    and "device_build K 0 () (device_characteristics DcSecureOpen (device_device_type DtUnknown device_default))
           drv (Some (str_from_slice (sx_device_name E))) s2 = Some (Ok dev, s3)"
    and "device_symbolic_name K (str_from_slice (sx_device_name E)) (str_from_slice (sx_win32_name E)) s3 = (Err e, s4)"
    and "wd_device dev \<noteq> null" "simple_init K (sx_pool2_name E) g s0 = (g', s)"
  shows "\<exists>t r. sioctl_DriverEntry K E g drvobj s0 = Some (STATUS_SUCCESS, g', t) \<and>
     devices t (wd_device dev) = None \<and> klog t = klog s4 @ [(Io (IoDeleteDevice (wd_device dev)), r)]"
  using assms by (simp add: sioctl_DriverEntry_def sioctl_init_def device_delete_def)

definition nolink_kernel :: kernel where
  "nolink_kernel h c = (case c of
       Io (IoCreateSymbolicLink a b) \<Rightarrow> reply0\<lparr>r_status := STATUS_UNSUCCESSFUL\<rparr>
     | _ \<Rightarrow> reply0\<lparr>r_out := 0x300, r_device := \<lparr>do_DriverObject = 0x20, do_DeviceExtension = 0x340, do_Flags = 0\<rparr>\<rparr>)"

definition sx0 :: sioctl_env where
  "sx0 = \<lparr>sx_create = 0xC0, sx_close = 0xC1, sx_device_control = 0xC2, sx_driver_unload = 0xC3, sx_entry = ep0,
     sx_driver_id = 0xF, sx_sizeof = 64, sx_device_name = slice_empty, sx_win32_name = slice_empty, sx_pool2_name = 0x80\<rparr>"

lemma sioctl_loads_without_device_witness:
  "\<exists>t g'. sioctl_DriverEntry nolink_kernel sx0 simple_const_new 0x20 sio0 = Some (STATUS_SUCCESS, g', t) \<and>
     devices t 0x300 = None"
proof -
  obtain g' s where i: "simple_init nolink_kernel (sx_pool2_name sx0) simple_const_new sio0 = (g', s)"
    by force
  have s: "drivers s = [0x20 \<mapsto> drvobj0]" "devices s = Map.empty"
    using i by (auto simp: simple_init_def get_system_routine_addr_def Let_def sio0_def split: prod.splits if_splits)
  obtain d s1 where d: "sioctl_driver sx0 0x20 s = Some (d, s1)" and d0: "\<not> wr_init d" "wr_driver d = 0x20"
    using s
    by (auto simp: sioctl_driver_def Let_def driver_unload_builder_def driver_file_object_def driver_io_def
        install_def drvobj0_def driver_new_def nt_consts)
  obtain drv s2 where b: "driver_build nolink_kernel (sx_driver_id sx0) (sx_sizeof sx0) d s1 = (Ok drv, s2)"
    using d0 by (simp add: driver_build_def driver_alloc_ext_def sys_eq nolink_kernel_def Let_def)
  obtain dev s3 where v: "device_build nolink_kernel 0 ()
      (device_characteristics DcSecureOpen (device_device_type DtUnknown device_default))
      drv (Some (str_from_slice (sx_device_name sx0))) s2 = Some (Ok dev, s3)" and dev: "wd_device dev = 0x300"
    by (simp add: device_build_def nolink_kernel_def Let_def device_extension_def)
  obtain e s4 where l: "device_symbolic_name nolink_kernel (str_from_slice (sx_device_name sx0))
      (str_from_slice (sx_win32_name sx0)) s3 = (Err e, s4)"
    by (simp add: device_symbolic_name_def nolink_kernel_def Let_def nt_consts)
  show ?thesis
    using sioctl_loads_without_device [OF d b v l _ i] dev by auto
qed

end
