(* ===== verification/Ex_SioctlRun.thy ===== *)
theory Ex_SioctlRun
  imports Ex_Sioctl
begin

text \<open>
  The sioctl example from its load to its unload: which requests it answers, which it loses, and
  that unloading runs to its end.
\<close>

section \<open>Steps that touch neither the requests nor the installation\<close>

definition sio_calm :: "'a siostate_scheme \<Rightarrow> 'a siostate_scheme \<Rightarrow> bool" where
  "sio_calm s t \<longleftrightarrow> irps t = irps s \<and> drivers t = drivers s \<and> devices t = devices s \<and> wdu_devices t = wdu_devices s \<and>
     wdu_drivers t = wdu_drivers s \<and> (\<forall>p. completions p (klog t) = completions p (klog s)) \<and>
     (\<forall>d i. driver_ext d i (klog t) = driver_ext d i (klog s))"

lemma sio_calm_refl [simp]: "sio_calm s s"
  by (simp add: sio_calm_def)

lemma sio_calm_trans [trans]: "sio_calm s t \<Longrightarrow> sio_calm t u \<Longrightarrow> sio_calm s u"
  by (simp add: sio_calm_def)

lemma mdl_calm:
  fixes s :: "'a siostate_scheme"
  shows "mdl_allocate K va n b i s = (r, t) \<Longrightarrow> sio_calm s t" "probe_and_lock K m a l s = Some (m', t) \<Longrightarrow> sio_calm s t"
    "get_system_addr K m p s = Some (x, t) \<Longrightarrow> sio_calm s t" "sio_calm s (mdl_drop K m s)"
  by (auto simp: mdl_allocate_def probe_and_lock_def get_system_addr_def mdl_drop_def mdl_unlock_def mdl_free_def
      sio_calm_def sys_eq Let_def bind_eq_Some_conv split: if_splits)

lemma output_buffer_calm:
  fixes s :: "'a siostate_scheme"
  shows "output_buffer K req s = Some (b, t) \<Longrightarrow> sio_calm s t"
  by (auto simp: output_buffer_def mdl_calm split: WduIocltBuffers.splits)

lemma copy_from_calm [simp]: "sio_calm s (copy_from b d s)"
  by (simp add: sio_calm_def copy_from_def)

text \<open>An MDL is allocated, locked, mapped, perhaps written through, and dropped.\<close>

lemma mdl_use_calm:
  fixes s :: "'a siostate_scheme"
  assumes "mdl_allocate K va n b i s = (Ok m, s1)" "probe_and_lock K m a l s1 = Some (m', s2)"
    and "get_system_addr K m' p s2 = Some (x, s3)" "t = mdl_drop K m' s3 \<or> t = mdl_drop K m' (copy_from x d s3)"
  shows "sio_calm s t"
  using sio_calm_trans [OF mdl_calm(1) [OF assms(1)] sio_calm_trans [OF mdl_calm(2) [OF assms(2)] mdl_calm(3) [OF assms(3)]]]
    mdl_calm(4) copy_from_calm assms(4) sio_calm_trans by metis

lemma in_part_calm:
  assumes "in_part K req s = Some (r, t)"
  shows "sio_calm s t"
proof -
  obtain x s1 where x: "mdl_allocate K (input_buffer req) (ucast (dc_in_buf_len req)) False None s = (x, s1)" by fastforce
  show ?thesis
  proof (cases x)
    case (Inl e)
    then show ?thesis using assms x mdl_calm(1) [OF x] by (simp add: in_part_def)
  next
    case (Inr m)
    obtain m' s2 where m: "probe_and_lock K m UserMode IoReadAccess s1 = Some (m', s2)"
      using assms x Inr by (auto simp: in_part_def bind_eq_Some_conv)
    obtain y s3 where y: "get_system_addr K m' sioctl_priority s2 = Some (y, s3)"
      using assms x Inr m by (auto simp: in_part_def bind_eq_Some_conv)
    have "t = mdl_drop K m' s3"
      using assms x Inr m y by (auto simp: in_part_def bind_eq_Some_conv split: if_splits)
    then show ?thesis using mdl_use_calm [OF _ m y] x Inr by blast
  qed
qed

lemma out_part_calm:
  assumes "out_part K req s = Some (r, t)"
  shows "sio_calm s t"
proof -
  obtain b s0 where b: "output_buffer K req s = Some (b, s0)"
    using assms by (auto simp: out_part_def bind_eq_Some_conv)
  obtain x s1 where x: "mdl_allocate K b (ucast (dc_out_buf_len req)) False None s0 = (x, s1)" by fastforce
  have "sio_calm s0 t"
  proof (cases x)
    case (Inl e)
    then show ?thesis using assms b x mdl_calm(1) [OF x] by (simp add: out_part_def)
  next
    case (Inr m)
    obtain m' s2 where m: "probe_and_lock K m UserMode IoWriteAccess s1 = Some (m', s2)"
      using assms b x Inr by (auto simp: out_part_def bind_eq_Some_conv)
    obtain y s3 where y: "get_system_addr K m' sioctl_priority s2 = Some (y, s3)"
      using assms b x Inr m by (auto simp: out_part_def bind_eq_Some_conv)
    have "t = mdl_drop K m' s3 \<or> t = mdl_drop K m' (copy_from y sioctl_neither_data s3)"
      using assms b x Inr m y by (auto simp: out_part_def Let_def bind_eq_Some_conv split: if_splits)
    then show ?thesis using mdl_use_calm [OF _ m y] x Inr by blast
  qed
  with output_buffer_calm [OF b] show ?thesis by (rule sio_calm_trans)
qed

lemma method_neither_calm:
  assumes "method_neither K req s = Some (r, t)"
  shows "sio_calm s t"
proof -
  obtain x s1 where x: "in_part K req s = Some (x, s1)"
    using assms by (auto simp: method_neither_def bind_eq_Some_conv)
  have "sio_calm s1 t"
    using assms x by (cases x) (auto simp: method_neither_def intro: out_part_calm)
  with in_part_calm [OF x] show ?thesis by (rule sio_calm_trans)
qed

lemma sioctl_match_calm:
  assumes "sioctl_match K req b io s = Some (st, io', t)"
  shows "sio_calm s t"
proof (cases "dc_ioctl req = IOCTL_SIOCTL_METHOD_NEITHER")
  case True
  then obtain r u where "method_neither K req s = Some (r, u)"
    using assms by (auto simp: sioctl_match_def sioctl_codes Let_def bind_eq_Some_conv)
  moreover from this have "t = u"
    using assms True by (cases r) (auto simp: sioctl_match_def sioctl_codes Let_def)
  ultimately show ?thesis by (auto intro: method_neither_calm)
next
  case False
  then show ?thesis
    using assms by (auto simp: sioctl_match_def Let_def bind_eq_Some_conv split: if_splits)
qed

section \<open>What becomes of a request\<close>

text \<open>The request at \<open>p\<close> has been completed, once, and everything else is as it was.\<close>

definition sio_done :: "ptr \<Rightarrow> 'a siostate_scheme \<Rightarrow> 'a siostate_scheme \<Rightarrow> bool" where
  "sio_done p s t \<longleftrightarrow> irps t = (irps s)(p := None) \<and> drivers t = drivers s \<and> devices t = devices s \<and>
     wdu_devices t = wdu_devices s \<and> wdu_drivers t = wdu_drivers s \<and>
     (\<forall>q. length (completions q (klog t)) = length (completions q (klog s)) + (if q = p then 1 else 0)) \<and>
     (\<forall>d i. driver_ext d i (klog t) = driver_ext d i (klog s))"

lemma calm_done: "sio_calm s t \<Longrightarrow> sio_done p t u \<Longrightarrow> sio_done p s u"
  by (simp add: sio_calm_def sio_done_def)

lemma complete_done:
  fixes s :: "'a siostate_scheme"
  assumes "irp_complete K w io s = Some t" "wi_irp w \<noteq> null"
  shows "sio_done (wi_irp w) s t"
proof -
  obtain irp where "irps s (wi_irp w) = Some irp"
    using assms by (auto simp: irp_complete_def bind_eq_Some_conv)
  from irp_complete_eq [OF this assms(2)] show ?thesis
    using assms(1) by (auto simp: sio_done_def Let_def)
qed

lemma sioctl_create_done:
  "sioctl_create K dev w c s = Some (w', t) \<Longrightarrow> wi_irp w \<noteq> null \<Longrightarrow> sio_done (wi_irp w) s t"
  by (auto simp: sioctl_create_def bind_eq_Some_conv intro: complete_done)

lemma sioctl_close_done:
  "sioctl_close K dev w fo s = Some (w', t) \<Longrightarrow> wi_irp w \<noteq> null \<Longrightarrow> sio_done (wi_irp w) s t"
  by (auto simp: sioctl_close_def bind_eq_Some_conv intro: complete_done)

lemma sioctl_device_control_done:
  assumes "sioctl_device_control K dev w req s = Some (st, w', t)" "wi_irp w \<noteq> null"
  shows "sio_done (wi_irp w) s t"
proof (cases "dc_in_buf_len req = 0 \<or> dc_out_buf_len req = 0")
  case True
  then show ?thesis
    using assms by (auto simp: sioctl_device_control_def Let_def bind_eq_Some_conv intro: complete_done)
next
  case False
  obtain b s1 where b: "output_buffer K req s = Some (b, s1)"
    using assms(1) False by (auto simp: sioctl_device_control_def Let_def bind_eq_Some_conv)
  obtain io s2 where "sio_calm s1 s2" "irp_complete K w io s2 = Some t"
  proof (cases "b = null")
    case True
    then show thesis
      using assms(1) False b that [of s1]
      by (auto simp: sioctl_device_control_def Let_def bind_eq_Some_conv)
  next
    case nn: False
    then obtain st' io s2 where "sioctl_match K req b success_no_info s1 = Some (st', io, s2)"
      "irp_complete K w (set_status st' io) s2 = Some t"
      using assms(1) False b by (auto simp: sioctl_device_control_def Let_def bind_eq_Some_conv)
    then show thesis using that sioctl_match_calm by blast
  qed
  then show ?thesis
    using calm_done [OF sio_calm_trans [OF output_buffer_calm [OF b]]] complete_done [OF _ assms(2)] by blast
qed

section \<open>Dispatch\<close>

definition sioctl_handlers :: "kernel \<Rightarrow> sioctl_env \<Rightarrow> (unit, 'a siostate_ext) handlers" where
  "sioctl_handlers K E =
     \<lparr>h_create = (\<lambda>f d i c s. if f = sx_create E then sioctl_create K d i c s else None),
      h_close = (\<lambda>f d i fo s. if f = sx_close E then sioctl_close K d i fo s else None),
      h_rw = (\<lambda>f d i n s. None),
      h_ioctl = (\<lambda>f d i r s. if f = sx_device_control E then sioctl_device_control K d i r s else None),
      h_unload = (\<lambda>f d s. if f = sx_driver_unload E then sioctl_driver_unload K E d s else None),
      h_add_device = (\<lambda>f d s. None)\<rparr>"

text \<open>The driver wrapper that \<^verbatim>\<open>init\<close> builds; it gives no handler for cleanup, read and write.\<close>

definition sioctl_wrapper :: "sioctl_env \<Rightarrow> ptr \<Rightarrow> WduDriver" where
  "sioctl_wrapper E drv = \<lparr>wr_init = True, wr_driver = drv, wr_add_device = None, wr_unload = Some (sx_driver_unload E),
     wr_io = \<lparr>id_read = None, id_write = None, id_ioctl = Some (sx_device_control E)\<rparr>,
     wr_fileobj = \<lparr>fd_create = Some (sx_create E), fd_close = Some (sx_close E), fd_cleanup = None\<rparr>\<rparr>"

fun served :: "MajorFunction \<Rightarrow> bool" where
  "served MjCreate \<longleftrightarrow> True"
| "served MjClose \<longleftrightarrow> True"
| "served MjDeviceControl \<longleftrightarrow> True"
| "served _ \<longleftrightarrow> False"

definition sio_installed :: "sioctl_env \<Rightarrow> ptr \<Rightarrow> WduDevice \<Rightarrow> 'a siostate_scheme \<Rightarrow> bool" where
  "sio_installed E drv dev s \<longleftrightarrow>
     get_wdu_device (wd_device dev) s = Some dev \<and> device_get_driver dev s = Some drv \<and> drv \<in> dom (drivers s) \<and>
     driver_ext drv (sx_driver_id E) (klog s) \<noteq> null \<and>
     wdu_drivers s (driver_ext drv (sx_driver_id E) (klog s)) = Some (sioctl_wrapper E drv)"

lemma calm_installed: "sio_calm s t \<Longrightarrow> sio_installed E drv dev s \<Longrightarrow> sio_installed E drv dev t"
  by (simp add: sio_calm_def sio_installed_def get_wdu_device_def device_get_driver_def)

lemma done_installed: "sio_done p s t \<Longrightarrow> sio_installed E drv dev s \<Longrightarrow> sio_installed E drv dev t"
  by (simp add: sio_done_def sio_installed_def get_wdu_device_def device_get_driver_def)

lemma get_driver_calm:
  fixes s :: "'a siostate_scheme"
  shows "sio_calm s (snd (get_wdu_driver K i d s))"
  by (simp add: get_wdu_driver_def sys_eq sio_calm_def)

lemma sio_dispatch:
  assumes "finds_driver_ext K" "sio_installed E drv dev s" "irp_wrap p s = Some w"
  shows "dispatch_handler K (sx_driver_id E) H (wd_device dev) p s =
    deliver H (wr_fileobj (sioctl_wrapper E drv)) (wr_io (sioctl_wrapper E drv)) dev w (snd (get_wdu_driver K (sx_driver_id E) drv s))"
  using assms(2) dispatch_handler_eq [OF assms(1,3)]
  by (auto simp: sio_installed_def Let_def dispatch_deliver)

lemma deliver_outcome:
  fixes s :: "'a siostate_scheme"
  assumes "deliver (sioctl_handlers K E) (wr_fileobj (sioctl_wrapper E drv)) (wr_io (sioctl_wrapper E drv)) dev w s = Some (st, t)"
    and "wi_irp w \<noteq> null"
  shows "if served (wi_mj w) then sio_done (wi_irp w) s t else st = STATUS_SUCCESS \<and> t = s"
  using assms
  by (cases "wi_mj w")
     (auto simp: deliver_def sioctl_wrapper_def sioctl_handlers_def Let_def bind_eq_Some_conv
       intro: sioctl_create_done sioctl_close_done sioctl_device_control_done split: if_splits)

lemma dispatch_outcome:
  assumes "finds_driver_ext K" "sio_installed E drv dev s" "irp_wrap p s = Some w" "p \<noteq> null"
    and "dispatch_handler K (sx_driver_id E) (sioctl_handlers K E) (wd_device dev) p s = Some (st, t)"
  shows "if served (wi_mj w) then sio_done p s t else st = STATUS_SUCCESS \<and> sio_calm s t"
proof -
  let ?s = "snd (get_wdu_driver K (sx_driver_id E) drv s)"
  have w: "wi_irp w = p" using assms(3) by (auto simp: irp_wrap_def bind_eq_Some_conv)
  have "deliver (sioctl_handlers K E) (wr_fileobj (sioctl_wrapper E drv)) (wr_io (sioctl_wrapper E drv)) dev w ?s = Some (st, t)"
    using assms(5) sio_dispatch [OF assms(1-3)] by simp
  from deliver_outcome [OF this] show ?thesis
    using assms(4) w calm_done [OF get_driver_calm] get_driver_calm by (auto split: if_splits)
qed

section \<open>Runs\<close>

text \<open>A request comes in at an address where none is, with any memory.\<close>

inductive sio_step :: "kernel \<Rightarrow> sioctl_env \<Rightarrow> WduDevice \<Rightarrow> 'a siostate_scheme \<Rightarrow> ptr \<times> MajorFunction \<Rightarrow> 'a siostate_scheme \<Rightarrow> bool"
  for K E dev where
  request: "\<lbrakk>irps s p = None; p \<noteq> null; s0 = s\<lparr>irps := (irps s)(p \<mapsto> irp), mdls := ms, bytes := m\<rparr>; irp_wrap p s0 = Some w;
      dispatch_handler K (sx_driver_id E) (sioctl_handlers K E) (wd_device dev) p s0 = Some (st, t)\<rbrakk>
    \<Longrightarrow> sio_step K E dev s (p, wi_mj w) t"

inductive sio_run :: "kernel \<Rightarrow> sioctl_env \<Rightarrow> WduDevice \<Rightarrow> 'a siostate_scheme \<Rightarrow> (ptr \<times> MajorFunction) list \<Rightarrow> 'a siostate_scheme \<Rightarrow> bool"
  for K E dev s where
  sio_run_Nil: "sio_run K E dev s [] s"
| sio_run_snoc: "sio_run K E dev s ls t \<Longrightarrow> sio_step K E dev t l u \<Longrightarrow> sio_run K E dev s (ls @ [l]) u"

text \<open>How many served requests came in at an address, and where the others are.\<close>

definition arrived :: "ptr \<Rightarrow> (ptr \<times> MajorFunction) list \<Rightarrow> nat" where
  "arrived p ls = length (filter (\<lambda>(q, m). q = p \<and> served m) ls)"

definition lost :: "(ptr \<times> MajorFunction) list \<Rightarrow> ptr set" where
  "lost ls = {p. \<exists>m. (p, m) \<in> set ls \<and> \<not> served m}"

lemma arrived_snoc [simp]: "arrived p (ls @ [(q, m)]) = arrived p ls + (if q = p \<and> served m then 1 else 0)"
  by (simp add: arrived_def)

lemma lost_snoc [simp]: "lost (ls @ [(q, m)]) = (if served m then lost ls else insert q (lost ls))"
  by (auto simp: lost_def)

lemma arrived_lost_Nil [simp]: "arrived p [] = 0" "lost [] = {}"
  by (simp_all add: arrived_def lost_def)

lemma arrive_installed [simp]:
  "sio_installed E drv dev (s\<lparr>irps := i, mdls := ms, bytes := m\<rparr>) \<longleftrightarrow> sio_installed E drv dev s"
  by (simp add: sio_installed_def get_wdu_device_def device_get_driver_def)

lemma sio_step_outcome:
  assumes "finds_driver_ext K" "sio_installed E drv dev s" "sio_step K E dev s (p, m) t"
  shows "sio_installed E drv dev t"
    "length (completions q (klog t)) = length (completions q (klog s)) + (if p = q \<and> served m then 1 else 0)"
    "dom (irps t) = (if served m then dom (irps s) else insert p (dom (irps s)))"
proof -
  from assms(3) obtain s0 irp ms b w st where p: "irps s p = None" "p \<noteq> null" and
    s0: "s0 = s\<lparr>irps := (irps s)(p \<mapsto> irp), mdls := ms, bytes := b\<rparr>" and w: "irp_wrap p s0 = Some w" and m: "m = wi_mj w" and
    d: "dispatch_handler K (sx_driver_id E) (sioctl_handlers K E) (wd_device dev) p s0 = Some (st, t)"
    by cases blast
  have inst: "sio_installed E drv dev s0" using assms(2) by (simp add: s0)
  note out = dispatch_outcome [OF assms(1) inst w p(2) d]
  show "sio_installed E drv dev t"
    using out inst by (auto split: if_splits intro: done_installed calm_installed)
  show "length (completions q (klog t)) = length (completions q (klog s)) + (if p = q \<and> served m then 1 else 0)"
    using out by (auto simp: m s0 sio_done_def sio_calm_def split: if_splits)
  show "dom (irps t) = (if served m then dom (irps s) else insert p (dom (irps s)))"
    using out p(1) by (auto simp: m s0 sio_done_def sio_calm_def split: if_splits)
qed

lemma sio_run_outcome:
  assumes "finds_driver_ext K" "sio_run K E dev s ls u" "sio_installed E drv dev s"
  shows "sio_installed E drv dev u \<and>
    (\<forall>p. length (completions p (klog u)) = length (completions p (klog s)) + arrived p ls) \<and>
    dom (irps u) = dom (irps s) \<union> lost ls"
  using assms(2)
proof (induction rule: sio_run.induct)
  case sio_run_Nil
  then show ?case using assms(3) by simp
next
  case (sio_run_snoc ls t l u)
  obtain p m where l: "l = (p, m)" by fastforce
  show ?case
    using sio_run_snoc.IH sio_step_outcome [OF assms(1) _ sio_run_snoc.hyps(2) [unfolded l], of drv] by (auto simp: l)
qed

section \<open>Requests return\<close>

text \<open>
  A device control request has an input buffer, the MDL structures it leads to are in memory, and
  probing its buffers, for the method that does it, raises no exception.
\<close>

definition sio_ready :: "kernel \<Rightarrow> WduIrp \<Rightarrow> 'a siostate_scheme \<Rightarrow> bool" where
  "sio_ready K w s \<longleftrightarrow> (wi_mj w = MjDeviceControl \<longrightarrow>
     (\<exists>req. device_control_new w s = Some req \<and> mdls_mapped K req s \<and> probing_returns K req \<and> input_buffer req \<noteq> null))"

lemma irp_wrapD:
  assumes "irp_wrap p s = Some w"
  shows "wi_irp w = p" "\<exists>sl. current_stack p s = Some sl" "\<exists>irp. irps s p = Some irp"
  using assms by (auto simp: irp_wrap_def current_stack_def bind_eq_Some_conv)

lemma get_driver_views:
  fixes s :: "'a siostate_scheme"
  defines "t \<equiv> \<lambda>K i d. snd (get_wdu_driver K i d s)"
  shows "irp_wrap p (t K i d) = irp_wrap p s" "device_control_new w (t K i d) = device_control_new w s"
    "mdls_mapped K req (t K i d) = mdls_mapped K req s"
  by (simp_all add: t_def get_wdu_driver_def sys_eq irp_wrap_def current_stack_def device_control_new_def system_buffer_def
      user_buffer_def mdl_address_def mdls_mapped_def Let_def
      cong: if_cong WduIocltBuffers.case_cong)

lemma deliver_returns:
  assumes "irp_wrap p s = Some w" "p \<noteq> null" "sio_ready K w s"
  shows "\<exists>st t. deliver (sioctl_handlers K E) (wr_fileobj (sioctl_wrapper E drv)) (wr_io (sioctl_wrapper E drv)) dev w s = Some (st, t)"
proof -
  note w = irp_wrapD [OF assms(1)]
  obtain irp where irp: "irps s (wi_irp w) = Some irp" using w by blast
  have nn: "wi_irp w \<noteq> null" using w(1) assms(2) by simp
  show ?thesis
  proof (cases "wi_mj w = MjDeviceControl")
    case True
    then obtain req where req: "device_control_new w s = Some req" "mdls_mapped K req s" "probing_returns K req"
      "input_buffer req \<noteq> null"
      using assms(3) by (auto simp: sio_ready_def)
    then show ?thesis
      using device_control_answers [OF irp nn req(2,3,4), of dev] True
      by (auto simp: deliver_def sioctl_wrapper_def sioctl_handlers_def Let_def)
  next
    case False
    then show ?thesis
      using irp w irp_complete_eq [OF irp nn]
      by (cases "wi_mj w")
         (auto simp: deliver_def sioctl_wrapper_def sioctl_handlers_def sioctl_create_def sioctl_close_def create_new_def
           original_file_object_def irp_file_object_def Let_def)
  qed
qed

lemma dispatch_returns:
  assumes "finds_driver_ext K" "sio_installed E drv dev s" "irp_wrap p s = Some w" "p \<noteq> null" "sio_ready K w s"
  shows "\<exists>st t. dispatch_handler K (sx_driver_id E) (sioctl_handlers K E) (wd_device dev) p s = Some (st, t)"
proof -
  let ?s = "snd (get_wdu_driver K (sx_driver_id E) drv s)"
  have "irp_wrap p ?s = Some w" "sio_ready K w ?s"
    using assms(3,5) by (simp_all add: sio_ready_def get_driver_views)
  from deliver_returns [OF this(1) assms(4) this(2)] sio_dispatch [OF assms(1-3)] show ?thesis by simp
qed

section \<open>Loading and unloading\<close>

lemma sioctl_driver_built:
  assumes "sioctl_driver E drv s = Some (d, t)"
  shows "d = (sioctl_wrapper E drv)\<lparr>wr_init := False\<rparr>" "irps t = irps s" "drv \<in> dom (drivers t)"
    "\<forall>p. completions p (klog t) = completions p (klog s)"
  using assms
  by (auto simp: sioctl_driver_def sioctl_wrapper_def driver_unload_builder_def driver_file_object_def driver_io_def install_def
      driver_new_def create_irp_def close_irp_def ioctl_irp_def fileobj_default_def io_default_def Let_def bind_eq_Some_conv)

definition makes_links :: "kernel \<Rightarrow> bool" where
  "makes_links K \<longleftrightarrow> (\<forall>h a b. r_status (K h (Io (IoCreateSymbolicLink a b))) = STATUS_SUCCESS)"

lemma link_calm:
  fixes s :: "'a siostate_scheme"
  assumes "makes_links K" "device_symbolic_name K a b s = (r, t)"
  shows "r = Ok ()" "sio_calm s t"
proof -
  have "r_status (K h (Io (IoCreateSymbolicLink x y))) = STATUS_SUCCESS" for h x y
    using assms(1) unfolding makes_links_def by blast
  then show "r = Ok ()" "sio_calm s t"
    using assms(2) by (auto simp: device_symbolic_name_def sio_calm_def sys_eq Let_def)
qed

lemma device_made:
  fixes s :: "'a siostate_scheme"
  assumes "makes_objects K" "device_build K n z d wdu name s = Some (Ok dev, t)"
  shows "get_wdu_device (wd_device dev) t = Some dev" "device_get_driver dev t = Some (wr_driver wdu)"
    "irps t = irps s" "drivers t = drivers s" "wdu_drivers t = wdu_drivers s"
    "driver_ext p i (klog t) = driver_ext p i (klog s)" "completions q (klog t) = completions q (klog s)"
  using assms(2)
  by (auto simp: makes_device [OF assms(1)] device_build_def sys_eq Let_def bind_eq_Some_conv device_extension_def
      get_wdu_device_def device_get_driver_def split: if_splits)

lemma driver_built:
  fixes s :: "'a siostate_scheme"
  assumes "driver_build K i n d s = (Ok d', t)"
  shows "irps t = irps s" "drivers t = drivers s" "\<forall>p. completions p (klog t) = completions p (klog s)"
  using assms by (auto simp: driver_build_def driver_alloc_ext_def sys_eq Let_def split: if_splits)

lemma sioctl_init_installs:
  assumes "makes_objects K" "makes_links K" "sioctl_init K E drv s = Some (Ok u, t)"
  shows "\<exists>dev. sio_installed E drv dev t" "irps t = irps s" "\<forall>p. completions p (klog t) = completions p (klog s)"
proof -
  let ?dev = "device_characteristics DcSecureOpen (device_device_type DtUnknown device_default)"
    and ?name = "str_from_slice (sx_device_name E)" and ?link = "str_from_slice (sx_win32_name E)"
  note init = assms(3) [unfolded sioctl_init_def Let_def]
  obtain d s1 where s1: "sioctl_driver E drv s = Some (d, s1)"
    using init by (auto simp: bind_eq_Some_conv)
  obtain rd s2 where s2: "driver_build K (sx_driver_id E) (sx_sizeof E) d s1 = (rd, s2)" by fastforce
  obtain wdu where rd: "rd = Ok wdu"
    using init s1 s2 by (cases rd) simp_all
  obtain rv s3 where s3: "device_build K 0 () ?dev wdu (Some ?name) s2 = Some (rv, s3)"
    using init s1 s2 rd by (cases "device_build K 0 () ?dev wdu (Some ?name) s2") auto
  obtain dev where rv: "rv = Ok dev"
    using init s1 s2 rd s3 by (cases rv) simp_all
  obtain r s4 where s4: "device_symbolic_name K ?name ?link s3 = (r, s4)" by fastforce
  note link = link_calm [OF assms(2) s4]
  have t: "t = s4"
    using init s1 s2 rd s3 rv s4 link(1) by simp
  note d = sioctl_driver_built [OF s1] and wdu = driver_build_ext [OF s2 [unfolded rd]]
    and ext = driver_build_ext_not_null [OF assms(1) s2 [unfolded rd]] and b = driver_built [OF s2 [unfolded rd]]
    and dev = device_made [OF assms(1) s3 [unfolded rv]]
  have "wdu = sioctl_wrapper E drv" "wr_driver d = drv" "wr_driver wdu = drv"
    using wdu(1) d(1) by (simp_all add: sioctl_wrapper_def)
  then have "sio_installed E drv dev s3"
    using wdu(2) ext dev d(3) b(2) by (simp add: sio_installed_def)
  then show "\<exists>dev. sio_installed E drv dev t"
    using calm_installed link(2) t by blast
  show "irps t = irps s" "\<forall>p. completions p (klog t) = completions p (klog s)"
    using link(2) dev(3,7) b(1,3) d(2,4) by (simp_all add: t sio_calm_def)
qed

lemma sioctl_load:
  assumes "makes_objects K" "makes_links K" "sioctl_DriverEntry K E g drv s = Some (STATUS_SUCCESS, g', t)"
  shows "\<exists>dev. sio_installed E drv dev t" "irps t = irps s" "\<forall>p. completions p (klog t) = completions p (klog s)"
proof -
  let ?s = "snd (simple_init K (sx_pool2_name E) g s)"
  have calm: "sio_calm s ?s"
    by (simp add: simple_init_def get_system_routine_addr_def sio_calm_def sys_eq Let_def case_prod_beta)
  obtain r u where r: "sioctl_init K E drv ?s = Some (r, u)"
    using assms(3) by (auto simp: sioctl_DriverEntry_def Let_def case_prod_beta bind_eq_Some_conv)
  with assms(3) have "sioctl_init K E drv ?s = Some (Ok (), t)"
    by (cases r) (simp_all add: sioctl_DriverEntry_def Let_def case_prod_beta nt_consts)
  from sioctl_init_installs [OF assms(1,2) this] calm
  show "\<exists>dev. sio_installed E drv dev t" "irps t = irps s" "\<forall>p. completions p (klog t) = completions p (klog s)"
    by (simp_all add: sio_calm_def)
qed

lemma sioctl_unload:
  assumes "finds_driver_ext K" "sio_installed E drv dev s"
  shows "\<exists>t. driver_unload K (sx_driver_id E) (sioctl_handlers K E) drv s = Some t \<and> irps t = irps s \<and>
    (\<forall>p. completions p (klog t) = completions p (klog s))"
proof -
  let ?s = "snd (get_wdu_driver K (sx_driver_id E) drv s)"
  have found: "fst (get_wdu_driver K (sx_driver_id E) drv s) = driver_ext drv (sx_driver_id E) (klog s)"
    by (rule get_wdu_driver_found [OF assms(1)])
  have calm: "sio_calm s ?s" by (rule get_driver_calm)
  then have run: "driver_unload K (sx_driver_id E) (sioctl_handlers K E) drv s =
      sioctl_driver_unload K E (sioctl_wrapper E drv) ?s"
    using assms(2) found
    by (simp add: driver_unload_def case_prod_beta Let_def sio_installed_def unload_internal_def sioctl_handlers_def
        sioctl_wrapper_def sio_calm_def)
  obtain o' where "drivers ?s drv = Some o'"
    using assms(2) calm by (auto simp: sio_installed_def sio_calm_def)
  then show ?thesis
    using calm
    by (auto simp: run sioctl_driver_unload_def driver_device_def sioctl_wrapper_def delete_symbolic_name_def
        device_delete_def sio_calm_def sys_eq Let_def)
qed

text \<open>
  C8. What the sioctl example does with the requests it gets, from load to unload. After
  \<^verbatim>\<open>DriverEntry\<close> succeeds, along every sequence of requests that the kernel dispatches to its
  device, with any contents and any answers of the kernel: every create, close and device control
  request is completed exactly once, and the request is handed back; every cleanup, read and write
  request is reported as successful but never completed, since the crate installs its dispatch
  routine for those major functions too and the driver gives no handler. The next request returns
  (a device control request if it has an input buffer, its MDLs are in memory and probing its
  buffers raises no exception). Unloading runs to its end and leaves the lost requests as they are:
  exactly those are never completed. The kernel makes the driver's objects and its symbolic link.
\<close>

theorem sioctl_load_to_unload:
  assumes "makes_objects K" "makes_links K" "finds_driver_ext K"
    and "sioctl_DriverEntry K E g drv s = Some (STATUS_SUCCESS, g', t)" "irps s = Map.empty"
  shows "\<exists>dev. \<forall>ls u. sio_run K E dev t ls u \<longrightarrow>
     (\<forall>p. length (completions p (klog u)) = length (completions p (klog s)) + arrived p ls) \<and> dom (irps u) = lost ls \<and>
     (\<forall>p irp ms m w. let u0 = u\<lparr>irps := (irps u)(p \<mapsto> irp), mdls := ms, bytes := m\<rparr> in
        p \<noteq> null \<longrightarrow> irp_wrap p u0 = Some w \<longrightarrow> sio_ready K w u0 \<longrightarrow>
        (\<exists>st v. dispatch_handler K (sx_driver_id E) (sioctl_handlers K E) (wd_device dev) p u0 = Some (st, v) \<and>
           (\<not> served (wi_mj w) \<longrightarrow> st = STATUS_SUCCESS \<and> irps v p = Some irp))) \<and>
     (\<exists>v. driver_unload K (sx_driver_id E) (sioctl_handlers K E) drv u = Some v \<and> dom (irps v) = lost ls)"
proof -
  note load = sioctl_load [OF assms(1,2,4)]
  obtain dev where dev: "sio_installed E drv dev t" using load(1) by blast
  have "(\<forall>p. length (completions p (klog u)) = length (completions p (klog s)) + arrived p ls) \<and> dom (irps u) = lost ls \<and>
     (\<forall>p irp ms m w. let u0 = u\<lparr>irps := (irps u)(p \<mapsto> irp), mdls := ms, bytes := m\<rparr> in
        p \<noteq> null \<longrightarrow> irp_wrap p u0 = Some w \<longrightarrow> sio_ready K w u0 \<longrightarrow>
        (\<exists>st v. dispatch_handler K (sx_driver_id E) (sioctl_handlers K E) (wd_device dev) p u0 = Some (st, v) \<and>
           (\<not> served (wi_mj w) \<longrightarrow> st = STATUS_SUCCESS \<and> irps v p = Some irp))) \<and>
     (\<exists>v. driver_unload K (sx_driver_id E) (sioctl_handlers K E) drv u = Some v \<and> dom (irps v) = lost ls)"
    if run: "sio_run K E dev t ls u" for ls u
  proof -
    note out = sio_run_outcome [OF assms(3) run dev]
    have irps: "dom (irps u) = lost ls" using out load(2) assms(5) by simp
    obtain v where v: "driver_unload K (sx_driver_id E) (sioctl_handlers K E) drv u = Some v" "irps v = irps u"
      using sioctl_unload [OF assms(3)] out by blast
    have returns: "\<exists>st v. dispatch_handler K (sx_driver_id E) (sioctl_handlers K E) (wd_device dev) p u0 = Some (st, v) \<and>
           (\<not> served (wi_mj w) \<longrightarrow> st = STATUS_SUCCESS \<and> irps v p = Some irp)"
      if u0: "u0 = u\<lparr>irps := (irps u)(p \<mapsto> irp), mdls := ms, bytes := m\<rparr>"
        and p: "p \<noteq> null" "irp_wrap p u0 = Some w" "sio_ready K w u0" for p irp ms m w u0
    proof -
      have inst: "sio_installed E drv dev u0" using out by (simp add: u0)
      obtain st v where d: "dispatch_handler K (sx_driver_id E) (sioctl_handlers K E) (wd_device dev) p u0 = Some (st, v)"
        using dispatch_returns [OF assms(3) inst p(2,1,3)] by blast
      with dispatch_outcome [OF assms(3) inst p(2,1) d] show ?thesis by (auto simp: u0 sio_calm_def split: if_splits)
    qed
    show ?thesis using out load(3) irps v returns by (simp add: Let_def)
  qed
  then show ?thesis by blast
qed

definition sio_boot_kernel :: kernel where
  "sio_boot_kernel h c =
     (case c of
        Io (IoGetDriverObjectExtension d i) \<Rightarrow> reply0\<lparr>r_ptr := driver_ext d i h\<rparr>
      | Io (IoCreateDevice d n name ty ch ex) \<Rightarrow> reply0\<lparr>r_out := 0x300,
          r_device := \<lparr>do_DriverObject = d, do_DeviceExtension = 0x340, do_Flags = 0\<rparr>\<rparr>
      | _ \<Rightarrow> reply0\<lparr>r_out := 0x700\<rparr>)"

lemma sio_boot_kernel_laws: "makes_objects sio_boot_kernel" "makes_links sio_boot_kernel" "finds_driver_ext sio_boot_kernel"
  by (auto simp: makes_objects_def makes_links_def finds_driver_ext_def sio_boot_kernel_def sizeof_WduDevice_def)

lemma sio_boots:
  "\<exists>g' t. sioctl_DriverEntry sio_boot_kernel sx0 simple_const_new 0x20 (sio0\<lparr>irps := Map.empty\<rparr>) = Some (STATUS_SUCCESS, g', t) \<and>
     debug_assertions t"
  by (simp add: sioctl_DriverEntry_def sioctl_init_def sioctl_driver_def driver_unload_builder_def driver_file_object_def
      driver_io_def install_def sio0_def sx0_def driver_new_def drvobj0_def driver_build_def driver_alloc_ext_def
      device_build_def device_extension_def device_symbolic_name_def sio_boot_kernel_def sys_eq Let_def simple_init_def
      get_system_routine_addr_def nt_consts case_prod_beta)

text \<open>A cleanup request at \<open>0x50\<close>.\<close>

definition cleanup_irp0 :: IRP where
  "cleanup_irp0 = irp0\<lparr>irp_CurrentStack := stack0\<lparr>sl_MajorFunction := 0x12\<rparr>\<rparr>"

lemma cleanup_irp0_wrap:
  "irp_wrap 0x50 (t\<lparr>irps := (irps t)(0x50 \<mapsto> cleanup_irp0), mdls := ms, bytes := m\<rparr>) = Some (wirp0\<lparr>wi_mj := MjCleanup\<rparr>)"
  by (simp add: irp_wrap_def current_stack_def cleanup_irp0_def irp0_def stack0_def word_sle_eq major_from_def nt_consts wirp0_def)

theorem sioctl_load_to_unload_witness:
  "\<exists>g' t dev u v. sioctl_DriverEntry sio_boot_kernel sx0 simple_const_new 0x20 (sio0\<lparr>irps := Map.empty\<rparr>) = Some (STATUS_SUCCESS, g', t) \<and>
     sio_run sio_boot_kernel sx0 dev t [(0x50, MjCleanup)] u \<and> completions 0x50 (klog u) = [] \<and>
     driver_unload sio_boot_kernel 0xF (sioctl_handlers sio_boot_kernel sx0) 0x20 u = Some v \<and> dom (irps v) = {0x50}"
proof -
  let ?s = "sio0\<lparr>irps := Map.empty\<rparr>"
  obtain g' t where t: "sioctl_DriverEntry sio_boot_kernel sx0 simple_const_new 0x20 ?s = Some (STATUS_SUCCESS, g', t)"
    using sio_boots by blast
  have s: "irps ?s = Map.empty" "klog ?s = []" by (simp_all add: sio0_def)
  have e: "sx_driver_id sx0 = 0xF" by (simp add: sx0_def)
  show ?thesis
  proof (rule exE [OF sioctl_load_to_unload [OF sio_boot_kernel_laws t s(1), unfolded e Let_def]], goal_cases)
    case (1 dev)
    note main = mp [OF spec [OF spec [OF 1]]]
    note nil = main [OF sio_run_Nil]
    let ?t = "t\<lparr>irps := (irps t)(0x50 \<mapsto> cleanup_irp0), mdls := mdls t, bytes := bytes t\<rparr>"
    have w: "irp_wrap 0x50 ?t = Some (wirp0\<lparr>wi_mj := MjCleanup\<rparr>)"
      by (rule cleanup_irp0_wrap)
    have ready: "sio_ready sio_boot_kernel (wirp0\<lparr>wi_mj := MjCleanup\<rparr>) ?t"
      by (simp add: sio_ready_def)
    obtain st u where u: "dispatch_handler sio_boot_kernel 0xF (sioctl_handlers sio_boot_kernel sx0) (wd_device dev) 0x50 ?t = Some (st, u)"
      using conjunct1 [OF conjunct2 [OF conjunct2 [OF nil]], rule_format, OF _ w ready] by auto
    have "irps t 0x50 = None"
      using conjunct1 [OF conjunct2 [OF nil]] by auto
    then have "sio_step sio_boot_kernel sx0 dev t (0x50, wi_mj (wirp0\<lparr>wi_mj := MjCleanup\<rparr>)) u"
      by (rule sio_step.request [OF _ _ refl w u [folded e]]) simp
    then have run: "sio_run sio_boot_kernel sx0 dev t [(0x50, MjCleanup)] u"
      using sio_run_snoc [OF sio_run_Nil] by simp
    note after = main [OF run]
    obtain v where "driver_unload sio_boot_kernel 0xF (sioctl_handlers sio_boot_kernel sx0) 0x20 u = Some v"
      "dom (irps v) = lost [(0x50, MjCleanup)]"
      using conjunct2 [OF conjunct2 [OF conjunct2 [OF after]]] by blast
    moreover have "completions 0x50 (klog u) = []"
      using conjunct1 [OF after] by (simp add: s(2) arrived_def)
    ultimately show ?case using run t by (intro exI) (auto simp: lost_def)
  qed
qed

end
