(* ===== verification/Ex_ObCallback.thy ===== *)
theory Ex_ObCallback
  imports Wdu_Driver Wdu_Ob Wdu_Locks
begin

text \<open>
  \<^verbatim>\<open>examples/obcallback/src/callback.rs\<close> and \<^verbatim>\<open>lib.rs\<close>: a driver that protects a process, chosen by
  its image name, from being terminated through handles that other processes open, or rejects
  its creation. It combines object callbacks, a process notify routine, strings, a guarded mutex
  and device control requests.

  The driver's statics are fields of the state; \<open>PROTECT\<close>'s callback object is found in the memory
  of callback objects at its address. Formatting for the log is not modelled; the calls made to
  compute what is logged are.
\<close>

section \<open>State\<close>

datatype oc_object = ObjProcess WduProcess | ObjThread handle

record CallContext =
  cc_operation :: u32
  cc_object :: oc_object

record ProtectData =
  pd_target_process :: "WduProcess option"
  pd_target_process_id :: "handle option"
  pd_name :: WduUnicodeString

record ocstate = "CallContext obstate" +
  PROTECT_NAME_FLAG :: bool
  REJECT_NAME_FLAG :: bool
  callback_installed :: bool
  protect_data :: ProtectData
  PROCESS_CB :: WduPsCallback

datatype ObCallbackError = OcDriverError | OcDeviceError | OcCallbackError | OcInvalidParameter | OcUnicodeError

fun oc_error_from_device :: "WduDeviceError \<Rightarrow> ObCallbackError" where
  "oc_error_from_device e = OcDeviceError"

fun oc_error_from_driver :: "WduDriverError \<Rightarrow> ObCallbackError" where
  "oc_error_from_driver e = OcDriverError"

fun oc_error_from_callback :: "WduCallbackError \<Rightarrow> ObCallbackError" where
  "oc_error_from_callback e = OcCallbackError"

fun oc_error_from_unicode :: "WduUnicodeError \<Rightarrow> ObCallbackError" where
  "oc_error_from_unicode e = OcUnicodeError"

definition protect_data_const_new :: ProtectData where
  "protect_data_const_new =
     \<lparr>pd_target_process = None, pd_target_process_id = None, pd_name = ustring_const_new\<rparr>"

definition PROTECT_NAME_PROTECT :: u32 where "PROTECT_NAME_PROTECT = 0"
definition PROTECT_NAME_REJECT :: u32 where "PROTECT_NAME_REJECT = 1"
definition CB_PROCESS_TERMINATE :: u32 where "CB_PROCESS_TERMINATE = 1"
definition CB_THREAD_TERMINATE :: u32 where "CB_THREAD_TERMINATE = 1"
definition NAME_SIZE :: nat where "NAME_SIZE = 200"

text \<open>
  The layout of \<^verbatim>\<open>ProtectNameInput\<close>: the operation, then \<open>NAME_SIZE + 1\<close> units at offset 4; with the
  padding at the end it has 408 bytes.
\<close>

definition sizeof_ProtectNameInput :: usize where "sizeof_ProtectNameInput = 408"

definition input_operation :: "ptr \<Rightarrow> 'a ustate_scheme \<Rightarrow> u32" where
  "input_operation p s = ucast (umem s p) OR push_bit 16 (ucast (umem s (p + 2)))"

definition input_name :: "ptr \<Rightarrow> slice" where
  "input_name p = \<lparr>sl_ptr = p + 4, sl_len = NAME_SIZE + 1\<rparr>"

definition TD_IOCTL_PROTECT_NAME_CALLBACK :: u32 where
  "TD_IOCTL_PROTECT_NAME_CALLBACK =
     encode_ioctl FILE_DEVICE_UNKNOWN (0x800 + 2) METHOD_BUFFERED FILE_SPECIAL_ACCESS"

definition TD_IOCTL_UNPROTECT_CALLBACK :: u32 where
  "TD_IOCTL_UNPROTECT_CALLBACK =
     encode_ioctl FILE_DEVICE_UNKNOWN (0x800 + 3) METHOD_BUFFERED FILE_SPECIAL_ACCESS"

text \<open>
  Addresses: of the driver's routines, of the parts of \<open>PROTECT\<close> (its mutex, \<open>protect_data\<close>, its
  callback object), of the frame slot that the mutex adapter uses, of the literals; the crate's
  routines and the kernel's exports.
\<close>

record oc_env =
  ox_pre_operation_cb :: fnptr
  ox_post_operation_cb :: fnptr
  ox_process_notify_cb :: fnptr
  ox_create :: fnptr
  ox_close :: fnptr
  ox_cleanup :: fnptr
  ox_device_control :: fnptr
  ox_driver_unload :: fnptr
  ox_mutex :: ptr
  ox_slot :: ptr
  ox_protect_data :: ptr
  ox_callback :: ptr
  ox_altitude :: slice
  ox_device_name :: slice
  ox_win32_name :: slice
  ox_pool2_name :: ptr
  ox_entry :: entry_points
  ox_driver_id :: fnptr
  ox_sizeof :: u32
  ox_routines :: ob_routines
  ox_exports :: exports

section \<open>callback.rs\<close>

definition process_op :: "oc_env \<Rightarrow> WduObOpRegistration" where
  "process_op E = op_build (op_set_context (ox_protect_data E) (op_set_post (ox_post_operation_cb E)
     (op_set_pre (ox_pre_operation_cb E)
       (op_set_operations (OB_OPERATION_HANDLE_CREATE OR OB_OPERATION_HANDLE_DUPLICATE)
         (op_set_ob_type OtProcess op_default)))))"

definition thread_op :: "oc_env \<Rightarrow> WduObOpRegistration" where
  "thread_op E = op_build (op_set_context (ox_protect_data E) (op_set_post (ox_post_operation_cb E)
     (op_set_pre (ox_pre_operation_cb E)
       (op_set_operations (OB_OPERATION_HANDLE_CREATE OR OB_OPERATION_HANDLE_DUPLICATE)
         (op_set_ob_type OtThread op_default)))))"

definition register_callback ::
  "kernel \<Rightarrow> oc_env \<Rightarrow> 'a ocstate_scheme \<Rightarrow> ((ObCallbackError, unit) result \<times> 'a ocstate_scheme) option" where
  "register_callback K E s = do {
     s \<leftarrow> push_op_registration (ox_callback E) (process_op E) s;
     s \<leftarrow> push_op_registration (ox_callback E) (thread_op E) s;
     (r, s) \<leftarrow> ob_register K (ox_exports E) (ox_routines E) (ox_callback E) (str_from_slice (ox_altitude E)) s;
     case r of
       Err e \<Rightarrow> Some (Err (oc_error_from_callback e), s)
     | Ok u \<Rightarrow> Some (Ok (), s\<lparr>callback_installed := True\<rparr>)
   }"

text \<open>The assignment to the name drops the string it replaces.\<close>

definition protect_name_cb ::
  "kernel \<Rightarrow> oc_env \<Rightarrow> WduDeviceControl \<Rightarrow> 'a ocstate_scheme
     \<Rightarrow> ((ObCallbackError, ntstatus) result \<times> 'a ocstate_scheme) option" where
  "protect_name_cb K E req_data s = do {
     let b = input_buffer req_data;
     if b = null then Some (Err OcInvalidParameter, s)
     else do {
       (r, s) \<leftarrow> try_from_slice K (input_name b) s;
       case r of
         Err e \<Rightarrow> Some (Err (oc_error_from_unicode e), s)
       | Ok name \<Rightarrow> do {
           let s = ustring_drop K (pd_name (protect_data s)) s;
           let s = s\<lparr>protect_data := (protect_data s)\<lparr>pd_name := name\<rparr>\<rparr>;
           (r, s) \<leftarrow> register_callback K E s;
           case r of
             Err e \<Rightarrow> Some (Err e, s)
           | Ok u \<Rightarrow>
               if input_operation b s = PROTECT_NAME_PROTECT
                 then Some (Ok STATUS_SUCCESS, s\<lparr>PROTECT_NAME_FLAG := True, REJECT_NAME_FLAG := False\<rparr>)
               else if input_operation b s = PROTECT_NAME_REJECT
                 then Some (Ok STATUS_SUCCESS, s\<lparr>PROTECT_NAME_FLAG := False, REJECT_NAME_FLAG := True\<rparr>)
               else Some (Err OcInvalidParameter, s)
         }
     }
   }"

definition delete_protect_name_cb ::
  "kernel \<Rightarrow> oc_env \<Rightarrow> 'a ocstate_scheme \<Rightarrow> ((ObCallbackError, unit) result \<times> 'a ocstate_scheme) option" where
  "delete_protect_name_cb K E s = do {
     (r, s) \<leftarrow> ob_unregister K (ox_callback E) s;
     case r of
       Err e \<Rightarrow> Some (Err (oc_error_from_callback e), s)
     | Ok u \<Rightarrow> Some (Ok (), s\<lparr>callback_installed := False\<rparr>)
   }"

text \<open>\<open>lower\<close> is \<^verbatim>\<open>str::to_lowercase\<close>.\<close>

definition check_process_match ::
  "(rust_str \<Rightarrow> rust_str) \<Rightarrow> WduProcess \<Rightarrow> handle \<Rightarrow> WduUnicodeString \<Rightarrow> 'a ocstate_scheme
     \<Rightarrow> ntstatus \<times> 'a ocstate_scheme" where
  "check_process_match lower process pid filename s =
     (if \<not> ustring_contains lower s filename (pd_name (protect_data s)) True then (STATUS_NOT_FOUND, s)
      else (STATUS_SUCCESS,
            s\<lparr>protect_data := (protect_data s)\<lparr>pd_target_process := Some process,
                                                 pd_target_process_id := Some pid\<rparr>\<rparr>))"

text \<open>
  The first half of \<^verbatim>\<open>pre_operation_cb\<close>: which object the operation concerns and which access bit to
  clear; \<open>None\<close> is an early return.
\<close>

definition pre_operation_target ::
  "kernel \<Rightarrow> oc_env \<Rightarrow> ProtectData \<Rightarrow> ptr \<Rightarrow> 'a ocstate_scheme
     \<Rightarrow> ((oc_object \<times> u32) option \<times> 'a ocstate_scheme) option" where
  "pre_operation_target K E data op_info s = do {
     t \<leftarrow> pre_object_type (ox_exports E) op_info s;
     object \<leftarrow> pre_object op_info s;
     case t of
       OtProcess \<Rightarrow>
         (if pd_target_process data \<noteq> Some object then Some (None, s)
          else let (cur, s) = current_process K s in
               if object = cur then Some (None, s)
               else Some (Some (ObjProcess object, CB_PROCESS_TERMINATE), s))
     | OtThread \<Rightarrow>
         (let (pid, s) = thread_process_id K object s in
          if pd_target_process_id data \<noteq> Some pid then Some (None, s)
          else let (cur, s) = current_process_id K s in
               if pid = cur then Some (None, s)
               else Some (Some (ObjThread pid, CB_THREAD_TERMINATE), s))
     | _ \<Rightarrow> Some (None, s)
   }"

text \<open>
  The context is a reference to \<open>protect_data\<close>. A call context has 24 bytes.
\<close>

definition pre_operation_cb ::
  "kernel \<Rightarrow> oc_env \<Rightarrow> ptr option \<Rightarrow> ptr \<Rightarrow> 'a ocstate_scheme \<Rightarrow> 'a ocstate_scheme option" where
  "pre_operation_cb K E ctx op_info s =
     (case ctx of
        None \<Rightarrow> Some s
      | Some p \<Rightarrow> do {
          rust_assert (p = ox_protect_data E);
          (target, s) \<leftarrow> pre_operation_target K E (protect_data s) op_info s;
          case target of
            None \<Rightarrow> Some s
          | Some (object, clear_bit_access) \<Rightarrow> do {
              access \<leftarrow> desired_access op_info s;
              k \<leftarrow> pre_is_kernel_handle op_info s;
              s \<leftarrow> (if \<not> k then set_desired_access op_info (access AND NOT clear_bit_access OR 0) s
                    else Some s);
              oper \<leftarrow> pre_operation op_info s;
              s \<leftarrow> pre_set_context K 24 op_info \<lparr>cc_operation = oper, cc_object = object\<rparr> s;
              let s = snd (current_process_id K s);
              let s = snd (current_thread_id K s);
              orig \<leftarrow> original_desired_access op_info s;
              access \<leftarrow> desired_access op_info s;
              Some s
            }
        })"

definition post_operation_cb ::
  "kernel \<Rightarrow> oc_env \<Rightarrow> ptr option \<Rightarrow> ptr \<Rightarrow> 'a ocstate_scheme \<Rightarrow> 'a ocstate_scheme option" where
  "post_operation_cb K E ctx op_info s = do {
     call_ctx \<leftarrow> call_context op_info s;
     case call_ctx of
       None \<Rightarrow> Some s
     | Some b \<Rightarrow> do {
         ctx \<leftarrow> client s b;
         oper \<leftarrow> post_operation op_info s;
         rust_assert (cc_operation ctx = oper);
         object \<leftarrow> post_object op_info s;
         let s = (case cc_object ctx of
              ObjProcess target_process \<Rightarrow>
                if target_process = object then s else snd (current_process K s)
            | ObjThread target_process_id \<Rightarrow>
                (let (pid, s) = thread_process_id K object s in
                 if target_process_id = pid then s else snd (current_process_id K s)));
         box_drop K 24 b s
       }
   }"

text \<open>The routines by address, as the object callbacks run them.\<close>

definition oc_run_pre :: "kernel \<Rightarrow> oc_env \<Rightarrow> fnptr \<Rightarrow> ptr option \<Rightarrow> ptr \<Rightarrow> 'a ocstate_scheme \<Rightarrow> 'a ocstate_scheme option" where
  "oc_run_pre K E f ctx op_info s = do {
     rust_assert (f = ox_pre_operation_cb E);
     pre_operation_cb K E ctx op_info s
   }"

definition oc_run_post :: "kernel \<Rightarrow> oc_env \<Rightarrow> fnptr \<Rightarrow> ptr option \<Rightarrow> ptr \<Rightarrow> 'a ocstate_scheme \<Rightarrow> 'a ocstate_scheme option" where
  "oc_run_post K E f ctx op_info s = do {
     rust_assert (f = ox_post_operation_cb E);
     post_operation_cb K E ctx op_info s
   }"

section \<open>lib.rs\<close>

text \<open>\<open>PROTECT.lock()\<close>: the guard releases the mutex at the end of its block.\<close>

definition with_protect ::
  "kernel \<Rightarrow> oc_env \<Rightarrow> ('a ocstate_scheme \<Rightarrow> ('r \<times> 'a ocstate_scheme) option) \<Rightarrow> 'a ocstate_scheme
     \<Rightarrow> ('r \<times> 'a ocstate_scheme) option" where
  "with_protect K E body s = do {
     let s = guarded_lock K (ox_mutex E) (ox_slot E) s;
     (r, s) \<leftarrow> body s;
     Some (r, guarded_unlock K (ox_mutex E) (ox_slot E) s)
   }"

definition process_notify_cb ::
  "kernel \<Rightarrow> oc_env \<Rightarrow> (rust_str \<Rightarrow> rust_str) \<Rightarrow> WduProcess \<Rightarrow> handle \<Rightarrow> WduPsCreateNotifyInfo \<Rightarrow> 'a ocstate_scheme
     \<Rightarrow> (WduPsCreateNotifyInfo \<times> 'a ocstate_scheme) option" where
  "process_notify_cb K E lower process pid create_info s =
     (if ni_is_exit create_info then Some (create_info, s)
      else do {
        w \<leftarrow> ni_image_filename create_info;
        (r, s) \<leftarrow> str_to_owned K w s;
        let image_filename = (case r of Err e \<Rightarrow> ustring_default | Ok n \<Rightarrow> n);
        (st, s) \<leftarrow> (if PROTECT_NAME_FLAG s \<and> \<not> ustring_is_empty image_filename
             then with_protect K E (\<lambda>s. Some (check_process_match lower process pid image_filename s)) s
             else Some (STATUS_NOT_FOUND, s));
        (st, s) \<leftarrow> (if REJECT_NAME_FLAG s \<and> \<not> ustring_is_empty image_filename
             then with_protect K E (\<lambda>s. Some (check_process_match lower process pid image_filename s)) s
             else Some (STATUS_NOT_FOUND, s));
        create_info \<leftarrow> (if st = STATUS_SUCCESS then ni_set_status STATUS_ACCESS_DENIED create_info
                        else Some create_info);
        Some (create_info, ustring_drop K image_filename s)
      })"

definition protect_name ::
  "kernel \<Rightarrow> oc_env \<Rightarrow> WduDeviceControl \<Rightarrow> 'a ocstate_scheme
     \<Rightarrow> ((ObCallbackError, ntstatus) result \<times> 'a ocstate_scheme) option" where
  "protect_name K E req_data s =
     (if dc_in_buf_len req_data < sizeof_ProtectNameInput then Some (Err OcInvalidParameter, s)
      else with_protect K E (\<lambda>s.
        if \<not> callback_installed s then do {
          (r, s) \<leftarrow> protect_name_cb K E req_data s;
          case r of Err e \<Rightarrow> Some (Err e, s) | Ok st \<Rightarrow> Some (Ok STATUS_SUCCESS, s)
        }
        else Some (Ok STATUS_SUCCESS, s)) s)"

definition unprotect ::
  "kernel \<Rightarrow> oc_env \<Rightarrow> 'a ocstate_scheme \<Rightarrow> ((ObCallbackError, ntstatus) result \<times> 'a ocstate_scheme) option" where
  "unprotect K E s =
     with_protect K E (\<lambda>s.
       if callback_installed s then do {
         (r, s) \<leftarrow> delete_protect_name_cb K E s;
         case r of Err e \<Rightarrow> Some (Err e, s) | Ok u \<Rightarrow> Some (Ok STATUS_SUCCESS, s)
       }
       else Some (Ok STATUS_SUCCESS, s)) s"

definition unwrap_or :: "ntstatus \<Rightarrow> (ObCallbackError, ntstatus) result \<Rightarrow> ntstatus" where
  "unwrap_or d r = (case r of Err e \<Rightarrow> d | Ok st \<Rightarrow> st)"

definition oc_device_control ::
  "kernel \<Rightarrow> oc_env \<Rightarrow> WduDevice \<Rightarrow> WduIrp \<Rightarrow> WduDeviceControl \<Rightarrow> 'a ocstate_scheme
     \<Rightarrow> (ntstatus \<times> WduIrp \<times> 'a ocstate_scheme) option" where
  "oc_device_control K E device request req_data s = do {
     let io_status = io_status_new;
     let ioctl = dc_ioctl req_data;
     (status, s) \<leftarrow>
       (if ioctl = TD_IOCTL_PROTECT_NAME_CALLBACK
          then map_option (apfst (unwrap_or STATUS_UNSUCCESSFUL)) (protect_name K E req_data s)
        else if ioctl = TD_IOCTL_UNPROTECT_CALLBACK
          then map_option (apfst (unwrap_or STATUS_UNSUCCESSFUL)) (unprotect K E s)
        else Some (STATUS_INVALID_DEVICE_REQUEST, s));
     s \<leftarrow> irp_complete K request (set_status status io_status) s;
     Some (status, request, s)
   }"

definition oc_complete ::
  "kernel \<Rightarrow> WduIrp \<Rightarrow> 'a ocstate_scheme \<Rightarrow> (WduIrp \<times> 'a ocstate_scheme) option" where
  "oc_complete K request s = do {
     s \<leftarrow> irp_complete K request success_no_info s;
     Some (request, s)
   }"

definition oc_create ::
  "kernel \<Rightarrow> WduDevice \<Rightarrow> WduIrp \<Rightarrow> WduCreate \<Rightarrow> 'a ocstate_scheme \<Rightarrow> (WduIrp \<times> 'a ocstate_scheme) option" where
  "oc_create K device request req_data s = oc_complete K request s"

definition oc_close ::
  "kernel \<Rightarrow> WduDevice \<Rightarrow> WduIrp \<Rightarrow> WduFileObject \<Rightarrow> 'a ocstate_scheme \<Rightarrow> (WduIrp \<times> 'a ocstate_scheme) option" where
  "oc_close K device request file_obj s = oc_complete K request s"

definition oc_cleanup ::
  "kernel \<Rightarrow> WduDevice \<Rightarrow> WduIrp \<Rightarrow> WduFileObject \<Rightarrow> 'a ocstate_scheme \<Rightarrow> (WduIrp \<times> 'a ocstate_scheme) option" where
  "oc_cleanup K device request file_obj s = oc_complete K request s"

definition oc_driver ::
  "oc_env \<Rightarrow> ptr \<Rightarrow> 'a ocstate_scheme \<Rightarrow> (WduDriver \<times> 'a ocstate_scheme) option" where
  "oc_driver E driver_object s = do {
     let fileobj = cleanup_irp (ox_cleanup E) (close_irp (ox_close E) (create_irp (ox_create E) fileobj_default));
     let io = ioctl_irp (ox_device_control E) io_default;
     (d, s) \<leftarrow> driver_unload_builder (ox_entry E) (driver_new driver_object) (ox_driver_unload E) s;
     (d, s) \<leftarrow> driver_file_object (ox_entry E) d fileobj s;
     driver_io (ox_entry E) d io s
   }"

text \<open>The device extension is zero-sized; \<open>z\<close> stands for its value.\<close>

definition oc_init ::
  "kernel \<Rightarrow> oc_env \<Rightarrow> CallContext \<Rightarrow> ptr \<Rightarrow> 'a ocstate_scheme
     \<Rightarrow> ((ObCallbackError, unit) result \<times> 'a ocstate_scheme) option" where
  "oc_init K E z driver_object s = do {
     let device_name = str_from_slice (ox_device_name E);
     let win32_name = str_from_slice (ox_win32_name E);
     (d, s) \<leftarrow> oc_driver E driver_object s;
     case driver_build K (ox_driver_id E) (ox_sizeof E) d s of
       (Err e, s) \<Rightarrow> Some (Err (oc_error_from_driver e), s)
     | (Ok wdu_driver, s) \<Rightarrow> do {
         (r, s) \<leftarrow> device_build K 0 z (device_characteristics DcSecureOpen (device_device_type DtUnknown device_default))
                    wdu_driver (Some device_name) s;
         case r of
           Err e \<Rightarrow> Some (Err (oc_error_from_device e), s)
         | Ok wdu_device \<Rightarrow> do {
             let s = (case device_symbolic_name K device_name win32_name s of
                        (Err e, s) \<Rightarrow> device_delete K wdu_device s
                      | (Ok u, s) \<Rightarrow> s);
             Some (Ok (),
               case ps_register K (PsNotifyRoutineEx2 (ox_process_notify_cb E)) (PROCESS_CB s) s of
                 (Err e, cb, s) \<Rightarrow>
                   device_delete K wdu_device (snd (delete_symbolic_name K win32_name (s\<lparr>PROCESS_CB := cb\<rparr>)))
               | (Ok u, cb, s) \<Rightarrow> s\<lparr>PROCESS_CB := cb\<rparr>)
           }
       }
   }"

definition oc_DriverEntry ::
  "kernel \<Rightarrow> oc_env \<Rightarrow> CallContext \<Rightarrow> SimpleAlloc \<Rightarrow> ptr \<Rightarrow> 'a ocstate_scheme
     \<Rightarrow> (ntstatus \<times> SimpleAlloc \<times> 'a ocstate_scheme) option" where
  "oc_DriverEntry K E z g driver_object s = do {
     let (g, s) = simple_init K (ox_pool2_name E) g s;
     let s = guarded_init_lock K (ox_mutex E) (ox_slot E) s;
     let s = snd (ob_version K s);
     (r, s) \<leftarrow> oc_init K E z driver_object s;
     case r of Err e \<Rightarrow> Some (STATUS_UNSUCCESSFUL, g, s) | Ok u \<Rightarrow> Some (STATUS_SUCCESS, g, s)
   }"

definition oc_driver_unload ::
  "kernel \<Rightarrow> oc_env \<Rightarrow> WduDriver \<Rightarrow> 'a ocstate_scheme \<Rightarrow> 'a ocstate_scheme option" where
  "oc_driver_unload K E driver s = do {
     dev_obj \<leftarrow> driver_device driver s;
     let s = (case ps_unregister K (PROCESS_CB s) s of (r, cb, s) \<Rightarrow> s\<lparr>PROCESS_CB := cb\<rparr>);
     (r, s) \<leftarrow> with_protect K E (\<lambda>s.
        if callback_installed s then delete_protect_name_cb K E s else Some (Ok (), s)) s;
     let s = snd (delete_symbolic_name K (str_from_slice (ox_win32_name E)) s);
     Some (device_delete K dev_obj s)
   }"

section \<open>Lemmas\<close>

lemmas oc_op_defs =
  process_op_def thread_op_def op_build_def op_set_context_def op_set_post_def op_set_pre_def
  op_set_operations_def op_set_ob_type_def op_default_def

lemma op_types [simp]:
  "op_ob_type (process_op E) = OtProcess" "op_ob_type (thread_op E) = OtThread"
  "op_pre (process_op E) = Some (ox_pre_operation_cb E)" "op_pre (thread_op E) = Some (ox_pre_operation_cb E)"
  "op_post (process_op E) = Some (ox_post_operation_cb E)" "op_post (thread_op E) = Some (ox_post_operation_cb E)"
  "op_context (process_op E) = ox_protect_data E" "op_context (thread_op E) = ox_protect_data E"
  "op_operations (process_op E) = 3" "op_operations (thread_op E) = 3"
  by (simp_all add: oc_op_defs nt_consts)

text \<open>An operation on a handle to a process, as the object manager reports it.\<close>

definition process_handle_op :: "oc_env \<Rightarrow> OB_PRE_OPERATION_INFORMATION \<Rightarrow> bool" where
  "process_handle_op E info \<longleftrightarrow>
     pre_ObjectType info = snd (PsProcessType (ox_exports E)) \<and> pre_CallContext info = null \<and>
     (pre_Operation info = OB_OPERATION_HANDLE_CREATE \<or> pre_Operation info = OB_OPERATION_HANDLE_DUPLICATE)"

text \<open>The object is the protected process, and it is not the one that opens the handle.\<close>

definition guarded_target :: "kernel \<Rightarrow> 'a ocstate_scheme \<Rightarrow> OB_PRE_OPERATION_INFORMATION \<Rightarrow> bool" where
  "guarded_target K s info \<longleftrightarrow> pd_target_process (protect_data s) = Some (pre_Object info) \<and>
     r_ptr (K (klog s) (Ps IoGetCurrentProcess)) \<noteq> pre_Object info"

text \<open>The information after the routine has filtered it and set the context \<open>b\<close>.\<close>

definition filtered :: "ptr \<Rightarrow> OB_PRE_OPERATION_INFORMATION \<Rightarrow> OB_PRE_OPERATION_INFORMATION" where
  "filtered b info =
     (if pre_Flags info AND 1 = 1 then info
      else info\<lparr>pre_Parameters := (pre_Parameters info)\<lparr>pp_DesiredAccess :=
             pp_DesiredAccess (pre_Parameters info) AND NOT CB_PROCESS_TERMINATE\<rparr>\<rparr>)\<lparr>pre_CallContext := b\<rparr>"

lemma box_new_ok:
  assumes "r_ptr (K (klog s) (Pool (RustAlloc (of_nat n)))) \<noteq> null" "n \<noteq> 0"
  shows "box_new K n c s =
     Some (r_ptr (K (klog s) (Pool (RustAlloc (of_nat n)))),
           (sysv K (Pool (RustAlloc (of_nat n))) s)\<lparr>client :=
              (client s)(r_ptr (K (klog s) (Pool (RustAlloc (of_nat n)))) \<mapsto> c)\<rparr>)"
  using assms by (simp add: box_new_def rust_alloc_def Let_def)

lemma ob_opn_cases: "process_handle_op E info \<Longrightarrow> 3 AND pre_Operation info = pre_Operation info"
  by (auto simp: process_handle_op_def nt_consts)

text \<open>The routine on a process handle: filtered and marked, or left alone.\<close>

lemma pre_operation_cb_guarded:
  assumes "pre_infos s i = Some info" "process_handle_op E info" "guarded_target K s info"
    and "\<And>h. r_ptr (K h (Pool (RustAlloc 24))) \<noteq> null"
  shows "\<exists>b t. pre_operation_cb K E (Some (ox_protect_data E)) i s = Some t \<and> b \<noteq> null \<and>
     client t b = Some \<lparr>cc_operation = pre_Operation info, cc_object = ObjProcess (pre_Object info)\<rparr> \<and>
     pre_infos t = (pre_infos s)(i \<mapsto> filtered b info) \<and> protect_data t = protect_data s"
proof -
  have ot: "object_type_of (ox_exports E) (pre_ObjectType info) = OtProcess"
    using assms(2) by (simp add: process_handle_op_def object_type_of_def)
  show ?thesis
    using assms ot
    by (intro exI [of _ "r_ptr (K (klog s @ [(Ps IoGetCurrentProcess, K (klog s) (Ps IoGetCurrentProcess))])
          (Pool (RustAlloc 24)))"])
       (auto simp: pre_operation_cb_def pre_operation_target_def pre_object_type_def pre_object_def
        guarded_target_def process_handle_op_def current_process_def ps_ptr_def current_process_id_def
        current_thread_id_def desired_access_def pre_is_kernel_handle_def set_desired_access_def
        pre_operation_def pre_set_context_def box_new_ok original_desired_access_def filtered_def Let_def
        nt_consts)
qed

lemma pre_operation_cb_other:
  assumes "pre_infos s i = Some info" "process_handle_op E info" "\<not> guarded_target K s info"
  shows "\<exists>t. pre_operation_cb K E (Some (ox_protect_data E)) i s = Some t \<and> pre_infos t = pre_infos s"
proof -
  have ot: "object_type_of (ox_exports E) (pre_ObjectType info) = OtProcess"
    using assms(2) by (simp add: process_handle_op_def object_type_of_def)
  show ?thesis
    using assms(1,3) ot
    by (auto simp: pre_operation_cb_def pre_operation_target_def pre_object_type_def pre_object_def
        guarded_target_def current_process_def ps_ptr_def)
qed

section \<open>Properties\<close>

text \<open>
  C16. What the driver is for. With its two registrations in place, whenever another process opens
  or duplicates a handle to the protected process, the dispatch by the crate ends in the desired
  access without the terminate bit and otherwise unchanged (kernel handles keep the access they
  ask for), and a call context that names the operation and the process is attached; the
  original access is kept. A handle to any other process, or one the protected process opens to
  itself, passes with the information untouched. In every case the kernel is told to go on.
\<close>

theorem protect_strips_terminate:
  assumes "ob_callbacks s (ox_callback E) = Some cb" "ob_operations cb = [process_op E, thread_op E]"
    and "pre_infos s i = Some info" "process_handle_op E info" "ox_protect_data E \<noteq> null"
    and "\<forall>h. r_ptr (K h (Pool (RustAlloc 24))) \<noteq> null"
  shows "\<exists>t. pre_op_internal (ox_exports E) (oc_run_pre K E) (ox_callback E) i s = Some (OB_PREOP_SUCCESS, t) \<and>
     (if guarded_target K s info
      then \<exists>b. b \<noteq> null \<and>
             client t b = Some \<lparr>cc_operation = pre_Operation info, cc_object = ObjProcess (pre_Object info)\<rparr> \<and>
             pre_infos t i = Some (filtered b info)
      else pre_infos t = pre_infos s)"
proof -
  have ot: "object_type_of (ox_exports E) (pre_ObjectType info) = OtProcess"
    using assms(4) by (simp add: process_handle_op_def object_type_of_def)
  have run: "oc_run_pre K E (ox_pre_operation_cb E) (context_opt (ox_protect_data E)) i s =
      pre_operation_cb K E (Some (ox_protect_data E)) i s"
    using assms(5) by (simp add: oc_run_pre_def context_opt_def)
  have step: "pre_op_internal (ox_exports E) (oc_run_pre K E) (ox_callback E) i s = Some (OB_PREOP_SUCCESS, t)"
    if "pre_operation_cb K E (Some (ox_protect_data E)) i s = Some t"
      "\<exists>info'. pre_infos t i = Some info' \<and> pre_ObjectType info' = pre_ObjectType info \<and>
               pre_Operation info' = pre_Operation info" for t
    using that assms(1-3) run ot ob_opn_cases [OF assms(4)]
    by (auto simp: pre_op_internal_def pre_object_type_def pre_operation_def)
  show ?thesis
  proof (cases "guarded_target K s info")
    case True
    from pre_operation_cb_guarded [OF assms(3,4) True] assms(6) obtain b t where
      *: "pre_operation_cb K E (Some (ox_protect_data E)) i s = Some t" "b \<noteq> null"
      "client t b = Some \<lparr>cc_operation = pre_Operation info, cc_object = ObjProcess (pre_Object info)\<rparr>"
      "pre_infos t = (pre_infos s)(i \<mapsto> filtered b info)"
      by blast
    have "pre_op_internal (ox_exports E) (oc_run_pre K E) (ox_callback E) i s = Some (OB_PREOP_SUCCESS, t)"
      by (rule step [OF *(1)]) (simp add: *(4) filtered_def)
    with True * show ?thesis
      by auto
  next
    case False
    from pre_operation_cb_other [OF assms(3,4) False] obtain t where
      *: "pre_operation_cb K E (Some (ox_protect_data E)) i s = Some t" "pre_infos t = pre_infos s"
      by blast
    from step [OF *(1)] *(2) assms(3) False show ?thesis
      by auto
  qed
qed

definition ox0 :: oc_env where
  "ox0 = \<lparr>ox_pre_operation_cb = 0xA1, ox_post_operation_cb = 0xA2, ox_process_notify_cb = 0xA3, ox_create = 0xA4,
     ox_close = 0xA5, ox_cleanup = 0xA6, ox_device_control = 0xA7, ox_driver_unload = 0xA8, ox_mutex = 0x700,
     ox_slot = 0xF00, ox_protect_data = 0x710, ox_callback = 0x720, ox_altitude = slice_empty,
     ox_device_name = slice_empty, ox_win32_name = slice_empty, ox_pool2_name = 0x80, ox_entry = ep0,
     ox_driver_id = 0xF, ox_sizeof = 64, ox_routines = \<lparr>pre_op_internal_fn = 0xB1, post_op_internal_fn = 0xB2\<rparr>,
     ox_exports = exports0\<rparr>"

text \<open>
  A concrete state: process \<open>0x9000\<close> is protected, the callback object has the given registrations
  and the operation of \<open>info0\<close> (another process opens that process) is at \<open>0x10\<close>.
\<close>

definition oc_st :: "WduObOpRegistration list \<Rightarrow> ocstate" where
  "oc_st ops = \<lparr>klog = [], debug_assertions = True, umem = \<lambda>a. 7, try_non_paged = False,
     irps = [0x50 \<mapsto> irp0], mdls = Map.empty, file_objs = Map.empty, devices = Map.empty,
     drivers = [0x20 \<mapsto> drvobj0], wdu_devices = Map.empty, wdu_drivers = Map.empty,
     irp_boxes = Map.empty, client = Map.empty, pre_infos = [0x10 \<mapsto> info0], post_infos = Map.empty,
     ob_callbacks = [0x720 \<mapsto> \<lparr>ob_handle = null, ob_operations = ops\<rparr>],
     PROTECT_NAME_FLAG = False, REJECT_NAME_FLAG = False, callback_installed = False,
     protect_data = protect_data_const_new\<lparr>pd_target_process := Some 0x9000\<rparr>, PROCESS_CB = ps_default\<rparr>"

lemma oc_st_facts:
  "ob_callbacks (oc_st ops) (ox_callback ox0) = Some \<lparr>ob_handle = null, ob_operations = ops\<rparr>"
  "pre_infos (oc_st ops) 0x10 = Some info0" "process_handle_op ox0 info0" "ox_protect_data ox0 \<noteq> null"
  "guarded_target ob_kernel (oc_st ops) info0" "\<forall>h. r_ptr (ob_kernel h (Pool (RustAlloc 24))) \<noteq> null"
  by (simp_all add: oc_st_def ox0_def process_handle_op_def info0_def exports0_def nt_consts guarded_target_def
      ob_kernel_def)

theorem protect_strips_terminate_witness:
  "\<exists>t info. pre_op_internal exports0 (oc_run_pre ob_kernel ox0) 0x720 0x10 (oc_st [process_op ox0, thread_op ox0])
       = Some (OB_PREOP_SUCCESS, t) \<and>
     pre_infos t 0x10 = Some info \<and> pp_DesiredAccess (pre_Parameters info) = 0x1E"
proof -
  have e: "ox_exports ox0 = exports0" "ox_callback ox0 = 0x720"
    by (simp_all add: ox0_def)
  obtain t b where "pre_op_internal exports0 (oc_run_pre ob_kernel ox0) 0x720 0x10 (oc_st [process_op ox0, thread_op ox0])
       = Some (OB_PREOP_SUCCESS, t)" "pre_infos t 0x10 = Some (filtered b info0)"
    using protect_strips_terminate [where K = ob_kernel, OF oc_st_facts(1) [of "[process_op ox0, thread_op ox0]"] _ oc_st_facts(2-4,6)]
      oc_st_facts(5) [of "[process_op ox0, thread_op ox0]"] e by auto
  moreover have "pp_DesiredAccess (pre_Parameters (filtered b info0)) = 0x1E"
    by (simp add: filtered_def info0_def CB_PROCESS_TERMINATE_def)
  ultimately show ?thesis
    by blast
qed

text \<open>Every registration of the driver adds its two entries to the object; removal keeps them.\<close>

lemma register_callback_ops:
  assumes "register_callback K E s = Some (r, s1)" "ob_callbacks s (ox_callback E) = Some cb"
  shows "\<exists>cb'. ob_callbacks s1 (ox_callback E) = Some cb' \<and>
     ob_operations cb' = ob_operations cb @ [process_op E, thread_op E]"
  using assms
  by (auto simp: register_callback_def push_op_registration_def ob_register_def Let_def bind_eq_Some_conv
      split: if_splits)

lemma delete_protect_name_ops:
  assumes "delete_protect_name_cb K E s = Some (r, s1)" "ob_callbacks s (ox_callback E) = Some cb"
  shows "\<exists>cb'. ob_callbacks s1 (ox_callback E) = Some cb' \<and> ob_operations cb' = ob_operations cb"
  using assms
  by (auto simp: delete_protect_name_cb_def ob_unregister_def Let_def bind_eq_Some_conv split: if_splits sum.splits)

lemma pre_each_stuck:
  assumes "pre_infos s i = Some info" "pre_CallContext info \<noteq> null" "process_handle_op E (info\<lparr>pre_CallContext := null\<rparr>)"
    and "guarded_target K s info" "ox_protect_data E \<noteq> null"
  shows "pre_each (ox_exports E) (oc_run_pre K E) i (process_op E # ops) s = None"
proof -
  have ot: "object_type_of (ox_exports E) (pre_ObjectType info) = OtProcess"
    using assms(3) by (simp add: process_handle_op_def object_type_of_def)
  have opn: "3 AND pre_Operation info = pre_Operation info"
    using ob_opn_cases [OF assms(3)] by simp
  have "pre_operation_cb K E (Some (ox_protect_data E)) i s = None"
    using assms ot
    by (auto simp: pre_operation_cb_def pre_operation_target_def pre_object_type_def pre_object_def
        guarded_target_def process_handle_op_def current_process_def ps_ptr_def
        desired_access_def pre_is_kernel_handle_def set_desired_access_def
        pre_operation_def pre_set_context_def Let_def nt_consts)
  with assms(1,5) ot opn show ?thesis
    by (simp add: pre_object_type_def pre_operation_def oc_run_pre_def context_opt_def)
qed

text \<open>
  C38. Protecting a second time brings the system down. After \<^verbatim>\<open>unprotect\<close> the two registrations are
  still in the callback object, and the next \<^verbatim>\<open>register_callback\<close> adds them once more. From then
  on, when another process opens or duplicates a handle to the protected process, the crate's
  dispatch runs the routine twice for the same operation; the second run finds the call context
  of the first and the assertion in \<^verbatim>\<open>set_context\<close> panics. (The current process is assumed to be
  the same during the operation.)
\<close>

theorem reprotect_panics:
  assumes "ob_callbacks s (ox_callback E) = Some cb" "ob_operations cb = []"
    and "register_callback K E s = Some (Ok (), s1)" "delete_protect_name_cb K E s1 = Some (Ok (), s2)"
    and "register_callback K E s2 = Some (Ok (), s3)" "ob_callbacks s4 = ob_callbacks s3"
    and "pre_infos s4 i = Some info" "process_handle_op E info" "guarded_target K s4 info"
    and "\<forall>h h'. r_ptr (K h (Ps IoGetCurrentProcess)) = r_ptr (K h' (Ps IoGetCurrentProcess))"
    and "ox_protect_data E \<noteq> null" "\<forall>h. r_ptr (K h (Pool (RustAlloc 24))) \<noteq> null"
  shows "pre_op_internal (ox_exports E) (oc_run_pre K E) (ox_callback E) i s4 = None"
proof -
  obtain cb1 where 1: "ob_callbacks s1 (ox_callback E) = Some cb1" "ob_operations cb1 = [process_op E, thread_op E]"
    using register_callback_ops [OF assms(3,1)] assms(2) by auto
  obtain cb2 where 2: "ob_callbacks s2 (ox_callback E) = Some cb2" "ob_operations cb2 = [process_op E, thread_op E]"
    using delete_protect_name_ops [OF assms(4) 1(1)] 1(2) by auto
  obtain cb3 where 3: "ob_callbacks s4 (ox_callback E) = Some cb3"
    "ob_operations cb3 = [process_op E, thread_op E, process_op E, thread_op E]"
    using register_callback_ops [OF assms(5) 2(1)] 2(2) assms(6) by auto
  from pre_operation_cb_guarded [OF assms(7,8,9)] assms(12) obtain b t where
    t: "pre_operation_cb K E (Some (ox_protect_data E)) i s4 = Some t" "b \<noteq> null"
    "pre_infos t = (pre_infos s4)(i \<mapsto> filtered b info)" "protect_data t = protect_data s4"
    by blast
  have ti: "pre_infos t i = Some (filtered b info)"
    by (simp add: t(3))
  have f: "pre_ObjectType (filtered b info) = pre_ObjectType info" "pre_Operation (filtered b info) = pre_Operation info"
    "pre_Object (filtered b info) = pre_Object info" "pre_CallContext (filtered b info) = b"
    by (simp_all add: filtered_def)
  have pho: "process_handle_op E (filtered b info\<lparr>pre_CallContext := null\<rparr>)"
    using assms(8) f by (simp add: process_handle_op_def)
  have gt: "guarded_target K t (filtered b info)"
    using assms(9,10) t(4) f unfolding guarded_target_def by metis
  have ot: "object_type_of (ox_exports E) (pre_ObjectType info) = OtProcess"
    using assms(8) by (simp add: process_handle_op_def object_type_of_def)
  show ?thesis
    using 3 assms(7,11) t(1) ti ot ob_opn_cases [OF assms(8)] f
      pre_each_stuck [OF ti _ pho gt assms(11), of "[thread_op E]"] t(2)
    by (simp add: pre_op_internal_def pre_object_type_def pre_operation_def oc_run_pre_def context_opt_def)
qed

lemma into_natives_append:
  "into_natives X F (xs @ ys) = do { a \<leftarrow> into_natives X F xs; b \<leftarrow> into_natives X F ys; Some (a @ b) }"
  by (induction xs) (auto split: Option.bind_splits)

lemma into_natives_oc: "\<exists>ns. into_natives X F [process_op E, thread_op E] = Some ns"
  by (simp add: into_native_def)

text \<open>A kernel that answers everything with success lets a registration through.\<close>

lemma register_callback_ob_kernel:
  assumes "ob_callbacks s (ox_callback E) = Some cb" "into_natives (ox_exports E) (ox_routines E) (ob_operations cb) = Some ns"
  shows "\<exists>s1 cb1. register_callback ob_kernel E s = Some (Ok (), s1) \<and> ob_callbacks s1 (ox_callback E) = Some cb1 \<and>
     ob_handle cb1 \<noteq> null \<and> pre_infos s1 = pre_infos s \<and> protect_data s1 = protect_data s"
  using assms
  by (simp add: register_callback_def push_op_registration_def ob_register_def Let_def ob_kernel_def
      into_natives_append into_native_def)

lemma delete_ob_kernel:
  assumes "ob_callbacks s (ox_callback E) = Some cb" "ob_handle cb \<noteq> null"
  shows "\<exists>s1. delete_protect_name_cb ob_kernel E s = Some (Ok (), s1) \<and> pre_infos s1 = pre_infos s \<and>
     protect_data s1 = protect_data s"
  using assms by (simp add: delete_protect_name_cb_def ob_unregister_def Let_def)

theorem reprotect_panics_witness:
  "\<exists>s1 s2 s3. register_callback ob_kernel ox0 (oc_st []) = Some (Ok (), s1) \<and>
     delete_protect_name_cb ob_kernel ox0 s1 = Some (Ok (), s2) \<and>
     register_callback ob_kernel ox0 s2 = Some (Ok (), s3) \<and>
     pre_op_internal exports0 (oc_run_pre ob_kernel ox0) 0x720 0x10 s3 = None"
proof -
  have 0: "ob_callbacks (oc_st []) (ox_callback ox0) = Some \<lparr>ob_handle = null, ob_operations = []\<rparr>"
    by (rule oc_st_facts)
  obtain s1 cb1 where 1: "register_callback ob_kernel ox0 (oc_st []) = Some (Ok (), s1)"
    "ob_callbacks s1 (ox_callback ox0) = Some cb1" "ob_handle cb1 \<noteq> null"
    "pre_infos s1 = pre_infos (oc_st [])" "protect_data s1 = protect_data (oc_st [])"
    using register_callback_ob_kernel [OF 0, of "[]"] by auto
  obtain s2 where 2: "delete_protect_name_cb ob_kernel ox0 s1 = Some (Ok (), s2)" "pre_infos s2 = pre_infos s1"
    "protect_data s2 = protect_data s1"
    using delete_ob_kernel [OF 1(2,3)] by blast
  obtain cb2 where cb2: "ob_callbacks s2 (ox_callback ox0) = Some cb2" "ob_operations cb2 = [process_op ox0, thread_op ox0]"
    using register_callback_ops [OF 1(1) 0] delete_protect_name_ops [OF 2(1) 1(2)] 1(2) by auto
  obtain ns where ns: "into_natives (ox_exports ox0) (ox_routines ox0) (ob_operations cb2) = Some ns"
    using into_natives_oc cb2(2) by metis
  obtain s3 where 3: "register_callback ob_kernel ox0 s2 = Some (Ok (), s3)" "pre_infos s3 = pre_infos s2"
    "protect_data s3 = protect_data s2"
    using register_callback_ob_kernel [OF cb2(1) ns] by blast
  have i: "pre_infos s3 0x10 = Some info0" "guarded_target ob_kernel s3 info0"
    using 1(4,5) 2(2,3) 3(2,3) oc_st_facts(2,5) [of "[]"] by (simp_all add: guarded_target_def ob_kernel_def)
  have k: "\<forall>h h'. r_ptr (ob_kernel h (Ps IoGetCurrentProcess)) = r_ptr (ob_kernel h' (Ps IoGetCurrentProcess))"
    by (simp add: ob_kernel_def)
  have "pre_op_internal (ox_exports ox0) (oc_run_pre ob_kernel ox0) (ox_callback ox0) 0x10 s3 = None"
    using reprotect_panics [where K = ob_kernel, OF 0 _ 1(1) 2(1) 3(1) refl i(1) oc_st_facts(3) i(2) k oc_st_facts(4,6)]
    by simp
  with 1(1) 2(1) 3(1) show ?thesis
    by (auto simp: ox0_def)
qed

text \<open>What making a string does to the rest of the state.\<close>

lemma try_from_slice_state:
  "(\<exists>l. try_from_slice K src s = Some (Err InsufficientResources, s\<lparr>klog := l\<rparr>)) \<or>
   (\<exists>w l m. try_from_slice K src s = Some (Ok w, s\<lparr>klog := l, umem := m\<rparr>) \<and>
      Length (us_string w) = to_unicode_len (sl_len src))"
  by (cases "try_non_paged s")
     (simp_all add: try_from_slice_def POOL_TYPE_def ustring_create_def paged_alloc_with_tag_def
        nonpaged_alloc_with_tag_def pool2_alloc_def Let_def, blast+)

lemma try_from_slice_cases:
  obtains l where "try_from_slice K src s = Some (Err InsufficientResources, s\<lparr>klog := l\<rparr>)"
  | w l m where "try_from_slice K src s = Some (Ok w, s\<lparr>klog := l, umem := m\<rparr>)"
      "Length (us_string w) = to_unicode_len (sl_len src)"
  using try_from_slice_state [of K src s] by blast

lemma ustring_drop_state: "\<exists>l. ustring_drop K w s = s\<lparr>klog := l\<rparr>"
proof (cases "us_alloc w")
  case None
  then show ?thesis
    by (auto simp: ustring_drop_def intro: exI [of _ "klog s"])
next
  case (Some a)
  then show ?thesis
    by (cases a) (auto simp: ustring_drop_def free_buffer_def)
qed

lemma register_callback_frame:
  assumes "register_callback K E s = Some (r, s1)"
  shows "protect_data s1 = protect_data s \<and> PROTECT_NAME_FLAG s1 = PROTECT_NAME_FLAG s \<and>
     REJECT_NAME_FLAG s1 = REJECT_NAME_FLAG s \<and> umem s1 = umem s \<and> (r = Ok () \<longrightarrow> callback_installed s1) \<and>
     (\<forall>e. r = Err e \<longrightarrow> e = OcCallbackError \<and> callback_installed s1 = callback_installed s)"
  using assms
  by (auto simp: register_callback_def push_op_registration_def ob_register_def Let_def bind_eq_Some_conv
      split: if_splits)

text \<open>\<^verbatim>\<open>protect_name_cb\<close> once the name has been copied: registration, then the choice of the flags.\<close>

definition choose_mode ::
  "ptr \<Rightarrow> (ObCallbackError, unit) result \<times> 'a ocstate_scheme
     \<Rightarrow> ((ObCallbackError, ntstatus) result \<times> 'a ocstate_scheme) option" where
  "choose_mode b = (\<lambda>(r, u). case r of
       Err e \<Rightarrow> Some (Err e, u)
     | Ok _ \<Rightarrow>
         if input_operation b u = PROTECT_NAME_PROTECT
           then Some (Ok STATUS_SUCCESS, u\<lparr>PROTECT_NAME_FLAG := True, REJECT_NAME_FLAG := False\<rparr>)
         else if input_operation b u = PROTECT_NAME_REJECT
           then Some (Ok STATUS_SUCCESS, u\<lparr>PROTECT_NAME_FLAG := False, REJECT_NAME_FLAG := True\<rparr>)
         else Some (Err OcInvalidParameter, u))"

lemma protect_name_cb_eq:
  assumes "input_buffer req \<noteq> null" "try_from_slice K (input_name (input_buffer req)) s = Some (Ok w, t)"
  obtains t' where "pd_name (protect_data t') = w" "PROTECT_NAME_FLAG t' = PROTECT_NAME_FLAG t"
    "REJECT_NAME_FLAG t' = REJECT_NAME_FLAG t" "umem t' = umem t" "ob_callbacks t' = ob_callbacks t"
    "callback_installed t' = callback_installed t"
    "protect_name_cb K E req s = Option.bind (register_callback K E t') (choose_mode (input_buffer req))"
proof -
  define t0 where "t0 = ustring_drop K (pd_name (protect_data t)) t"
  define t' where "t' = t0\<lparr>protect_data := (protect_data t0)\<lparr>pd_name := w\<rparr>\<rparr>"
  have "\<exists>l. t0 = t\<lparr>klog := l\<rparr>"
    unfolding t0_def by (rule ustring_drop_state)
  then show thesis
    using assms by (intro that [of t']) (auto simp: protect_name_cb_def choose_mode_def t0_def [symmetric] t'_def Let_def)
qed

text \<open>The name a request leaves behind is 402 bytes long.\<close>

lemma protect_name_cb_len:
  assumes "protect_name_cb K E req s = Some (Ok st, s1)"
  shows "ustring_bytes (pd_name (protect_data s1)) = 402"
proof (cases K "input_name (input_buffer req)" s rule: try_from_slice_cases)
  case (1 l)
  then show ?thesis
    using assms by (auto simp: protect_name_cb_def Let_def split: if_splits)
next
  case (2 w l m)
  have "input_buffer req \<noteq> null"
    using assms by (auto simp: protect_name_cb_def)
  obtain t' where t': "pd_name (protect_data t') = w"
    and eq: "protect_name_cb K E req s = Option.bind (register_callback K E t') (choose_mode (input_buffer req))"
    by (rule protect_name_cb_eq [OF \<open>input_buffer req \<noteq> null\<close> 2(1), of E])
  with assms obtain r u where r: "register_callback K E t' = Some (r, u)"
    by (auto simp: bind_eq_Some_conv)
  moreover have "protect_data s1 = protect_data u"
    using assms eq r by (cases r) (auto simp: choose_mode_def split: if_splits)
  ultimately show ?thesis
    using t' register_callback_frame [OF r] 2(2)
    by (simp add: ustring_bytes_def input_name_def NAME_SIZE_def to_unicode_len_def)
qed

lemma short_never_contains:
  "ustring_bytes f < ustring_bytes n \<Longrightarrow> \<not> ustring_contains lower s f n True"
  by (simp add: ustring_contains_def)

lemma check_process_short:
  assumes "ustring_bytes f < ustring_bytes (pd_name (protect_data s))"
  shows "check_process_match lower process pid f s = (STATUS_NOT_FOUND, s)"
  using short_never_contains [OF assms, of lower s] by (simp add: check_process_match_def)

text \<open>
  C37. A protected name never matches. The name is taken from the request as all 201 units of the
  fixed array, padding included, so the string that is searched for is 402 bytes long, and
  \<^verbatim>\<open>contains\<close> is false for anything shorter. Hence, after a successful request, a process whose
  image name has a capacity of less than 402 bytes is neither protected nor rejected: the notify
  routine returns with its creation status and the protected target unchanged.
\<close>

theorem protected_name_never_matches:
  assumes "protect_name_cb K E req s = Some (Ok st, s1)" "pd_name (protect_data s2) = pd_name (protect_data s1)"
    and "ni_ImageFileName ni = Some u" "MaximumLength u < 402"
  shows "\<exists>t. process_notify_cb K E lower process pid (Some ni) s2 = Some (Some ni, t) \<and>
     protect_data t = protect_data s2"
proof -
  let ?w = "str_from_ptr (Some u)"
  have len: "sl_len (ws_slice ?w) < 201"
    using assms(4) by (simp add: str_from_ptr_def word_less_nat_alt)
  have name: "ustring_bytes (pd_name (protect_data s2)) = 402"
    using protect_name_cb_len [OF assms(1)] assms(2) by simp
  have drop: "protect_data (ustring_drop K f t) = protect_data t" for f t
    using ustring_drop_state [of K f t] by auto
  show ?thesis
  proof (cases K "ws_slice ?w" s2 rule: try_from_slice_cases)
    case (1 l)
    then show ?thesis
      by (simp add: process_notify_cb_def ni_is_exit_def ni_image_filename_def assms(3) str_to_owned_def
          ustring_is_empty_def ustring_default_def drop nt_consts)
  next
    case (2 f l m)
    have "unat (ustring_bytes f) < 402"
      using len 2(2) unat_to_unicode_len_small [of "sl_len (ws_slice ?w)"] by (simp add: ustring_bytes_def)
    then have short: "ustring_bytes f < ustring_bytes (pd_name (protect_data s2))"
      by (simp add: name word_less_nat_alt)
    from 2 check_process_short short show ?thesis
      by (simp add: process_notify_cb_def ni_is_exit_def ni_image_filename_def assms(3) str_to_owned_def
          with_protect_def guarded_lock_def guarded_acquire_def guarded_unlock_def guarded_release_def
          check_process_short drop nt_consts Let_def)
  qed
qed

lemma ptr_copy_const: "ptr_copy (\<lambda>a. c) src dst n = (\<lambda>a. c)"
  by (auto simp: ptr_copy_def store_def load_def Let_def)

text \<open>A request at \<open>0x6000\<close> in memory that holds the same unit everywhere.\<close>

definition oc_req :: WduDeviceControl where
  "oc_req = \<lparr>dc_ioctl = TD_IOCTL_PROTECT_NAME_CALLBACK, dc_out_buf_len = 0, dc_in_buf_len = 408, dc_buffer = Buffered 0x6000\<rparr>"

lemma oc_req_input [simp]: "input_buffer oc_req = 0x6000"
  by (simp add: oc_req_def input_buffer_def)

lemma try_from_slice_ob_kernel:
  assumes "umem s = (\<lambda>a. c)"
  shows "\<exists>w l. try_from_slice ob_kernel src s = Some (Ok w, s\<lparr>klog := l, umem := \<lambda>a. c\<rparr>)"
  using assms
  by (cases "try_non_paged s")
     (auto simp: try_from_slice_def POOL_TYPE_def ustring_create_def paged_alloc_with_tag_def
        nonpaged_alloc_with_tag_def pool2_alloc_def ob_kernel_def ptr_copy_const Let_def)

lemma protect_name_cb_ob_kernel:
  assumes "umem s = (\<lambda>a. c)" "ob_callbacks s = ob_callbacks (oc_st [])"
  shows "\<exists>u. umem u = (\<lambda>a. c) \<and> protect_name_cb ob_kernel ox0 oc_req s = choose_mode 0x6000 (Ok (), u)"
proof -
  obtain w l where w: "try_from_slice ob_kernel (input_name (input_buffer oc_req)) s
      = Some (Ok w, s\<lparr>klog := l, umem := \<lambda>a. c\<rparr>)"
    using try_from_slice_ob_kernel [OF assms(1)] by blast
  obtain t' where t': "umem t' = (\<lambda>a. c)" "ob_callbacks t' = ob_callbacks (oc_st [])"
    and eq: "protect_name_cb ob_kernel ox0 oc_req s =
       Option.bind (register_callback ob_kernel ox0 t') (choose_mode (input_buffer oc_req))"
    by (rule protect_name_cb_eq [OF _ w, of ox0]) (auto simp: assms)
  have "ob_callbacks t' (ox_callback ox0) = Some \<lparr>ob_handle = null, ob_operations = []\<rparr>"
    using t' oc_st_facts(1) by simp
  from register_callback_ob_kernel [OF this, of "[]"] obtain u where
    u: "register_callback ob_kernel ox0 t' = Some (Ok (), u)"
    by auto
  with register_callback_frame [OF u] eq t' show ?thesis
    by auto
qed

theorem protected_name_never_matches_witness:
  "\<exists>s1 t. protect_name_cb ob_kernel ox0 oc_req ((oc_st [])\<lparr>umem := \<lambda>a. 0\<rparr>) = Some (Ok STATUS_SUCCESS, s1) \<and>
     process_notify_cb ob_kernel ox0 (\<lambda>x. x) 0x9100 0x44
       (Some \<lparr>ni_Flags = 0, ni_ParentProcessId = 4, ni_CreatingThreadId = (4, 8), ni_FileObject = 0,
          ni_ImageFileName = Some \<lparr>Length = 20, MaximumLength = 22, Buffer = 0x6004\<rparr>, ni_CommandLine = None,
          ni_CreationStatus = 0\<rparr>) s1
     = Some (Some \<lparr>ni_Flags = 0, ni_ParentProcessId = 4, ni_CreatingThreadId = (4, 8), ni_FileObject = 0,
          ni_ImageFileName = Some \<lparr>Length = 20, MaximumLength = 22, Buffer = 0x6004\<rparr>, ni_CommandLine = None,
          ni_CreationStatus = 0\<rparr>, t)"
proof -
  obtain s1 where s1: "protect_name_cb ob_kernel ox0 oc_req ((oc_st [])\<lparr>umem := \<lambda>a. 0\<rparr>) = Some (Ok STATUS_SUCCESS, s1)"
    using protect_name_cb_ob_kernel [of "(oc_st [])\<lparr>umem := \<lambda>a. 0\<rparr>" 0]
    by (auto simp: choose_mode_def input_operation_def PROTECT_NAME_PROTECT_def)
  show ?thesis
    using protected_name_never_matches [OF s1 refl, of "\<lparr>ni_Flags = 0, ni_ParentProcessId = 4, ni_CreatingThreadId = (4, 8),
        ni_FileObject = 0, ni_ImageFileName = Some \<lparr>Length = 20, MaximumLength = 22, Buffer = 0x6004\<rparr>,
        ni_CommandLine = None, ni_CreationStatus = 0\<rparr>" _ "\<lambda>x. x" "0x9100" "0x44"] s1
    by auto
qed

lemma protect_lock_frame [simp]:
  "PROTECT_NAME_FLAG (guarded_lock K m sl s) = PROTECT_NAME_FLAG s" "REJECT_NAME_FLAG (guarded_lock K m sl s) = REJECT_NAME_FLAG s"
  "callback_installed (guarded_lock K m sl s) = callback_installed s" "protect_data (guarded_lock K m sl s) = protect_data s"
  "umem (guarded_lock K m sl s) = umem s" "ob_callbacks (guarded_lock K m sl s) = ob_callbacks s"
  "PROTECT_NAME_FLAG (guarded_unlock K m sl s) = PROTECT_NAME_FLAG s" "REJECT_NAME_FLAG (guarded_unlock K m sl s) = REJECT_NAME_FLAG s"
  "callback_installed (guarded_unlock K m sl s) = callback_installed s" "protect_data (guarded_unlock K m sl s) = protect_data s"
  "umem (guarded_unlock K m sl s) = umem s"
  by (simp_all add: guarded_lock_def guarded_acquire_def guarded_unlock_def guarded_release_def)

lemma protect_name_installed:
  assumes "sizeof_ProtectNameInput \<le> dc_in_buf_len req" "callback_installed s"
  shows "protect_name K E req s = Some (Ok STATUS_SUCCESS,
     guarded_unlock K (ox_mutex E) (ox_slot E) (guarded_lock K (ox_mutex E) (ox_slot E) s))"
  using assms by (simp add: protect_name_def with_protect_def Let_def not_less)

lemma unprotect_uninstalls:
  assumes "unprotect K E s = Some (Ok st, t)"
  shows "\<not> callback_installed t"
proof (cases "callback_installed s")
  case True
  let ?s = "guarded_lock K (ox_mutex E) (ox_slot E) s"
  obtain r u where r: "ob_unregister K (ox_callback E) ?s = Some (r, u)"
    using assms True by (auto simp: unprotect_def with_protect_def delete_protect_name_cb_def Let_def bind_eq_Some_conv)
  with assms True show ?thesis
    by (cases r) (auto simp: unprotect_def with_protect_def delete_protect_name_cb_def Let_def)
next
  case False
  with assms show ?thesis
    by (auto simp: unprotect_def with_protect_def Let_def)
qed

lemma protect_name_free:
  assumes "sizeof_ProtectNameInput \<le> dc_in_buf_len req" "\<not> callback_installed s"
  shows "protect_name K E req s =
     Option.bind (protect_name_cb K E req (guarded_lock K (ox_mutex E) (ox_slot E) s))
       (\<lambda>(r, u). Some (map_sum id (\<lambda>_. STATUS_SUCCESS) r, guarded_unlock K (ox_mutex E) (ox_slot E) u))"
  using assms
  by (auto simp: protect_name_def with_protect_def Let_def split: Option.bind_splits sum.splits)

text \<open>
  A request with an operation code that is neither protect nor reject, in the state in which the
  driver looks at the code: it fails, with the flags as they were, and with an invalid parameter
  exactly when the callbacks have been installed before that.
\<close>

lemma protect_name_cb_invalid:
  assumes "protect_name_cb K E req s = Some (res, u)" "input_buffer req \<noteq> null" "\<not> callback_installed s"
    and "input_operation (input_buffer req) u \<notin> {PROTECT_NAME_PROTECT, PROTECT_NAME_REJECT}"
  shows "\<exists>e. res = Err e \<and> (callback_installed u \<longleftrightarrow> e = OcInvalidParameter) \<and>
    PROTECT_NAME_FLAG u = PROTECT_NAME_FLAG s \<and> REJECT_NAME_FLAG u = REJECT_NAME_FLAG s"
proof (cases K "input_name (input_buffer req)" s rule: try_from_slice_cases)
  case (1 l)
  with assms show ?thesis by (auto simp: protect_name_cb_def Let_def)
next
  case (2 w l m)
  obtain t' where t': "PROTECT_NAME_FLAG t' = PROTECT_NAME_FLAG s" "REJECT_NAME_FLAG t' = REJECT_NAME_FLAG s"
    "\<not> callback_installed t'"
    and eq: "protect_name_cb K E req s = Option.bind (register_callback K E t') (choose_mode (input_buffer req))"
    by (rule protect_name_cb_eq [OF assms(2) 2(1), of E]) (use assms(3) in auto)
  with assms(1) obtain r v where r: "register_callback K E t' = Some (r, v)"
    by (auto simp: bind_eq_Some_conv)
  note frame = register_callback_frame [OF r]
  show ?thesis
  proof (cases r)
    case (Inl e)
    then show ?thesis using assms(1) eq r frame t' by (auto simp: choose_mode_def)
  next
    case (Inr x)
    have run: "choose_mode (input_buffer req) (Ok x, v) = Some (res, u)"
      using assms(1) eq r Inr by simp
    then have "umem u = umem v"
      by (auto simp: choose_mode_def split: if_splits)
    then have "input_operation (input_buffer req) v = input_operation (input_buffer req) u"
      by (simp add: input_operation_def)
    with run assms(4) have "res = Err OcInvalidParameter" "u = v"
      by (auto simp: choose_mode_def)
    then show ?thesis using frame t' Inr by simp
  qed
qed

text \<open>
  C39. A protect request of sufficient size whose operation code is neither protect nor reject (and
  is not overwritten by the driver's copy of the name), while no callbacks are installed, is
  refused and leaves both flags as they were. But it is refused as an invalid parameter only after
  the callbacks have been registered, which leaves them installed; with any other error they are not
  installed. While callbacks are installed, every protect request of sufficient size, valid or not,
  is answered with success and changes neither the protected name nor the flags, and the callbacks
  stay installed; only an unprotect request that the kernel grants ends this.
\<close>

theorem invalid_operation_blocks_protection:
  assumes "protect_name K E req s = Some (res, s1)" "sizeof_ProtectNameInput \<le> dc_in_buf_len req"
    and "input_buffer req \<noteq> null" "\<not> callback_installed s"
    and op: "input_operation (input_buffer req) s \<noteq> PROTECT_NAME_PROTECT"
      "input_operation (input_buffer req) s \<noteq> PROTECT_NAME_REJECT"
    and kept: "input_operation (input_buffer req) s1 = input_operation (input_buffer req) s"
  shows "\<exists>e. res = Err e \<and> (callback_installed s1 \<longleftrightarrow> e = OcInvalidParameter) \<and>
     PROTECT_NAME_FLAG s1 = PROTECT_NAME_FLAG s \<and> REJECT_NAME_FLAG s1 = REJECT_NAME_FLAG s \<and>
     (\<forall>u req'. callback_installed u \<longrightarrow> sizeof_ProtectNameInput \<le> dc_in_buf_len req' \<longrightarrow>
        (\<exists>t. protect_name K E req' u = Some (Ok STATUS_SUCCESS, t) \<and> callback_installed t \<and>
           protect_data t = protect_data u \<and> PROTECT_NAME_FLAG t = PROTECT_NAME_FLAG u \<and>
           REJECT_NAME_FLAG t = REJECT_NAME_FLAG u)) \<and>
     (\<forall>u t. unprotect K E u = Some (Ok STATUS_SUCCESS, t) \<longrightarrow> \<not> callback_installed t)"
proof -
  let ?s = "guarded_lock K (ox_mutex E) (ox_slot E) s"
  from assms(1) protect_name_free [OF assms(2,4), of K E] obtain r u where
    u: "protect_name_cb K E req ?s = Some (r, u)" and res: "res = map_sum id (\<lambda>_. STATUS_SUCCESS) r"
    and s1: "s1 = guarded_unlock K (ox_mutex E) (ox_slot E) u"
    by (auto simp: bind_eq_Some_conv)
  have "input_operation (input_buffer req) u = input_operation (input_buffer req) s"
    using kept by (simp add: s1 input_operation_def)
  then obtain e where "r = Err e" "callback_installed u \<longleftrightarrow> e = OcInvalidParameter"
    "PROTECT_NAME_FLAG u = PROTECT_NAME_FLAG s" "REJECT_NAME_FLAG u = REJECT_NAME_FLAG s"
    using protect_name_cb_invalid [OF u assms(3)] assms(4) op by auto
  moreover have "\<not> callback_installed t" if "unprotect K E v = Some (Ok STATUS_SUCCESS, t)" for v t
    using that by (rule unprotect_uninstalls)
  ultimately show ?thesis
    using res s1 by (intro exI [of _ e]) (auto simp: protect_name_installed)
qed

lemma oc_st_umem: "umem (oc_st ops) = (\<lambda>a. 7)"
  by (simp add: oc_st_def)

theorem invalid_operation_blocks_protection_witness:
  "\<exists>s1 t. protect_name ob_kernel ox0 oc_req (oc_st []) = Some (Err OcInvalidParameter, s1) \<and> callback_installed s1 \<and>
     protect_name ob_kernel ox0 oc_req s1 = Some (Ok STATUS_SUCCESS, t) \<and> \<not> PROTECT_NAME_FLAG t"
proof -
  let ?l = "guarded_lock ob_kernel (ox_mutex ox0) (ox_slot ox0)"
  have req: "sizeof_ProtectNameInput \<le> dc_in_buf_len oc_req" "\<not> callback_installed (oc_st [])"
    "input_buffer oc_req \<noteq> null" "\<not> PROTECT_NAME_FLAG (oc_st [])"
    by (simp_all add: oc_req_def sizeof_ProtectNameInput_def oc_st_def input_buffer_def)
  have code: "input_operation (input_buffer oc_req) v \<noteq> PROTECT_NAME_PROTECT"
    "input_operation (input_buffer oc_req) v \<noteq> PROTECT_NAME_REJECT"
    "input_operation (input_buffer oc_req) v = input_operation (input_buffer oc_req) (oc_st [])"
    if "umem v = (\<lambda>a. 7)" for v :: ocstate
    using that by (simp_all add: oc_st_umem input_operation_def PROTECT_NAME_PROTECT_def PROTECT_NAME_REJECT_def)
  obtain u where u: "umem u = (\<lambda>a. 7)" "protect_name_cb ob_kernel ox0 oc_req (?l (oc_st [])) = choose_mode 0x6000 (Ok (), u)"
    using protect_name_cb_ob_kernel [of "?l (oc_st [])" 7] by (auto simp: oc_st_umem)
  define s1 where "s1 = guarded_unlock ob_kernel (ox_mutex ox0) (ox_slot ox0) u"
  have s1: "protect_name ob_kernel ox0 oc_req (oc_st []) = Some (Err OcInvalidParameter, s1)"
    using u code [OF u(1)] by (simp add: protect_name_free [OF req(1,2)] choose_mode_def s1_def)
  have "umem s1 = (\<lambda>a. 7)" using u(1) by (simp add: s1_def)
  note main = invalid_operation_blocks_protection [OF s1 req(1,3,2) code(1,2) [OF oc_st_umem] code(3) [OF this]]
  have inst: "callback_installed s1" "\<not> PROTECT_NAME_FLAG s1"
    using main req(4) by auto
  from main have "\<forall>u req'. callback_installed u \<longrightarrow> sizeof_ProtectNameInput \<le> dc_in_buf_len req' \<longrightarrow>
      (\<exists>t. protect_name ob_kernel ox0 req' u = Some (Ok STATUS_SUCCESS, t) \<and> callback_installed t \<and>
         protect_data t = protect_data u \<and> PROTECT_NAME_FLAG t = PROTECT_NAME_FLAG u \<and>
         REJECT_NAME_FLAG t = REJECT_NAME_FLAG u)"
    by blast
  then obtain t where "protect_name ob_kernel ox0 oc_req s1 = Some (Ok STATUS_SUCCESS, t)" "\<not> PROTECT_NAME_FLAG t"
    using inst req(1) by auto
  with s1 inst(1) show ?thesis by blast
qed

end
