(* ===== verification/Ex_ObCallbackRun.thy ===== *)
theory Ex_ObCallbackRun
  imports Ex_ObCallback Wdu_UstringRun
begin

text \<open>
  The obcallback example from its load to its unload: whatever requests, process notifications
  and handle operations come in between, what the kernel holds for the driver (its object
  callbacks, its process routine) is what the driver's statics say, and unloading takes it away.
\<close>

section \<open>The object callbacks the kernel holds\<close>

fun ob_step :: "kevent \<Rightarrow> ptr list \<Rightarrow> ptr list" where
  "ob_step (Ps (ObRegisterCallbacks c), r) hs = (if r_status r = STATUS_SUCCESS then r_out r # hs else hs)"
| "ob_step (Ps (ObUnRegisterCallbacks h), r) hs = remove1 h hs"
| "ob_step _ hs = hs"

definition ob_held :: "kevent list \<Rightarrow> ptr list" where
  "ob_held es = fold ob_step es []"

text \<open>A handle may be given back only while it is held.\<close>

fun ob_release_ok :: "ptr list \<Rightarrow> kevent \<Rightarrow> bool" where
  "ob_release_ok hs (Ps (ObUnRegisterCallbacks h), r) \<longleftrightarrow> h \<in> set hs"
| "ob_release_ok hs _ \<longleftrightarrow> True"

fun ob_releases_ok :: "ptr list \<Rightarrow> kevent list \<Rightarrow> bool" where
  "ob_releases_ok hs [] \<longleftrightarrow> True"
| "ob_releases_ok hs (e # es) \<longleftrightarrow> ob_release_ok hs e \<and> ob_releases_ok (ob_step e hs) es"

lemma ob_held_append [simp]: "ob_held (es @ fs) = fold ob_step fs (ob_held es)"
  by (simp add: ob_held_def)

lemma ob_releases_ok_append [simp]:
  "ob_releases_ok hs (es @ fs) \<longleftrightarrow> ob_releases_ok hs es \<and> ob_releases_ok (fold ob_step es hs) fs"
  by (induction es arbitrary: hs) simp_all

lemma fold_ob_step [simp]: "fold ob_step es [] = ob_held es"
  by (simp add: ob_held_def)

abbreviation ps_held :: "kevent list \<Rightarrow> PsCallbackVersion list" where
  "ps_held es \<equiv> live (ps_controlled False) (ps_controlled True) es []"

section \<open>The invariant\<close>

text \<open>The driver object \<open>drv\<close> has an extension with the driver's unload routine in it.\<close>

definition oc_installed :: "oc_env \<Rightarrow> ptr \<Rightarrow> 'a ocstate_scheme \<Rightarrow> bool" where
  "oc_installed E drv s \<longleftrightarrow> drv \<in> dom (drivers s) \<and> driver_ext drv (ox_driver_id E) (klog s) \<noteq> null \<and>
     (\<exists>d. wdu_drivers s (driver_ext drv (ox_driver_id E) (klog s)) = Some d \<and> wr_init d \<and> wr_driver d = drv \<and>
       wr_unload d = Some (ox_driver_unload E))"

text \<open>
  The kernel holds the object callbacks exactly when \<open>callback_installed\<close> says so, under the handle
  of the driver's callback object; it holds the process routine of \<open>PROCESS_CB\<close>; and of the pool, the
  driver owns the block of the protected name, besides what was there before (\<open>B\<close>).
\<close>

definition oc_regs :: "blocks \<Rightarrow> oc_env \<Rightarrow> 'a ocstate_scheme \<Rightarrow> bool" where
  "oc_regs B E s \<longleftrightarrow>
     (\<exists>cb. ob_callbacks s (ox_callback E) = Some cb \<and> (callback_installed s \<longrightarrow> ob_handle cb \<noteq> null) \<and>
        ob_held (klog s) = (if callback_installed s then [ob_handle cb] else [])) \<and>
     ob_releases_ok [] (klog s) \<and> ps_held (klog s) = slot_list (\<lambda>v. v) (pc_callback (PROCESS_CB s)) \<and>
     strings_inv B [pd_name (protect_data s)] s"

definition oc_inv :: "blocks \<Rightarrow> oc_env \<Rightarrow> ptr \<Rightarrow> 'a ocstate_scheme \<Rightarrow> bool" where
  "oc_inv B E drv s \<longleftrightarrow> oc_regs B E s \<and> oc_installed E drv s"

text \<open>Most operations leave all of that alone.\<close>

definition same_regs :: "'a ocstate_scheme \<Rightarrow> 'a ocstate_scheme \<Rightarrow> bool" where
  "same_regs s t \<longleftrightarrow> ob_callbacks t = ob_callbacks s \<and> callback_installed t = callback_installed s \<and>
     PROCESS_CB t = PROCESS_CB s \<and> pd_name (protect_data t) = pd_name (protect_data s) \<and>
     ob_held (klog t) = ob_held (klog s) \<and> (ob_releases_ok [] (klog s) \<longrightarrow> ob_releases_ok [] (klog t)) \<and>
     ps_held (klog t) = ps_held (klog s)"

definition same_held :: "'a ocstate_scheme \<Rightarrow> 'a ocstate_scheme \<Rightarrow> bool" where
  "same_held s t \<longleftrightarrow> same_regs s t \<and> drivers t = drivers s \<and> wdu_drivers t = wdu_drivers s \<and>
     (\<forall>d i. driver_ext d i (klog t) = driver_ext d i (klog s))"

definition calm :: "'a ocstate_scheme \<Rightarrow> 'a ocstate_scheme \<Rightarrow> bool" where
  "calm s t \<longleftrightarrow> same_held s t \<and> pool_kept s t"

lemmas calm_defs = calm_def same_held_def same_regs_def pool_kept_def

named_theorems calm_ops \<open>operations that leave the registrations and the pool alone\<close>

lemma calm_refl [simp]: "calm s s"
  by (simp add: calm_defs)

lemma calm_trans [trans]: "calm s t \<Longrightarrow> calm t u \<Longrightarrow> calm s u"
  by (auto simp: calm_defs)

lemma calm_inv: "calm s t \<Longrightarrow> oc_inv B E drv s \<Longrightarrow> oc_inv B E drv t"
  unfolding calm_def same_held_def same_regs_def oc_inv_def oc_regs_def oc_installed_def by (auto intro: strings_inv_kept)

lemma calm_lock: "calm s (guarded_lock K m sl s)" "calm s (guarded_unlock K m sl s)"
  by (simp_all add: calm_defs guarded_lock_def guarded_acquire_def guarded_unlock_def guarded_release_def
      ps_controlled_def)

lemma calm_queries:
  fixes s :: "'a ocstate_scheme"
  shows "calm s (snd (current_process K s))" "calm s (snd (current_process_id K s))"
    "calm s (snd (current_thread_id K s))" "calm s (snd (thread_process_id K p s))"
  by (simp_all add: calm_defs current_process_def current_process_id_def current_thread_id_def
      thread_process_id_def ps_ptr_def ps_controlled_def sys_eq Let_def)

lemma calm_thread_query:
  fixes s :: "'a ocstate_scheme"
  shows "calm s (snd (current_process_id K (snd (thread_process_id K p s))))"
  by (rule calm_trans [OF calm_queries(4) calm_queries(2)])

lemma calm_complete [calm_ops]:
  fixes s :: "'a ocstate_scheme"
  shows "irp_complete K w st s = Some t \<Longrightarrow> calm s t"
  by (auto simp: irp_complete_def complete_request_def calm_defs ps_controlled_def Let_def bind_eq_Some_conv
      split: if_splits)

lemma calm_infos:
  fixes s :: "'a ocstate_scheme"
  shows "calm s (s\<lparr>pre_infos := m\<rparr>)" "calm s (s\<lparr>post_infos := m'\<rparr>)" "calm s (s\<lparr>irps := m''\<rparr>)"
  by (simp_all add: calm_defs)

lemma calm_set_access [calm_ops]:
  fixes s :: "'a ocstate_scheme"
  shows "set_desired_access i a s = Some t \<Longrightarrow> calm s t"
  by (auto simp: set_desired_access_def Let_def bind_eq_Some_conv calm_infos)

lemma calm_set_context [calm_ops]:
  fixes s :: "'a ocstate_scheme"
  shows "pre_set_context K n i c s = Some t \<Longrightarrow> calm s t"
  by (auto simp: pre_set_context_def box_new_def rust_alloc_def sys_eq panic_def Let_def bind_eq_Some_conv calm_defs
      ps_controlled_def split: if_splits)

lemma calm_target [calm_ops]:
  assumes "pre_operation_target K E data i s = Some (x, t)"
  shows "calm s t"
proof -
  obtain ty ob where ty: "pre_object_type (ox_exports E) i s = Some ty" "pre_object i s = Some ob"
    using assms by (auto simp: pre_operation_target_def bind_eq_Some_conv)
  show ?thesis
    using assms ty calm_queries [of s K] calm_thread_query [of s K ob]
    by (cases ty) (auto simp: pre_operation_target_def Let_def case_prod_beta split: if_splits)
qed

lemma calm_pre [calm_ops]:
  assumes "pre_operation_cb K E ctx i s = Some t"
  shows "calm s t"
proof (cases ctx)
  case None
  then show ?thesis using assms by (simp add: pre_operation_cb_def)
next
  case (Some p)
  then obtain target s1 where s1: "pre_operation_target K E (protect_data s) i s = Some (target, s1)"
    using assms by (auto simp: pre_operation_cb_def bind_eq_Some_conv)
  show ?thesis
  proof (cases target)
    case None
    then show ?thesis using assms Some s1 by (auto simp: pre_operation_cb_def intro: calm_target)
  next
    case tgt: (Some oc)
    obtain ob clear where oc: "oc = (ob, clear)" by fastforce
    obtain s2 s3 c where s2: "s2 = s1 \<or> (\<exists>a. set_desired_access i a s1 = Some s2)"
      and s3: "pre_set_context K 24 i c s2 = Some s3"
      and t: "t = snd (current_thread_id K (snd (current_process_id K s3)))"
      using assms Some s1 tgt oc by (auto simp: pre_operation_cb_def Let_def bind_eq_Some_conv split: if_splits)
    have "calm s s1" using s1 by (rule calm_target)
    also have "calm s1 s2" using s2 by (auto intro: calm_set_access)
    also have "calm s2 s3" using s3 by (rule calm_set_context)
    also have "calm s3 t" unfolding t by (rule calm_trans [OF calm_queries(2) calm_queries(3)])
    finally show ?thesis .
  qed
qed

lemma calm_box_drop:
  fixes s :: "'a ocstate_scheme"
  shows "box_drop K n b s = Some t \<Longrightarrow> calm s t"
  by (cases "n = 0") (auto simp: box_drop_def calm_defs ps_controlled_def bind_eq_Some_conv)

lemma calm_post [calm_ops]:
  assumes "post_operation_cb K E ctx i s = Some t"
  shows "calm s t"
proof -
  obtain x where x: "call_context i s = Some x"
    using assms by (auto simp: post_operation_cb_def bind_eq_Some_conv)
  show ?thesis
  proof (cases x)
    case None
    then show ?thesis using assms x by (simp add: post_operation_cb_def)
  next
    case (Some b)
    then obtain c where c: "client s b = Some c"
      using assms x by (auto simp: post_operation_cb_def bind_eq_Some_conv)
    have "\<exists>s2. calm s s2 \<and> box_drop K 24 b s2 = Some t"
      using assms x Some c
      by (cases "cc_object c")
         (auto simp: post_operation_cb_def Let_def bind_eq_Some_conv case_prod_beta split: if_splits
           intro: calm_refl calm_queries calm_thread_query)
    then show ?thesis using calm_box_drop calm_trans by blast
  qed
qed

lemma calm_run: "oc_run_pre K E f c i s = Some t \<Longrightarrow> calm s t" "oc_run_post K E f c i s = Some t \<Longrightarrow> calm s t"
  by (auto simp: oc_run_pre_def oc_run_post_def intro: calm_ops)

lemma calm_each:
  "pre_each X (oc_run_pre K E) i ops s = Some t \<Longrightarrow> calm s t"
  "post_each X (oc_run_post K E) i ops s = Some t \<Longrightarrow> calm s t"
  by (induction ops arbitrary: s)
     (auto simp: bind_eq_Some_conv split: if_splits option.splits intro: calm_trans dest!: calm_run)

section \<open>Strings\<close>

lemma try_from_slice_held:
  fixes s :: "'a ocstate_scheme"
  assumes "try_from_slice K src s = Some (r, t)"
  shows "same_held s t"
  using assms
  by (cases "try_non_paged s")
     (auto simp: try_from_slice_def POOL_TYPE_def ustring_create_def paged_alloc_with_tag_def nonpaged_alloc_with_tag_def
       pool2_alloc_def sys_eq Let_def same_held_def same_regs_def ps_controlled_def bind_eq_Some_conv split: if_splits)

lemma ustring_drop_held:
  fixes s :: "'a ocstate_scheme"
  shows "same_held s (ustring_drop K w s)"
  by (cases "us_alloc w")
     (auto simp: ustring_drop_def free_buffer_def same_held_def same_regs_def ps_controlled_def split: AllocType.splits)

lemma same_held_trans [trans]: "same_held s t \<Longrightarrow> same_held t u \<Longrightarrow> same_held s u"
  by (simp add: same_held_def same_regs_def)

lemma same_held_inv:
  "same_held s t \<Longrightarrow> oc_inv B E drv s \<Longrightarrow> strings_inv B [pd_name (protect_data s)] t \<Longrightarrow> oc_inv B E drv t"
  unfolding same_held_def same_regs_def oc_inv_def oc_regs_def oc_installed_def by auto

lemma oc_inv_strings: "oc_inv B E drv s \<Longrightarrow> strings_inv B [pd_name (protect_data s)] s"
  by (simp add: oc_inv_def oc_regs_def)

section \<open>Registering and unregistering\<close>

lemma register_callback_inv:
  assumes "gives_ob_handle K" "oc_inv B E drv s" "\<not> callback_installed s" "register_callback K E s = Some (r, t)"
  shows "oc_inv B E drv t"
proof -
  obtain cb where cb: "ob_callbacks s (ox_callback E) = Some cb" and held: "ob_held (klog s) = []"
    using assms(2,3) by (auto simp: oc_inv_def oc_regs_def)
  let ?cb = "cb\<lparr>ob_operations := ob_operations cb @ [process_op E, thread_op E]\<rparr>"
  let ?s = "s\<lparr>ob_callbacks := (ob_callbacks s)(ox_callback E \<mapsto> ?cb)\<rparr>"
  obtain x u where x: "ob_register K (ox_exports E) (ox_routines E) (ox_callback E) (str_from_slice (ox_altitude E)) ?s = Some (x, u)"
    using assms(4) cb by (auto simp: register_callback_def push_op_registration_def bind_eq_Some_conv)
  then have t: "t = (case x of Err e \<Rightarrow> u | Ok _ \<Rightarrow> u\<lparr>callback_installed := True\<rparr>)"
    using assms(4) cb
    by (cases x) (auto simp: register_callback_def push_op_registration_def)
  have ok: "ob_releases_ok [] (klog s)"
    using assms(2) by (simp add: oc_inv_def oc_regs_def)
  have inv: "oc_inv B E drv t"
    if "pool_kept s t" "drivers t = drivers s" "wdu_drivers t = wdu_drivers s"
      "\<And>d i. driver_ext d i (klog t) = driver_ext d i (klog s)" "protect_data t = protect_data s" "PROCESS_CB t = PROCESS_CB s" "ps_held (klog t) = ps_held (klog s)"
      "ob_releases_ok [] (klog t)"
      "\<exists>cb. ob_callbacks t (ox_callback E) = Some cb \<and> (callback_installed t \<longrightarrow> ob_handle cb \<noteq> null) \<and>
        ob_held (klog t) = (if callback_installed t then [ob_handle cb] else [])"
    using that assms(2) by (auto simp: oc_inv_def oc_regs_def oc_installed_def intro: strings_inv_kept)
  show ?thesis
  proof (cases x)
    case (Inl e)
    then show ?thesis
      using x t held ok assms(3)
      by (intro inv) (auto simp: ob_register_def ps_controlled_def pool_kept_def Let_def bind_eq_Some_conv
        split: if_splits)
  next
    case (Inr y)
    then have "ob_register K (ox_exports E) (ox_routines E) (ox_callback E) (str_from_slice (ox_altitude E)) ?s = Some (Ok (), u)"
      using x by simp
    then show ?thesis
      using x t Inr held ok assms(1)
      by (intro inv) (auto simp: ob_register_def gives_ob_handle_def ps_controlled_def pool_kept_def Let_def bind_eq_Some_conv
        split: if_splits)
  qed
qed

lemma delete_inv:
  assumes "oc_inv B E drv s" "callback_installed s"
  shows "\<exists>t. delete_protect_name_cb K E s = Some (Ok (), t) \<and> oc_inv B E drv t \<and> \<not> callback_installed t"
proof -
  obtain cb where "ob_callbacks s (ox_callback E) = Some cb" "ob_handle cb \<noteq> null" "ob_held (klog s) = [ob_handle cb]"
    using assms by (auto simp: oc_inv_def oc_regs_def)
  then show ?thesis
    using assms
    by (auto simp: delete_protect_name_cb_def ob_unregister_def oc_inv_def oc_regs_def oc_installed_def ps_controlled_def Let_def pool_kept_def
        intro: strings_inv_kept)
qed


section \<open>The requests\<close>

lemma try_from_slice_makes: "makes K s (try_from_slice K src s)"
  by (simp add: try_from_slice_def create_makes)

lemma set_name_inv:
  assumes "pool_fresh K" "oc_inv B E drv s" "try_from_slice K src s = Some (Ok w, t)"
  defines "u \<equiv> ustring_drop K (pd_name (protect_data t)) t"
  shows "oc_inv B E drv (u\<lparr>protect_data := (protect_data u)\<lparr>pd_name := w\<rparr>\<rparr>)"
proof -
  let ?old = "pd_name (protect_data s)"
  have good: "good K s w t"
    using try_from_slice_makes assms(3) unfolding makes_def by blast
  have "strings_inv B ([w] @ ?old # []) t"
    using make_inv [OF oc_inv_strings [OF assms(2)] good assms(1)] by simp
  then have "strings_inv B [w] (ustring_drop K ?old t)"
    using drop_inv [of B "[w]" ?old "[]" t K] by simp
  moreover have held: "same_held s u"
    using same_held_trans [OF try_from_slice_held [OF assms(3)] ustring_drop_held] by (simp add: u_def)
  moreover have "pd_name (protect_data t) = ?old"
    using try_from_slice_held [OF assms(3)] by (simp add: same_held_def same_regs_def)
  ultimately show ?thesis
    using assms(2) by (simp add: oc_inv_def oc_regs_def oc_installed_def same_held_def same_regs_def strings_inv_def u_def)
qed

lemma flags_inv [simp]:
  "oc_inv B E drv (s\<lparr>PROTECT_NAME_FLAG := p, REJECT_NAME_FLAG := q\<rparr>) \<longleftrightarrow> oc_inv B E drv s"
  by (simp add: oc_inv_def oc_regs_def oc_installed_def strings_inv_def)

lemma protect_name_cb_inv:
  assumes "pool_fresh K" "gives_ob_handle K" "oc_inv B E drv s" "\<not> callback_installed s" "protect_name_cb K E req s = Some (r, t)"
  shows "oc_inv B E drv t"
proof (cases "input_buffer req = null")
  case True
  then show ?thesis using assms(3,5) by (simp add: protect_name_cb_def)
next
  case False
  obtain x s1 where s1: "try_from_slice K (input_name (input_buffer req)) s = Some (x, s1)"
    using assms(5) False by (auto simp: protect_name_cb_def Let_def bind_eq_Some_conv)
  show ?thesis
  proof (cases x)
    case (Inl e)
    then have "calm s s1"
      using s1 try_from_slice_held try_from_slice_makes unfolding calm_def makes_def by blast
    then show ?thesis
      using assms(3,5) False s1 Inl by (auto simp: protect_name_cb_def Let_def intro: calm_inv)
  next
    case (Inr w)
    define u where "u = ustring_drop K (pd_name (protect_data s1)) s1"
    define v where "v = u\<lparr>protect_data := (protect_data u)\<lparr>pd_name := w\<rparr>\<rparr>"
    have v: "oc_inv B E drv v"
      using set_name_inv [OF assms(1,3)] s1 Inr by (simp add: v_def u_def)
    have "callback_installed v = callback_installed s"
      using try_from_slice_held [OF s1] ustring_drop_held [of s1 K] by (simp add: v_def u_def same_held_def same_regs_def)
    then have "\<not> callback_installed v" using assms(4) by simp
    moreover obtain y z where "register_callback K E v = Some (y, z)" "Some (r, t) = choose_mode (input_buffer req) (y, z)"
      using assms(5) False s1 Inr
      by (auto simp: protect_name_cb_def choose_mode_def Let_def v_def u_def bind_eq_Some_conv)
    ultimately show ?thesis
      using register_callback_inv [OF assms(2) v]
      by (cases y) (auto simp: choose_mode_def split: if_splits)
  qed
qed

lemma with_protect_inv:
  assumes "with_protect K E body s = Some (r, t)" "oc_inv B E drv s"
    and body: "\<And>u r v. oc_inv B E drv u \<Longrightarrow> body u = Some (r, v) \<Longrightarrow> oc_inv B E drv v"
  shows "oc_inv B E drv t"
proof -
  obtain u where "body (guarded_lock K (ox_mutex E) (ox_slot E) s) = Some (r, u)" "t = guarded_unlock K (ox_mutex E) (ox_slot E) u"
    using assms(1) by (auto simp: with_protect_def Let_def bind_eq_Some_conv)
  then show ?thesis
    using body calm_inv [OF calm_lock(1) assms(2)] calm_inv [OF calm_lock(2)] by blast
qed

lemma result_case:
  "(case r of Err e \<Rightarrow> Some (Err e, s) | Ok x \<Rightarrow> Some (Ok c, s)) = Some (map_sum id (\<lambda>_. c) r, s)"
  by (cases r) simp_all

lemma protect_name_inv:
  assumes "pool_fresh K" "gives_ob_handle K" "protect_name K E req s = Some (r, t)" "oc_inv B E drv s"
  shows "oc_inv B E drv t"
proof (cases "dc_in_buf_len req < sizeof_ProtectNameInput")
  case True
  then show ?thesis using assms(3,4) by (simp add: protect_name_def)
next
  case False
  then have body: "with_protect K E (\<lambda>s. if \<not> callback_installed s
       then Option.bind (protect_name_cb K E req s) (\<lambda>(r, s). Some (map_sum id (\<lambda>_. STATUS_SUCCESS) r, s))
       else Some (Ok STATUS_SUCCESS, s)) s = Some (r, t)"
    using assms(3) unfolding protect_name_def result_case by simp
  show ?thesis
    by (rule with_protect_inv [OF body assms(4)])
       (auto simp: bind_eq_Some_conv split: if_splits intro: protect_name_cb_inv [OF assms(1,2)])
qed

lemma delete_any_inv:
  assumes "oc_inv B E drv s" "callback_installed s" "delete_protect_name_cb K E s = Some (r, t)"
  shows "oc_inv B E drv t"
  using delete_inv [OF assms(1,2), of K] assms(3) by auto

lemma unprotect_inv:
  assumes "unprotect K E s = Some (r, t)" "oc_inv B E drv s"
  shows "oc_inv B E drv t"
  using assms(1) unfolding unprotect_def result_case
  by (rule with_protect_inv [OF _ assms(2)])
     (auto simp: bind_eq_Some_conv split: if_splits intro: delete_any_inv)

lemma device_control_inv:
  assumes "pool_fresh K" "gives_ob_handle K" "oc_device_control K E dev w req s = Some (st, w', t)" "oc_inv B E drv s"
  shows "oc_inv B E drv t"
proof -
  obtain st' s1 where s1: "irp_complete K w (set_status st' io_status_new) s1 = Some t"
    and "s1 = s \<or> (\<exists>r. protect_name K E req s = Some (r, s1)) \<or> (\<exists>r. unprotect K E s = Some (r, s1))"
    using assms(3) by (auto simp: oc_device_control_def Let_def bind_eq_Some_conv split: if_splits)
  then have "oc_inv B E drv s1"
    using assms(4) protect_name_inv [OF assms(1,2)] unprotect_inv by blast
  then show ?thesis using s1 calm_complete calm_inv by blast
qed

lemma complete_inv: "oc_complete K w s = Some (w', t) \<Longrightarrow> oc_inv B E drv s \<Longrightarrow> oc_inv B E drv t"
  by (auto simp: oc_complete_def bind_eq_Some_conv intro: calm_inv calm_complete)

section \<open>Process notifications\<close>

lemma check_held:
  "check_process_match lower p pid f s = (st, t) \<Longrightarrow> calm s t"
  by (auto simp: check_process_match_def calm_defs split: if_splits)

text \<open>What comes between making the image name and dropping it is calm.\<close>

lemma with_protect_calm:
  assumes "with_protect K E body s = Some (r, t)" "\<And>u r v. body u = Some (r, v) \<Longrightarrow> calm u v"
  shows "calm s t"
proof -
  obtain u where u: "body (guarded_lock K (ox_mutex E) (ox_slot E) s) = Some (r, u)" "t = guarded_unlock K (ox_mutex E) (ox_slot E) u"
    using assms(1) by (auto simp: with_protect_def Let_def bind_eq_Some_conv)
  show ?thesis
    unfolding u(2) by (rule calm_trans [OF calm_lock(1) calm_trans [OF assms(2) [OF u(1)] calm_lock(2)]])
qed

lemma check_calm:
  assumes "(if b then with_protect K E (\<lambda>s. Some (check_process_match lower p pid f s)) s else Some (c, s)) = Some (st, t)"
  shows "calm s t"
proof (cases b)
  case True
  then have "with_protect K E (\<lambda>s. Some (check_process_match lower p pid f s)) s = Some (st, t)"
    using assms by simp
  then show ?thesis by (rule with_protect_calm) (auto intro: check_held)
next
  case False
  then show ?thesis using assms by simp
qed

lemma notify_inv:
  assumes "pool_fresh K" "process_notify_cb K E lower p pid ni s = Some (ni', t)" "oc_inv B E drv s"
  shows "oc_inv B E drv t"
proof (cases "ni_is_exit ni")
  case True
  then show ?thesis using assms(2,3) by (simp add: process_notify_cb_def)
next
  case False
  let ?old = "pd_name (protect_data s)"
  obtain w r s1 where s1: "str_to_owned K w s = Some (r, s1)" and w: "ni_image_filename ni = Some w"
    using assms(2) False by (auto simp: process_notify_cb_def bind_eq_Some_conv)
  define f where "f = (case r of Err e \<Rightarrow> ustring_default | Ok n \<Rightarrow> n)"
  obtain c s2 c' s3 where s2: "calm s1 s2" "calm s2 s3" and t: "t = ustring_drop K f s3"
    using assms(2) False s1 w
    by (auto simp: process_notify_cb_def Let_def f_def [symmetric] bind_eq_Some_conv split: prod.splits dest!: check_calm)
  have held: "same_held s t"
    using try_from_slice_held [of K "ws_slice w" s r s1] s1 s2 ustring_drop_held [of s3 K f]
    by (auto simp: t str_to_owned_def calm_def intro: same_held_trans)
  have "strings_inv B ([f] @ ?old # []) s1 \<or> strings_inv B [?old] s1 \<and> f = ustring_default"
  proof (cases r)
    case (Inl e)
    then show ?thesis
      using s1 slices_make(1) [of K s w] strings_inv_kept [OF oc_inv_strings [OF assms(3)]]
      by (auto simp: makes_def f_def)
  next
    case (Inr n)
    then show ?thesis
      using s1 slices_make(1) [of K s w] make_inv [OF oc_inv_strings [OF assms(3)] _ assms(1)]
      by (auto simp: makes_def f_def)
  qed
  moreover have "pool_kept s1 s3"
    using s2 calm_trans unfolding calm_def by blast
  ultimately have "strings_inv B ([] @ f # [?old]) s3 \<or> strings_inv B [?old] s3 \<and> f = ustring_default"
    using strings_inv_kept by fastforce
  then have "strings_inv B [?old] t"
    using drop_inv [of B "[]" f "[?old]" s3 K] by (auto simp: t ustring_drop_def ustring_default_def)
  then show ?thesis using same_held_inv [OF held assms(3)] by blast
qed


section \<open>What may happen between load and unload\<close>

text \<open>The driver's handlers, by address.\<close>

definition oc_handlers :: "kernel \<Rightarrow> oc_env \<Rightarrow> (CallContext, 'a ocstate_ext obstate_ext) handlers" where
  "oc_handlers K E =
     \<lparr>h_create = (\<lambda>f d i c s. if f = ox_create E then oc_create K d i c s else None),
      h_close = (\<lambda>f d i fo s. if f = ox_close E then oc_close K d i fo s
                              else if f = ox_cleanup E then oc_cleanup K d i fo s else None),
      h_rw = (\<lambda>f d i n s. None),
      h_ioctl = (\<lambda>f d i r s. if f = ox_device_control E then oc_device_control K E d i r s else None),
      h_unload = (\<lambda>f d s. if f = ox_driver_unload E then oc_driver_unload K E d s else None),
      h_add_device = (\<lambda>f d s. None)\<rparr>"

text \<open>
  An IRP arrives at the crate's dispatch routine, with whatever the sender put into memory; the
  kernel announces a process; or it reports an operation on a handle, before or after it is made.
\<close>

inductive oc_event :: "kernel \<Rightarrow> oc_env \<Rightarrow> (rust_str \<Rightarrow> rust_str) \<Rightarrow> 'a ocstate_scheme \<Rightarrow> 'a ocstate_scheme \<Rightarrow> bool"
  for K E lower where
  irp: "\<lbrakk>irps s p = None; s0 = s\<lparr>umem := m, irps := (irps s)(p \<mapsto> irp)\<rparr>;
      dispatch_handler K (ox_driver_id E) (oc_handlers K E) dev p s0 = Some (st, t)\<rbrakk> \<Longrightarrow> oc_event K E lower s t"
| process: "\<lbrakk>s0 = s\<lparr>umem := m\<rparr>; process_notify_cb K E lower p pid ni s0 = Some (ni', t)\<rbrakk> \<Longrightarrow> oc_event K E lower s t"
| pre: "\<lbrakk>s0 = s\<lparr>pre_infos := (pre_infos s)(i \<mapsto> info)\<rparr>;
      pre_op_internal (ox_exports E) (oc_run_pre K E) (ox_callback E) i s0 = Some (r, t)\<rbrakk> \<Longrightarrow> oc_event K E lower s t"
| post: "\<lbrakk>s0 = s\<lparr>post_infos := (post_infos s)(i \<mapsto> info')\<rparr>;
      post_op_internal (ox_exports E) (oc_run_post K E) (ox_callback E) i s0 = Some t\<rbrakk> \<Longrightarrow> oc_event K E lower s t"

abbreviation oc_events :: "kernel \<Rightarrow> oc_env \<Rightarrow> (rust_str \<Rightarrow> rust_str) \<Rightarrow> 'a ocstate_scheme \<Rightarrow> 'a ocstate_scheme \<Rightarrow> bool" where
  "oc_events K E lower \<equiv> (oc_event K E lower)\<^sup>*\<^sup>*"

lemma calm_get_driver:
  fixes s :: "'a ocstate_scheme"
  shows "calm s (snd (get_wdu_driver K i d s))"
  by (simp add: get_wdu_driver_def sys_eq calm_defs ps_controlled_def)

lemma handlers_inv:
  assumes "pool_fresh K" "gives_ob_handle K" "oc_inv B E drv s"
  shows "fo_dispatch (oc_handlers K E) d dev w s = Some (w', t) \<Longrightarrow> oc_inv B E drv t"
    and "io_dispatch (oc_handlers K E) d dev w s = Some (st, w', t) \<Longrightarrow> oc_inv B E drv t"
  using assms(3) complete_inv device_control_inv [OF assms(1,2)]
  by (auto simp: fo_dispatch_def io_dispatch_def oc_handlers_def oc_create_def oc_close_def oc_cleanup_def panic_def
      bind_eq_Some_conv split: MajorFunction.splits option.splits if_splits)

lemma dispatch_inv:
  assumes "pool_fresh K" "gives_ob_handle K" "oc_inv B E drv s"
    and "dispatch_handler K (ox_driver_id E) (oc_handlers K E) dev p s = Some (st, t)"
  shows "oc_inv B E drv t"
proof -
  obtain w d dobj where 1: "irp_wrap p s = Some w" "get_wdu_device dev s = Some d" "device_get_driver d s = Some dobj"
    using assms(4) by (auto simp: dispatch_handler_def bind_eq_Some_conv)
  obtain x u where u: "get_wdu_driver K (ox_driver_id E) dobj s = (x, u)" by fastforce
  have inv: "oc_inv B E drv u"
    using calm_inv [OF calm_get_driver assms(3)] u by (metis snd_conv)
  show ?thesis
    using assms(4) 1 u inv handlers_inv [OF assms(1,2) inv]
    by (auto simp: dispatch_handler_def Let_def panic_def bind_eq_Some_conv split: if_splits)
qed

lemma event_inv:
  assumes "oc_event K E lower s t" "pool_fresh K" "gives_ob_handle K" "oc_inv B E drv s"
  shows "oc_inv B E drv t"
  using assms(1)
proof cases
  case (irp p s0 m i dev st)
  have "calm s s0" by (simp add: irp(2) calm_defs)
  then show ?thesis using dispatch_inv [OF assms(2,3) calm_inv] assms(4) irp(3) by blast
next
  case (process s0 m p pid ni ni')
  have "calm s s0" by (simp add: process(1) calm_defs)
  then show ?thesis using notify_inv [OF assms(2) process(2)] calm_inv assms(4) by blast
next
  case (pre s0 i info r)
  have "calm s s0" by (simp add: pre(1) calm_defs)
  moreover have "calm s0 t"
    using pre(2) by (auto simp: pre_op_internal_def bind_eq_Some_conv dest: calm_each)
  ultimately show ?thesis using calm_inv assms(4) by blast
next
  case (post s0 i info')
  have "calm s s0" by (simp add: post(1) calm_defs)
  moreover have "calm s0 t"
    using post(2) by (auto simp: post_op_internal_def bind_eq_Some_conv dest: calm_each)
  ultimately show ?thesis using calm_inv assms(4) by blast
qed

lemma events_inv:
  assumes "oc_events K E lower s t" "pool_fresh K" "gives_ob_handle K" "oc_inv B E drv s"
  shows "oc_inv B E drv t"
  using assms(1,4) by (induction rule: rtranclp_induct) (auto intro: event_inv [OF _ assms(2,3)])


section \<open>Loading\<close>

text \<open>The driver's statics as the image has them.\<close>

definition oc_statics :: "oc_env \<Rightarrow> 'a ocstate_scheme \<Rightarrow> 'a ocstate_scheme" where
  "oc_statics E s = s\<lparr>ob_callbacks := (ob_callbacks s)(ox_callback E \<mapsto> ob_const_new), PROTECT_NAME_FLAG := False,
     REJECT_NAME_FLAG := False, callback_installed := False, protect_data := protect_data_const_new,
     PROCESS_CB := ps_default\<rparr>"

lemma statics_regs:
  assumes "ob_held (klog s) = []" "ob_releases_ok [] (klog s)" "ps_held (klog s) = []" "pool_frees_ok Map.empty (klog s)"
  shows "oc_regs (pool_blocks (klog s)) E (oc_statics E s)"
  using assms
  by (simp add: oc_regs_def oc_statics_def ob_const_new_def ps_default_def protect_data_const_new_def ustring_const_new_def
      strings_inv_def unicode_wf_empty is_pool_alloc_iff)

lemma regs_kept: "same_regs s t \<Longrightarrow> pool_kept s t \<Longrightarrow> oc_regs B E s \<Longrightarrow> oc_regs B E t"
  unfolding same_regs_def oc_regs_def by (auto intro: strings_inv_kept)

lemma oc_driver_built:
  assumes "oc_driver E drv s = Some (d, t)"
  shows "same_regs s t" "pool_kept s t" "wr_driver d = drv" "\<not> wr_init d" "wr_unload d = Some (ox_driver_unload E)"
    "drv \<in> dom (drivers t)"
  using assms
  by (auto simp: oc_driver_def driver_unload_builder_def driver_file_object_def driver_io_def install_def
      driver_new_def same_regs_def pool_kept_def Let_def bind_eq_Some_conv)

lemma driver_build_installs:
  assumes "makes_objects K" "oc_driver E drv s = Some (d, s1)" "driver_build K (ox_driver_id E) n d s1 = (Ok wdu, t)" "oc_regs B E s"
  shows "oc_inv B E drv t"
proof -
  note d = oc_driver_built [OF assms(2)] and wdu = driver_build_ext [OF assms(3)]
  have t: "same_regs s1 t" "pool_kept s1 t" "drivers t = drivers s1"
    using assms(3)
    by (auto simp: driver_build_def driver_alloc_ext_def same_regs_def pool_kept_def ps_controlled_def sys_eq Let_def
        split: if_splits)
  have "oc_regs B E t"
    using regs_kept [OF t(1,2) regs_kept [OF d(1,2) assms(4)]] .
  then show ?thesis
    using d wdu t(3) driver_build_ext_not_null [OF assms(1,3)] by (auto simp: oc_inv_def oc_installed_def)
qed

lemma calm_device:
  fixes s :: "'a ocstate_scheme"
  shows "device_build K n z d wdu name s = Some (r, t) \<Longrightarrow> calm s t"
    "device_symbolic_name K a b s = (r', t) \<Longrightarrow> calm s t" "calm s (snd (delete_symbolic_name K b s))"
    "calm s (device_delete K dev s)"
  by (auto simp: device_build_def device_symbolic_name_def delete_symbolic_name_def device_delete_def calm_defs
      ps_controlled_def sys_eq Let_def bind_eq_Some_conv split: if_splits)

lemma calm_boot:
  fixes s :: "'a ocstate_scheme"
  shows "calm s (snd (simple_init K lit g s))" "calm s (guarded_init_lock K m sl s)" "calm s (snd (ob_version K s))"
  by (simp_all add: simple_init_def get_system_routine_addr_def guarded_init_lock_def guarded_init_def ob_version_def
      calm_defs ps_controlled_def sys_eq Let_def case_prod_beta)

lemma control_call_inv:
  assumes t: "t = s\<lparr>klog := klog s @ [(control_call v remove, rep)]\<rparr>"
    and "ps_held (klog t) = slot_list (\<lambda>v. v) (pc_callback cb)" "oc_inv B E drv s"
  shows "oc_inv B E drv (t\<lparr>PROCESS_CB := cb\<rparr>)"
proof -
  have log: "ob_held (klog t) = ob_held (klog s)" "ob_releases_ok [] (klog t) = ob_releases_ok [] (klog s)"
    "pool_kept s t" "driver_ext d i (klog t) = driver_ext d i (klog s)" for d i
    by (cases v; simp add: t control_call_def pool_kept_def pool_frees_ok_snoc)+
  have "strings_inv B [pd_name (protect_data s)] t"
    by (rule strings_inv_kept [OF oc_inv_strings [OF assms(3)] log(3)])
  then have "strings_inv B [pd_name (protect_data s)] (t\<lparr>PROCESS_CB := cb\<rparr>)"
    by (simp add: strings_inv_def)
  then show ?thesis
    using assms(2,3) log unfolding oc_inv_def oc_regs_def oc_installed_def by (simp add: t)
qed

lemma ps_register_inv:
  assumes "ps_register K v (PROCESS_CB s) s = (r, cb, t)" "pc_callback (PROCESS_CB s) = None" "oc_inv B E drv s"
  shows "oc_inv B E drv (t\<lparr>PROCESS_CB := cb\<rparr>)"
proof -
  obtain rep where t: "t = s\<lparr>klog := klog s @ [(control_call v False, rep)]\<rparr>"
    using assms(1) by (auto simp: ps_register_def control_callbacks_def sys_eq Let_def split: if_splits)
  have "ps_held (klog s) = []"
    using assms(2,3) by (simp add: oc_inv_def oc_regs_def)
  then have "ps_held (klog t) = slot_list (\<lambda>v. v) (pc_callback cb)"
    using ps_owner.reg_live [OF assms(1), of "[]"] assms(2) by simp
  then show ?thesis by (rule control_call_inv [OF t _ assms(3)])
qed

lemma ps_unregister_inv:
  assumes "ps_unregister K (PROCESS_CB s) s = (r, cb, t)" "oc_inv B E drv s"
  shows "oc_inv B E drv (t\<lparr>PROCESS_CB := cb\<rparr>)"
proof (cases "pc_callback (PROCESS_CB s)")
  case None
  then have "t = s" "cb = PROCESS_CB s"
    using assms(1) by (auto simp: ps_unregister_def)
  then show ?thesis
    using assms(2) by (simp add: oc_inv_def oc_regs_def oc_installed_def strings_inv_def)
next
  case (Some v)
  obtain rep where t: "t = s\<lparr>klog := klog s @ [(control_call v True, rep)]\<rparr>"
    using assms(1) Some by (auto simp: ps_unregister_def control_callbacks_def sys_eq Let_def split: if_splits)
  have "ps_held (klog s) = [v]"
    using assms(2) Some by (simp add: oc_inv_def oc_regs_def)
  then have "ps_held (klog t) = slot_list (\<lambda>v. v) (pc_callback cb)"
    using ps_owner.unreg_live [OF assms(1), of "[]"] Some by simp
  then show ?thesis by (rule control_call_inv [OF t _ assms(2)])
qed

lemma oc_init_inv:
  assumes "makes_objects K" "oc_init K E z drv s = Some (Ok (), t)" "oc_regs B E s" "pc_callback (PROCESS_CB s) = None"
  shows "oc_inv B E drv t"
proof -
  let ?dev = "device_characteristics DcSecureOpen (device_device_type DtUnknown device_default)"
    and ?name = "str_from_slice (ox_device_name E)" and ?link = "str_from_slice (ox_win32_name E)"
  note init = assms(2) [unfolded oc_init_def Let_def]
  obtain d s1 where s1: "oc_driver E drv s = Some (d, s1)"
    using init by (auto simp: bind_eq_Some_conv)
  obtain rd s2 where s2: "driver_build K (ox_driver_id E) (ox_sizeof E) d s1 = (rd, s2)" by fastforce
  obtain wdu where rd: "rd = Ok wdu"
    using init s1 s2 by (cases rd) simp_all
  obtain rv s3 where s3: "device_build K 0 z ?dev wdu (Some ?name) s2 = Some (rv, s3)"
    using init s1 s2 rd by (cases "device_build K 0 z ?dev wdu (Some ?name) s2") auto
  obtain dev where rv: "rv = Ok dev"
    using init s1 s2 rd s3 by (cases rv) simp_all
  obtain r s4 where s4: "device_symbolic_name K ?name ?link s3 = (r, s4)" by fastforce
  define s5 where "s5 = (case r of Err e \<Rightarrow> device_delete K dev s4 | Ok u \<Rightarrow> s4)"
  obtain rr cb s6 where s6: "ps_register K (PsNotifyRoutineEx2 (ox_process_notify_cb E)) (PROCESS_CB s5) s5 = (rr, cb, s6)"
    by (metis prod_cases3)
  have inv2: "oc_inv B E drv s2"
    using driver_build_installs [OF assms(1) s1 _ assms(3)] s2 rd by simp
  have "calm s2 s3" using s3 by (rule calm_device)
  also have "calm s3 s4" using s4 by (rule calm_device)
  also have "calm s4 s5" by (simp add: s5_def calm_device(4) split: sum.splits)
  finally have calm: "calm s2 s5" .
  have "PROCESS_CB s2 = PROCESS_CB s"
    using s1 s2 oc_driver_built(1) [OF s1]
    by (auto simp: driver_build_def driver_alloc_ext_def same_regs_def sys_eq Let_def split: if_splits)
  then have "pc_callback (PROCESS_CB s5) = None"
    using calm assms(4) by (simp add: calm_defs)
  then have inv6: "oc_inv B E drv (s6\<lparr>PROCESS_CB := cb\<rparr>)"
    using ps_register_inv [OF s6] calm_inv [OF calm inv2] by blast
  have "t = (case rr of Err e \<Rightarrow> device_delete K dev (snd (delete_symbolic_name K ?link (s6\<lparr>PROCESS_CB := cb\<rparr>)))
      | Ok u \<Rightarrow> s6\<lparr>PROCESS_CB := cb\<rparr>)"
    using init s1 s2 rd s3 rv s4 s6 by (cases r; cases rr) (simp_all add: s5_def)
  then show ?thesis
    using inv6 calm_inv [OF calm_trans [OF calm_device(3,4)] inv6] by (cases rr) simp_all
qed

lemma oc_load_inv:
  assumes "makes_objects K" "oc_DriverEntry K E z g drv (oc_statics E s) = Some (STATUS_SUCCESS, g', t)"
    and "ob_held (klog s) = []" "ob_releases_ok [] (klog s)" "ps_held (klog s) = []" "pool_frees_ok Map.empty (klog s)"
  shows "oc_inv (pool_blocks (klog s)) E drv t"
proof -
  let ?s = "snd (ob_version K (guarded_init_lock K (ox_mutex E) (ox_slot E)
      (snd (simple_init K (ox_pool2_name E) g (oc_statics E s)))))"
  obtain r u where r: "oc_init K E z drv ?s = Some (r, u)"
    using assms(2) by (auto simp: oc_DriverEntry_def Let_def case_prod_beta bind_eq_Some_conv)
  with assms(2) have init: "oc_init K E z drv ?s = Some (Ok (), t)"
    by (cases r) (simp_all add: oc_DriverEntry_def Let_def case_prod_beta nt_consts)
  have calm: "calm (oc_statics E s) ?s"
    by (rule calm_trans [OF calm_boot(1) calm_trans [OF calm_boot(2,3)]])
  have "oc_regs (pool_blocks (klog s)) E ?s"
    using calm statics_regs [OF assms(3-6)] unfolding calm_def same_held_def by (blast intro: regs_kept)
  moreover have "pc_callback (PROCESS_CB ?s) = None"
    using calm by (simp add: calm_defs oc_statics_def ps_default_def)
  ultimately show ?thesis
    by (rule oc_init_inv [OF assms(1) init])
qed

section \<open>Unloading\<close>

text \<open>The kernel lets go of a process routine that it holds.\<close>

definition removes_held :: "kernel \<Rightarrow> bool" where
  "removes_held K \<longleftrightarrow> (\<forall>h v. v \<in> set (ps_held h) \<longrightarrow> r_status (K h (control_call v True)) = STATUS_SUCCESS)"

lemma unregister_held:
  assumes "removes_held K" "ps_held (klog s) = slot_list (\<lambda>v. v) (pc_callback w)" "ps_unregister K w s = (r, w', t)"
  shows "pc_callback w' = None"
  using assms
  by (cases "pc_callback w") (auto simp: ps_unregister_def control_callbacks_def removes_held_def sys_eq Let_def split: if_splits)

lemma oc_driver_unload_inv:
  assumes "removes_held K" "oc_inv B E drv s" "wr_driver d = drv"
  shows "\<exists>t. oc_driver_unload K E d s = Some t \<and> oc_inv B E drv t \<and> \<not> callback_installed t \<and>
    pc_callback (PROCESS_CB t) = None \<and> pd_name (protect_data t) = pd_name (protect_data s)"
proof -
  obtain dev where dev: "driver_device d s = Some dev"
    using assms(2,3) by (auto simp: driver_device_def oc_inv_def oc_installed_def)
  obtain r cb s1 where s1: "ps_unregister K (PROCESS_CB s) s = (r, cb, s1)" by (metis prod_cases3)
  let ?s1 = "s1\<lparr>PROCESS_CB := cb\<rparr>"
  have held: "ps_held (klog s) = slot_list (\<lambda>v. v) (pc_callback (PROCESS_CB s))"
    using assms(2) by (simp add: oc_inv_def oc_regs_def)
  have cb: "pc_callback cb = None"
    by (rule unregister_held [OF assms(1) held s1])
  have name1: "protect_data s1 = protect_data s"
    using s1 by (auto simp: ps_unregister_def control_callbacks_def sys_eq Let_def split: option.splits if_splits)
  define s2 where "s2 = guarded_lock K (ox_mutex E) (ox_slot E) ?s1"
  have inv2: "oc_inv B E drv s2"
    unfolding s2_def by (rule calm_inv [OF calm_lock(1) ps_unregister_inv [OF s1 assms(2)]])
  have cb2: "pc_callback (PROCESS_CB s2) = None" "pd_name (protect_data s2) = pd_name (protect_data s)"
    using cb name1 calm_lock(1) [of ?s1 K "ox_mutex E" "ox_slot E"] by (simp_all add: s2_def calm_defs)
  have ci: "callback_installed s1 = callback_installed s2"
    by (simp add: s2_def)
  obtain x s3 where s3: "(if callback_installed s2 then delete_protect_name_cb K E s2 else Some (Ok (), s2)) = Some (x, s3)"
    and inv3: "oc_inv B E drv s3" "\<not> callback_installed s3"
    using delete_inv [OF inv2, of K] inv2 by (cases "callback_installed s2") auto
  have cb3: "pc_callback (PROCESS_CB s3) = None" "pd_name (protect_data s3) = pd_name (protect_data s)"
    using s3 cb2
    by (auto simp: delete_protect_name_cb_def ob_unregister_def Let_def bind_eq_Some_conv split: if_splits)
  define t where "t = device_delete K dev (snd (delete_symbolic_name K (str_from_slice (ox_win32_name E))
      (guarded_unlock K (ox_mutex E) (ox_slot E) s3)))"
  have calm: "calm s3 t"
    unfolding t_def by (rule calm_trans [OF calm_lock(2) calm_trans [OF calm_device(3,4)]])
  have "oc_driver_unload K E d s = Some t"
    using dev s1 s3 ci
    by (cases "callback_installed s2") (simp_all add: oc_driver_unload_def with_protect_def Let_def s2_def [symmetric] t_def)
  then show ?thesis
    using calm_inv [OF calm inv3(1)] calm inv3(2) cb3 by (simp add: calm_defs)
qed

lemma driver_unload_inv:
  assumes "removes_held K" "finds_driver_ext K" "oc_inv B E drv s"
  shows "\<exists>t. driver_unload K (ox_driver_id E) (oc_handlers K E) drv s = Some t \<and> oc_inv B E drv t \<and>
    \<not> callback_installed t \<and> pc_callback (PROCESS_CB t) = None \<and> pd_name (protect_data t) = pd_name (protect_data s)"
proof -
  obtain x u where u: "get_wdu_driver K (ox_driver_id E) drv s = (x, u)" by fastforce
  have calm: "calm s u"
    using calm_get_driver [of s K "ox_driver_id E" drv] by (simp add: u)
  have x: "x = driver_ext drv (ox_driver_id E) (klog s)"
    using get_wdu_driver_found [OF assms(2), of "ox_driver_id E" drv s] by (simp add: u)
  obtain d where d: "x \<noteq> null" "wdu_drivers u x = Some d" "wr_init d" "wr_driver d = drv" "wr_unload d = Some (ox_driver_unload E)"
    using assms(3) calm by (auto simp: x oc_inv_def oc_installed_def calm_defs)
  have "driver_unload K (ox_driver_id E) (oc_handlers K E) drv s = oc_driver_unload K E d u"
    using d by (simp add: driver_unload_def u unload_internal_def oc_handlers_def)
  then show ?thesis
    using oc_driver_unload_inv [OF assms(1) calm_inv [OF calm assms(3)] d(4)] calm by (simp add: calm_defs)
qed

text \<open>
  C7. The driver from load to unload. After \<^verbatim>\<open>DriverEntry\<close> succeeds on fresh statics, whatever
  requests, process notifications and handle operations follow, in any order and with any answers
  of the kernel: the kernel holds the driver's object callbacks exactly when
  \<^verbatim>\<open>callback_installed\<close> is set, and then under the handle that the driver kept; it holds the
  process routine in the driver's \<^verbatim>\<open>PROCESS_CB\<close>, and every removal so far named a held handle.
  The crate's unload routine then runs to its end and leaves no callback and no process routine
  behind, so that the kernel never calls into the unloaded image. Of the pool, one block stays
  allocated for good: the buffer of the last protected name, since a static is never dropped.
\<close>

theorem obcallback_load_to_unload:
  assumes "pool_fresh K" "gives_ob_handle K" "makes_objects K" "finds_driver_ext K" "removes_held K"
    and "ob_held (klog s) = []" "ob_releases_ok [] (klog s)" "ps_held (klog s) = []" "pool_frees_ok Map.empty (klog s)"
    and "oc_DriverEntry K E z g drv (oc_statics E s) = Some (STATUS_SUCCESS, g', t)" "oc_events K E lower t u"
  shows "(\<exists>cb. ob_callbacks u (ox_callback E) = Some cb \<and>
        ob_held (klog u) = (if callback_installed u then [ob_handle cb] else [])) \<and>
     ps_held (klog u) = slot_list (\<lambda>v. v) (pc_callback (PROCESS_CB u)) \<and>
     (\<exists>v. driver_unload K (ox_driver_id E) (oc_handlers K E) drv u = Some v \<and>
        ob_held (klog v) = [] \<and> ps_held (klog v) = [] \<and> ob_releases_ok [] (klog v) \<and> pool_frees_ok Map.empty (klog v) \<and>
        (let name = pd_name (protect_data u); left = Buffer (us_string name) in
          if is_pool_alloc name
          then \<exists>n. pool_blocks (klog v) = (pool_blocks (klog s))(left \<mapsto> (n, STRING_ALLOC_TAG)) \<and> pool_blocks (klog s) left = None
          else pool_blocks (klog v) = pool_blocks (klog s)))"
proof -
  let ?B = "pool_blocks (klog s)"
  have inv: "oc_inv ?B E drv u"
    using events_inv [OF assms(11,1,2) oc_load_inv [OF assms(3,10,6-9)]] .
  obtain v where v: "driver_unload K (ox_driver_id E) (oc_handlers K E) drv u = Some v" and inv': "oc_inv ?B E drv v"
    and off: "\<not> callback_installed v" "pc_callback (PROCESS_CB v) = None" and name: "pd_name (protect_data v) = pd_name (protect_data u)"
    using driver_unload_inv [OF assms(5,4) inv] by blast
  have regs: "ob_held (klog v) = []" "ps_held (klog v) = []" "ob_releases_ok [] (klog v)"
    and str: "strings_inv ?B [pd_name (protect_data u)] v"
    using inv' off name by (auto simp: oc_inv_def oc_regs_def)
  have pool: "if is_pool_alloc (pd_name (protect_data u))
      then \<exists>n. pool_blocks (klog v) = ?B(Buffer (us_string (pd_name (protect_data u))) \<mapsto> (n, STRING_ALLOC_TAG)) \<and>
        ?B (Buffer (us_string (pd_name (protect_data u)))) = None
      else pool_blocks (klog v) = ?B"
    using str by (auto simp: strings_inv_def fun_eq_iff)
  show ?thesis
    using inv v regs pool str by (auto simp: oc_inv_def oc_regs_def strings_inv_def Let_def)
qed

definition oc_boot_kernel :: kernel where
  "oc_boot_kernel h c =
     (case c of
        Io (IoGetDriverObjectExtension d i) \<Rightarrow> reply0\<lparr>r_ptr := driver_ext d i h\<rparr>
      | Io (IoCreateDevice d n name ty ch ex) \<Rightarrow> reply0\<lparr>r_out := 0x300,
          r_device := \<lparr>do_DriverObject = d, do_DeviceExtension = 0x340, do_Flags = 0\<rparr>\<rparr>
      | Pool d \<Rightarrow> kernel0 h c
      | _ \<Rightarrow> reply0\<lparr>r_out := 0x700\<rparr>)"

lemma oc_boot_kernel_laws:
  "pool_fresh oc_boot_kernel" "gives_ob_handle oc_boot_kernel" "makes_objects oc_boot_kernel"
  "finds_driver_ext oc_boot_kernel" "removes_held oc_boot_kernel"
proof -
  show "pool_fresh oc_boot_kernel"
    using kernel0_fresh(1) by (simp add: pool_fresh_def oc_boot_kernel_def)
  show "removes_held oc_boot_kernel"
    by (auto simp: removes_held_def oc_boot_kernel_def control_call_def split: PsCallbackVersion.splits)
qed (auto simp: gives_ob_handle_def makes_objects_def finds_driver_ext_def oc_boot_kernel_def sizeof_WduDevice_def)

lemma oc_boots:
  "\<exists>g' t. oc_DriverEntry oc_boot_kernel ox0 z simple_const_new 0x20 (oc_statics ox0 (oc_st [])) = Some (STATUS_SUCCESS, g', t) \<and>
     pc_callback (PROCESS_CB t) = Some (PsNotifyRoutineEx2 0xA3) \<and>
     \<not> PROTECT_NAME_FLAG t \<and> \<not> REJECT_NAME_FLAG t \<and> \<not> try_non_paged t"
  by (simp add: oc_DriverEntry_def oc_init_def oc_driver_def driver_unload_builder_def driver_file_object_def driver_io_def
      install_def oc_statics_def oc_st_def ox0_def driver_new_def drvobj0_def driver_build_def driver_alloc_ext_def
      device_build_def device_extension_def device_symbolic_name_def ps_register_def control_callbacks_def control_call_def
      oc_boot_kernel_def sys_eq Let_def simple_init_def get_system_routine_addr_def guarded_init_lock_def guarded_init_def
      ob_version_def nt_consts case_prod_beta)


text \<open>A process is created under the name at \<open>0x6004\<close>, while no name is protected.\<close>

definition ni_boot :: PS_CREATE_NOTIFY_INFO where
  "ni_boot = \<lparr>ni_Flags = 0, ni_ParentProcessId = 4, ni_CreatingThreadId = (4, 8), ni_FileObject = 0,
     ni_ImageFileName = Some \<lparr>Length = 20, MaximumLength = 22, Buffer = 0x6004\<rparr>, ni_CommandLine = None,
     ni_CreationStatus = 0\<rparr>"

lemma oc_boot_process:
  assumes "\<not> PROTECT_NAME_FLAG s" "\<not> REJECT_NAME_FLAG s" "\<not> try_non_paged s"
  shows "\<exists>t. oc_event oc_boot_kernel ox0 lower s t \<and> klog t \<noteq> klog s"
proof -
  have "\<exists>t. process_notify_cb oc_boot_kernel ox0 lower 0x9100 0x44 (Some ni_boot) (s\<lparr>umem := umem s\<rparr>) = Some (Some ni_boot, t)
      \<and> klog t \<noteq> klog s"
    using assms
    by (simp add: process_notify_cb_def ni_is_exit_def ni_image_filename_def ni_boot_def str_to_owned_def try_from_slice_def
        POOL_TYPE_def ustring_create_def paged_alloc_with_tag_def pool2_alloc_def oc_boot_kernel_def kernel0_def sys_eq
        ustring_drop_def free_buffer_def ustring_default_def nt_consts Let_def)
  then show ?thesis using oc_event.process [OF refl] by blast
qed

theorem obcallback_load_to_unload_witness:
  "\<exists>g' t u v. oc_DriverEntry oc_boot_kernel ox0 \<lparr>cc_operation = 0, cc_object = ObjThread 0\<rparr> simple_const_new 0x20 (oc_statics ox0 (oc_st []))
       = Some (STATUS_SUCCESS, g', t) \<and>
     pc_callback (PROCESS_CB t) = Some (PsNotifyRoutineEx2 0xA3) \<and> oc_event oc_boot_kernel ox0 (\<lambda>x. x) t u \<and>
     driver_unload oc_boot_kernel 0xF (oc_handlers oc_boot_kernel ox0) 0x20 u = Some v \<and>
     ob_held (klog v) = [] \<and> ps_held (klog v) = []"
proof -
  let ?z = "\<lparr>cc_operation = 0, cc_object = ObjThread 0\<rparr>"
  obtain g' t where t: "oc_DriverEntry oc_boot_kernel ox0 ?z simple_const_new 0x20 (oc_statics ox0 (oc_st [])) = Some (STATUS_SUCCESS, g', t)"
    and flags: "pc_callback (PROCESS_CB t) = Some (PsNotifyRoutineEx2 0xA3)" "\<not> PROTECT_NAME_FLAG t" "\<not> REJECT_NAME_FLAG t"
      "\<not> try_non_paged t"
    using oc_boots by blast
  obtain u where u: "oc_event oc_boot_kernel ox0 (\<lambda>x. x) t u"
    using oc_boot_process [OF flags(2-4)] by blast
  then have run: "oc_events oc_boot_kernel ox0 (\<lambda>x. x) t u" by blast
  have log: "klog (oc_st []) = []" by (simp add: oc_st_def)
  have start: "ob_held (klog (oc_st [])) = []" "ob_releases_ok [] (klog (oc_st []))" "ps_held (klog (oc_st [])) = []"
    "pool_frees_ok Map.empty (klog (oc_st []))"
    by (simp_all add: log ob_held_def)
  have e: "ox_driver_id ox0 = 0xF" by (simp add: ox0_def)
  note main = obcallback_load_to_unload [OF oc_boot_kernel_laws start t run, unfolded e]
  obtain v where "driver_unload oc_boot_kernel 0xF (oc_handlers oc_boot_kernel ox0) 0x20 u = Some v"
      "ob_held (klog v) = []" "ps_held (klog v) = []"
    by (rule exE [OF conjunct2 [OF conjunct2 [OF main]]], elim conjE) (rule that)
  with t flags(1) u show ?thesis by blast
qed

end
