(* ===== verification/Ex_Event.thy ===== *)
theory Ex_Event
  imports Wdu_Driver Wdu_Objects Wdu_Locks Wdu_Spinlock
begin

text \<open>
  \<^verbatim>\<open>examples/event/src/lib.rs\<close>: a driver that notifies its callers after a delay, by completing the
  request that asked for it or by setting an event. It combines devices, IRPs with cancel
  routines, file contexts with a remove lock, timers, DPCs, events and a spin lock.

  A record of the queue is a box, so the queue holds addresses and \<open>notify_records\<close> is the memory
  behind them; the timer and the DPC of a record are at fixed offsets in it, and the kernel calls
  back with the address of the DPC. The storage of the queue itself (a \<^verbatim>\<open>Vec\<close>) is not modelled.
\<close>

section \<open>State and constants\<close>

datatype EventError = EvDriverError | EvDeviceError | EvUnicodeError | EvStatus ntstatus

definition event_error_from_device :: "WduDeviceError \<Rightarrow> EventError" where
  "event_error_from_device e = EvDeviceError"

definition event_error_from_driver :: "WduDriverError \<Rightarrow> EventError" where
  "event_error_from_driver e = EvDriverError"

definition event_error_from_unicode :: "WduUnicodeError \<Rightarrow> EventError" where
  "event_error_from_unicode e = EvUnicodeError"

fun event_error_from_wdu :: "WduError \<Rightarrow> EventError" where
  "event_error_from_wdu (WduError.NtStatus status) = EvStatus status"

text \<open>\<^verbatim>\<open>u32::from_ne_bytes(*b"TEVE")\<close> on a little-endian machine.\<close>

definition LOCK_TAG :: u32 where "LOCK_TAG = 0x45564554"
definition IRP_BASED :: u32 where "IRP_BASED = 0"
definition EVENT_BASED :: u32 where "EVENT_BASED = 1"

definition IOCTL_REGISTER_EVENT :: u32 where
  "IOCTL_REGISTER_EVENT = encode_ioctl FILE_DEVICE_UNKNOWN 0x800 METHOD_BUFFERED FILE_ANY_ACCESS"

datatype NotifyType = IrpBased WduIrp | EventBased WduEvent

record RegisterEvent =
  re_notify_type :: u32
  re_event :: handle
  re_due_time :: i64

definition sizeof_RegisterEvent :: usize where "sizeof_RegisterEvent = 24"

record NotifyData =
  nd_ty :: NotifyType
  nd_extension :: ptr

fun notify_type_eq :: "NotifyType \<Rightarrow> NotifyType \<Rightarrow> bool" where
  "notify_type_eq (IrpBased irp) (IrpBased other_irp) \<longleftrightarrow> wi_irp other_irp = wi_irp irp"
| "notify_type_eq (EventBased event) (EventBased other_event) \<longleftrightarrow> ev_event other_event = ev_event event"
| "notify_type_eq _ _ \<longleftrightarrow> False"

definition notify_data_eq :: "NotifyData \<Rightarrow> NotifyData \<Rightarrow> bool" where
  "notify_data_eq self other = notify_type_eq (nd_ty self) (nd_ty other)"

record NotifyRecord =
  nr_dpc :: "NotifyData WduDpc"
  nr_file_object :: WduFileObject
  nr_data :: NotifyData

record FileContext =
  fc_file_rundown :: WduRemoveLock

record DeviceExtension =
  event_queue :: "ptr list"
  queue_lock :: WduSpinLock

text \<open>The driver's values behind pointers: file contexts and its part of the device extension.\<close>

datatype ev_client = CFile FileContext | CExt DeviceExtension

record evstate = "ev_client iostate" +
  ev_bytes :: "ptr \<Rightarrow> u8"
  notify_records :: "ptr \<rightharpoonup> NotifyRecord"

text \<open>
  Addresses of the driver's and the crate's routines and of the literals, \<^verbatim>\<open>ExEventObjectType\<close>, the
  address of the local remove lock of \<^verbatim>\<open>create\<close>, the offsets of the parts whose addresses are passed
  to the kernel, and the sizes of the boxed structures.
\<close>

record ev_env =
  ex_create :: fnptr
  ex_close :: fnptr
  ex_cleanup :: fnptr
  ex_device_control :: fnptr
  ex_driver_unload :: fnptr
  ex_cancel_routine :: fnptr
  ex_timer_dpc :: fnptr
  ex_cancel_entry :: fnptr
  ex_custom_dpc :: fnptr
  ex_entry :: entry_points
  ex_driver_id :: fnptr
  ex_sizeof :: u32
  ex_device_name :: slice
  ex_win32_name :: slice
  ex_pool2_name :: ptr
  ex_event_type :: ptr
  ex_lock_slot :: ptr
  ex_rundown_off :: ptr
  ex_lock_off :: ptr
  ex_timer_off :: ptr
  ex_dpc_off :: ptr
  ex_sizeof_record :: nat
  ex_sizeof_context :: nat
  ex_sizeof_extension :: nat

section \<open>Access through pointers\<close>

definition ev_ext :: "ptr \<Rightarrow> 'a evstate_scheme \<Rightarrow> DeviceExtension option" where
  "ev_ext x s = (case client s x of Some (CExt e) \<Rightarrow> Some e | _ \<Rightarrow> None)"

definition ev_put_ext :: "ptr \<Rightarrow> DeviceExtension \<Rightarrow> 'a evstate_scheme \<Rightarrow> 'a evstate_scheme" where
  "ev_put_ext x e s = s\<lparr>client := (client s)(x \<mapsto> CExt e)\<rparr>"

definition ev_ctx :: "ptr \<Rightarrow> 'a evstate_scheme \<Rightarrow> FileContext option" where
  "ev_ctx c s = (case client s c of Some (CFile f) \<Rightarrow> Some f | _ \<Rightarrow> None)"

definition ev_put_ctx :: "ptr \<Rightarrow> FileContext \<Rightarrow> 'a evstate_scheme \<Rightarrow> 'a evstate_scheme" where
  "ev_put_ctx c f s = s\<lparr>client := (client s)(c \<mapsto> CFile f)\<rparr>"

text \<open>One operation of the spin lock in the extension.\<close>

definition on_queue_lock ::
  "(kernel \<Rightarrow> ptr \<Rightarrow> WduSpinLock \<Rightarrow> 'a evstate_scheme \<Rightarrow> (WduSpinLock \<times> 'a evstate_scheme) option)
     \<Rightarrow> kernel \<Rightarrow> ev_env \<Rightarrow> ptr \<Rightarrow> 'a evstate_scheme \<Rightarrow> 'a evstate_scheme option" where
  "on_queue_lock op K E x s = do {
     e \<leftarrow> ev_ext x s;
     (l, s) \<leftarrow> op K (x + ex_lock_off E) (queue_lock e) s;
     Some (ev_put_ext x (e\<lparr>queue_lock := l\<rparr>) s)
   }"

text \<open>The records of the queue, which owns them.\<close>

definition queue_records :: "ptr \<Rightarrow> 'a evstate_scheme \<Rightarrow> NotifyRecord list option" where
  "queue_records x s = do {
     e \<leftarrow> ev_ext x s;
     those (map (notify_records s) (event_queue e))
   }"

text \<open>A box of the queue goes out of scope.\<close>

definition record_drop :: "kernel \<Rightarrow> ptr \<Rightarrow> 'a evstate_scheme \<Rightarrow> 'a evstate_scheme" where
  "record_drop K b s =
     (let s = sysv K (Pool (RustDealloc b)) s in s\<lparr>notify_records := (notify_records s)(b := None)\<rparr>)"

text \<open>The input buffer as a \<^verbatim>\<open>RegisterEvent\<close> (\<^verbatim>\<open>repr(C)\<close>: offsets 0, 8 and 16), little-endian.\<close>

definition le_word :: "u8 list \<Rightarrow> 'a::len word" where
  "le_word bs = foldr (\<lambda>b acc. ucast b OR push_bit 8 acc) bs 0"

definition bytes_at :: "(ptr \<Rightarrow> u8) \<Rightarrow> ptr \<Rightarrow> nat \<Rightarrow> u8 list" where
  "bytes_at m p n = map (\<lambda>i. m (p + of_nat i)) [0..<n]"

definition register_event_at :: "ptr \<Rightarrow> 'a evstate_scheme \<Rightarrow> RegisterEvent" where
  "register_event_at p s =
     \<lparr>re_notify_type = le_word (bytes_at (ev_bytes s) p 4),
      re_event = le_word (bytes_at (ev_bytes s) (p + 8) 8),
      re_due_time = le_word (bytes_at (ev_bytes s) (p + 16) 8)\<rparr>"

section \<open>Notifications\<close>

text \<open>\<^verbatim>\<open>if due_time > 0 { due_time = due_time.neg() }\<close>, on \<^verbatim>\<open>i64\<close>.\<close>

definition relative_due_time :: "i64 \<Rightarrow> i64" where
  "relative_due_time due_time = (if 0 <s due_time then - due_time else due_time)"

text \<open>The new record of a notification, with its timer and its DPC initialised.\<close>

definition new_notify_record ::
  "kernel \<Rightarrow> ev_env \<Rightarrow> NotifyData \<Rightarrow> WduFileObject \<Rightarrow> 'a evstate_scheme \<Rightarrow> (ptr \<times> 'a evstate_scheme) option" where
  "new_notify_record K E data fo s = do {
     (b, s) \<leftarrow> rust_alloc K (of_nat (ex_sizeof_record E)) s;
     let s = timer_init K (b + ex_timer_off E) s;
     let (d, s) = dpc_init K (ex_custom_dpc E) (b + ex_dpc_off E) (ex_timer_dpc E) (Some data) dpc_new s;
     Some (b, s\<lparr>notify_records := (notify_records s)(b \<mapsto>
       \<lparr>nr_dpc = d, nr_file_object = fo, nr_data = data\<rparr>)\<rparr>)
   }"

text \<open>\<^verbatim>\<open>record.timer.set(\<dots>)\<close>, the push and the release of the lock, which end both notifications.\<close>

definition start_notify ::
  "kernel \<Rightarrow> ev_env \<Rightarrow> ptr \<Rightarrow> ptr \<Rightarrow> i64 \<Rightarrow> 'a evstate_scheme \<Rightarrow> 'a evstate_scheme option" where
  "start_notify K E x b due_time s = do {
     let s = snd (timer_set K (b + ex_timer_off E) due_time (Some (b + ex_dpc_off E)) s);
     e \<leftarrow> ev_ext x s;
     let s = ev_put_ext x (e\<lparr>event_queue := event_queue e @ [b]\<rparr>) s;
     on_queue_lock spin_release K E x s
   }"

text \<open>
  \<^verbatim>\<open>irp_notification\<close>: \<open>irp_notification_record\<close> is the part before the lock is taken,
  \<open>irp_notification_locked\<close> the part after it. An early return drops the record.
\<close>

definition irp_notification_record ::
  "kernel \<Rightarrow> ev_env \<Rightarrow> ptr \<Rightarrow> WduIrp \<Rightarrow> 'a evstate_scheme \<Rightarrow> (ptr \<times> WduIrp \<times> 'a evstate_scheme) option" where
  "irp_notification_record K E x irp s = do {
     (_, irp, s) \<leftarrow> set_cancel_rtn K (ex_cancel_entry E) irp (Some (ex_cancel_routine E)) s;
     let data = \<lparr>nd_ty = IrpBased irp, nd_extension = x\<rparr>;
     fo \<leftarrow> irp_file_object irp s;
     (b, s) \<leftarrow> new_notify_record K E data fo s;
     Some (b, irp, s)
   }"

definition irp_notification_locked ::
  "kernel \<Rightarrow> ev_env \<Rightarrow> ptr \<Rightarrow> ptr \<Rightarrow> i64 \<Rightarrow> WduIrp \<Rightarrow> 'a evstate_scheme
     \<Rightarrow> ((EventError, ntstatus) result \<times> WduIrp \<times> 'a evstate_scheme) option" where
  "irp_notification_locked K E x b due_time irp s = do {
     c \<leftarrow> is_cancel irp s;
     (stop, irp, s) \<leftarrow>
       (if c then do {
          (prev, irp, s) \<leftarrow> set_cancel_rtn K (ex_cancel_entry E) irp None s;
          Some (prev \<noteq> None, irp, s)
        }
        else Some (False, irp, s));
     if stop then do {
       s \<leftarrow> on_queue_lock spin_release K E x s;
       Some (Err (EvStatus STATUS_CANCELLED), irp, record_drop K b s)
     }
     else do {
       s \<leftarrow> mark_pending irp s;
       s \<leftarrow> start_notify K E x b due_time s;
       Some (Ok STATUS_PENDING, irp, s)
     }
   }"

definition irp_notification ::
  "kernel \<Rightarrow> ev_env \<Rightarrow> WduDevice \<Rightarrow> WduIrp \<Rightarrow> RegisterEvent \<Rightarrow> 'a evstate_scheme
     \<Rightarrow> ((EventError, ntstatus) result \<times> WduIrp \<times> 'a evstate_scheme) option" where
  "irp_notification K E device irp register_event s = do {
     x \<leftarrow> extension_as_ptr device s;
     (b, irp, s) \<leftarrow> irp_notification_record K E x irp s;
     let due_time = relative_due_time (re_due_time register_event);
     s \<leftarrow> on_queue_lock spin_acquire K E x s;
     irp_notification_locked K E x b due_time irp s
   }"

definition EVENT_ACCESS_MASK :: u32 where "EVENT_ACCESS_MASK = 0x00100000 OR 0x0002"

definition event_notification ::
  "kernel \<Rightarrow> ev_env \<Rightarrow> WduDevice \<Rightarrow> WduIrp \<Rightarrow> RegisterEvent \<Rightarrow> 'a evstate_scheme
     \<Rightarrow> ((EventError, ntstatus) result \<times> WduIrp \<times> 'a evstate_scheme) option" where
  "event_notification K E device irp register_event s = do {
     x \<leftarrow> extension_as_ptr device s;
     mode \<leftarrow> irp_processor_mode irp s;
     case event_ref_by_handle K (ex_event_type E) (re_event register_event) EVENT_ACCESS_MASK mode s of
       (Err e, s) \<Rightarrow> Some (Err (event_error_from_wdu e), irp, s)
     | (Ok event, s) \<Rightarrow> do {
         let data = \<lparr>nd_ty = EventBased event, nd_extension = x\<rparr>;
         fo \<leftarrow> irp_file_object irp s;
         (b, s) \<leftarrow> new_notify_record K E data fo s;
         let due_time = relative_due_time (re_due_time register_event);
         s \<leftarrow> on_queue_lock spin_acquire K E x s;
         s \<leftarrow> start_notify K E x b due_time s;
         Some (Ok STATUS_SUCCESS, irp, s)
       }
   }"

section \<open>Requests\<close>

definition handle_register_event ::
  "kernel \<Rightarrow> ev_env \<Rightarrow> WduDevice \<Rightarrow> WduIrp \<Rightarrow> WduDeviceControl \<Rightarrow> 'a evstate_scheme
     \<Rightarrow> ((EventError, ntstatus) result \<times> WduIrp \<times> 'a evstate_scheme) option" where
  "handle_register_event K E device request req_data s =
     (if dc_in_buf_len req_data < sizeof_RegisterEvent
      then Some (Err (EvStatus STATUS_INVALID_PARAMETER), request, s)
      else let buffer = input_buffer req_data in
        if buffer = null then Some (Err (EvStatus STATUS_INVALID_PARAMETER), request, s)
        else let r = register_event_at buffer s in
          if re_notify_type r = IRP_BASED then irp_notification K E device request r s
          else if re_notify_type r = EVENT_BASED then event_notification K E device request r s
          else Some (Err (EvStatus STATUS_INVALID_PARAMETER), request, s))"

fun event_status :: "(EventError, ntstatus) result \<Rightarrow> ntstatus" where
  "event_status (Ok status) = status"
| "event_status (Err (EvStatus status)) = status"
| "event_status (Err _) = STATUS_UNSUCCESSFUL"

text \<open>The operations of the remove lock in a file context at \<open>c\<close>.\<close>

definition rundown_lock_acquire ::
  "kernel \<Rightarrow> ev_env \<Rightarrow> ptr \<Rightarrow> usize option \<Rightarrow> 'a evstate_scheme \<Rightarrow> (ntstatus \<times> 'a evstate_scheme) option" where
  "rundown_lock_acquire K E c tag s = do {
     f \<leftarrow> ev_ctx c s;
     let (status, l, s) = remove_acquire K (c + ex_rundown_off E) tag (fc_file_rundown f) s;
     Some (status, ev_put_ctx c (f\<lparr>fc_file_rundown := l\<rparr>) s)
   }"

definition rundown_lock_release ::
  "(kernel \<Rightarrow> ptr \<Rightarrow> WduRemoveLock \<Rightarrow> 'a evstate_scheme \<Rightarrow> WduRemoveLock \<times> 'a evstate_scheme)
     \<Rightarrow> kernel \<Rightarrow> ev_env \<Rightarrow> ptr \<Rightarrow> 'a evstate_scheme \<Rightarrow> 'a evstate_scheme option" where
  "rundown_lock_release op K E c s = do {
     f \<leftarrow> ev_ctx c s;
     let (l, s) = op K (c + ex_rundown_off E) (fc_file_rundown f) s;
     Some (ev_put_ctx c (f\<lparr>fc_file_rundown := l\<rparr>) s)
   }"

definition ev_device_control ::
  "kernel \<Rightarrow> ev_env \<Rightarrow> WduDevice \<Rightarrow> WduIrp \<Rightarrow> WduDeviceControl \<Rightarrow> 'a evstate_scheme
     \<Rightarrow> (ntstatus \<times> WduIrp \<times> 'a evstate_scheme) option" where
  "ev_device_control K E device request req_data s = do {
     let io_status = io_status_new;
     fo \<leftarrow> irp_file_object request s;
     rust_assert (fo_is_valid fo);
     p \<leftarrow> fo_context_as_mut_ref fo s;
     c \<leftarrow> p;
     (acq, s) \<leftarrow> rundown_lock_acquire K E c (Some (wi_irp request)) s;
     if acq \<noteq> STATUS_SUCCESS then do {
       s \<leftarrow> irp_complete K request io_status s;
       Some (STATUS_UNSUCCESSFUL, request, s)
     }
     else do {
       (status, request, s) \<leftarrow>
         (if dc_ioctl req_data = IOCTL_REGISTER_EVENT then do {
            (r, request, s) \<leftarrow> handle_register_event K E device request req_data s;
            Some (event_status r, request, s)
          }
          else do {
            debug_assert False s;
            Some (STATUS_NOT_IMPLEMENTED, request, s)
          });
       s \<leftarrow> (if status \<noteq> STATUS_PENDING then irp_complete K request (set_status status io_status) s else Some s);
       s \<leftarrow> rundown_lock_release remove_release K E c s;
       Some (status, request, s)
     }
   }"

text \<open>
  \<^verbatim>\<open>create\<close>: the remove lock is initialised in a local variable and moved into the box. The assertion
  asks for the context as a \<^verbatim>\<open>Box<()>\<close>, whose drop would free nothing.
\<close>

definition ev_create ::
  "kernel \<Rightarrow> ev_env \<Rightarrow> WduDevice \<Rightarrow> WduIrp \<Rightarrow> WduCreate \<Rightarrow> 'a evstate_scheme \<Rightarrow> (WduIrp \<times> 'a evstate_scheme) option" where
  "ev_create K E device request req_data s = do {
     let s = remove_init K (ex_lock_slot E) LOCK_TAG 0 0 s;
     let file_ctx = \<lparr>fc_file_rundown = remove_new\<rparr>;
     ctx \<leftarrow> fo_context (wc_file_object req_data) s;
     rust_assert (ctx = None);
     s \<leftarrow> fo_set_context K (ex_sizeof_context E) (wc_file_object req_data) (CFile file_ctx) s;
     s \<leftarrow> irp_complete K request success_no_info s;
     Some (request, s)
   }"

definition ev_close ::
  "kernel \<Rightarrow> ev_env \<Rightarrow> WduDevice \<Rightarrow> WduIrp \<Rightarrow> WduFileObject \<Rightarrow> 'a evstate_scheme \<Rightarrow> (WduIrp \<times> 'a evstate_scheme) option" where
  "ev_close K E device request file_obj s = do {
     ctx \<leftarrow> fo_context file_obj s;
     s \<leftarrow> (case ctx of None \<Rightarrow> Some s | Some b \<Rightarrow> box_drop K (ex_sizeof_context E) b s);
     s \<leftarrow> irp_complete K request success_no_info s;
     Some (request, s)
   }"

text \<open>
  The closure given to \<^verbatim>\<open>retain_mut\<close>: whether the record stays, and the IRP it adds to the clean-up
  list. A record that does not stay is dropped before the next one is visited.
\<close>

definition cleanup_record ::
  "kernel \<Rightarrow> ev_env \<Rightarrow> WduFileObject \<Rightarrow> ptr \<Rightarrow> 'a evstate_scheme \<Rightarrow> (bool \<times> WduIrp list \<times> 'a evstate_scheme) option" where
  "cleanup_record K E file_obj b s = do {
     r \<leftarrow> notify_records s b;
     let (keep, s) = (if nr_file_object r \<noteq> file_obj
                      then let (cancelled, s) = timer_cancel K (b + ex_timer_off E) s in (\<not> cancelled, s)
                      else (False, s));
     if keep then Some (True, [], s)
     else case nd_ty (nr_data r) of
         IrpBased irp \<Rightarrow> do {
           (prev, irp, s) \<leftarrow> set_cancel_rtn K (ex_cancel_entry E) irp None s;
           let s = s\<lparr>notify_records := (notify_records s)(b \<mapsto>
                  r\<lparr>nr_data := (nr_data r)\<lparr>nd_ty := IrpBased irp\<rparr>\<rparr>)\<rparr>;
           if prev = None then Some (False, [irp], s) else Some (True, [], s)
         }
       | EventBased evt \<Rightarrow> Some (False, [], event_dereference K evt s)
   }"

fun cleanup_retain ::
  "kernel \<Rightarrow> ev_env \<Rightarrow> WduFileObject \<Rightarrow> ptr list \<Rightarrow> 'a evstate_scheme
     \<Rightarrow> (ptr list \<times> WduIrp list \<times> 'a evstate_scheme) option" where
  "cleanup_retain K E file_obj [] s = Some ([], [], s)"
| "cleanup_retain K E file_obj (b # bs) s = do {
     (keep, c, s) \<leftarrow> cleanup_record K E file_obj b s;
     (bs', cs, s) \<leftarrow> cleanup_retain K E file_obj bs (if keep then s else record_drop K b s);
     Some (if keep then b # bs' else bs', c @ cs, s)
   }"

fun complete_cancelled :: "kernel \<Rightarrow> WduIrp list \<Rightarrow> 'a evstate_scheme \<Rightarrow> 'a evstate_scheme option" where
  "complete_cancelled K [] s = Some s"
| "complete_cancelled K (irp # cleanup_list) s = do {
     s \<leftarrow> irp_complete K irp (set_status STATUS_CANCELLED io_status_new) s;
     complete_cancelled K cleanup_list s
   }"

definition ev_cleanup ::
  "kernel \<Rightarrow> ev_env \<Rightarrow> WduDevice \<Rightarrow> WduIrp \<Rightarrow> WduFileObject \<Rightarrow> 'a evstate_scheme \<Rightarrow> (WduIrp \<times> 'a evstate_scheme) option" where
  "ev_cleanup K E device request file_obj s = do {
     x \<leftarrow> extension_as_ptr device s;
     rust_assert (fo_is_valid file_obj);
     p \<leftarrow> fo_context_as_mut_ref file_obj s;
     c \<leftarrow> p;
     (status, s) \<leftarrow> rundown_lock_acquire K E c (Some (wi_irp request)) s;
     rust_assert (status = STATUS_SUCCESS);
     s \<leftarrow> rundown_lock_release remove_release_and_wait K E c s;
     s \<leftarrow> on_queue_lock spin_acquire K E x s;
     e \<leftarrow> ev_ext x s;
     (q, cleanup_list, s) \<leftarrow> cleanup_retain K E file_obj (event_queue e) s;
     let s = ev_put_ext x (e\<lparr>event_queue := q\<rparr>) s;
     s \<leftarrow> on_queue_lock spin_release K E x s;
     s \<leftarrow> complete_cancelled K cleanup_list s;
     s \<leftarrow> irp_complete K request success_no_info s;
     Some (request, s)
   }"

section \<open>The cancel routine and the DPC\<close>

text \<open>\<^verbatim>\<open>swap_remove\<close> on the queue; the box it returns is still to be dropped.\<close>

definition queue_swap_remove :: "ptr \<Rightarrow> nat \<Rightarrow> 'a evstate_scheme \<Rightarrow> (ptr \<times> 'a evstate_scheme) option" where
  "queue_swap_remove x i s = do {
     e \<leftarrow> ev_ext x s;
     (b, q) \<leftarrow> swap_remove i (event_queue e);
     Some (b, ev_put_ext x (e\<lparr>event_queue := q\<rparr>) s)
   }"

definition is_irp_record :: "ptr \<Rightarrow> NotifyRecord \<Rightarrow> bool" where
  "is_irp_record p r = (case nd_ty (nr_data r) of IrpBased i \<Rightarrow> wi_irp i = p | EventBased _ \<Rightarrow> False)"

text \<open>\<open>cancel_routine_queue\<close> is the routine from the point where it waits for the lock of the queue.\<close>

definition cancel_routine_queue ::
  "kernel \<Rightarrow> ev_env \<Rightarrow> ptr \<Rightarrow> WduIrp \<Rightarrow> 'a evstate_scheme \<Rightarrow> (WduIrp \<times> 'a evstate_scheme) option" where
  "cancel_routine_queue K E x irp s = do {
     s \<leftarrow> on_queue_lock spin_acquire K E x s;
     rs \<leftarrow> queue_records x s;
     index \<leftarrow> position (is_irp_record (wi_irp irp)) rs;
     (b, s) \<leftarrow> queue_swap_remove x index s;
     let s = snd (timer_cancel K (b + ex_timer_off E) s);
     s \<leftarrow> on_queue_lock spin_release K E x s;
     s \<leftarrow> irp_complete K irp (new_with_status STATUS_CANCELLED) s;
     Some (irp, record_drop K b s)
   }"

definition ev_cancel_routine ::
  "kernel \<Rightarrow> ev_env \<Rightarrow> WduDevice \<Rightarrow> WduIrp \<Rightarrow> 'a evstate_scheme \<Rightarrow> (WduIrp \<times> 'a evstate_scheme) option" where
  "ev_cancel_routine K E device irp s = do {
     x \<leftarrow> extension_as_ptr device s;
     s \<leftarrow> release_cancel_lock K irp s;
     cancel_routine_queue K E x irp s
   }"

text \<open>
  \<^verbatim>\<open>timer_dpc\<close> up to and after the point where it gives the lock up to complete a request:
  \<open>timer_dpc_first\<close> says how it goes on. The context is the DPC's own copy of the record's data.
\<close>

datatype dpc_next = DpcReturn | DpcRemove ptr nat | DpcUnlocked ptr nat

definition timer_dpc_first ::
  "kernel \<Rightarrow> ev_env \<Rightarrow> ptr \<Rightarrow> 'a evstate_scheme \<Rightarrow> (dpc_next \<times> 'a evstate_scheme) option" where
  "timer_dpc_first K E dpc s = do {
     let rb = dpc - ex_dpc_off E;
     r \<leftarrow> notify_records s rb;
     data \<leftarrow> dpc_context (nr_dpc r);
     let x = nd_extension data;
     if x = null then do { debug_assert False s; Some (DpcReturn, s) }
     else do {
       s \<leftarrow> on_queue_lock spin_acquire_at_dpc K E x s;
       rs \<leftarrow> queue_records x s;
       case position (\<lambda>r. notify_data_eq (nr_data r) data) rs of
         None \<Rightarrow> do {
           s \<leftarrow> on_queue_lock spin_release_from_dpc K E x s;
           Some (DpcReturn, s)
         }
       | Some index \<Rightarrow>
           (case nd_ty data of
              IrpBased irp \<Rightarrow> do {
                (prev, irp, s) \<leftarrow> set_cancel_rtn K (ex_cancel_entry E) irp None s;
                let s = s\<lparr>notify_records := (notify_records s)(rb \<mapsto>
                       r\<lparr>nr_dpc := (nr_dpc r)\<lparr>dpc_context := Some (data\<lparr>nd_ty := IrpBased irp\<rparr>)\<rparr>\<rparr>)\<rparr>;
                s \<leftarrow> on_queue_lock spin_release_from_dpc K E x s;
                if prev \<noteq> None then do {
                  s \<leftarrow> irp_complete K irp success_no_info s;
                  Some (DpcUnlocked x index, s)
                }
                else Some (DpcReturn, s)
              }
            | EventBased evt \<Rightarrow>
                Some (DpcRemove x index, event_dereference K evt (snd (event_set K evt 0 False s))))
     }
   }"

definition timer_dpc_remove ::
  "kernel \<Rightarrow> ev_env \<Rightarrow> ptr \<Rightarrow> nat \<Rightarrow> 'a evstate_scheme \<Rightarrow> 'a evstate_scheme option" where
  "timer_dpc_remove K E x index s = do {
     (b, s) \<leftarrow> queue_swap_remove x index s;
     on_queue_lock spin_release_from_dpc K E x (record_drop K b s)
   }"

fun timer_dpc_rest :: "kernel \<Rightarrow> ev_env \<Rightarrow> dpc_next \<Rightarrow> 'a evstate_scheme \<Rightarrow> 'a evstate_scheme option" where
  "timer_dpc_rest K E DpcReturn s = Some s"
| "timer_dpc_rest K E (DpcRemove x index) s = timer_dpc_remove K E x index s"
| "timer_dpc_rest K E (DpcUnlocked x index) s = do {
     s \<leftarrow> on_queue_lock spin_acquire_at_dpc K E x s;
     timer_dpc_remove K E x index s
   }"

definition ev_timer_dpc :: "kernel \<Rightarrow> ev_env \<Rightarrow> ptr \<Rightarrow> 'a evstate_scheme \<Rightarrow> 'a evstate_scheme option" where
  "ev_timer_dpc K E dpc s = do {
     (next, s) \<leftarrow> timer_dpc_first K E dpc s;
     timer_dpc_rest K E next s
   }"

section \<open>Loading and unloading\<close>

definition ev_driver :: "ev_env \<Rightarrow> ptr \<Rightarrow> 'a evstate_scheme \<Rightarrow> (WduDriver \<times> 'a evstate_scheme) option" where
  "ev_driver E driver_object s = do {
     let fileobj = cleanup_irp (ex_cleanup E) (close_irp (ex_close E) (create_irp (ex_create E) fileobj_default));
     let io = ioctl_irp (ex_device_control E) io_default;
     (d, s) \<leftarrow> driver_unload_builder (ex_entry E) (driver_new driver_object) (ex_driver_unload E) s;
     (d, s) \<leftarrow> driver_file_object (ex_entry E) d fileobj s;
     driver_io (ex_entry E) d io s
   }"

definition DO_BUFFERED_IO :: u32 where [nt_consts]: "DO_BUFFERED_IO = 4"

definition ext_zeroed :: DeviceExtension where
  "ext_zeroed = \<lparr>event_queue = [], queue_lock = spin_const_new\<rparr>"

definition ev_init ::
  "kernel \<Rightarrow> ev_env \<Rightarrow> ptr \<Rightarrow> 'a evstate_scheme \<Rightarrow> ((EventError, unit) result \<times> 'a evstate_scheme) option" where
  "ev_init K E driver_object s = do {
     let device_name = str_from_slice (ex_device_name E);
     (d, s) \<leftarrow> ev_driver E driver_object s;
     case driver_build K (ex_driver_id E) (ex_sizeof E) d s of
       (Err e, s) \<Rightarrow> Some (Err (event_error_from_driver e), s)
     | (Ok wdu_driver, s) \<Rightarrow> do {
         (r, s) \<leftarrow> device_build K (ex_sizeof_extension E) (CExt ext_zeroed)
                    (device_characteristics DcSecureOpen (device_device_type DtUnknown device_default))
                    wdu_driver (Some device_name) s;
         case r of
           Err e \<Rightarrow> Some (Err (event_error_from_device e), s)
         | Ok wdu_device \<Rightarrow> do {
             let win32_name = str_from_slice (ex_win32_name E);
             let s = (case device_symbolic_name K device_name win32_name s of
                        (Err e, s) \<Rightarrow> device_delete K wdu_device s
                      | (Ok u, s) \<Rightarrow> s);
             s \<leftarrow> extension_as_mut_ref wdu_device (\<lambda>_. CExt \<lparr>event_queue = [], queue_lock = spin_new\<rparr>) s;
             s \<leftarrow> device_set_flags wdu_device DO_BUFFERED_IO s;
             Some (Ok (), s)
           }
       }
   }"

definition ev_DriverEntry ::
  "kernel \<Rightarrow> ev_env \<Rightarrow> SimpleAlloc \<Rightarrow> ptr \<Rightarrow> 'a evstate_scheme \<Rightarrow> (ntstatus \<times> SimpleAlloc \<times> 'a evstate_scheme) option" where
  "ev_DriverEntry K E g driver_object s = do {
     let (g, s) = simple_init K (ex_pool2_name E) g s;
     (r, s) \<leftarrow> ev_init K E driver_object s;
     case r of Err e \<Rightarrow> Some (STATUS_UNSUCCESSFUL, g, s) | Ok u \<Rightarrow> Some (STATUS_SUCCESS, g, s)
   }"

definition ev_driver_unload ::
  "kernel \<Rightarrow> ev_env \<Rightarrow> WduDriver \<Rightarrow> 'a evstate_scheme \<Rightarrow> 'a evstate_scheme option" where
  "ev_driver_unload K E driver s = do {
     dev_obj \<leftarrow> driver_device driver s;
     x \<leftarrow> extension_as_ptr dev_obj s;
     extension \<leftarrow> ev_ext x s;
     rust_assert (event_queue extension = []);
     let s = snd (delete_symbolic_name K (str_from_slice (ex_win32_name E)) s);
     Some (device_delete K dev_obj s)
   }"

section \<open>The driver's routines behind the crate's entry points\<close>

text \<open>What the function addresses of the environment stand for.\<close>

definition ev_handlers :: "kernel \<Rightarrow> ev_env \<Rightarrow> (ev_client, 'a evstate_ext) handlers" where
  "ev_handlers K E =
     \<lparr>h_create = (\<lambda>f d i c s. if f = ex_create E then ev_create K E d i c s else None),
      h_close = (\<lambda>f d i fo s. if f = ex_close E then ev_close K E d i fo s
                              else if f = ex_cleanup E then ev_cleanup K E d i fo s else None),
      h_rw = (\<lambda>f d i n s. None),
      h_ioctl = (\<lambda>f d i r s. if f = ex_device_control E then ev_device_control K E d i r s else None),
      h_unload = (\<lambda>f d s. if f = ex_driver_unload E then ev_driver_unload K E d s else None),
      h_add_device = (\<lambda>f d s. None)\<rparr>"

text \<open>
  The kernel cancels an IRP, at IRQL \<open>irql\<close>: \<^verbatim>\<open>IoCancelIrp\<close> marks it and takes its cancel routine away;
  if there was one, it stores the IRQL in the IRP and calls the routine, otherwise this is all.
\<close>

definition io_cancel :: "kernel \<Rightarrow> ev_env \<Rightarrow> u8 \<Rightarrow> ptr \<Rightarrow> ptr \<Rightarrow> 'a evstate_scheme \<Rightarrow> 'a evstate_scheme option" where
  "io_cancel K E irql dev p s = do {
     irp \<leftarrow> irps s p;
     let marked = irp\<lparr>irp_Cancel := 1, irp_CancelRoutine := None\<rparr>;
     case irp_CancelRoutine irp of
       None \<Rightarrow> Some (s\<lparr>irps := (irps s)(p \<mapsto> marked)\<rparr>)
     | Some f \<Rightarrow> do {
         rust_assert (f = ex_cancel_entry E);
         cancel_routine K (\<lambda>f d w s. if f = ex_cancel_routine E then ev_cancel_routine K E d w s else None) dev p
           (s\<lparr>irps := (irps s)(p \<mapsto> marked\<lparr>irp_CancelIrql := irql\<rparr>)\<rparr>)
       }
   }"

lemma io_cancelE:
  assumes "io_cancel K E irql dev p s = Some t"
  obtains (unset) irp where "irps s p = Some irp" "irp_CancelRoutine irp = None"
    "t = s\<lparr>irps := (irps s)(p \<mapsto> irp\<lparr>irp_Cancel := 1, irp_CancelRoutine := None\<rparr>)\<rparr>"
  | (runs) irp where "irps s p = Some irp" "irp_CancelRoutine irp = Some (ex_cancel_entry E)"
    "cancel_routine K (\<lambda>f d w s. if f = ex_cancel_routine E then ev_cancel_routine K E d w s else None) dev p
       (s\<lparr>irps := (irps s)(p \<mapsto> irp\<lparr>irp_Cancel := 1, irp_CancelRoutine := None, irp_CancelIrql := irql\<rparr>)\<rparr>) = Some t"
proof -
  obtain irp where irp: "irps s p = Some irp"
    using assms by (auto simp: io_cancel_def bind_eq_Some_conv)
  show thesis
  proof (cases "irp_CancelRoutine irp")
    case None
    then show ?thesis using irp assms by (intro unset [OF irp None]) (simp add: io_cancel_def)
  next
    case (Some f)
    then have "f = ex_cancel_entry E" using irp assms by (simp add: io_cancel_def)
    then show ?thesis using Some irp assms by (intro runs [OF irp]) (simp_all add: io_cancel_def)
  qed
qed

text \<open>The timer of the record at \<open>b\<close> expires: the kernel calls the crate's routine with its DPC.\<close>

definition ev_fire :: "kernel \<Rightarrow> ev_env \<Rightarrow> ptr \<Rightarrow> 'a evstate_scheme \<Rightarrow> 'a evstate_scheme option" where
  "ev_fire K E b s =
     custom_dpc (\<lambda>f p s. if f = ex_timer_dpc E then ev_timer_dpc K E p s else None)
       (\<lambda>s p. map_option nr_dpc (notify_records s (p - ex_dpc_off E))) (b + ex_dpc_off E) s"

end
