(* ===== verification/Ex_EventRun.thy ===== *)
theory Ex_EventRun
  imports Ex_Event
begin

text \<open>
  The event example at work: requests that arrive, timers that expire and cancellations, as steps
  of a relation, with the invariant of the queue that every step keeps and the account of what
  happens to every request.
\<close>

section \<open>Logs of lock operations\<close>

fun is_lock_event :: "kevent \<Rightarrow> bool" where
  "is_lock_event (Lock c, r) \<longleftrightarrow> True"
| "is_lock_event _ \<longleftrightarrow> False"

abbreviation lock_log :: "kevent list \<Rightarrow> bool" where
  "lock_log g \<equiv> list_all is_lock_event g"

lemma lock_log_completions [simp]: "lock_log g \<Longrightarrow> completions p g = []"
proof (induction g)
  case (Cons ev g)
  then show ?case by (cases ev rule: is_lock_event.cases) simp_all
qed simp

lemma lock_log_heap [simp]: "lock_log g \<Longrightarrow> fold heap_step g H = H"
proof (induction g arbitrary: H)
  case (Cons ev g)
  then show ?case by (cases ev rule: is_lock_event.cases) simp_all
qed simp

section \<open>Operations on the lock of the queue\<close>

text \<open>What the driver relies on in each operation of its spin lock: it only adds to the log.\<close>

locale queue_lock_op =
  fixes op :: "kernel \<Rightarrow> ptr \<Rightarrow> WduSpinLock \<Rightarrow> 'a evstate_scheme \<Rightarrow> (WduSpinLock \<times> 'a evstate_scheme) option"
  assumes quiet: "op K at l s = Some (l', s') \<Longrightarrow> \<exists>g. s' = s\<lparr>klog := klog s @ g\<rparr> \<and> lock_log g"
begin

lemma on_queue_lockE:
  assumes "on_queue_lock op K E x s = Some s'"
  obtains e l g where "ev_ext x s = Some e" "lock_log g"
    "s' = s\<lparr>klog := klog s @ g, client := (client s)(x \<mapsto> CExt (e\<lparr>queue_lock := l\<rparr>))\<rparr>"
proof -
  from assms obtain e l t where "ev_ext x s = Some e" "op K (x + ex_lock_off E) (queue_lock e) s = Some (l, t)"
    "s' = ev_put_ext x (e\<lparr>queue_lock := l\<rparr>) t"
    by (auto simp: on_queue_lock_def bind_eq_Some_conv)
  with quiet [OF this(2)] show ?thesis
    by (auto simp: ev_put_ext_def intro: that)
qed

end

lemma assert_irql_quiet:
  assumes "assert_irql K P s = Some s'"
  obtains g where "s' = s\<lparr>klog := klog s @ g\<rparr>" "lock_log g"
  using assms that [of "[]"]
  by (auto simp: assert_irql_def current_irql_def sys_eq bind_eq_Some_conv split: if_splits intro: that)

lemmas spin_op_defs = spin_acquire_def spin_release_def spin_acquire_at_dpc_def spin_release_from_dpc_def

interpretation q_acquire: queue_lock_op spin_acquire
  by unfold_locales (auto simp: spin_op_defs sys_eq bind_eq_Some_conv elim!: assert_irql_quiet)

interpretation q_release: queue_lock_op spin_release
  by unfold_locales (auto simp: spin_op_defs sys_eq bind_eq_Some_conv elim!: assert_irql_quiet)

interpretation q_acquire_dpc: queue_lock_op spin_acquire_at_dpc
  by unfold_locales (auto simp: spin_op_defs sys_eq bind_eq_Some_conv elim!: assert_irql_quiet)

interpretation q_release_dpc: queue_lock_op spin_release_from_dpc
  by unfold_locales (auto simp: spin_op_defs sys_eq bind_eq_Some_conv elim!: assert_irql_quiet)

section \<open>The queue as a list of addresses\<close>

lemma those_map: "(\<forall>b\<in>set q. N b \<noteq> None) \<Longrightarrow> those (map N q) = Some (map (\<lambda>b. the (N b)) q)"
  by (induction q) auto

lemma position_map: "position P (map f xs) = position (\<lambda>x. P (f x)) xs"
  by (induction xs) auto

lemma position_unique:
  assumes "distinct xs" "y \<in> set xs" "P y" "\<forall>x\<in>set xs. P x \<longrightarrow> x = y"
  obtains i where "position P xs = Some i" "i < length xs" "xs ! i = y"
proof (cases "position P xs")
  case None
  then show ?thesis using assms(2,3) by (simp add: position_None)
next
  case (Some i)
  then show ?thesis
    using position_Some [OF Some] assms(4) that by auto
qed

lemma swap_remove_set:
  assumes "swap_remove i xs = Some (y, ys)" "distinct xs"
  shows "distinct ys" "set ys = set xs - {y}" "y \<in> set xs" "i < length xs" "y = xs ! i"
proof -
  have i: "i < length xs" and y: "y = xs ! i" and ys: "ys = butlast (xs[i := last xs])"
    using assms(1) by (auto simp: swap_remove_def split: if_splits)
  show "i < length xs" "y = xs ! i" "y \<in> set xs"
    using i y by simp_all
  obtain zs z where xs: "xs = zs @ [z]"
    using i by (cases xs rule: rev_cases) auto
  have "distinct ys \<and> set ys = set xs - {y}"
  proof (cases "i = length zs")
    case True
    then show ?thesis using xs y ys assms(2) by (auto simp: list_update_append)
  next
    case False
    then have zi: "i < length zs" using i xs by simp
    then have "ys = zs[i := z]" "y = zs ! i"
      using xs y ys by (auto simp: list_update_append nth_append)
    moreover have "set (zs[i := z]) = insert z (set zs - {zs ! i})"
      using zi assms(2) xs by (simp add: set_update_distinct)
    moreover have "distinct (zs[i := z])"
      using assms(2) xs by (auto intro: distinct_list_update)
    moreover have "z \<noteq> zs ! i" using assms(2) xs zi by auto
    ultimately show ?thesis using xs by auto
  qed
  then show "distinct ys" "set ys = set xs - {y}" by auto
qed

section \<open>The invariant of the queue\<close>

text \<open>
  A record that waits for its timer: its DPC is set up with the record's own data, and if it is
  to complete a request, that request is pending: marked so, cancelable through the crate's entry
  point (until its cancellation has begun), with the driver's wrapper in the box behind its context.
\<close>

fun irp_in :: "NotifyType \<Rightarrow> ptr option" where
  "irp_in (IrpBased w) = Some (wi_irp w)"
| "irp_in (EventBased v) = None"

definition irp_at :: "(ptr \<rightharpoonup> NotifyRecord) \<Rightarrow> ptr \<Rightarrow> ptr option" where
  "irp_at N b = (case N b of None \<Rightarrow> None | Some r \<Rightarrow> irp_in (nd_ty (nr_data r)))"

definition pending_ok :: "ev_env \<Rightarrow> WduIrp \<Rightarrow> (ptr \<rightharpoonup> WduIrp) \<Rightarrow> (ptr \<rightharpoonup> IRP) \<Rightarrow> bool" where
  "pending_ok E w B I \<longleftrightarrow> wi_irp w \<noteq> null \<and> wi_cancel w = Some (ex_cancel_routine E) \<and>
     (\<exists>irp. I (wi_irp w) = Some irp \<and>
        (irp_Cancel irp \<noteq> 1 \<longrightarrow> irp_CancelRoutine irp = Some (ex_cancel_entry E)) \<and>
        B (irp_DriverContext3 irp) = Some w \<and> bit (sl_Control (irp_CurrentStack irp)) 0)"

definition record_ok :: "ev_env \<Rightarrow> ptr \<Rightarrow> NotifyRecord \<Rightarrow> (ptr \<rightharpoonup> WduIrp) \<Rightarrow> (ptr \<rightharpoonup> IRP) \<Rightarrow> bool" where
  "record_ok E x r B I \<longleftrightarrow> dpc_routine (nr_dpc r) = Some (ex_timer_dpc E) \<and>
     dpc_context (nr_dpc r) = Some (nr_data r) \<and> nd_extension (nr_data r) = x \<and>
     (\<forall>w. nd_ty (nr_data r) = IrpBased w \<longrightarrow> pending_ok E w B I)"

text \<open>Every box holds the wrapper of a request that the driver has, and is the context of that request.\<close>

definition boxes_ok :: "(ptr \<rightharpoonup> WduIrp) \<Rightarrow> (ptr \<rightharpoonup> IRP) \<Rightarrow> bool" where
  "boxes_ok B I \<longleftrightarrow> (\<forall>k w. B k = Some w \<longrightarrow> (\<exists>irp. I (wi_irp w) = Some irp \<and> irp_DriverContext3 irp = k))"

lemma boxes_ok_insert:
  assumes "boxes_ok B I" "I (wi_irp w) = None" "irp_DriverContext3 irp = k"
  shows "boxes_ok (B(k \<mapsto> w)) (I(wi_irp w \<mapsto> irp))"
  using assms unfolding boxes_ok_def by (metis fun_upd_apply option.distinct(1) option.inject)

lemma boxes_ok_remove:
  assumes "boxes_ok B I" "I p = Some irp"
  shows "boxes_ok (B(irp_DriverContext3 irp := None)) (I(p := None))"
  using assms unfolding boxes_ok_def by (metis fun_upd_apply option.distinct(1) option.inject)

text \<open>
  The queue holds each record once and owns all records; no request waits in two records; the
  requests the driver holds are exactly those that wait in the queue; all boxes are live blocks
  of the heap, and each belongs to one of those requests.
\<close>

definition queue_inv ::
  "ev_env \<Rightarrow> ptr \<Rightarrow> ptr list \<Rightarrow> (ptr \<rightharpoonup> NotifyRecord) \<Rightarrow> (ptr \<rightharpoonup> WduIrp) \<Rightarrow> (ptr \<rightharpoonup> IRP) \<Rightarrow> heap \<Rightarrow> bool" where
  "queue_inv E x q N B I H \<longleftrightarrow> distinct q \<and> dom N = set q \<and>
     (\<forall>b r. N b = Some r \<longrightarrow> record_ok E x r B I) \<and>
     (\<forall>b b' p. irp_at N b = Some p \<longrightarrow> irp_at N b' = Some p \<longrightarrow> b = b') \<and>
     dom I = {p. \<exists>b. irp_at N b = Some p} \<and>
     dom N \<inter> dom B = {} \<and> dom N \<union> dom B \<subseteq> dom H \<and> boxes_ok B I"

lemma irp_at_upd: "irp_at (N(b := v)) c = (if c = b then (case v of None \<Rightarrow> None | Some r \<Rightarrow> irp_in (nd_ty (nr_data r))) else irp_at N c)"
  by (simp add: irp_at_def)

lemma irp_at_Some: "irp_at N b = Some p \<longleftrightarrow> (\<exists>r w. N b = Some r \<and> nd_ty (nr_data r) = IrpBased w \<and> wi_irp w = p)"
  by (auto simp: irp_at_def split: option.splits elim: irp_in.elims)

lemma queue_inv_record:
  assumes "queue_inv E x q N B I H" "N b = Some r"
  shows "b \<in> set q" "record_ok E x r B I" "b \<in> dom H" "B b = None"
  using assms by (auto simp: queue_inv_def dom_def)

lemma queue_inv_pending:
  assumes "queue_inv E x q N B I H" "N b = Some r" "nd_ty (nr_data r) = IrpBased w"
  shows "pending_ok E w B I"
  using queue_inv_record [OF assms(1,2)] assms(3) by (simp add: record_ok_def)

text \<open>A pending request stays one while the box and the request of another one go.\<close>

lemma pending_ok_remove:
  assumes "pending_ok E w B I" "pending_ok E v B I" "wi_irp w \<noteq> wi_irp v" "I (wi_irp v) = Some irp"
  shows "pending_ok E w (B(irp_DriverContext3 irp := None)) (I(wi_irp v := None))"
  using assms by (clarsimp simp: pending_ok_def) (metis option.inject)

lemma pending_ok_other:
  assumes "pending_ok E w B I" "wi_irp w \<noteq> p" "B k = None"
  shows "pending_ok E w (B(k \<mapsto> v)) (I(p \<mapsto> irp))"
  using assms by (auto simp: pending_ok_def)

lemma queue_inv_push:
  assumes inv: "queue_inv E x q N B I H"
    and fresh: "N b = None" "B b = None" and "b \<in> dom H'" "H \<subseteq>\<^sub>m H'"
    and ok: "record_ok E x r B' I'"
    and old: "\<And>c r' w. N c = Some r' \<Longrightarrow> nd_ty (nr_data r') = IrpBased w \<Longrightarrow> pending_ok E w B' I'"
    and new: "\<And>p. irp_in (nd_ty (nr_data r)) = Some p \<Longrightarrow> I p = None"
    and I': "dom I' = dom I \<union> {p. irp_in (nd_ty (nr_data r)) = Some p}"
    and B': "dom B' \<subseteq> dom H'" "b \<notin> dom B'" "dom B' \<inter> dom N = {}" "boxes_ok B' I'"
  shows "queue_inv E x (q @ [b]) (N(b \<mapsto> r)) B' I' H'"
proof -
  have rec: "record_ok E x r' B' I'" if "(N(b \<mapsto> r)) c = Some r'" for c r'
  proof (cases "c = b")
    case True
    then show ?thesis using that ok by simp
  next
    case False
    then have "N c = Some r'" using that by simp
    then show ?thesis
      using queue_inv_record(2) [OF inv] old by (auto simp: record_ok_def)
  qed
  have irp_dom: "p \<in> dom I" if "irp_at N c = Some p" for c p
    using inv that by (auto simp: queue_inv_def)
  have "c = c'" if "irp_at (N(b \<mapsto> r)) c = Some p" "irp_at (N(b \<mapsto> r)) c' = Some p" for c c' p
  proof -
    have "irp_at N d = Some p \<Longrightarrow> irp_in (nd_ty (nr_data r)) \<noteq> Some p" for d
      using irp_dom new by blast
    then show ?thesis
      using that inv by (auto simp: irp_at_upd queue_inv_def split: if_splits)
  qed
  moreover have "dom I' = {p. \<exists>c. irp_at (N(b \<mapsto> r)) c = Some p}"
  proof -
    have "irp_at N b = None" using fresh by (simp add: irp_at_def)
    then have "(\<exists>c. irp_at (N(b \<mapsto> r)) c = Some p) \<longleftrightarrow> (\<exists>c. irp_at N c = Some p) \<or> irp_in (nd_ty (nr_data r)) = Some p" for p
      by (auto simp: irp_at_upd intro: exI [of _ b]) (metis option.distinct(1))
    then show ?thesis
      using inv I' by (auto simp: queue_inv_def)
  qed
  moreover have "distinct (q @ [b])" "dom (N(b \<mapsto> r)) = set (q @ [b])"
    using inv fresh by (auto simp: queue_inv_def)
  moreover have "dom N \<subseteq> dom H'"
    using inv map_le_implies_dom_le [OF assms(5)] unfolding queue_inv_def by (meson Un_subset_iff subset_trans)
  then have "dom (N(b \<mapsto> r)) \<inter> dom B' = {}" "dom (N(b \<mapsto> r)) \<union> dom B' \<subseteq> dom H'"
    using B' assms(4) by (auto simp: Int_commute)
  ultimately show ?thesis
    using rec B'(4) unfolding queue_inv_def by blast
qed

lemma queue_inv_remove_irp:
  assumes inv: "queue_inv E x q N B I H"
    and r: "N b = Some r" "nd_ty (nr_data r) = IrpBased w" "I (wi_irp w) = Some irp"
    and q': "distinct q'" "set q' = set q - {b}"
    and k: "k = irp_DriverContext3 irp"
  shows "queue_inv E x q' (N(b := None)) (B(k := None)) (I(wi_irp w := None)) (H(k := None, b := None))"
proof -
  have pend: "pending_ok E w B I" and b: "irp_at N b = Some (wi_irp w)"
    using queue_inv_pending [OF inv r(1,2)] r by (auto simp: irp_at_def)
  have other: "wi_irp v \<noteq> wi_irp w" if "N c = Some r'" "nd_ty (nr_data r') = IrpBased v" "c \<noteq> b" for c r' v
  proof -
    have "irp_at N c = Some (wi_irp v)" using that by (simp add: irp_at_def)
    then show ?thesis using inv b that(3) unfolding queue_inv_def by metis
  qed
  have rec: "record_ok E x r' (B(k := None)) (I(wi_irp w := None))" if "(N(b := None)) c = Some r'" for c r'
  proof -
    have c: "c \<noteq> b" "N c = Some r'" using that by (auto split: if_splits)
    then show ?thesis
      using queue_inv_record(2) [OF inv c(2)] other [OF c(2) _ c(1)] pending_ok_remove [OF _ pend _ r(3)] k
      by (auto simp: record_ok_def)
  qed
  have inj: "irp_at (N(b := None)) c = Some p \<Longrightarrow> irp_at (N(b := None)) c' = Some p \<Longrightarrow> c = c'" for c c' p
    using inv by (auto simp: irp_at_upd queue_inv_def split: if_splits)
  have "dom (I(wi_irp w := None)) = {p. \<exists>c. irp_at (N(b := None)) c = Some p}"
  proof -
    have "irp_at N c = Some p \<Longrightarrow> p \<noteq> wi_irp w \<longleftrightarrow> c \<noteq> b" for c p
      using inv b unfolding queue_inv_def by (metis option.inject)
    then show ?thesis
      using inv by (auto simp: irp_at_upd queue_inv_def split: if_splits)
  qed
  moreover have "k \<in> dom B"
    using pend r(3) k by (auto simp: pending_ok_def)
  then have "dom (N(b := None)) \<inter> dom (B(k := None)) = {}"
    "dom (N(b := None)) \<union> dom (B(k := None)) \<subseteq> dom (H(k := None, b := None))"
    using inv r(1) unfolding queue_inv_def dom_fun_upd by simp_all blast+
  moreover have "dom (N(b := None)) = set q'"
    using inv q' unfolding queue_inv_def by simp
  moreover have "boxes_ok (B(k := None)) (I(wi_irp w := None))"
    using inv r(3) k boxes_ok_remove unfolding queue_inv_def by blast
  ultimately show ?thesis
    using q'(1) rec inj unfolding queue_inv_def by blast
qed

lemma queue_inv_remove_event:
  assumes inv: "queue_inv E x q N B I H"
    and r: "N b = Some r" "nd_ty (nr_data r) = EventBased v"
    and q': "distinct q'" "set q' = set q - {b}"
  shows "queue_inv E x q' (N(b := None)) B I (H(b := None))"
proof -
  have "irp_at N b = None" using r by (simp add: irp_at_def)
  then have "irp_at (N(b := None)) = irp_at N"
    by (auto simp: irp_at_upd)
  then show ?thesis
    using inv q' queue_inv_record(4) [OF inv r(1)] unfolding queue_inv_def
    by (auto simp: dom_def split: if_splits)
qed

section \<open>What each part of an operation changes\<close>

definition ev_queue :: "ptr \<Rightarrow> 'a evstate_scheme \<Rightarrow> ptr list option" where
  "ev_queue x s = map_option event_queue (ev_ext x s)"

lemma ev_queue_frame [simp]:
  "ev_queue x (s\<lparr>klog := a\<rparr>) = ev_queue x s" "ev_queue x (s\<lparr>irps := b\<rparr>) = ev_queue x s"
  "ev_queue x (s\<lparr>irp_boxes := c\<rparr>) = ev_queue x s" "ev_queue x (s\<lparr>notify_records := d\<rparr>) = ev_queue x s"
  "ev_queue x (s\<lparr>file_objs := f\<rparr>) = ev_queue x s"
  by (simp_all add: ev_queue_def ev_ext_def)

lemma ev_put_ext_simps [simp]:
  "ev_queue x (ev_put_ext x e s) = Some (event_queue e)" "notify_records (ev_put_ext x e s) = notify_records s"
  "irp_boxes (ev_put_ext x e s) = irp_boxes s" "irps (ev_put_ext x e s) = irps s"
  "devices (ev_put_ext x e s) = devices s" "klog (ev_put_ext x e s) = klog s"
  by (simp_all add: ev_put_ext_def ev_queue_def ev_ext_def)

text \<open>A step that changes only the lock of the extension at \<open>x\<close> and adds lock operations to the log.\<close>

definition lock_step :: "ptr \<Rightarrow> 'a evstate_scheme \<Rightarrow> 'a evstate_scheme \<Rightarrow> bool" where
  "lock_step x s t \<longleftrightarrow> (\<exists>e l g. ev_ext x s = Some e \<and> lock_log g \<and>
     t = s\<lparr>klog := klog s @ g, client := (client s)(x \<mapsto> CExt (e\<lparr>queue_lock := l\<rparr>))\<rparr>)"

lemma lock_stepD:
  assumes "lock_step x s t"
  shows "notify_records t = notify_records s" "irp_boxes t = irp_boxes s" "irps t = irps s"
    "heap_blocks (klog t) = heap_blocks (klog s)" "completions p (klog t) = completions p (klog s)"
    "devices t = devices s" "ev_queue x t = ev_queue x s" "debug_assertions t = debug_assertions s"
    "ev_bytes t = ev_bytes s" "file_objs t = file_objs s" "ev_ctx c t = ev_ctx c s"
  using assms by (auto simp: lock_step_def ev_queue_def ev_ext_def ev_ctx_def split: option.splits ev_client.splits if_splits)

lemma on_queue_lock_step:
  "on_queue_lock spin_acquire K E x s = Some t \<Longrightarrow> lock_step x s t"
  "on_queue_lock spin_release K E x s = Some t \<Longrightarrow> lock_step x s t"
  "on_queue_lock spin_acquire_at_dpc K E x s = Some t \<Longrightarrow> lock_step x s t"
  "on_queue_lock spin_release_from_dpc K E x s = Some t \<Longrightarrow> lock_step x s t"
  unfolding lock_step_def
  by (blast elim: q_acquire.on_queue_lockE q_release.on_queue_lockE q_acquire_dpc.on_queue_lockE
      q_release_dpc.on_queue_lockE)+

lemma queue_recordsD:
  assumes "queue_records x s = Some rs"
  obtains q where "ev_queue x s = Some q" "those (map (notify_records s) q) = Some rs"
  using assms by (auto simp: queue_records_def ev_queue_def bind_eq_Some_conv)

lemma queue_swap_removeD:
  assumes "queue_swap_remove x i s = Some (b, t)"
  obtains q q' where "ev_queue x s = Some q" "swap_remove i q = Some (b, q')" "ev_queue x t = Some q'"
    "notify_records t = notify_records s" "irp_boxes t = irp_boxes s" "irps t = irps s"
    "klog t = klog s" "devices t = devices s"
proof -
  obtain e q' where "ev_ext x s = Some e" "swap_remove i (event_queue e) = Some (b, q')"
    "t = ev_put_ext x (e\<lparr>event_queue := q'\<rparr>) s"
    using assms by (auto simp: queue_swap_remove_def bind_eq_Some_conv)
  then show ?thesis
    by (intro that [of "event_queue e" q']) (auto simp: ev_queue_def ev_put_ext_def ev_ext_def)
qed

lemma record_drop_simps [simp]:
  "notify_records (record_drop K b s) = (notify_records s)(b := None)"
  "irp_boxes (record_drop K b s) = irp_boxes s" "irps (record_drop K b s) = irps s"
  "heap_blocks (klog (record_drop K b s)) = (heap_blocks (klog s))(b := None)"
  "completions p (klog (record_drop K b s)) = completions p (klog s)"
  "devices (record_drop K b s) = devices s" "ev_queue x (record_drop K b s) = ev_queue x s"
  by (simp_all add: record_drop_def Let_def ev_queue_def ev_ext_def)

lemma irp_completeD:
  assumes "irp_complete K w st s = Some t" "wi_irp w \<noteq> null"
  shows "irps s (wi_irp w) \<noteq> None" "irps t = (irps s)(wi_irp w := None)"
    "notify_records t = notify_records s" "irp_boxes t = irp_boxes s" "devices t = devices s"
    "ev_queue x t = ev_queue x s" "heap_blocks (klog t) = heap_blocks (klog s)" "ev_ctx c t = ev_ctx c s"
    "completions p (klog t) = completions p (klog s) @ (if p = wi_irp w then [(ios_status st, ios_info st)] else [])"
proof -
  obtain irp where irp: "irps s (wi_irp w) = Some irp"
    using assms by (auto simp: irp_complete_def bind_eq_Some_conv)
  then show "irps s (wi_irp w) \<noteq> None" by simp
  let ?c = "Io (IofCompleteRequest (wi_irp w) (ios_status st) (ios_info st) 0)"
  have t: "t = s\<lparr>klog := klog s @ [(?c, K (klog s) ?c)], irps := (irps s)(wi_irp w := None)\<rparr>"
    using assms irp_complete_eq [OF irp assms(2), of K st] by (simp add: Let_def)
  show "irps t = (irps s)(wi_irp w := None)"
    "notify_records t = notify_records s" "irp_boxes t = irp_boxes s" "devices t = devices s"
    "ev_queue x t = ev_queue x s" "heap_blocks (klog t) = heap_blocks (klog s)" "ev_ctx c t = ev_ctx c s"
    "completions p (klog t) = completions p (klog s) @ (if p = wi_irp w then [(ios_status st, ios_info st)] else [])"
    by (simp_all add: t ev_ctx_def)
qed

text \<open>The last part of the DPC: the record at an index goes.\<close>

lemma timer_dpc_removeD:
  assumes "timer_dpc_remove K E x i s = Some t" "ev_queue x s = Some q"
  obtains q' where "swap_remove i q = Some (q ! i, q')" "ev_queue x t = Some q'"
    "notify_records t = (notify_records s)(q ! i := None)" "irp_boxes t = irp_boxes s" "irps t = irps s"
    "heap_blocks (klog t) = (heap_blocks (klog s))(q ! i := None)"
    "\<And>p. completions p (klog t) = completions p (klog s)" "devices t = devices s"
proof -
  obtain b u where u: "queue_swap_remove x i s = Some (b, u)"
    and t: "on_queue_lock spin_release_from_dpc K E x (record_drop K b u) = Some t"
    using assms(1) by (auto simp: timer_dpc_remove_def bind_eq_Some_conv)
  note l = lock_stepD [OF on_queue_lock_step(4) [OF t]]
  obtain q' where u': "swap_remove i q = Some (b, q')" "ev_queue x u = Some q'"
    "notify_records u = notify_records s" "irp_boxes u = irp_boxes s" "irps u = irps s"
    "klog u = klog s" "devices u = devices s"
    using assms(2) by (auto intro: queue_swap_removeD [OF u])
  then have "b = q ! i" by (auto simp: swap_remove_def split: if_splits)
  with u' show ?thesis
    by (intro that) (simp_all add: l)
qed

section \<open>States of the driver\<close>

definition ev_inv :: "ev_env \<Rightarrow> WduDevice \<Rightarrow> ptr \<Rightarrow> 'a evstate_scheme \<Rightarrow> bool" where
  "ev_inv E dev x s \<longleftrightarrow> x \<noteq> null \<and> extension_as_ptr dev s = Some x \<and>
     (\<exists>q. ev_queue x s = Some q \<and>
        queue_inv E x q (notify_records s) (irp_boxes s) (irps s) (heap_blocks (klog s)))"

lemma extension_as_ptr_cong: "devices t = devices s \<Longrightarrow> extension_as_ptr dev t = extension_as_ptr dev s"
  by (simp add: extension_as_ptr_def device_extension_def)

lemma ev_invE:
  assumes "ev_inv E dev x s"
  obtains q where "x \<noteq> null" "extension_as_ptr dev s = Some x" "ev_queue x s = Some q"
    "queue_inv E x q (notify_records s) (irp_boxes s) (irps s) (heap_blocks (klog s))"
  using assms by (auto simp: ev_inv_def)

text \<open>The records of a queue that owns them can be read, and a search in them is one by address.\<close>

lemma queue_inv_records:
  assumes "queue_inv E x q N B I H"
  shows "those (map N q) = Some (map (\<lambda>b. the (N b)) q)"
  using assms by (intro those_map) (auto simp: queue_inv_def)

lemma queue_inv_position_irp:
  assumes inv: "queue_inv E x q N B I H" and b: "irp_at N b = Some p"
    and P: "\<And>c r. N c = Some r \<Longrightarrow> P r \<longleftrightarrow> irp_at N c = Some p"
  obtains i where "position (\<lambda>c. P (the (N c))) q = Some i" "i < length q" "q ! i = b"
proof -
  have "distinct q" "b \<in> set q"
    using inv b by (auto simp: queue_inv_def irp_at_def split: option.splits)
  moreover have "P (the (N c)) \<longleftrightarrow> c = b" if "c \<in> set q" for c
  proof -
    have "c \<in> dom N" using that inv by (simp add: queue_inv_def)
    then obtain r where "N c = Some r" by blast
    then show ?thesis using P b inv unfolding queue_inv_def by (metis option.sel)
  qed
  ultimately obtain i where "position (\<lambda>c. P (the (N c))) q = Some i" "i < length q" "q ! i = b"
    using position_unique [of q b "\<lambda>c. P (the (N c))"] by blast
  then show ?thesis by (rule that)
qed

section \<open>A timer expires\<close>

lemma ev_fire_eq:
  assumes "notify_records s b = Some r" "record_ok E x r B I"
  shows "ev_fire K E b s = ev_timer_dpc K E (b + ex_dpc_off E) s"
  using assms by (simp add: ev_fire_def custom_dpc_def record_ok_def)

lemma notify_eq_irp:
  "nd_ty d = IrpBased w \<Longrightarrow> N c = Some r \<Longrightarrow> notify_data_eq (nr_data r) d \<longleftrightarrow> irp_at N c = Some (wi_irp w)"
  by (cases "nd_ty (nr_data r)") (auto simp: notify_data_eq_def irp_at_def)

text \<open>
  The first part of the DPC of a record that completes a request: the request is completed, its
  box is freed, and the record is at the index with which the second part goes on.
\<close>

lemma dpc_first_irp:
  assumes qi: "queue_inv E x q (notify_records s) (irp_boxes s) (irps s) (heap_blocks (klog s))"
    and q: "ev_queue x s = Some q" and x: "x \<noteq> null"
    and r: "notify_records s b = Some r" "nd_ty (nr_data r) = IrpBased w"
    and irp: "irps s (wi_irp w) = Some irp"
    and first: "timer_dpc_first K E (b + ex_dpc_off E) s = Some (n, t)"
  obtains i r' where "n = DpcUnlocked x i" "i < length q" "q ! i = b" "ev_queue x t = Some q"
    "notify_records t = (notify_records s)(b \<mapsto> r')" "devices t = devices s"
    "irp_boxes t = (irp_boxes s)(irp_DriverContext3 irp := None)" "irps t = (irps s)(wi_irp w := None)"
    "heap_blocks (klog t) = (heap_blocks (klog s))(irp_DriverContext3 irp := None)"
    "\<And>p. completions p (klog t) = completions p (klog s) @ (if p = wi_irp w then [(STATUS_SUCCESS, 0)] else [])"
proof -
  note rok = queue_inv_record(2) [OF qi r(1)]
  have ctx: "dpc_context (nr_dpc r) = Some (nr_data r)" "nd_extension (nr_data r) = x"
    and w: "wi_cancel w = Some (ex_cancel_routine E)" "wi_irp w \<noteq> null"
    and box: "irp_boxes s (irp_DriverContext3 irp) = Some w"
    using rok r(2) irp by (auto simp: record_ok_def pending_ok_def)
  have "irp_at (notify_records s) b = Some (wi_irp w)"
    using r by (simp add: irp_at_def)
  then obtain i where i: "position (\<lambda>c. notify_data_eq (nr_data (the (notify_records s c))) (nr_data r)) q = Some i"
    "i < length q" "q ! i = b"
    using queue_inv_position_irp [OF qi, of b "wi_irp w" "\<lambda>c. notify_data_eq (nr_data c) (nr_data r)"]
      notify_eq_irp [OF r(2)] by metis
  obtain s1 where s1: "on_queue_lock spin_acquire_at_dpc K E x s = Some s1"
    using first x r(1) ctx by (auto simp: timer_dpc_first_def bind_eq_Some_conv Let_def)
  note l1 = lock_stepD [OF on_queue_lock_step(3) [OF s1]]
  have rs: "queue_records x s1 = Some (map (\<lambda>b. the (notify_records s b)) q)"
    using queue_inv_records [OF qi] l1(1,7) q by (auto simp: queue_records_def ev_queue_def)
  have "irps s1 (wi_irp w) = Some irp" "irp_boxes s1 (irp_DriverContext3 irp) = Some w"
    using irp box by (simp_all add: l1)
  note sc = set_cancel_rtn_none_eq [OF this, of K "ex_cancel_entry E"]
  obtain s2 t' r' where s2: "on_queue_lock spin_release_from_dpc K E x s2 = Some t'"
     "irp_complete K (w\<lparr>wi_cancel := None\<rparr>) success_no_info t' = Some t" "n = DpcUnlocked x i"
     "s2 = s1\<lparr>klog := klog s1 @ [(Pool (RustDealloc (irp_DriverContext3 irp)),
         K (klog s1) (Pool (RustDealloc (irp_DriverContext3 irp))))],
      irp_boxes := (irp_boxes s1)(irp_DriverContext3 irp := None),
      irps := (irps s1)(wi_irp w \<mapsto> irp\<lparr>irp_CancelRoutine := None, irp_DriverContext3 := null\<rparr>),
      notify_records := (notify_records s1)(b \<mapsto> r')\<rparr>"
    using first x r ctx s1 rs i(1) sc w
    by (auto simp: timer_dpc_first_def position_map Let_def bind_eq_Some_conv)
  note l2 = lock_stepD [OF on_queue_lock_step(4) [OF s2(1)]]
  have "wi_irp (w\<lparr>wi_cancel := None\<rparr>) \<noteq> null" using w by simp
  note c = irp_completeD [OF s2(2) this]
  show ?thesis
    using i(2,3) q by (intro that [of i r']) (simp_all add: s2(3) c l2 s2(4) l1 success_no_info_def)
qed

lemma fire_irp:
  assumes inv: "ev_inv E dev x s"
    and r: "notify_records s b = Some r" "nd_ty (nr_data r) = IrpBased w"
    and fire: "ev_fire K E b s = Some t"
  shows "ev_inv E dev x t" "irps t = (irps s)(wi_irp w := None)"
    "completions p (klog t) = completions p (klog s) @ (if p = wi_irp w then [(STATUS_SUCCESS, 0)] else [])"
proof -
  obtain q where x: "x \<noteq> null" "extension_as_ptr dev s = Some x" and q: "ev_queue x s = Some q"
    and qi: "queue_inv E x q (notify_records s) (irp_boxes s) (irps s) (heap_blocks (klog s))"
    using inv by (rule ev_invE)
  obtain irp where irp: "irps s (wi_irp w) = Some irp"
    using queue_inv_pending [OF qi r] by (auto simp: pending_ok_def)
  obtain n s' where first: "timer_dpc_first K E (b + ex_dpc_off E) s = Some (n, s')"
    and rest: "timer_dpc_rest K E n s' = Some t"
    using fire queue_inv_record(2) [OF qi r(1)] r(1)
    by (auto simp: ev_fire_eq ev_timer_dpc_def bind_eq_Some_conv)
  from dpc_first_irp [OF qi q x(1) r irp first] obtain i r' where f: "n = DpcUnlocked x i" "q ! i = b"
    "ev_queue x s' = Some q" "notify_records s' = (notify_records s)(b \<mapsto> r')" "devices s' = devices s"
    "irp_boxes s' = (irp_boxes s)(irp_DriverContext3 irp := None)" "irps s' = (irps s)(wi_irp w := None)"
    "heap_blocks (klog s') = (heap_blocks (klog s))(irp_DriverContext3 irp := None)"
    "\<And>p. completions p (klog s') = completions p (klog s) @ (if p = wi_irp w then [(STATUS_SUCCESS, 0)] else [])"
    by metis
  obtain s3 where s3: "on_queue_lock spin_acquire_at_dpc K E x s' = Some s3"
    and rem: "timer_dpc_remove K E x i s3 = Some t"
    using rest f(1) by (auto simp: bind_eq_Some_conv)
  note l = lock_stepD [OF on_queue_lock_step(3) [OF s3]]
  have "ev_queue x s3 = Some q" using f(3) by (simp add: l)
  from timer_dpc_removeD [OF rem this] obtain q' where q': "swap_remove i q = Some (b, q')" "ev_queue x t = Some q'"
    "notify_records t = (notify_records s)(b := None)" "irp_boxes t = irp_boxes s'" "irps t = irps s'"
    "heap_blocks (klog t) = (heap_blocks (klog s'))(b := None)"
    "\<And>p. completions p (klog t) = completions p (klog s')" "devices t = devices s"
    using f(2-5) l by (metis (no_types) fun_upd_upd)
  have "distinct q" using qi by (simp add: queue_inv_def)
  from queue_inv_remove_irp [OF qi r irp swap_remove_set(1,2) [OF q'(1) this] refl]
  show "ev_inv E dev x t"
    using x q' f extension_as_ptr_cong [of t s dev] by (simp add: ev_inv_def)
  show "irps t = (irps s)(wi_irp w := None)"
    "completions p (klog t) = completions p (klog s) @ (if p = wi_irp w then [(STATUS_SUCCESS, 0)] else [])"
    using q' f by simp_all
qed

lemma event_calls_frame [simp]:
  "notify_records (event_dereference K v (snd (event_set K v i wt s))) = notify_records s"
  "irp_boxes (event_dereference K v (snd (event_set K v i wt s))) = irp_boxes s"
  "irps (event_dereference K v (snd (event_set K v i wt s))) = irps s"
  "devices (event_dereference K v (snd (event_set K v i wt s))) = devices s"
  "ev_queue x (event_dereference K v (snd (event_set K v i wt s))) = ev_queue x s"
  "heap_blocks (klog (event_dereference K v (snd (event_set K v i wt s)))) = heap_blocks (klog s)"
  "completions p (klog (event_dereference K v (snd (event_set K v i wt s)))) = completions p (klog s)"
  by (simp_all add: event_dereference_def event_set_def obj_long_def dereference_def sys_eq)

text \<open>
  The DPC of a record that sets an event looks for the first record with the same event object,
  which need not be its own.
\<close>

lemma dpc_first_event:
  assumes qi: "queue_inv E x q (notify_records s) (irp_boxes s) (irps s) (heap_blocks (klog s))"
    and q: "ev_queue x s = Some q" and x: "x \<noteq> null"
    and r: "notify_records s b = Some r" "nd_ty (nr_data r) = EventBased v"
    and first: "timer_dpc_first K E (b + ex_dpc_off E) s = Some (n, t)"
  obtains i where "n = DpcRemove x i" "i < length q" "ev_queue x t = Some q"
    "position (\<lambda>c. notify_data_eq (nr_data (the (notify_records s c))) (nr_data r)) q = Some i"
    "notify_records t = notify_records s" "devices t = devices s"
    "irp_boxes t = irp_boxes s" "irps t = irps s" "heap_blocks (klog t) = heap_blocks (klog s)"
    "\<And>p. completions p (klog t) = completions p (klog s)"
proof -
  note rok = queue_inv_record(2) [OF qi r(1)]
  have ctx: "dpc_context (nr_dpc r) = Some (nr_data r)" "nd_extension (nr_data r) = x"
    using rok by (auto simp: record_ok_def)
  have "b \<in> set q" "notify_data_eq (nr_data (the (notify_records s b))) (nr_data r)"
    using queue_inv_record(1) [OF qi r(1)] r by (auto simp: notify_data_eq_def)
  then obtain i where i: "position (\<lambda>c. notify_data_eq (nr_data (the (notify_records s c))) (nr_data r)) q = Some i"
    by (metis (no_types, lifting) not_None_eq position_None)
  obtain s1 where s1: "on_queue_lock spin_acquire_at_dpc K E x s = Some s1"
    using first x r(1) ctx by (auto simp: timer_dpc_first_def bind_eq_Some_conv Let_def)
  note l1 = lock_stepD [OF on_queue_lock_step(3) [OF s1]]
  have rs: "queue_records x s1 = Some (map (\<lambda>b. the (notify_records s b)) q)"
    using queue_inv_records [OF qi] l1(1,7) q by (auto simp: queue_records_def ev_queue_def)
  have "n = DpcRemove x i" "t = event_dereference K v (snd (event_set K v 0 False s1))"
    using first x r ctx s1 rs i by (auto simp: timer_dpc_first_def position_map Let_def bind_eq_Some_conv)
  then show ?thesis
    using q i position_Some [OF i] by (intro that [of i]) (simp_all add: l1)
qed

lemma fire_event:
  assumes inv: "ev_inv E dev x s"
    and r: "notify_records s b = Some r" "nd_ty (nr_data r) = EventBased v"
    and fire: "ev_fire K E b s = Some t"
  shows "ev_inv E dev x t" "irps t = irps s" "completions p (klog t) = completions p (klog s)"
proof -
  obtain q where x: "x \<noteq> null" "extension_as_ptr dev s = Some x" and q: "ev_queue x s = Some q"
    and qi: "queue_inv E x q (notify_records s) (irp_boxes s) (irps s) (heap_blocks (klog s))"
    using inv by (rule ev_invE)
  obtain n s' where first: "timer_dpc_first K E (b + ex_dpc_off E) s = Some (n, s')"
    and rest: "timer_dpc_rest K E n s' = Some t"
    using fire queue_inv_record(2) [OF qi r(1)] r(1)
    by (auto simp: ev_fire_eq ev_timer_dpc_def bind_eq_Some_conv)
  obtain i where f: "n = DpcRemove x i" "i < length q" "ev_queue x s' = Some q"
    "position (\<lambda>c. notify_data_eq (nr_data (the (notify_records s c))) (nr_data r)) q = Some i"
    "notify_records s' = notify_records s" "devices s' = devices s"
    "irp_boxes s' = irp_boxes s" "irps s' = irps s" "heap_blocks (klog s') = heap_blocks (klog s)"
    "\<And>p. completions p (klog s') = completions p (klog s)"
    using dpc_first_event [OF qi q x(1) r first] by metis
  then have rem: "timer_dpc_remove K E x i s' = Some t" using rest by simp
  obtain q' where q': "swap_remove i q = Some (q ! i, q')" "ev_queue x t = Some q'"
    "notify_records t = (notify_records s)(q ! i := None)" "irp_boxes t = irp_boxes s" "irps t = irps s"
    "heap_blocks (klog t) = (heap_blocks (klog s))(q ! i := None)"
    "\<And>p. completions p (klog t) = completions p (klog s)" "devices t = devices s"
    using timer_dpc_removeD [OF rem f(3)] f by metis
  have d: "distinct q" "dom (notify_records s) = set q" using qi by (simp_all add: queue_inv_def)
  then obtain r' where r': "notify_records s (q ! i) = Some r'" using f(2) nth_mem by blast
  then obtain v' where "nd_ty (nr_data r') = EventBased v'"
    using position_Some [OF f(4)] r(2) by (cases "nd_ty (nr_data r')") (auto simp: notify_data_eq_def)
  from queue_inv_remove_event [OF qi r' this swap_remove_set(1,2) [OF q'(1) d(1)]]
  show "ev_inv E dev x t"
    using x q' extension_as_ptr_cong [of t s dev] by (simp add: ev_inv_def)
  show "irps t = irps s" "completions p (klog t) = completions p (klog s)"
    using q' by simp_all
qed

section \<open>A request is cancelled\<close>

lemma timer_cancel_frame [simp]:
  "notify_records (snd (timer_cancel K a s)) = notify_records s"
  "irp_boxes (snd (timer_cancel K a s)) = irp_boxes s" "irps (snd (timer_cancel K a s)) = irps s"
  "devices (snd (timer_cancel K a s)) = devices s" "ev_queue x (snd (timer_cancel K a s)) = ev_queue x s"
  "heap_blocks (klog (snd (timer_cancel K a s))) = heap_blocks (klog s)"
  "completions p (klog (snd (timer_cancel K a s))) = completions p (klog s)"
  by (simp_all add: timer_cancel_def obj_bool_def sys_eq)

lemma is_irp_record_at: "N c = Some r \<Longrightarrow> is_irp_record p r \<longleftrightarrow> irp_at N c = Some p"
  by (cases "nd_ty (nr_data r)") (auto simp: is_irp_record_def irp_at_def)

lemma cancel_routine_run:
  assumes qi: "queue_inv E x q N B I H" and b: "irp_at N b = Some p"
    and s: "notify_records s = N" "ev_queue x s = Some q" "extension_as_ptr d s = Some x"
    and irp: "irps s p = Some irp" "p \<noteq> null" "wi_irp w = p"
    and run: "ev_cancel_routine K E d w s = Some (w', t)"
  obtains q' where "distinct q'" "set q' = set q - {b}" "ev_queue x t = Some q'"
    "notify_records t = N(b := None)" "irps t = (irps s)(p := None)" "irp_boxes t = irp_boxes s"
    "heap_blocks (klog t) = (heap_blocks (klog s))(b := None)" "devices t = devices s"
    "\<And>p'. completions p' (klog t) = completions p' (klog s) @ (if p' = p then [(STATUS_CANCELLED, 0)] else [])"
proof -
  obtain i where i: "position (\<lambda>c. is_irp_record p (the (N c))) q = Some i" "i < length q" "q ! i = b"
    using queue_inv_position_irp [OF qi b, of "is_irp_record p"] is_irp_record_at [of N _ _ p] by blast
  let ?s1 = "sysv K (Io (IoReleaseCancelSpinLock (irp_CancelIrql irp))) s"
  obtain s2 where s2: "on_queue_lock spin_acquire K E x ?s1 = Some s2"
    using run s(3) irp by (auto simp: ev_cancel_routine_def cancel_routine_queue_def release_cancel_lock_def bind_eq_Some_conv)
  note l2 = lock_stepD [OF on_queue_lock_step(1) [OF s2]]
  have q2: "ev_queue x s2 = Some q" using s(2) by (simp add: l2)
  have rs: "queue_records x s2 = Some (map (\<lambda>b. the (N b)) q)"
    using queue_inv_records [OF qi] q2 s(1) l2(1) by (auto simp: queue_records_def ev_queue_def)
  obtain b' s3 s4 s5 where s3: "queue_swap_remove x i s2 = Some (b', s3)"
    and s4: "on_queue_lock spin_release K E x (snd (timer_cancel K (b' + ex_timer_off E) s3)) = Some s4"
    and s5: "irp_complete K w (new_with_status STATUS_CANCELLED) s4 = Some s5" "t = record_drop K b' s5"
    using run s(3) irp s2 rs i(1)
    by (auto simp: ev_cancel_routine_def cancel_routine_queue_def release_cancel_lock_def position_map bind_eq_Some_conv Let_def)
  note l4 = lock_stepD [OF on_queue_lock_step(2) [OF s4]]
  from s3 obtain q' where q': "swap_remove i q = Some (b', q')" "ev_queue x s3 = Some q'"
    "notify_records s3 = N" "irp_boxes s3 = irp_boxes s" "irps s3 = irps s" "klog s3 = klog s2" "devices s3 = devices s"
    using q2 s(1) by (auto simp: l2 elim!: queue_swap_removeD)
  then have b': "b' = b" using i(3) by (auto simp: swap_remove_def split: if_splits)
  have "wi_irp w \<noteq> null" using irp by simp
  note c = irp_completeD [OF s5(1) this]
  have "distinct q" using qi by (simp add: queue_inv_def)
  from swap_remove_set(1,2) [OF q'(1) this] show ?thesis
    using irp b' by (intro that [of q']) (simp_all add: s5(2) c l4 q' l2 new_with_status_def)
qed

text \<open>A request that is marked as cancelled, with its cancel routine taken away, is still in order.\<close>

lemma queue_inv_irps_cong:
  assumes "queue_inv E x q N B I H" "dom I' = dom I" "\<And>w. pending_ok E w B I \<Longrightarrow> pending_ok E w B I'"
    and "boxes_ok B I \<Longrightarrow> boxes_ok B I'"
  shows "queue_inv E x q N B I' H"
  using assms unfolding queue_inv_def record_ok_def by metis

lemma queue_inv_marked:
  assumes "queue_inv E x q N B I H" "I p = Some irp" "irp_Cancel irp' = 1"
    and "irp_DriverContext3 irp' = irp_DriverContext3 irp" "irp_CurrentStack irp' = irp_CurrentStack irp"
  shows "queue_inv E x q N B (I(p \<mapsto> irp')) H"
proof (rule queue_inv_irps_cong [OF assms(1)])
  show "dom (I(p \<mapsto> irp')) = dom I"
    using assms(2) by auto
  show "pending_ok E w B (I(p \<mapsto> irp'))" if "pending_ok E w B I" for w
    using that assms(2-5) by (auto simp: pending_ok_def)
  show "boxes_ok B (I(p \<mapsto> irp'))" if "boxes_ok B I"
    using that assms(2,4) by (fastforce simp: boxes_ok_def)
qed

lemma ev_inv_marked:
  assumes "ev_inv E dev x s" "irps s p = Some irp" "irp_Cancel irp' = 1"
    and "irp_DriverContext3 irp' = irp_DriverContext3 irp" "irp_CurrentStack irp' = irp_CurrentStack irp"
  shows "ev_inv E dev x (s\<lparr>irps := (irps s)(p \<mapsto> irp')\<rparr>)"
  using assms(1)
  by (rule ev_invE) (use queue_inv_marked [where I = "irps s", OF _ assms(2-5)] in
    \<open>simp add: ev_inv_def extension_as_ptr_def device_extension_def\<close>)

lemma cancel_again:
  assumes inv: "ev_inv E dev x s" and irp: "irps s p = Some irp" "irp_CancelRoutine irp = None"
    and cancel: "io_cancel K E irql d p s = Some t"
  shows "ev_inv E dev x t" "dom (irps t) = dom (irps s)" "klog t = klog s"
proof -
  have t: "t = s\<lparr>irps := (irps s)(p \<mapsto> irp\<lparr>irp_Cancel := 1, irp_CancelRoutine := None\<rparr>)\<rparr>"
    using cancel irp by (auto elim!: io_cancelE)
  show "ev_inv E dev x t"
    unfolding t by (rule ev_inv_marked [OF inv irp(1)]) simp_all
  show "dom (irps t) = dom (irps s)" "klog t = klog s"
    using irp(1) by (auto simp: t)
qed

lemma cancel_step:
  assumes inv: "ev_inv E dev x s" and b: "irp_at (notify_records s) b = Some p"
    and routine: "irps s p = Some irpc" "irp_CancelRoutine irpc \<noteq> None"
    and cancel: "io_cancel K E irql (wd_device dev) p s = Some t"
  shows "ev_inv E dev x t" "irps t = (irps s)(p := None)"
    "completions p' (klog t) = completions p' (klog s) @ (if p' = p then [(STATUS_CANCELLED, 0)] else [])"
proof -
  obtain q where x: "x \<noteq> null" "extension_as_ptr dev s = Some x" and q: "ev_queue x s = Some q"
    and qi: "queue_inv E x q (notify_records s) (irp_boxes s) (irps s) (heap_blocks (klog s))"
    using inv by (rule ev_invE)
  obtain r w where r: "notify_records s b = Some r" "nd_ty (nr_data r) = IrpBased w" and p: "wi_irp w = p"
    using b by (auto simp: irp_at_Some)
  obtain irp where irp: "irps s p = Some irp" "irp_boxes s (irp_DriverContext3 irp) = Some w" "p \<noteq> null"
    "wi_cancel w = Some (ex_cancel_routine E)"
    using queue_inv_pending [OF qi r] p by (auto simp: pending_ok_def)
  let ?irp = "irp\<lparr>irp_Cancel := 1, irp_CancelRoutine := None, irp_CancelIrql := irql\<rparr>"
  let ?s0 = "s\<lparr>irps := (irps s)(p \<mapsto> ?irp)\<rparr>"
  have run: "cancel_routine K (\<lambda>f d w s. if f = ex_cancel_routine E then ev_cancel_routine K E d w s else None)
      (wd_device dev) p ?s0 = Some t"
    using cancel routine irp(1) by (auto elim!: io_cancelE)
  obtain orig w' u where o: "irp_wrap p ?s0 = Some orig"
    and run: "ev_cancel_routine K E (wrap_device (wd_device dev)) orig ?s0 = Some (w', u)"
    and t: "t = irp_box_drop K (irp_DriverContext3 irp) u"
    using run irp
    by (auto simp: cancel_routine_def irp_from_context_def bind_eq_Some_conv Let_def)
  have "wi_irp orig = p" "extension_as_ptr (wrap_device (wd_device dev)) ?s0 = Some x"
    using o x(2) by (auto simp: irp_wrap_def bind_eq_Some_conv wrap_device_def extension_as_ptr_def device_extension_def)
  from cancel_routine_run [OF qi b _ _ this(2) _ irp(3) this(1) run] obtain q' where q': "distinct q'" "set q' = set q - {b}"
    "ev_queue x u = Some q'" "notify_records u = (notify_records s)(b := None)"
    "irps u = (irps s)(p := None)" "irp_boxes u = irp_boxes s"
    "heap_blocks (klog u) = (heap_blocks (klog s))(b := None)" "devices u = devices s"
    "\<And>p'. completions p' (klog u) = completions p' (klog s) @ (if p' = p then [(STATUS_CANCELLED, 0)] else [])"
    using q by auto
  have "irp_DriverContext3 irp \<noteq> b"
    using queue_inv_record(4) [OF qi r(1)] irp(2) by auto
  then show "ev_inv E dev x t"
    using queue_inv_remove_irp [OF qi r _ q'(1,2) refl] x q' irp(1) extension_as_ptr_cong [of u s dev] p
    by (auto simp: ev_inv_def t irp_box_drop_def Let_def fun_upd_twist extension_as_ptr_def device_extension_def)
  show "irps t = (irps s)(p := None)"
    "completions p' (klog t) = completions p' (klog s) @ (if p' = p then [(STATUS_CANCELLED, 0)] else [])"
    using q' by (simp_all add: t irp_box_drop_def Let_def)
qed

section \<open>A request arrives\<close>

lemma ev_queue_put_ctx [simp]: "ev_ctx c s = Some f \<Longrightarrow> ev_queue x (ev_put_ctx c f' s) = ev_queue x s"
  by (auto simp: ev_ctx_def ev_queue_def ev_ext_def ev_put_ctx_def split: option.splits ev_client.splits)

text \<open>The memory outside the file contexts, for steps that leave it alone.\<close>

definition same_memory :: "ptr \<Rightarrow> 'a evstate_scheme \<Rightarrow> 'a evstate_scheme \<Rightarrow> bool" where
  "same_memory x s t \<longleftrightarrow> notify_records t = notify_records s \<and> irp_boxes t = irp_boxes s \<and> irps t = irps s \<and>
     ev_queue x t = ev_queue x s \<and> devices t = devices s \<and> heap_blocks (klog t) = heap_blocks (klog s) \<and>
     (\<forall>p. completions p (klog t) = completions p (klog s))"

lemma same_memory_inv: "same_memory x s t \<Longrightarrow> ev_inv E dev x t \<longleftrightarrow> ev_inv E dev x s"
  using extension_as_ptr_cong [of t s dev] by (simp add: same_memory_def ev_inv_def)

lemma lock_step_same_memory: "lock_step x s t \<Longrightarrow> same_memory x s t"
  by (simp add: same_memory_def lock_stepD)

lemma rundown_acquire_same:
  assumes "rundown_lock_acquire K E c tag s = Some (st, t)"
  shows "same_memory x s t" "ev_ctx c t \<noteq> None"
  using assms
  by (auto simp: rundown_lock_acquire_def remove_acquire_def sys_eq same_memory_def bind_eq_Some_conv Let_def)
     (auto simp: ev_put_ctx_def ev_ctx_def ev_queue_def ev_ext_def split: option.splits ev_client.splits)

lemma rundown_release_same:
  assumes "rundown_lock_release op K E c s = Some t" "op = remove_release \<or> op = remove_release_and_wait"
  shows "same_memory x s t"
  using assms
  by (auto simp: rundown_lock_release_def remove_release_def remove_release_and_wait_def same_memory_def bind_eq_Some_conv Let_def)
     (auto simp: ev_put_ctx_def ev_ctx_def ev_queue_def ev_ext_def split: option.splits ev_client.splits)

lemma new_notify_recordD:
  assumes "new_notify_record K E data fo s = Some (b, t)" "heap_fresh K"
  shows "heap_blocks (klog s) b = None" "heap_blocks (klog t) = (heap_blocks (klog s))(b \<mapsto> of_nat (ex_sizeof_record E))"
    "notify_records t = (notify_records s)(b \<mapsto> \<lparr>nr_dpc = \<lparr>dpc_context = Some data, dpc_routine = Some (ex_timer_dpc E)\<rparr>,
       nr_file_object = fo, nr_data = data\<rparr>)"
    "irp_boxes t = irp_boxes s" "irps t = irps s" "devices t = devices s" "ev_queue x t = ev_queue x s"
    "completions p (klog t) = completions p (klog s)" "ev_ctx c t = ev_ctx c s"
  using assms
  by (auto simp: new_notify_record_def rust_alloc_def sys_eq panic_def timer_init_def dpc_init_def dpc_new_def Let_def
      bind_eq_Some_conv heap_fresh_def ev_ctx_def split: if_splits)

lemma start_notifyD:
  assumes "start_notify K E x b due s = Some t"
  obtains q where "ev_queue x s = Some q" "ev_queue x t = Some (q @ [b])" "notify_records t = notify_records s"
    "irp_boxes t = irp_boxes s" "irps t = irps s" "devices t = devices s"
    "heap_blocks (klog t) = heap_blocks (klog s)" "\<And>p. completions p (klog t) = completions p (klog s)"
proof -
  let ?s1 = "snd (timer_set K (b + ex_timer_off E) due (Some (b + ex_dpc_off E)) s)"
  obtain e where e: "ev_ext x ?s1 = Some e"
    and t: "on_queue_lock spin_release K E x (ev_put_ext x (e\<lparr>event_queue := event_queue e @ [b]\<rparr>) ?s1) = Some t"
    using assms by (auto simp: start_notify_def bind_eq_Some_conv Let_def)
  note l = lock_stepD [OF on_queue_lock_step(2) [OF t]]
  show ?thesis
    using e by (intro that [of "event_queue e"])
      (simp_all add: l timer_set_def obj_bool_def sys_eq, simp_all add: ev_queue_def ev_ext_def)
qed

text \<open>
  A registration that completes its request: it ends with a new record in the queue, and the
  request pending and cancelable, or, if the request is already cancelled, with everything
  undone.
\<close>

abbreviation armed_record :: "ev_env \<Rightarrow> NotifyData \<Rightarrow> WduFileObject \<Rightarrow> NotifyRecord" where
  "armed_record E data fo \<equiv> \<lparr>nr_dpc = \<lparr>dpc_context = Some data, dpc_routine = Some (ex_timer_dpc E)\<rparr>,
     nr_file_object = fo, nr_data = data\<rparr>"

abbreviation cancelable :: "ev_env \<Rightarrow> WduIrp \<Rightarrow> WduIrp" where
  "cancelable E w \<equiv> w\<lparr>wi_cancel := Some (ex_cancel_routine E)\<rparr>"

lemma mark_pendingD:
  assumes "mark_pending w s = Some t" "irps s (wi_irp w) = Some irp"
  obtains irp' where "t = s\<lparr>irps := (irps s)(wi_irp w \<mapsto> irp')\<rparr>" "bit (sl_Control (irp_CurrentStack irp')) 0"
    "irp_DriverContext3 irp' = irp_DriverContext3 irp" "irp_CancelRoutine irp' = irp_CancelRoutine irp"
  using assms
  by (auto simp: mark_pending_def current_stack_as_mut_def bind_eq_Some_conv nt_consts bit_simps intro!: that)

lemma irp_notification_recordE:
  assumes run: "irp_notification_record K E x w s = Some (b, w', t)" and fresh: "heap_fresh K"
  obtains k irp irp' fo where "w' = cancelable E w" "irps s (wi_irp w) = Some irp"
    "irp' = irp\<lparr>irp_DriverContext3 := k, irp_CancelRoutine := Some (ex_cancel_entry E)\<rparr>"
    "heap_blocks (klog s) k = None" "heap_blocks (klog s) b = None" "b \<noteq> k" "ev_queue x t = ev_queue x s"
    "heap_blocks (klog t) = (heap_blocks (klog s))(k \<mapsto> 24, b \<mapsto> of_nat (ex_sizeof_record E))"
    "notify_records t = (notify_records s)(b \<mapsto> armed_record E \<lparr>nd_ty = IrpBased (cancelable E w), nd_extension = x\<rparr> fo)"
    "irp_boxes t = (irp_boxes s)(k \<mapsto> cancelable E w)" "irps t = (irps s)(wi_irp w \<mapsto> irp')"
    "devices t = devices s" "\<And>p. completions p (klog t) = completions p (klog s)" "\<And>c. ev_ctx c t = ev_ctx c s"
proof -
  let ?k = "r_ptr (K (klog s) (Pool (RustAlloc 24)))"
  obtain prev w1 s1 where "set_cancel_rtn K (ex_cancel_entry E) w (Some (ex_cancel_routine E)) s = Some (prev, w1, s1)"
    using run by (auto simp: irp_notification_record_def bind_eq_Some_conv)
  then obtain irp where irp: "irps s (wi_irp w) = Some irp" and k: "?k \<noteq> null" by (rule set_cancel_rtn_some_alloc)
  then have hk: "heap_blocks (klog s) ?k = None" using fresh by (simp add: heap_fresh_def)
  let ?irp1 = "irp\<lparr>irp_DriverContext3 := ?k, irp_CancelRoutine := Some (ex_cancel_entry E)\<rparr>"
  let ?s1 = "s\<lparr>klog := klog s @ [(Pool (RustAlloc 24), K (klog s) (Pool (RustAlloc 24)))],
      irp_boxes := (irp_boxes s)(?k \<mapsto> cancelable E w), irps := (irps s)(wi_irp w \<mapsto> ?irp1)\<rparr>"
  have "set_cancel_rtn K (ex_cancel_entry E) w (Some (ex_cancel_routine E)) s = Some (wi_cancel w, cancelable E w, ?s1)"
    by (rule set_cancel_rtn_some_eq [where K = K and s = s and w = w]) (use irp k in simp_all)
  then obtain fo where s2: "new_notify_record K E \<lparr>nd_ty = IrpBased (cancelable E w), nd_extension = x\<rparr> fo ?s1 = Some (b, t)"
    and w': "w' = cancelable E w"
    using run by (auto simp: irp_notification_record_def bind_eq_Some_conv Let_def)
  note d = new_notify_recordD [OF s2 fresh]
  have hb: "heap_blocks (klog s) b = None" "b \<noteq> ?k"
    using d(1) k by (auto split: if_splits)
  show ?thesis
    using hk hb irp k w' d(9) by (intro that [of irp ?irp1 ?k fo]) (simp_all add: d(2-8) ev_ctx_def)
qed

lemma irp_notification_lockedE:
  assumes run: "irp_notification_locked K E x b due w s = Some (res, w', t)"
    and irp: "irps s (wi_irp w) = Some irp" "irp_boxes s (irp_DriverContext3 irp) = Some w" "wi_cancel w \<noteq> None"
  obtains (pending) irp' q where "res = Ok STATUS_PENDING" "w' = w" "ev_queue x s = Some q" "ev_queue x t = Some (q @ [b])"
    "irps t = (irps s)(wi_irp w \<mapsto> irp')" "irp_DriverContext3 irp' = irp_DriverContext3 irp"
    "irp_CancelRoutine irp' = irp_CancelRoutine irp" "bit (sl_Control (irp_CurrentStack irp')) 0"
    "notify_records t = notify_records s" "irp_boxes t = irp_boxes s" "devices t = devices s"
    "heap_blocks (klog t) = heap_blocks (klog s)" "\<And>p. completions p (klog t) = completions p (klog s)"
  | (cancelled) irp' where "res = Err (EvStatus STATUS_CANCELLED)" "wi_irp w' = wi_irp w" "ev_queue x t = ev_queue x s"
    "irps t = (irps s)(wi_irp w \<mapsto> irp')" "notify_records t = (notify_records s)(b := None)"
    "irp_boxes t = (irp_boxes s)(irp_DriverContext3 irp := None)" "devices t = devices s"
    "heap_blocks (klog t) = (heap_blocks (klog s))(irp_DriverContext3 irp := None, b := None)"
    "\<And>p. completions p (klog t) = completions p (klog s)"
proof (cases "irp_Cancel irp = 1")
  case True
  note sc = set_cancel_rtn_none_eq [OF irp(1,2), of K "ex_cancel_entry E"]
  let ?k = "irp_DriverContext3 irp"
  let ?irp = "irp\<lparr>irp_CancelRoutine := None, irp_DriverContext3 := null\<rparr>"
  let ?s1 = "s\<lparr>klog := klog s @ [(Pool (RustDealloc ?k), K (klog s) (Pool (RustDealloc ?k)))],
      irp_boxes := (irp_boxes s)(?k := None), irps := (irps s)(wi_irp w \<mapsto> ?irp)\<rparr>"
  obtain s2 where s2: "on_queue_lock spin_release K E x ?s1 = Some s2"
    and t: "t = record_drop K b s2" "res = Err (EvStatus STATUS_CANCELLED)" "w' = w\<lparr>wi_cancel := None\<rparr>"
    using run irp(1,3) True sc by (auto simp: irp_notification_locked_def is_cancel_def bind_eq_Some_conv)
  note l = lock_stepD [OF on_queue_lock_step(2) [OF s2]]
  show ?thesis
    by (rule cancelled [of ?irp]) (simp_all add: t l)
next
  case False
  obtain s1 where s1: "mark_pending w s = Some s1" "start_notify K E x b due s1 = Some t"
    and w: "res = Ok STATUS_PENDING" "w' = w"
    using run irp(1) False by (auto simp: irp_notification_locked_def is_cancel_def bind_eq_Some_conv)
  obtain irp' where i: "s1 = s\<lparr>irps := (irps s)(wi_irp w \<mapsto> irp')\<rparr>" "bit (sl_Control (irp_CurrentStack irp')) 0"
    "irp_DriverContext3 irp' = irp_DriverContext3 irp" "irp_CancelRoutine irp' = irp_CancelRoutine irp"
    using s1(1) irp(1) by (rule mark_pendingD)
  obtain q where "ev_queue x s1 = Some q" "ev_queue x t = Some (q @ [b])" "notify_records t = notify_records s1"
    "irp_boxes t = irp_boxes s1" "irps t = irps s1" "devices t = devices s1"
    "heap_blocks (klog t) = heap_blocks (klog s1)" "\<And>p. completions p (klog t) = completions p (klog s1)"
    using start_notifyD [OF s1(2)] by metis
  then show ?thesis
    using i w by (intro pending [of q irp']) simp_all
qed

text \<open>A request that the driver has in hand: apart from it, the invariant holds.\<close>

definition in_hand :: "ev_env \<Rightarrow> WduDevice \<Rightarrow> ptr \<Rightarrow> ptr \<Rightarrow> 'a evstate_scheme \<Rightarrow> bool" where
  "in_hand E dev x p s \<longleftrightarrow> p \<noteq> null \<and> irps s p \<noteq> None \<and> ev_inv E dev x (s\<lparr>irps := (irps s)(p := None)\<rparr>)"

lemma in_handE:
  assumes "in_hand E dev x p s"
  obtains q irp where "p \<noteq> null" "irps s p = Some irp" "x \<noteq> null" "extension_as_ptr dev s = Some x" "ev_queue x s = Some q"
    "queue_inv E x q (notify_records s) (irp_boxes s) ((irps s)(p := None)) (heap_blocks (klog s))"
  using assms extension_as_ptr_cong [of "s\<lparr>irps := (irps s)(p := None)\<rparr>" s dev]
  by (auto simp: in_hand_def elim!: ev_invE)

lemma in_handI:
  assumes "p \<noteq> null" "irps t p \<noteq> None" "x \<noteq> null" "extension_as_ptr dev t = Some x" "ev_queue x t = Some q"
    "queue_inv E x q (notify_records t) (irp_boxes t) ((irps t)(p := None)) (heap_blocks (klog t))"
  shows "in_hand E dev x p t"
  using assms extension_as_ptr_cong [of "t\<lparr>irps := (irps t)(p := None)\<rparr>" t dev]
  by (auto simp: in_hand_def ev_inv_def)

lemma same_memory_in_hand: "same_memory x s t \<Longrightarrow> in_hand E dev x p s \<Longrightarrow> in_hand E dev x p t"
  using same_memory_inv [of x "s\<lparr>irps := (irps s)(p := None)\<rparr>" "t\<lparr>irps := (irps t)(p := None)\<rparr>" E dev]
  by (simp add: in_hand_def same_memory_def)

lemma complete_in_hand:
  assumes "in_hand E dev x (wi_irp w) s" "irp_complete K w st s = Some t"
  shows "ev_inv E dev x t" "irps t = (irps s)(wi_irp w := None)"
    "completions p (klog t) = completions p (klog s) @ (if p = wi_irp w then [(ios_status st, ios_info st)] else [])"
proof -
  have p: "wi_irp w \<noteq> null" using assms(1) by (simp add: in_hand_def)
  note c = irp_completeD [OF assms(2) p]
  from assms(1) show "ev_inv E dev x t"
    by (rule in_handE) (use extension_as_ptr_cong [of t s dev] in \<open>simp add: ev_inv_def c\<close>)
  show "irps t = (irps s)(wi_irp w := None)"
    "completions p (klog t) = completions p (klog s) @ (if p = wi_irp w then [(ios_status st, ios_info st)] else [])"
    by (simp_all add: c)
qed

lemma queue_inv_fresh:
  assumes "queue_inv E x q N B I H" "H b = None"
  shows "N b = None" "B b = None"
  using assms unfolding queue_inv_def by blast+

lemma queue_inv_push_irp:
  assumes qi: "queue_inv E x q N B (I(wi_irp w := None)) H"
    and "wi_irp w \<noteq> null" "H k = None" "H b = None" "b \<noteq> k"
    and irp: "irp_DriverContext3 irp = k" "irp_CancelRoutine irp = Some (ex_cancel_entry E)"
      "bit (sl_Control (irp_CurrentStack irp)) 0"
  shows "queue_inv E x (q @ [b]) (N(b \<mapsto> armed_record E \<lparr>nd_ty = IrpBased (cancelable E w), nd_extension = x\<rparr> fo))
    (B(k \<mapsto> cancelable E w)) (I(wi_irp w \<mapsto> irp)) (H(k \<mapsto> m, b \<mapsto> n))"
proof -
  let ?p = "wi_irp w"
  note nb = queue_inv_fresh [OF qi assms(3)] queue_inv_fresh [OF qi assms(4)]
  have old: "pending_ok E v (B(k \<mapsto> cancelable E w)) (I(?p \<mapsto> irp))"
    if "N c = Some r" "nd_ty (nr_data r) = IrpBased v" for c r v
  proof -
    have pend: "pending_ok E v B (I(?p := None))" using queue_inv_pending [OF qi that] .
    then have "wi_irp v \<noteq> ?p" by (auto simp: pending_ok_def)
    from pending_ok_other [OF pend this nb(2)] show ?thesis by simp
  qed
  have new: "pending_ok E (cancelable E w) (B(k \<mapsto> cancelable E w)) (I(?p \<mapsto> irp))"
    using assms by (simp add: pending_ok_def)
  have B: "dom B \<subseteq> dom H" "dom B \<inter> dom N = {}" "boxes_ok B (I(?p := None))" using qi unfolding queue_inv_def by blast+
  have "boxes_ok (B(k \<mapsto> cancelable E w)) (I(?p \<mapsto> irp))"
    using boxes_ok_insert [OF B(3), of "cancelable E w" irp k] irp(1) by simp
  moreover have "dom (B(k \<mapsto> cancelable E w)) \<inter> dom N = {}"
    using B(2) nb(1) by (simp add: domIff)
  moreover have "dom (B(k \<mapsto> cancelable E w)) \<subseteq> dom (H(k \<mapsto> m, b \<mapsto> n))"
    using B(1) by (simp add: subset_insertI2 subset_insertI insert_mono)
  ultimately show ?thesis
    using assms(2-8) nb new old
    by (intro queue_inv_push [OF qi nb(3,4)]) (simp_all add: record_ok_def map_le_def domIff, auto)
qed

lemma register_irp:
  assumes hand: "in_hand E dev x (wi_irp w) s" and fresh: "heap_fresh K"
    and run: "irp_notification K E dev w re s = Some (res, w', t)"
  shows "wi_irp w' = wi_irp w \<and> dom (irps t) = dom (irps s) \<and> (\<forall>p. completions p (klog t) = completions p (klog s)) \<and>
    (res = Ok STATUS_PENDING \<and> ev_inv E dev x t \<or>
     res = Err (EvStatus STATUS_CANCELLED) \<and> in_hand E dev x (wi_irp w) t)"
proof -
  let ?p = "wi_irp w"
  obtain q irp0 where h: "?p \<noteq> null" "irps s ?p = Some irp0" "x \<noteq> null" "extension_as_ptr dev s = Some x"
    and q: "ev_queue x s = Some q"
    and qi: "queue_inv E x q (notify_records s) (irp_boxes s) ((irps s)(?p := None)) (heap_blocks (klog s))"
    using hand by (rule in_handE)
  obtain b w1 s1 s2 where s1: "irp_notification_record K E x w s = Some (b, w1, s1)"
    and s2: "on_queue_lock spin_acquire K E x s1 = Some s2"
    and loc: "irp_notification_locked K E x b (relative_due_time (re_due_time re)) w1 s2 = Some (res, w', t)"
    using run h(4) by (auto simp: irp_notification_def bind_eq_Some_conv Let_def)
  note l = lock_stepD [OF on_queue_lock_step(1) [OF s2]]
  obtain k irp irp1 fo where r: "w1 = cancelable E w" "irps s ?p = Some irp"
    "irp1 = irp\<lparr>irp_DriverContext3 := k, irp_CancelRoutine := Some (ex_cancel_entry E)\<rparr>"
    "heap_blocks (klog s) k = None" "heap_blocks (klog s) b = None" "b \<noteq> k" "ev_queue x s1 = ev_queue x s"
    "heap_blocks (klog s1) = (heap_blocks (klog s))(k \<mapsto> 24, b \<mapsto> of_nat (ex_sizeof_record E))"
    "notify_records s1 = (notify_records s)(b \<mapsto> armed_record E \<lparr>nd_ty = IrpBased (cancelable E w), nd_extension = x\<rparr> fo)"
    "irp_boxes s1 = (irp_boxes s)(k \<mapsto> cancelable E w)" "irps s1 = (irps s)(?p \<mapsto> irp1)"
    "devices s1 = devices s" "\<And>p. completions p (klog s1) = completions p (klog s)"
    using irp_notification_recordE [OF s1 fresh] by metis
  note nb = queue_inv_fresh [OF qi r(4)] queue_inv_fresh [OF qi r(5)]
  have irp: "irps s2 (wi_irp w1) = Some irp1" "irp_boxes s2 (irp_DriverContext3 irp1) = Some w1" "wi_cancel w1 \<noteq> None"
    using r by (simp_all add: l)
  have dom: "?p \<in> dom (irps s)" using h(2) by blast
  from loc irp show ?thesis
  proof (cases rule: irp_notification_lockedE)
    case (pending irp' q')
    have "irp_DriverContext3 irp' = k" "irp_CancelRoutine irp' = Some (ex_cancel_entry E)"
      using pending r(3) by simp_all
    from queue_inv_push_irp [OF qi h(1) r(4-6) this pending(8)]
    have "ev_inv E dev x t"
      using h(3,4) pending q extension_as_ptr_cong [of t s dev]
      by (auto simp: ev_inv_def l r(1,7-13))
    then show ?thesis
      using pending dom by (simp add: l r(1,11-13) insert_absorb)
  next
    case (cancelled irp')
    have "heap_blocks (klog t) = heap_blocks (klog s)" "irp_boxes t = irp_boxes s" "notify_records t = notify_records s"
      using cancelled r(3-6) nb by (auto simp: l r(8-10) fun_eq_iff)
    then have "in_hand E dev x ?p t"
      using qi q h extension_as_ptr_cong [of t s dev] cancelled
      by (intro in_handI [where q = q]) (simp_all add: l r(1,7,11-12))
    then show ?thesis
      using cancelled dom by (simp add: l r(1,11-13) insert_absorb)
  qed
qed

text \<open>What the documentation of \<^verbatim>\<open>ObReferenceObjectByHandle\<close> says of its status: never \<^verbatim>\<open>STATUS_PENDING\<close>.\<close>

definition ref_never_pending :: "kernel \<Rightarrow> bool" where
  "ref_never_pending K \<longleftrightarrow>
     (\<forall>h hdl m ty md. r_status (K h (Obj (ObReferenceObjectByHandle hdl m ty md))) \<noteq> STATUS_PENDING)"

lemma queue_inv_push_event:
  assumes qi: "queue_inv E x q N B I H" and "H b = None"
  shows "queue_inv E x (q @ [b]) (N(b \<mapsto> armed_record E \<lparr>nd_ty = EventBased v, nd_extension = x\<rparr> fo)) B I (H(b \<mapsto> n))"
proof -
  note nb = queue_inv_fresh [OF assms]
  have "dom B \<subseteq> dom H" "dom B \<inter> dom N = {}" "boxes_ok B I" using qi unfolding queue_inv_def by blast+
  then show ?thesis
    using assms(2) nb queue_inv_pending [OF qi]
    by (intro queue_inv_push [OF qi nb]) (simp_all add: record_ok_def map_le_def domIff subset_insertI2, auto)
qed

lemma event_refD:
  assumes "event_ref_by_handle K ty hdl m md s = (res, t)"
  shows "same_memory x s t" "ev_ctx c t = ev_ctx c s"
    "ref_never_pending K \<Longrightarrow> res = Err e \<Longrightarrow> event_error_from_wdu e \<noteq> EvStatus STATUS_PENDING"
  using assms
  by (auto simp: event_ref_by_handle_def ref_by_handle_def sys_eq same_memory_def ref_never_pending_def ev_ctx_def
      split: if_splits)

lemma register_event:
  assumes hand: "in_hand E dev x p s" and law: "heap_fresh K" "ref_never_pending K"
    and run: "event_notification K E dev w re s = Some (res, w', t)"
  shows "w' = w \<and> dom (irps t) = dom (irps s) \<and> (\<forall>p. completions p (klog t) = completions p (klog s)) \<and>
    event_status res \<noteq> STATUS_PENDING \<and> in_hand E dev x p t"
proof -
  obtain q irp0 where h: "p \<noteq> null" "irps s p = Some irp0" "x \<noteq> null" "extension_as_ptr dev s = Some x"
    and q: "ev_queue x s = Some q"
    and qi: "queue_inv E x q (notify_records s) (irp_boxes s) ((irps s)(p := None)) (heap_blocks (klog s))"
    using hand by (rule in_handE)
  obtain md where md: "irp_processor_mode w s = Some md"
    using run h(4) by (auto simp: event_notification_def bind_eq_Some_conv)
  obtain ev s1 where s1: "event_ref_by_handle K (ex_event_type E) (re_event re) EVENT_ACCESS_MASK md s = (ev, s1)"
    by fastforce
  note same = event_refD(1) [OF s1, of x]
  show ?thesis
  proof (cases ev)
    case (Inl e)
    then have "res = Err (event_error_from_wdu e)" "w' = w" "t = s1"
      using run h(4) md s1 by (simp_all add: event_notification_def)
    moreover obtain st where "e = WduError.NtStatus st" by (cases e)
    ultimately show ?thesis
      using same_memory_in_hand [OF same hand] same event_refD(3) [OF s1 law(2) Inl] by (auto simp: same_memory_def)
  next
    case (Inr v)
    obtain fo b s2 s3 where s2: "new_notify_record K E \<lparr>nd_ty = EventBased v, nd_extension = x\<rparr> fo s1 = Some (b, s2)"
      and s3: "on_queue_lock spin_acquire K E x s2 = Some s3"
      and s4: "start_notify K E x b (relative_due_time (re_due_time re)) s3 = Some t"
      and res: "res = Ok STATUS_SUCCESS" "w' = w"
      using run h(4) md s1 Inr by (auto simp: event_notification_def bind_eq_Some_conv Let_def)
    note d = new_notify_recordD [OF s2 law(1)] and l = lock_stepD [OF on_queue_lock_step(1) [OF s3]]
    have hb: "heap_blocks (klog s) b = None" using d(1) same by (simp add: same_memory_def)
    obtain q' where n: "ev_queue x s3 = Some q'" "ev_queue x t = Some (q' @ [b])" "notify_records t = notify_records s3"
      "irp_boxes t = irp_boxes s3" "irps t = irps s3" "devices t = devices s3"
      "heap_blocks (klog t) = heap_blocks (klog s3)" "\<And>p. completions p (klog t) = completions p (klog s3)"
      using start_notifyD [OF s4] by metis
    have "q' = q" "devices t = devices s" using n q same by (simp_all add: l d same_memory_def)
    then have "in_hand E dev x p t"
      using n h same queue_inv_push_event [OF qi hb] extension_as_ptr_cong [of t s dev]
      by (intro in_handI [where q = "q @ [b]"]) (simp_all add: l d(2-8) same_memory_def)
    then show ?thesis
      using n res same by (simp add: l d(2-8) same_memory_def STATUS_PENDING_def)
  qed
qed

lemma handle_register_cases:
  assumes "handle_register_event K E dev w req s = Some (res, w', t)"
  shows "res = Err (EvStatus STATUS_INVALID_PARAMETER) \<and> w' = w \<and> t = s \<or>
    irp_notification K E dev w (register_event_at (input_buffer req) s) s = Some (res, w', t) \<or>
    event_notification K E dev w (register_event_at (input_buffer req) s) s = Some (res, w', t)"
  using assms unfolding handle_register_event_def Let_def by (simp split: if_split_asm)

lemma handle_register:
  assumes "in_hand E dev x (wi_irp w) s" "heap_fresh K" "ref_never_pending K"
    and run: "handle_register_event K E dev w req s = Some (res, w', t)"
  shows "wi_irp w' = wi_irp w \<and> dom (irps t) = dom (irps s) \<and> (\<forall>p. completions p (klog t) = completions p (klog s)) \<and>
    (if event_status res = STATUS_PENDING then ev_inv E dev x t else in_hand E dev x (wi_irp w) t)"
proof -
  from handle_register_cases [OF run] show ?thesis
  proof (elim disjE)
    assume "res = Err (EvStatus STATUS_INVALID_PARAMETER) \<and> w' = w \<and> t = s"
    then show ?thesis using assms(1) by (simp add: nt_consts)
  next
    assume "irp_notification K E dev w (register_event_at (input_buffer req) s) s = Some (res, w', t)"
    from register_irp [OF assms(1,2) this] show ?thesis by (auto simp: nt_consts)
  next
    assume "event_notification K E dev w (register_event_at (input_buffer req) s) s = Some (res, w', t)"
    from register_event [OF assms(1-3) this] show ?thesis by auto
  qed
qed

lemma device_control_cases:
  assumes "ev_device_control K E dev w req s = Some (st, w', t)"
  obtains (busy) c acq s1 where "rundown_lock_acquire K E c (Some (wi_irp w)) s = Some (acq, s1)"
    "irp_complete K w io_status_new s1 = Some t" "st = STATUS_UNSUCCESSFUL"
  | (served) c acq s1 w2 s2 s3 where "rundown_lock_acquire K E c (Some (wi_irp w)) s = Some (acq, s1)"
    "(if dc_ioctl req = IOCTL_REGISTER_EVENT
      then handle_register_event K E dev w req s1 \<bind> (\<lambda>(r, w, s). Some (event_status r, w, s))
      else debug_assert False s1 \<bind> (\<lambda>u. Some (STATUS_NOT_IMPLEMENTED, w, s1))) = Some (st, w2, s2)"
    "(if st \<noteq> STATUS_PENDING then irp_complete K w2 (set_status st io_status_new) s2 else Some s2) = Some s3"
    "rundown_lock_release remove_release K E c s3 = Some t"
proof -
  obtain fo c acq s1 where f: "irp_file_object w s = Some fo" "fo_is_valid fo" "fo_context_as_mut_ref fo s = Some (Some c)"
    and s1: "rundown_lock_acquire K E c (Some (wi_irp w)) s = Some (acq, s1)"
    using assms by (auto simp: ev_device_control_def bind_eq_Some_conv Let_def)
  note run = assms [unfolded ev_device_control_def Let_def f s1, simplified f s1, simplified]
  show ?thesis
  proof (cases "acq = STATUS_SUCCESS")
    case True
    with run obtain w2 s2 s3 where "(if dc_ioctl req = IOCTL_REGISTER_EVENT
        then handle_register_event K E dev w req s1 \<bind> (\<lambda>(r, w, s). Some (event_status r, w, s))
        else debug_assert False s1 \<bind> (\<lambda>u. Some (STATUS_NOT_IMPLEMENTED, w, s1))) = Some (st, w2, s2)"
      "(if st \<noteq> STATUS_PENDING then irp_complete K w2 (set_status st io_status_new) s2 else Some s2) = Some s3"
      "rundown_lock_release remove_release K E c s3 = Some t"
      using f s1 by (auto simp: bind_eq_Some_conv)
    with s1 show ?thesis by (rule served)
  next
    case False
    with run f s1 have "irp_complete K w io_status_new s1 = Some t" "st = STATUS_UNSUCCESSFUL"
      by (auto simp: bind_eq_Some_conv)
    with s1 show ?thesis by (rule busy)
  qed
qed

text \<open>
  A device control request, whatever it asks for: it is answered at once with the status that is
  returned, or it stays in the queue.
\<close>

lemma device_control_step:
  assumes hand: "in_hand E dev x (wi_irp w) s" and law: "heap_fresh K" "ref_never_pending K"
    and run: "ev_device_control K E dev w req s = Some (st, w', t)"
  shows "ev_inv E dev x t \<and>
    (if st = STATUS_PENDING
     then dom (irps t) = dom (irps s) \<and> (\<forall>p. completions p (klog t) = completions p (klog s))
     else dom (irps t) = dom (irps s) - {wi_irp w} \<and> (\<forall>p. completions p (klog t) =
       completions p (klog s) @ (if p = wi_irp w then [(st, 0)] else [])))"
  using run
proof (cases rule: device_control_cases)
  case (busy c acq s1)
  note same = rundown_acquire_same(1) [OF busy(1), of x]
  from complete_in_hand [OF same_memory_in_hand [OF same hand] busy(2)] busy(3) same show ?thesis
    by (simp add: io_status_new_def nt_consts same_memory_def)
next
  case (served c acq s1 w2 s2 s3)
  note same = rundown_acquire_same(1) [OF served(1), of x]
  note hand1 = same_memory_in_hand [OF same hand]
  have dom: "dom (irps s1) = dom (irps s)" "\<And>p. completions p (klog s1) = completions p (klog s)"
    using same by (simp_all add: same_memory_def)
  have "wi_irp w2 = wi_irp w \<and> dom (irps s2) = dom (irps s) \<and> (\<forall>p. completions p (klog s2) = completions p (klog s)) \<and>
    (if st = STATUS_PENDING then ev_inv E dev x s2 else in_hand E dev x (wi_irp w) s2)"
  proof (cases "dc_ioctl req = IOCTL_REGISTER_EVENT")
    case True
    then obtain r where "handle_register_event K E dev w req s1 = Some (r, w2, s2)" "st = event_status r"
      using served(2) by (auto simp: bind_eq_Some_conv)
    with handle_register [OF hand1 law this(1)] dom show ?thesis by simp
  next
    case False
    then show ?thesis using served(2) hand1 dom by (auto simp: nt_consts)
  qed
  then have "ev_inv E dev x s3 \<and> (if st = STATUS_PENDING
    then dom (irps s3) = dom (irps s) \<and> (\<forall>p. completions p (klog s3) = completions p (klog s))
    else dom (irps s3) = dom (irps s) - {wi_irp w} \<and> (\<forall>p. completions p (klog s3) =
      completions p (klog s) @ (if p = wi_irp w then [(st, 0)] else [])))"
    using served(3) complete_in_hand [of E dev x w2 s2 K "set_status st io_status_new" s3]
    by (auto simp: set_status_def io_status_new_def split: if_splits)
  then show ?thesis
    using rundown_release_same [OF served(4), of x, simplified] same_memory_inv [of x s3 t] by (simp add: same_memory_def)
qed

section \<open>Runs\<close>

text \<open>
  The steps of the driver once it is loaded: a device control request arrives, with its input, and
  is handled; a timer expires; the I/O manager cancels a pending request. Each runs to its end.
\<close>

datatype ev_label = Request ptr ntstatus | Expire ptr | Cancel ptr

inductive ev_step :: "kernel \<Rightarrow> ev_env \<Rightarrow> WduDevice \<Rightarrow> evstate \<Rightarrow> ev_label \<Rightarrow> evstate \<Rightarrow> bool"
  for K E dev where
  request: "\<lbrakk>irps s p = None; p \<noteq> null; s0 = s\<lparr>irps := (irps s)(p \<mapsto> irp), ev_bytes := m\<rparr>;
      irp_wrap p s0 = Some w; device_control_new w s0 = Some req;
      ev_device_control K E dev w req s0 = Some (st, w', t)\<rbrakk> \<Longrightarrow> ev_step K E dev s (Request p st) t"
| expire: "ev_fire K E b s = Some t \<Longrightarrow> ev_step K E dev s (Expire b) t"
| cancel: "\<lbrakk>irp_at (notify_records s) b = Some p; io_cancel K E irql (wd_device dev) p s = Some t\<rbrakk>
    \<Longrightarrow> ev_step K E dev s (Cancel p) t"

inductive ev_run :: "kernel \<Rightarrow> ev_env \<Rightarrow> WduDevice \<Rightarrow> evstate \<Rightarrow> ev_label list \<Rightarrow> evstate \<Rightarrow> bool"
  for K E dev s where
  ev_run_Nil: "ev_run K E dev s [] s"
| ev_run_snoc: "ev_run K E dev s ls t \<Longrightarrow> ev_step K E dev t l u \<Longrightarrow> ev_run K E dev s (ls @ [l]) u"

inductive_cases ev_step_RequestE: "ev_step K E dev s (Request p st) t"
inductive_cases ev_step_ExpireE: "ev_step K E dev s (Expire b) t"
inductive_cases ev_step_CancelE: "ev_step K E dev s (Cancel p) t"

text \<open>How often a request came in at an address, and what became of those requests.\<close>

fun is_request :: "ptr \<Rightarrow> ev_label \<Rightarrow> bool" where
  "is_request p (Request p' st) \<longleftrightarrow> p' = p"
| "is_request p _ \<longleftrightarrow> False"

definition arrivals :: "ptr \<Rightarrow> ev_label list \<Rightarrow> nat" where
  "arrivals p ls = length (filter (is_request p) ls)"

definition answers :: "ptr \<Rightarrow> 'a kstate_scheme \<Rightarrow> nat" where
  "answers p s = length (completions p (klog s))"

definition is_pending :: "ptr \<Rightarrow> ptr \<Rightarrow> 'a evstate_scheme \<Rightarrow> bool" where
  "is_pending x p s \<longleftrightarrow>
     (\<exists>q\<in>set_option (ev_queue x s). \<exists>b\<in>set q. irp_at (notify_records s) b = Some p)"

lemma ev_inv_pending:
  assumes "ev_inv E dev x s"
  shows "is_pending x p s \<longleftrightarrow> p \<in> dom (irps s)"
proof -
  obtain q where "ev_queue x s = Some q" "dom (notify_records s) = set q"
    "dom (irps s) = {p. \<exists>b. irp_at (notify_records s) b = Some p}"
    using assms by (rule ev_invE) (simp add: queue_inv_def)
  moreover have "irp_at (notify_records s) b = Some p \<Longrightarrow> b \<in> dom (notify_records s)" for b
    by (auto simp: irp_at_Some)
  ultimately show ?thesis
    by (auto simp: is_pending_def)
qed

definition held :: "ptr \<Rightarrow> ('c, 'a) iostate_scheme \<Rightarrow> nat" where
  "held p s = (if p \<in> dom (irps s) then 1 else 0)"

lemma ev_step_inv:
  assumes "ev_inv E dev x s" "heap_fresh K" "ref_never_pending K" "ev_step K E dev s l t"
  shows "ev_inv E dev x t \<and> answers p t + held p t = answers p s + held p s + (if is_request p l then 1 else 0)"
  using assms(4)
proof cases
  case (request p' s0 irp m w req st w')
  have s0: "dom (irps s0) = insert p' (dom (irps s))" "p' \<notin> dom (irps s)" "completions p (klog s0) = completions p (klog s)"
    and w: "wi_irp w = p'"
    using request by (auto simp: irp_wrap_def bind_eq_Some_conv)
  have "(irps s0)(p' := None) = irps s"
    using request(2,4) by auto
  then have "in_hand E dev x (wi_irp w) s0"
    using assms(1) request w by (auto simp: in_hand_def ev_inv_def extension_as_ptr_def device_extension_def ev_queue_def ev_ext_def)
  from device_control_step [OF this assms(2,3) request(7)] show ?thesis
    using s0 w request(1) by (auto simp: answers_def held_def split: if_splits)
next
  case (expire b)
  obtain r where r: "notify_records s b = Some r"
    using expire(2) by (auto simp: ev_fire_def custom_dpc_def bind_eq_Some_conv)
  obtain q where qi: "queue_inv E x q (notify_records s) (irp_boxes s) (irps s) (heap_blocks (klog s))"
    using assms(1) by (rule ev_invE)
  show ?thesis
  proof (cases "nd_ty (nr_data r)")
    case (IrpBased w)
    have "wi_irp w \<in> dom (irps s)"
      using queue_inv_pending [OF qi r IrpBased] by (auto simp: pending_ok_def)
    then show ?thesis
      using fire_irp [OF assms(1) r IrpBased expire(2)] expire(1) by (auto simp: answers_def held_def)
  next
    case (EventBased v)
    then show ?thesis
      using fire_event [OF assms(1) r EventBased expire(2)] expire(1) by (auto simp: answers_def held_def)
  qed
next
  case (cancel b p' irql)
  have "p' \<in> dom (irps s)"
    using assms(1) cancel(2) unfolding ev_inv_def queue_inv_def by blast
  then obtain irp where irp: "irps s p' = Some irp" by blast
  show ?thesis
  proof (cases "irp_CancelRoutine irp = None")
    case True
    then show ?thesis
      using cancel_again [OF assms(1) irp True cancel(3)] cancel(1) by (auto simp: answers_def held_def)
  next
    case False
    then show ?thesis
      using cancel_step [OF assms(1) cancel(2) irp False cancel(3)] irp cancel(1) by (auto simp: answers_def held_def)
  qed
qed

lemma ev_run_inv:
  assumes "ev_run K E dev s ls t" "ev_inv E dev x s" "heap_fresh K" "ref_never_pending K"
  shows "ev_inv E dev x t \<and> answers p t + held p t = answers p s + held p s + arrivals p ls"
  using assms(1)
proof induction
  case ev_run_Nil
  then show ?case using assms(2) by (simp add: arrivals_def)
next
  case (ev_run_snoc ls t l u)
  then show ?case
    using ev_step_inv [OF _ assms(3,4) ev_run_snoc(2), of x p] by (simp add: arrivals_def)
qed

text \<open>The driver when it has just been loaded: nothing is queued and nothing is on the way.\<close>

definition ev_loaded :: "WduDevice \<Rightarrow> ptr \<Rightarrow> 'a evstate_scheme \<Rightarrow> bool" where
  "ev_loaded dev x s \<longleftrightarrow> x \<noteq> null \<and> extension_as_ptr dev s = Some x \<and> ev_queue x s = Some [] \<and>
     notify_records s = Map.empty \<and> irp_boxes s = Map.empty \<and> irps s = Map.empty"

lemma ev_loaded_inv: "ev_loaded dev x s \<Longrightarrow> ev_inv E dev x s"
  by (simp add: ev_loaded_def ev_inv_def queue_inv_def irp_at_def boxes_ok_def)

end
