(* ===== verification/Ex_EventThms.thy ===== *)
theory Ex_EventThms
  imports Ex_EventRun
begin

text \<open>
  What the event example guarantees and where it fails. Registration, timers and cancellation
  answer every request exactly once; clean-up, a DPC that meets a cancellation, an event that is
  registered twice and a symbolic link that cannot be created do not work.
\<close>

section \<open>A pending request ends\<close>

text \<open>
  DPCs run at \<^verbatim>\<open>DISPATCH_LEVEL\<close>. As in the lemmas on spin locks, \<open>i0\<close> is the IRQL before the first call
  of the log and the kernel reports the IRQL that follows from the log.
\<close>

definition dpc_irql :: "u8 \<Rightarrow> kernel \<Rightarrow> kevent list \<Rightarrow> bool" where
  "dpc_irql i0 K h \<longleftrightarrow> reports_irql i0 K \<and> irql_after i0 h = DISPATCH_LEVEL"

lemma dpc_irql_append: "dpc_irql i0 K h \<Longrightarrow> foldl irql_step DISPATCH_LEVEL g = DISPATCH_LEVEL \<Longrightarrow> dpc_irql i0 K (h @ g)"
  by (simp add: dpc_irql_def)

lemma queue_lock_at_dpc:
  assumes "dpc_irql i0 K (klog s)" "ev_queue x s = Some q"
  shows "\<exists>t. on_queue_lock spin_acquire_at_dpc K E x s = Some t \<and> dpc_irql i0 K (klog t)"
    "\<exists>t. on_queue_lock spin_release_from_dpc K E x s = Some t \<and> dpc_irql i0 K (klog t)"
proof -
  have law: "reports_irql i0 K" "irql_after i0 (klog s) = DISPATCH_LEVEL"
    using assms(1) by (simp_all add: dpc_irql_def)
  obtain g where "assert_irql K (\<lambda>irql. DISPATCH_LEVEL \<le> irql) s = Some (s\<lparr>klog := klog s @ g\<rparr>)"
    "\<forall>i. foldl irql_step i g = i"
    using law by (rule assert_ge_dispatch)
  then show "\<exists>t. on_queue_lock spin_acquire_at_dpc K E x s = Some t \<and> dpc_irql i0 K (klog t)"
    "\<exists>t. on_queue_lock spin_release_from_dpc K E x s = Some t \<and> dpc_irql i0 K (klog t)"
    using assms by (auto simp: on_queue_lock_def spin_op_defs sys_eq ev_queue_def ev_put_ext_def dpc_irql_def)
qed

lemma timer_dpc_remove_ok:
  assumes "dpc_irql i0 K (klog s)" "ev_queue x s = Some q" "i < length q"
  shows "\<exists>t. timer_dpc_remove K E x i s = Some t"
proof -
  obtain e where e: "ev_ext x s = Some e" "event_queue e = q"
    using assms(2) by (auto simp: ev_queue_def)
  let ?s = "record_drop K (q ! i) (ev_put_ext x (e\<lparr>event_queue := butlast (q[i := last q])\<rparr>) s)"
  have "dpc_irql i0 K (klog ?s)" "ev_queue x ?s = Some (butlast (q[i := last q]))"
    using assms(1) by (simp_all add: record_drop_def Let_def dpc_irql_append)
  from queue_lock_at_dpc(2) [OF this] show ?thesis
    using e assms(3) by (auto simp: timer_dpc_remove_def queue_swap_remove_def swap_remove_def)
qed

text \<open>The DPC of a record that completes a request gets as far as completing it.\<close>

lemma dpc_first_irp_ok:
  assumes qi: "queue_inv E x q (notify_records s) (irp_boxes s) (irps s) (heap_blocks (klog s))"
    and x: "x \<noteq> null" and q: "ev_queue x s = Some q" and irql: "dpc_irql i0 K (klog s)"
    and r: "notify_records s b = Some r" "nd_ty (nr_data r) = IrpBased w"
  shows "\<exists>i t. timer_dpc_first K E (b + ex_dpc_off E) s = Some (DpcUnlocked x i, t) \<and> i < length q \<and>
    dpc_irql i0 K (klog t) \<and> ev_queue x t = Some q"
proof -
  note rok = queue_inv_record(2) [OF qi r(1)]
  obtain irp where w: "wi_cancel w = Some (ex_cancel_routine E)" "wi_irp w \<noteq> null" "irps s (wi_irp w) = Some irp"
    "irp_boxes s (irp_DriverContext3 irp) = Some w"
    using queue_inv_pending [OF qi r] by (auto simp: pending_ok_def)
  obtain s1 where s1: "on_queue_lock spin_acquire_at_dpc K E x s = Some s1" "dpc_irql i0 K (klog s1)"
    using queue_lock_at_dpc(1) [OF irql q] by blast
  note l1 = lock_stepD [OF on_queue_lock_step(3) [OF s1(1)]]
  have rs: "queue_records x s1 = Some (map (\<lambda>b. the (notify_records s b)) q)"
    using queue_inv_records [OF qi] l1(1,7) q by (auto simp: queue_records_def ev_queue_def)
  have b: "b \<in> set q" "notify_data_eq (nr_data (the (notify_records s b))) (nr_data r)"
    using queue_inv_record(1) [OF qi r(1)] r by (auto simp: notify_data_eq_def)
  then obtain i where i: "position (\<lambda>c. notify_data_eq (nr_data (the (notify_records s c))) (nr_data r)) q = Some i"
    by (metis (no_types, lifting) not_None_eq position_None)
  have "irps s1 (wi_irp w) = Some irp" "irp_boxes s1 (irp_DriverContext3 irp) = Some w"
    using w by (simp_all add: l1)
  note sc = set_cancel_rtn_none_eq [OF this, of K "ex_cancel_entry E"]
  let ?w = "w\<lparr>wi_cancel := None\<rparr>" and ?k = "irp_DriverContext3 irp"
  let ?r = "r\<lparr>nr_dpc := (nr_dpc r)\<lparr>dpc_context := Some (nr_data r\<lparr>nd_ty := IrpBased ?w\<rparr>)\<rparr>\<rparr>"
  let ?s2 = "s1\<lparr>klog := klog s1 @ [(Pool (RustDealloc ?k), K (klog s1) (Pool (RustDealloc ?k)))],
      irp_boxes := (irp_boxes s)(?k := None),
      irps := (irps s)(wi_irp w \<mapsto> irp\<lparr>irp_CancelRoutine := None, irp_DriverContext3 := null\<rparr>),
      notify_records := (notify_records s)(b \<mapsto> ?r)\<rparr>"
  have "dpc_irql i0 K (klog ?s2)" "ev_queue x ?s2 = Some q"
    using s1(2) q by (simp_all add: l1 dpc_irql_append)
  from queue_lock_at_dpc(2) [OF this] obtain s3 where
    s3: "on_queue_lock spin_release_from_dpc K E x ?s2 = Some s3" "dpc_irql i0 K (klog s3)" by blast
  note l3 = lock_stepD [OF on_queue_lock_step(4) [OF s3(1)]]
  have "irps s3 (wi_irp ?w) = Some (irp\<lparr>irp_CancelRoutine := None, irp_DriverContext3 := null\<rparr>)" "wi_irp ?w \<noteq> null"
    using w by (simp_all add: l3)
  from irp_complete_eq [OF this, of K success_no_info] obtain s4 where
    s4: "irp_complete K ?w success_no_info s3 = Some s4" "dpc_irql i0 K (klog s4)" "ev_queue x s4 = Some q"
    using s3(2) q by (auto simp: l3 l1 Let_def dpc_irql_append)
  moreover have "timer_dpc_first K E (b + ex_dpc_off E) s = Some (DpcUnlocked x i, s4)"
    using x r rok s1 rs i sc w s3(1) s4(1)
    by (auto simp: timer_dpc_first_def record_ok_def position_map Let_def l1)
  ultimately show ?thesis using position_Some [OF i] by blast
qed

lemma fire_irp_ok:
  assumes inv: "ev_inv E dev x s" and irql: "dpc_irql i0 K (klog s)"
    and r: "notify_records s b = Some r" "nd_ty (nr_data r) = IrpBased w"
  shows "\<exists>t. ev_fire K E b s = Some t"
proof -
  obtain q where x: "x \<noteq> null" and q: "ev_queue x s = Some q"
    and qi: "queue_inv E x q (notify_records s) (irp_boxes s) (irps s) (heap_blocks (klog s))"
    using inv by (rule ev_invE)
  obtain i s4 where first: "timer_dpc_first K E (b + ex_dpc_off E) s = Some (DpcUnlocked x i, s4)"
    "i < length q" "dpc_irql i0 K (klog s4)" "ev_queue x s4 = Some q"
    using dpc_first_irp_ok [OF qi x q irql r] by blast
  obtain s5 where s5: "on_queue_lock spin_acquire_at_dpc K E x s4 = Some s5" "dpc_irql i0 K (klog s5)"
    using queue_lock_at_dpc(1) [OF first(3,4)] by blast
  then have "ev_queue x s5 = Some q" using first(4) lock_stepD(7) [OF on_queue_lock_step(3) [OF s5(1)]] by simp
  with s5(2) have "\<exists>t. timer_dpc_remove K E x i s5 = Some t"
    using timer_dpc_remove_ok first(2) by blast
  then show ?thesis
    using first(1) s5(1) by (auto simp: ev_fire_eq [OF r(1) queue_inv_record(2) [OF qi r(1)]] ev_timer_dpc_def)
qed

lemma queue_lock_acquire:
  assumes "reports_irql i0 K" "irql_after i0 (klog s) \<le> DISPATCH_LEVEL" "ev_queue x s = Some q"
  shows "\<exists>t. on_queue_lock spin_acquire K E x s = Some t \<and> irql_after i0 (klog t) = DISPATCH_LEVEL"
proof -
  obtain g where "assert_irql K (\<lambda>irql. irql \<le> DISPATCH_LEVEL) s = Some (s\<lparr>klog := klog s @ g\<rparr>)"
    using assms(1,2) by (rule assert_le_dispatch)
  then show ?thesis
    using assms(3) by (auto simp: on_queue_lock_def spin_op_defs sys_eq ev_queue_def ev_put_ext_def)
qed

lemma queue_lock_release:
  assumes "reports_irql i0 K" "irql_after i0 (klog s) = DISPATCH_LEVEL" "ev_queue x s = Some q"
  shows "\<exists>t. on_queue_lock spin_release K E x s = Some t"
proof -
  obtain g where "assert_irql K (\<lambda>irql. irql = DISPATCH_LEVEL) s = Some (s\<lparr>klog := klog s @ g\<rparr>)"
    using assms(1,2) by (rule assert_dispatch)
  then show ?thesis
    using assms(3) by (auto simp: on_queue_lock_def spin_op_defs sys_eq ev_queue_def)
qed

lemma cancel_routine_ok:
  assumes qi: "queue_inv E x q N B I H" and b: "irp_at N b = Some p"
    and s: "notify_records s = N" "ev_queue x s = Some q" "extension_as_ptr d s = Some x"
    and irp: "irps s p = Some irp" "p \<noteq> null" "wi_irp w = p"
    and irql: "reports_irql i0 K" "irp_CancelIrql irp \<le> DISPATCH_LEVEL"
  shows "\<exists>t. ev_cancel_routine K E d w s = Some (w, t)"
proof -
  obtain i where i: "position (\<lambda>c. is_irp_record p (the (N c))) q = Some i" "i < length q"
    using queue_inv_position_irp [OF qi b, of "is_irp_record p"] is_irp_record_at [of N _ _ p] by blast
  let ?s1 = "sysv K (Io (IoReleaseCancelSpinLock (irp_CancelIrql irp))) s"
  have "irql_after i0 (klog ?s1) \<le> DISPATCH_LEVEL" "ev_queue x ?s1 = Some q"
    using irql(2) s(2) by simp_all
  from queue_lock_acquire [OF irql(1) this] obtain s2 where
    s2: "on_queue_lock spin_acquire K E x ?s1 = Some s2" "irql_after i0 (klog s2) = DISPATCH_LEVEL" by blast
  note l2 = lock_stepD [OF on_queue_lock_step(1) [OF s2(1)]]
  have q2: "ev_queue x s2 = Some q" using s(2) by (simp add: l2)
  have rs: "queue_records x s2 = Some (map (\<lambda>b. the (N b)) q)"
    using queue_inv_records [OF qi] q2 s(1) l2(1) by (auto simp: queue_records_def ev_queue_def)
  obtain e where e: "ev_ext x s2 = Some e" "event_queue e = q" using q2 by (auto simp: ev_queue_def)
  let ?s3 = "snd (timer_cancel K (q ! i + ex_timer_off E) (ev_put_ext x (e\<lparr>event_queue := butlast (q[i := last q])\<rparr>) s2))"
  have "irql_after i0 (klog ?s3) = DISPATCH_LEVEL" "ev_queue x ?s3 = Some (butlast (q[i := last q]))"
    using s2(2) by (simp_all, simp add: timer_cancel_def obj_bool_def sys_eq)
  from queue_lock_release [OF irql(1) this] obtain s4 where s4: "on_queue_lock spin_release K E x ?s3 = Some s4" by blast
  note l4 = lock_stepD [OF on_queue_lock_step(2) [OF s4]]
  have "irps s4 (wi_irp w) = Some irp" using irp by (simp add: l4 l2)
  then obtain s5 where "irp_complete K w (new_with_status STATUS_CANCELLED) s4 = Some s5"
    using irp_complete_eq [of s4 w irp K] irp by auto
  then show ?thesis
    using s(3) irp s2(1) rs i e s4
    by (auto simp: ev_cancel_routine_def cancel_routine_queue_def release_cancel_lock_def position_map queue_swap_remove_def swap_remove_def Let_def)
qed

lemma io_cancel_ok:
  assumes inv: "ev_inv E dev x s" and b: "irp_at (notify_records s) b = Some p"
    and irp: "irps s p = Some irp" "irp_wrap p s = Some w" "irp_Cancel irp \<noteq> 1"
    and irql: "reports_irql i0 K" "irql \<le> DISPATCH_LEVEL"
  shows "irp_CancelRoutine irp \<noteq> None" "\<exists>t. io_cancel K E irql (wd_device dev) p s = Some t"
proof -
  obtain q where x: "x \<noteq> null" "extension_as_ptr dev s = Some x" and q: "ev_queue x s = Some q"
    and qi: "queue_inv E x q (notify_records s) (irp_boxes s) (irps s) (heap_blocks (klog s))"
    using inv by (rule ev_invE)
  obtain r v where r: "notify_records s b = Some r" "nd_ty (nr_data r) = IrpBased v" "wi_irp v = p"
    using b by (auto simp: irp_at_Some)
  have v: "irp_boxes s (irp_DriverContext3 irp) = Some v" "p \<noteq> null" "wi_cancel v = Some (ex_cancel_routine E)"
    "irp_CancelRoutine irp = Some (ex_cancel_entry E)"
    using queue_inv_pending [OF qi r(1,2)] r(3) irp(1,3) by (auto simp: pending_ok_def)
  show "irp_CancelRoutine irp \<noteq> None" using v(4) by simp
  let ?s0 = "s\<lparr>irps := (irps s)(p \<mapsto> irp\<lparr>irp_Cancel := 1, irp_CancelRoutine := None, irp_CancelIrql := irql\<rparr>)\<rparr>"
  have w: "irp_wrap p ?s0 = Some w" "wi_irp w = p"
    using irp(1,2) by (auto simp: irp_wrap_def current_stack_def bind_eq_Some_conv)
  have "extension_as_ptr (wrap_device (wd_device dev)) ?s0 = Some x"
    using x(2) by (simp add: extension_as_ptr_def device_extension_def wrap_device_def)
  from cancel_routine_ok [OF qi b _ _ this _ v(2) w(2) irql(1)] obtain t where
    "ev_cancel_routine K E (wrap_device (wd_device dev)) w ?s0 = Some (w, t)"
    using q irql(2) by auto
  then show "\<exists>t. io_cancel K E irql (wd_device dev) p s = Some t"
    using irp(1) v w by (auto simp: io_cancel_def cancel_routine_def irp_from_context_def Let_def)
qed

section \<open>A registration is queued\<close>

text \<open>The heap has room for the box of the cancelable request and for the record.\<close>

definition memory_for :: "kernel \<Rightarrow> ev_env \<Rightarrow> kevent list \<Rightarrow> bool" where
  "memory_for K E h \<longleftrightarrow> (let r = K h (Pool (RustAlloc 24)) in r_ptr r \<noteq> null \<and>
     r_ptr (K (h @ [(Pool (RustAlloc 24), r)]) (Pool (RustAlloc (of_nat (ex_sizeof_record E))))) \<noteq> null)"

lemma irp_notification_record_ok:
  assumes irp: "irps s (wi_irp w) = Some irp" "irp_file_object w s = Some fo"
    and mem: "memory_for K E (klog s)"
  shows "\<exists>b t. irp_notification_record K E x w s = Some (b, cancelable E w, t) \<and>
    irql_after i0 (klog t) = irql_after i0 (klog s)"
proof -
  have "set_cancel_rtn K (ex_cancel_entry E) w (Some (ex_cancel_routine E)) s = Some (wi_cancel w, cancelable E w,
    s\<lparr>klog := klog s @ [(Pool (RustAlloc 24), K (klog s) (Pool (RustAlloc 24)))],
      irp_boxes := (irp_boxes s)(r_ptr (K (klog s) (Pool (RustAlloc 24))) \<mapsto> cancelable E w),
      irps := (irps s)(wi_irp w \<mapsto> irp\<lparr>irp_DriverContext3 := r_ptr (K (klog s) (Pool (RustAlloc 24))),
        irp_CancelRoutine := Some (ex_cancel_entry E)\<rparr>)\<rparr>)"
    by (rule set_cancel_rtn_some_eq [where K = K and s = s and w = w]) (use irp mem in \<open>simp_all add: memory_for_def Let_def\<close>)
  then show ?thesis
    using irp mem
    by (auto simp: memory_for_def irp_notification_record_def irp_file_object_def current_stack_def new_notify_record_def
        rust_alloc_def sys_eq timer_init_def dpc_init_def Let_def bind_eq_Some_conv)
qed

lemma sint_relative_due_time: "sint (relative_due_time d) = - \<bar>sint d\<bar>"
proof (cases "0 <s d")
  case True
  have "- (2 ^ 63) \<le> - sint d" "- sint d < 2 ^ 63" "0 < sint d"
    using True sint_range_size [of d] by (auto simp: word_sless_alt word_size)
  then have "sint (- d) = - sint d"
    by (simp add: sint_word_minus signed_take_bit_int_eq_self)
  then show ?thesis using True \<open>0 < sint d\<close> by (simp add: relative_due_time_def)
next
  case False
  then show ?thesis by (simp add: relative_due_time_def word_sless_alt)
qed

text \<open>An IRP whose current stack location can be reached, as \<^verbatim>\<open>current_stack\<close> asserts.\<close>

definition stack_ok :: "IRP \<Rightarrow> bool" where
  "stack_ok irp \<longleftrightarrow> irp_StackCount irp \<noteq> 0x7F \<and> irp_CurrentLocation irp \<le>s irp_StackCount irp + 1"

definition armed :: "ev_env \<Rightarrow> ptr \<Rightarrow> i64 \<Rightarrow> kevent list \<Rightarrow> bool" where
  "armed E b due h \<longleftrightarrow> (\<exists>r. (Obj (KeSetTimer (b + ex_timer_off E) due (b + ex_dpc_off E)), r) \<in> set h)"

lemma on_queue_lock_grows:
  assumes "on_queue_lock spin_release K E x s = Some t"
  shows "set (klog s) \<subseteq> set (klog t)"
  using assms by (rule q_release.on_queue_lockE) auto

lemma irp_notification_locked_ok:
  assumes irp: "irps s (wi_irp w) = Some irp" "stack_ok irp" "irp_Cancel irp \<noteq> 1"
    and irql: "reports_irql i0 K" "irql_after i0 (klog s) = DISPATCH_LEVEL" and q: "ev_queue x s = Some q"
  shows "\<exists>t. irp_notification_locked K E x b due w s = Some (Ok STATUS_PENDING, w, t) \<and> armed E b due (klog t) \<and>
    (\<forall>c. ev_ctx c t = ev_ctx c s)"
proof -
  let ?f = "\<lambda>sl. sl\<lparr>sl_Control := sl_Control sl OR ucast SL_PENDING_RETURNED\<rparr>"
  let ?s1 = "s\<lparr>irps := (irps s)(wi_irp w \<mapsto> irp\<lparr>irp_CurrentStack := ?f (irp_CurrentStack irp)\<rparr>)\<rparr>"
  have mark: "mark_pending w s = Some ?s1"
    using irp by (simp add: mark_pending_def current_stack_as_mut_def stack_ok_def)
  obtain e where e: "ev_ext x s = Some e" "event_queue e = q" using q by (auto simp: ev_queue_def)
  let ?s2 = "ev_put_ext x (e\<lparr>event_queue := q @ [b]\<rparr>) (snd (timer_set K (b + ex_timer_off E) due (Some (b + ex_dpc_off E)) ?s1))"
  have k: "klog ?s2 = klog s @ [(Obj (KeSetTimer (b + ex_timer_off E) due (b + ex_dpc_off E)),
      K (klog s) (Obj (KeSetTimer (b + ex_timer_off E) due (b + ex_dpc_off E))))]"
    by (simp add: timer_set_def obj_bool_def sys_eq dpc_ptr_def)
  then have "irql_after i0 (klog ?s2) = DISPATCH_LEVEL" "ev_queue x ?s2 = Some (q @ [b])"
    using irql(2) by simp_all
  from queue_lock_release [OF irql(1) this] obtain t where t: "on_queue_lock spin_release K E x ?s2 = Some t" by blast
  have "armed E b due (klog t)"
    using on_queue_lock_grows [OF t] unfolding armed_def k by auto
  moreover have "start_notify K E x b due ?s1 = Some t"
    using t e by (simp add: start_notify_def timer_set_def obj_bool_def sys_eq ev_ext_def)
  moreover have "ev_ctx c t = ev_ctx c s" for c
    using e by (simp add: lock_stepD(11) [OF on_queue_lock_step(2) [OF t]])
      (auto simp: ev_put_ext_def ev_ctx_def ev_ext_def timer_set_def obj_bool_def sys_eq split: option.splits ev_client.splits)
  ultimately show ?thesis
    using mark irp by (simp add: irp_notification_locked_def is_cancel_def)
qed

lemma irp_notification_ok:
  assumes irp: "irps s (wi_irp w) = Some irp" "stack_ok irp" "irp_Cancel irp \<noteq> 1"
    and irql: "reports_irql i0 K" "irql_after i0 (klog s) \<le> DISPATCH_LEVEL"
    and x: "extension_as_ptr dev s = Some x" and q: "ev_queue x s = Some q" and fresh: "heap_fresh K"
    and mem: "memory_for K E (klog s)"
  shows "\<exists>b t. irp_notification K E dev w re s = Some (Ok STATUS_PENDING, cancelable E w, t) \<and>
    armed E b (relative_due_time (re_due_time re)) (klog t) \<and> ev_queue x t = Some (q @ [b]) \<and>
    irp_at (notify_records t) b = Some (wi_irp w) \<and> (\<forall>c. ev_ctx c t = ev_ctx c s)"
proof -
  have "irp_file_object w s = Some (fo_wrap (sl_FileObject (irp_CurrentStack irp)))"
    using irp by (simp add: irp_file_object_def current_stack_def stack_ok_def)
  from irp_notification_record_ok [where s = s and w = w and K = K and E = E, OF irp(1) this mem] obtain b s1 where
    s1: "irp_notification_record K E x w s = Some (b, cancelable E w, s1)" "irql_after i0 (klog s1) = irql_after i0 (klog s)"
    by blast
  obtain k irp1 fo where r: "irp1 = irp\<lparr>irp_DriverContext3 := k, irp_CancelRoutine := Some (ex_cancel_entry E)\<rparr>"
    "irps s1 = (irps s)(wi_irp w \<mapsto> irp1)" "irp_boxes s1 = (irp_boxes s)(k \<mapsto> cancelable E w)" "ev_queue x s1 = ev_queue x s"
    "notify_records s1 = (notify_records s)(b \<mapsto> armed_record E \<lparr>nd_ty = IrpBased (cancelable E w), nd_extension = x\<rparr> fo)"
    "\<And>c. ev_ctx c s1 = ev_ctx c s"
    using irp_notification_recordE [OF s1(1) fresh] irp(1) by (metis option.inject)
  have "irql_after i0 (klog s1) \<le> DISPATCH_LEVEL" "ev_queue x s1 = Some q"
    using s1(2) irql(2) q r by simp_all
  from queue_lock_acquire [OF irql(1) this, of E] obtain s2 where
    s2: "on_queue_lock spin_acquire K E x s1 = Some s2" "irql_after i0 (klog s2) = DISPATCH_LEVEL" by blast
  note l = lock_stepD [OF on_queue_lock_step(1) [OF s2(1)]]
  have i: "irps s2 (wi_irp (cancelable E w)) = Some irp1" "irp_boxes s2 (irp_DriverContext3 irp1) = Some (cancelable E w)"
    and ok: "stack_ok irp1" "irp_Cancel irp1 \<noteq> 1" and q2: "ev_queue x s2 = Some q"
    using irp q by (simp_all add: l r stack_ok_def)
  obtain t where t: "irp_notification_locked K E x b (relative_due_time (re_due_time re)) (cancelable E w) s2
      = Some (Ok STATUS_PENDING, cancelable E w, t)" "armed E b (relative_due_time (re_due_time re)) (klog t)"
    "\<And>c. ev_ctx c t = ev_ctx c s2"
    using irp_notification_locked_ok [OF i(1) ok irql(1) s2(2) q2] by blast
  then have "ev_queue x t = Some (q @ [b])" "notify_records t = notify_records s2"
    using irp_notification_lockedE [OF t(1) i] q2 by auto
  then show ?thesis
    using t x s1(1) s2(1) by (auto simp: irp_notification_def irp_at_def l r)
qed

lemma registration_queued:
  assumes hand: "in_hand E dev x (wi_irp w) s" "ev_queue x s = Some q"
    and irp: "irps s (wi_irp w) = Some irp" "stack_ok irp" "irp_Cancel irp \<noteq> 1"
    and fobj: "sl_FileObject (irp_CurrentStack irp) \<noteq> null" "file_objs s (sl_FileObject (irp_CurrentStack irp)) = Some f"
      "FsContext f \<noteq> null" "ev_ctx (FsContext f) s = Some ctx"
    and req: "dc_ioctl req = IOCTL_REGISTER_EVENT" "sizeof_RegisterEvent \<le> dc_in_buf_len req" "input_buffer req \<noteq> null"
      "re_notify_type (register_event_at (input_buffer req) s) = IRP_BASED"
    and acq: "acq = Rw (IoAcquireRemoveLockEx (FsContext f + ex_rundown_off E) (wi_irp w))"
      "r_status (K (klog s) acq) = STATUS_SUCCESS"
    and law: "heap_fresh K" "ref_never_pending K" "reports_irql i0 K" "irql_after i0 (klog s) \<le> DISPATCH_LEVEL"
      "memory_for K E (klog s @ [(acq, K (klog s) acq)])"
  shows "\<exists>b due w' t. ev_device_control K E dev w req s = Some (STATUS_PENDING, w', t) \<and> ev_inv E dev x t \<and>
    ev_queue x t = Some (q @ [b]) \<and> irp_at (notify_records t) b = Some (wi_irp w) \<and>
    completions (wi_irp w) (klog t) = completions (wi_irp w) (klog s) \<and>
    armed E b due (klog t) \<and> sint due = - \<bar>sint (re_due_time (register_event_at (input_buffer req) s))\<bar>"
proof -
  let ?c = "FsContext f" and ?re = "register_event_at (input_buffer req) s"
  let ?s1 = "ev_put_ctx ?c (ctx\<lparr>fc_file_rundown := (fc_file_rundown ctx)\<lparr>rl_lock_tag := Some (wi_irp w)\<rparr>\<rparr>)
    (s\<lparr>klog := klog s @ [(acq, K (klog s) acq)]\<rparr>)"
  have s1: "rundown_lock_acquire K E ?c (Some (wi_irp w)) s = Some (STATUS_SUCCESS, ?s1)"
    using fobj acq by (simp add: rundown_lock_acquire_def remove_acquire_def tag_ptr_def sys_eq)
  note same = rundown_acquire_same(1) [OF s1, of x]
  have e: "extension_as_ptr dev ?s1 = Some x" "ev_queue x ?s1 = Some q"
    using hand same by (auto elim: in_handE simp: same_memory_def ev_put_ctx_def extension_as_ptr_def device_extension_def)
  have i: "irps ?s1 (wi_irp w) = Some irp" "irql_after i0 (klog ?s1) \<le> DISPATCH_LEVEL" "memory_for K E (klog ?s1)"
    using irp law acq by (simp_all add: ev_put_ctx_def)
  obtain b t1 where t1: "irp_notification K E dev w ?re ?s1 = Some (Ok STATUS_PENDING, cancelable E w, t1)"
    "armed E b (relative_due_time (re_due_time ?re)) (klog t1)" "ev_queue x t1 = Some (q @ [b])"
    "irp_at (notify_records t1) b = Some (wi_irp w)" "\<And>c. ev_ctx c t1 = ev_ctx c ?s1"
    using irp_notification_ok [OF i(1) irp(2,3) law(3) i(2) e law(1) i(3)] by blast
  have "ev_ctx ?c t1 \<noteq> None"
    using t1(5) by (simp add: ev_put_ctx_def ev_ctx_def)
  then obtain l t where t: "rundown_lock_release remove_release K E ?c t1 = Some t" "klog t = klog t1 @ [l]"
    by (auto simp: rundown_lock_release_def remove_release_def ev_put_ctx_def Let_def)
  have re: "register_event_at (input_buffer req) ?s1 = ?re"
    by (simp add: register_event_at_def ev_put_ctx_def)
  have run: "ev_device_control K E dev w req s = Some (STATUS_PENDING, cancelable E w, t)"
    using irp fobj s1 t1(1) t(1) req re
    by (simp add: ev_device_control_def irp_file_object_def current_stack_def stack_ok_def fo_is_valid_def fo_wrap_def
        fo_context_as_mut_ref_def handle_register_event_def Let_def not_le [symmetric])
  note step = device_control_step [OF hand(1) law(1,2) run]
  have "armed E b (relative_due_time (re_due_time ?re)) (klog t)"
    using t1(2) t(2) by (auto simp: armed_def)
  then show ?thesis
    using run step t1(3,4) rundown_release_same [OF t(1), of x, simplified] sint_relative_due_time [of "re_due_time ?re"]
    by (auto simp: same_memory_def)
qed

section \<open>A concrete run\<close>

text \<open>
  A loaded driver with one open file, a kernel that runs everything at dispatch level, and a
  request to be completed by a timer.
\<close>

definition ev_env0 :: ev_env where
  "ev_env0 = \<lparr>ex_create = 1, ex_close = 2, ex_cleanup = 3, ex_device_control = 4, ex_driver_unload = 5,
     ex_cancel_routine = 6, ex_timer_dpc = 7, ex_cancel_entry = 8, ex_custom_dpc = 9,
     ex_entry = \<lparr>ep_dispatch_handler = 10, ep_driver_unload = 11, ep_add_device = 12\<rparr>, ex_driver_id = 13,
     ex_sizeof = 80, ex_device_name = \<lparr>sl_ptr = 0x100, sl_len = 20\<rparr>, ex_win32_name = \<lparr>sl_ptr = 0x200, sl_len = 24\<rparr>,
     ex_pool2_name = 0x280, ex_event_type = 14, ex_lock_slot = 0x2C0, ex_rundown_off = 16, ex_lock_off = 32,
     ex_timer_off = 0, ex_dpc_off = 64, ex_sizeof_record = 200, ex_sizeof_context = 48, ex_sizeof_extension = 80\<rparr>"

definition ev_dev0 :: WduDevice where
  "ev_dev0 = wrap_device 0x300"

definition ev_kernel :: kernel where
  "ev_kernel h c = (kernel0 h c)\<lparr>r_u8 := irql_after 2 h,
     r_queue := \<lparr>lq_Next = 0, lq_Lock = 0, lq_OldIrql = irql_after 2 h\<rparr>\<rparr>"

definition ev_st0 :: evstate where
  "ev_st0 = \<lparr>klog = [], debug_assertions = True, umem = \<lambda>a. 0, try_non_paged = False,
     irps = Map.empty, mdls = Map.empty,
     file_objs = [0x60 \<mapsto> \<lparr>FileName = \<lparr>Length = 0, MaximumLength = 0, Buffer = 0\<rparr>, FsContext = 0x700, FsContext2 = 0\<rparr>],
     devices = [0x300 \<mapsto> \<lparr>do_DriverObject = 0x20, do_DeviceExtension = 0x340, do_Flags = 4\<rparr>],
     drivers = Map.empty, wdu_devices = Map.empty, wdu_drivers = Map.empty, irp_boxes = Map.empty,
     client = [0x350 \<mapsto> CExt \<lparr>event_queue = [], queue_lock = spin_new\<rparr>, 0x700 \<mapsto> CFile \<lparr>fc_file_rundown = remove_new\<rparr>],
     ev_bytes = \<lambda>a. 0, notify_records = Map.empty\<rparr>"

definition ev_irp0 :: IRP where
  "ev_irp0 = irp0\<lparr>irp_CurrentStack := stack0\<lparr>sl_DeviceIoControl := \<lparr>OutputBufferLength = 0, InputBufferLength = 24,
     IoControlCode = ucast IOCTL_REGISTER_EVENT, Type3InputBuffer = 0\<rparr>\<rparr>\<rparr>"

definition ev_req0 :: WduDeviceControl where
  "ev_req0 = \<lparr>dc_ioctl = IOCTL_REGISTER_EVENT, dc_out_buf_len = 0, dc_in_buf_len = 24, dc_buffer = Buffered 0x8000\<rparr>"

lemma ev_kernel_laws [simp]:
  "heap_fresh ev_kernel" "ref_never_pending ev_kernel" "reports_irql 2 ev_kernel"
  using kernel0_fresh(2)
  by (simp_all add: heap_fresh_def ref_never_pending_def reports_irql_def ev_kernel_def kernel0_def nt_consts)

lemma ev_st0_loaded: "ev_loaded ev_dev0 0x350 ev_st0"
  by (simp add: ev_loaded_def ev_st0_def ev_dev0_def wrap_device_def extension_as_ptr_def device_extension_def
      sizeof_WduDevice_def ev_queue_def ev_ext_def)

lemma ev_req0_new:
  "irp_wrap 0x50 (ev_st0\<lparr>irps := [0x50 \<mapsto> ev_irp0]\<rparr>) = Some wirp0"
  "device_control_new wirp0 (ev_st0\<lparr>irps := [0x50 \<mapsto> ev_irp0]\<rparr>) = Some ev_req0"
  by (simp_all add: irp_wrap_def current_stack_def ev_irp0_def irp0_def stack0_def major_from_def nt_consts wirp0_def
      device_control_new_def system_buffer_def ev_req0_def Let_def word_sle_eq IOCTL_REGISTER_EVENT_def encode_ioctl_def
      method_from_ioctl_def METHOD_BUFFERED_def FILE_DEVICE_UNKNOWN_def FILE_ANY_ACCESS_def)

lemma ev_irp0_simps [simp]:
  "stack_ok ev_irp0" "irp_Cancel ev_irp0 = 0" "sl_FileObject (irp_CurrentStack ev_irp0) = 0x60"
  by (simp_all add: ev_irp0_def irp0_def stack0_def stack_ok_def word_sle_eq)

lemma wi_irp0 [simp]: "wi_irp wirp0 = 0x50"
  by (simp add: wirp0_def)

definition ev_arrived0 :: evstate where
  "ev_arrived0 = ev_st0\<lparr>irps := [0x50 \<mapsto> ev_irp0]\<rparr>"

lemma ev_arrived0_in_hand: "in_hand ev_env0 ev_dev0 0x350 (wi_irp wirp0) ev_arrived0"
proof -
  have "ev_arrived0\<lparr>irps := (irps ev_arrived0)(0x50 := None)\<rparr> = ev_st0"
    by (simp add: ev_arrived0_def ev_st0_def)
  then show ?thesis
    using ev_loaded_inv [OF ev_st0_loaded, of ev_env0] by (simp add: in_hand_def ev_arrived0_def)
qed

lemma le_word_zeros [simp]: "le_word (bytes_at (\<lambda>a. 0) p n) = 0"
proof -
  have "foldr (\<lambda>b acc. ucast b OR push_bit 8 acc) (map (\<lambda>i. 0) xs) (0 :: 'b::len word) = 0" for xs :: "nat list"
    by (induction xs) simp_all
  then show ?thesis by (simp add: le_word_def bytes_at_def)
qed

text \<open>The facts about the first request that the registration needs.\<close>

lemma ev_arrived0_facts:
  "ev_queue 0x350 ev_arrived0 = Some []" "irps ev_arrived0 (wi_irp wirp0) = Some ev_irp0" "stack_ok ev_irp0"
  "irp_Cancel ev_irp0 \<noteq> 1" "sl_FileObject (irp_CurrentStack ev_irp0) \<noteq> null"
  "file_objs ev_arrived0 (sl_FileObject (irp_CurrentStack ev_irp0)) =
     Some \<lparr>FileName = \<lparr>Length = 0, MaximumLength = 0, Buffer = 0\<rparr>, FsContext = 0x700, FsContext2 = 0\<rparr>"
  "ev_ctx 0x700 ev_arrived0 = Some \<lparr>fc_file_rundown = remove_new\<rparr>"
  "dc_ioctl ev_req0 = IOCTL_REGISTER_EVENT" "sizeof_RegisterEvent \<le> dc_in_buf_len ev_req0" "input_buffer ev_req0 \<noteq> null"
  "re_notify_type (register_event_at (input_buffer ev_req0) ev_arrived0) = IRP_BASED" "klog ev_arrived0 = []"
  by (simp_all add: ev_arrived0_def ev_st0_def ev_queue_def ev_ext_def ev_ctx_def ev_req0_def sizeof_RegisterEvent_def
      input_buffer_def register_event_at_def IRP_BASED_def)

lemma ev_kernel_memory:
  "memory_for ev_kernel ev_env0 [(Rw c, r)]" "r_status (ev_kernel h (Rw c)) = STATUS_SUCCESS"
  by (simp_all add: memory_for_def ev_kernel_def kernel0_def fresh_page_def pool_blocks_def heap_blocks_def Let_def)

section \<open>Properties\<close>

text \<open>
  From the moment the driver is loaded, whatever device control requests come in, timers
  expire and pending requests are cancelled, in any order: the queue stays well-formed (it holds
  each record once, owns all records and their boxes, and holds a record for every request that
  has not been answered), and every request that came in has been completed exactly once or is
  pending in the queue, never both.
\<close>

lemma every_request_answered:
  assumes "ev_loaded dev x s" "heap_fresh K" "ref_never_pending K" "ev_run K E dev s ls t"
  shows "ev_inv E dev x t \<and>
    (\<forall>p. answers p t + (if is_pending x p t then 1 else 0) = answers p s + arrivals p ls)"
proof -
  note inv = ev_run_inv [OF assms(4) ev_loaded_inv [OF assms(1)] assms(2,3)]
  have "held p s = 0" for p
    using assms(1) by (simp add: ev_loaded_def held_def)
  then show ?thesis
    using inv ev_inv_pending [of E dev x t] by (simp add: held_def)
qed

text \<open>
  C5. How a pending request ends, in a state the driver's invariant \<open>ev_inv\<close> describes (which every
  sequence of requests, expiring timers and cancellations that each run to their end keeps, and
  which the clean-up of a file with pending requests, or another routine running between the two
  halves of a DPC, may break). When its timer expires and the DPC runs at dispatch level, the DPC
  runs through without a panic or a fault and completes it with success. When the I/O manager
  cancels it instead, at an IRQL up to dispatch level and for the first time, the cancel routine
  finds it, stops its timer and completes it as cancelled. Either way it is completed once and has
  left the queue, and the invariant holds again.
\<close>

theorem pending_request_ends:
  assumes "ev_inv E dev x s" "irp_at (notify_records s) b = Some p"
  shows "(\<forall>i0. dpc_irql i0 K (klog s) \<longrightarrow> (\<exists>t. ev_fire K E b s = Some t \<and> \<not> is_pending x p t \<and> ev_inv E dev x t \<and>
      completions p (klog t) = completions p (klog s) @ [(STATUS_SUCCESS, 0)])) \<and>
    (\<forall>i0 irp w irql. reports_irql i0 K \<longrightarrow> irps s p = Some irp \<longrightarrow> irp_Cancel irp \<noteq> 1 \<longrightarrow>
      irp_wrap p s = Some w \<longrightarrow> irql \<le> DISPATCH_LEVEL \<longrightarrow>
      (\<exists>t. io_cancel K E irql (wd_device dev) p s = Some t \<and> \<not> is_pending x p t \<and> ev_inv E dev x t \<and>
        completions p (klog t) = completions p (klog s) @ [(STATUS_CANCELLED, 0)]))"
proof -
  obtain r w where r: "notify_records s b = Some r" "nd_ty (nr_data r) = IrpBased w" "wi_irp w = p"
    using assms(2) by (auto simp: irp_at_Some)
  have gone: "\<not> is_pending x p t" if "ev_inv E dev x t" "irps t = (irps s)(p := None)" for t
    using ev_inv_pending [OF that(1)] that(2) by simp
  show ?thesis
  proof (intro conjI allI impI)
    fix i0 assume "dpc_irql i0 K (klog s)"
    then obtain t where t: "ev_fire K E b s = Some t"
      using fire_irp_ok [OF assms(1) _ r(1,2)] by blast
    note f = fire_irp [OF assms(1) r(1,2) t]
    show "\<exists>t. ev_fire K E b s = Some t \<and> \<not> is_pending x p t \<and> ev_inv E dev x t \<and>
        completions p (klog t) = completions p (klog s) @ [(STATUS_SUCCESS, 0)]"
      using t gone [OF f(1)] f r(3) by simp
  next
    fix i0 irp v and irql :: u8
    assume a: "reports_irql i0 K" "irps s p = Some irp" "irp_Cancel irp \<noteq> 1" "irp_wrap p s = Some v" "irql \<le> DISPATCH_LEVEL"
    note ok = io_cancel_ok [OF assms a(2,4,3,1,5)]
    obtain t where t: "io_cancel K E irql (wd_device dev) p s = Some t"
      using ok(2) by blast
    note c = cancel_step [OF assms a(2) ok(1) t]
    show "\<exists>t. io_cancel K E irql (wd_device dev) p s = Some t \<and> \<not> is_pending x p t \<and> ev_inv E dev x t \<and>
        completions p (klog t) = completions p (klog s) @ [(STATUS_CANCELLED, 0)]"
      using t gone [OF c(1)] c by simp
  qed
qed

text \<open>The state after the first request, with its record at \<open>0x3000\<close>.\<close>

definition ev_pend0 :: evstate where
  "ev_pend0 = ev_st0\<lparr>klog := [(Pool (RustAlloc 24), reply0\<lparr>r_ptr := 0x2000\<rparr>), (Pool (RustAlloc 200), reply0\<lparr>r_ptr := 0x3000\<rparr>)],
     irps := [0x50 \<mapsto> ev_irp0\<lparr>irp_CurrentStack := (irp_CurrentStack ev_irp0)\<lparr>sl_Control := 1\<rparr>,
       irp_DriverContext3 := 0x2000, irp_CancelRoutine := Some 8\<rparr>],
     irp_boxes := [0x2000 \<mapsto> cancelable ev_env0 wirp0],
     client := [0x350 \<mapsto> CExt \<lparr>event_queue = [0x3000], queue_lock = spin_new\<rparr>, 0x700 \<mapsto> CFile \<lparr>fc_file_rundown = remove_new\<rparr>],
     notify_records := [0x3000 \<mapsto> armed_record ev_env0
       \<lparr>nd_ty = IrpBased (cancelable ev_env0 wirp0), nd_extension = 0x350\<rparr> (fo_wrap 0x60)]\<rparr>"

lemma ev_pend0_inv: "ev_inv ev_env0 ev_dev0 0x350 ev_pend0"
proof -
  have "queue_inv ev_env0 0x350 [0x3000] (notify_records ev_pend0) (irp_boxes ev_pend0) (irps ev_pend0)
      (heap_blocks (klog ev_pend0))"
    by (simp add: ev_pend0_def queue_inv_def record_ok_def pending_ok_def irp_at_def boxes_ok_def ev_irp0_def irp0_def ev_env0_def
        heap_blocks_def)
  then show ?thesis
    by (simp add: ev_inv_def ev_queue_def ev_ext_def)
      (simp add: ev_pend0_def ev_dev0_def ev_st0_def wrap_device_def extension_as_ptr_def device_extension_def sizeof_WduDevice_def)
qed

theorem pending_request_ends_witness:
  "\<exists>t. ev_fire ev_kernel ev_env0 0x3000 ev_pend0 = Some t \<and> \<not> is_pending 0x350 0x50 t \<and>
     completions 0x50 (klog t) = [(STATUS_SUCCESS, 0)]"
proof -
  have "irp_at (notify_records ev_pend0) 0x3000 = Some 0x50" "dpc_irql 2 ev_kernel (klog ev_pend0)"
    "completions 0x50 (klog ev_pend0) = []"
    by (simp_all add: ev_pend0_def irp_at_def dpc_irql_def irql_after_def nt_consts)
  with pending_request_ends [OF ev_pend0_inv this(1), of ev_kernel] show ?thesis by auto
qed

text \<open>
  C14. A request to be notified by completion is queued: with room on the heap, a valid input buffer
  and an open file, \<^verbatim>\<open>device_control\<close> runs through, returns \<^verbatim>\<open>STATUS_PENDING\<close> without completing the
  request, and leaves at the end of the queue a record for it whose timer is armed with its own
  DPC, at a relative time (never positive) of the length the caller asked for.
\<close>

theorem registration_is_queued:
  assumes hand: "in_hand E dev x (wi_irp w) s" "ev_queue x s = Some q"
    and irp: "irps s (wi_irp w) = Some irp" "stack_ok irp" "irp_Cancel irp \<noteq> 1"
    and fobj: "sl_FileObject (irp_CurrentStack irp) \<noteq> null" "file_objs s (sl_FileObject (irp_CurrentStack irp)) = Some f"
      "FsContext f \<noteq> null" "ev_ctx (FsContext f) s = Some ctx"
    and req: "dc_ioctl req = IOCTL_REGISTER_EVENT" "sizeof_RegisterEvent \<le> dc_in_buf_len req" "input_buffer req \<noteq> null"
      "re_notify_type (register_event_at (input_buffer req) s) = IRP_BASED"
    and acq: "acq = Rw (IoAcquireRemoveLockEx (FsContext f + ex_rundown_off E) (wi_irp w))"
      "r_status (K (klog s) acq) = STATUS_SUCCESS"
    and law: "heap_fresh K" "ref_never_pending K" "reports_irql i0 K" "irql_after i0 (klog s) \<le> DISPATCH_LEVEL"
      "memory_for K E (klog s @ [(acq, K (klog s) acq)])"
  shows "\<exists>b due w' t. ev_device_control K E dev w req s = Some (STATUS_PENDING, w', t) \<and> ev_inv E dev x t \<and>
    ev_queue x t = Some (q @ [b]) \<and> irp_at (notify_records t) b = Some (wi_irp w) \<and>
    completions (wi_irp w) (klog t) = completions (wi_irp w) (klog s) \<and>
    armed E b due (klog t) \<and> sint due = - \<bar>sint (re_due_time (register_event_at (input_buffer req) s))\<bar>"
  by (rule registration_queued [OF assms])

theorem registration_is_queued_witness:
  "\<exists>b due w' t. ev_device_control ev_kernel ev_env0 ev_dev0 wirp0 ev_req0 ev_arrived0 = Some (STATUS_PENDING, w', t) \<and>
     ev_queue 0x350 t = Some [b] \<and> irp_at (notify_records t) b = Some 0x50 \<and> armed ev_env0 b due (klog t) \<and> sint due = 0"
proof -
  have "re_due_time (register_event_at (input_buffer ev_req0) ev_arrived0) = 0"
    by (simp add: ev_arrived0_def ev_st0_def register_event_at_def)
  then show ?thesis
    using registration_is_queued [OF ev_arrived0_in_hand ev_arrived0_facts(1-6) _ _ ev_arrived0_facts(8-11) refl _ ev_kernel_laws]
      ev_arrived0_facts(7,12) ev_kernel_memory by (fastforce simp: nt_consts)
qed

end
