(* ===== verification/Ex_EventFaults.thy ===== *)
theory Ex_EventFaults
  imports Ex_EventThms
begin

text \<open>
  Where the event example fails: requests that are pending when a file is closed, a timer that
  expires while its request is being cancelled, an event that is registered twice, and a symbolic
  link that cannot be created.
\<close>

section \<open>Closing a file\<close>

lemma heap_blocks_null [simp]: "heap_blocks h null = None"
proof (induction h rule: rev_induct)
  case (snoc ev h)
  then show ?case by (cases "(ev, heap_blocks h)" rule: heap_step.cases) auto
qed simp

lemma queue_inv_null:
  assumes "queue_inv E x q N B I (heap_blocks h)"
  shows "B null = None" "N null = None"
  using assms heap_blocks_null [of h] unfolding queue_inv_def by blast+

text \<open>
  The clean-up of one record with a pending request, of the file that is closed or of another file
  whose timer is running: the record stays.
\<close>

lemma cleanup_record_irp:
  assumes r: "notify_records s b = Some r" "nd_ty (nr_data r) = IrpBased w" "wi_cancel w \<noteq> None"
    and irp: "irps s (wi_irp w) = Some irp" "irp_boxes s (irp_DriverContext3 irp) = Some v"
    and other: "nr_file_object r \<noteq> fo \<Longrightarrow> r_u8 (K (klog s) (Obj (KeCancelTimer (b + ex_timer_off E)))) = 1"
  obtains g where "cleanup_record K E fo b s = Some (True, [],
    s\<lparr>klog := klog s @ g, irp_boxes := (irp_boxes s)(irp_DriverContext3 irp := None),
      irps := (irps s)(wi_irp w \<mapsto> irp\<lparr>irp_CancelRoutine := None, irp_DriverContext3 := null\<rparr>),
      notify_records := (notify_records s)(b \<mapsto> r\<lparr>nr_data := (nr_data r)\<lparr>nd_ty := IrpBased (w\<lparr>wi_cancel := None\<rparr>)\<rparr>\<rparr>)\<rparr>)"
    "\<And>p. completions p g = []"
proof (cases "nr_file_object r = fo")
  case True
  then show ?thesis
    using r set_cancel_rtn_none_eq [OF irp, of K "ex_cancel_entry E"]
    by (intro that [of "[(Pool (RustDealloc (irp_DriverContext3 irp)), K (klog s) (Pool (RustDealloc (irp_DriverContext3 irp))))]"])
      (auto simp: cleanup_record_def Let_def)
next
  case False
  let ?c = "Obj (KeCancelTimer (b + ex_timer_off E))" and ?d = "Pool (RustDealloc (irp_DriverContext3 irp))"
  let ?s = "s\<lparr>klog := klog s @ [(?c, K (klog s) ?c)]\<rparr>"
  have "irps ?s (wi_irp w) = Some irp" "irp_boxes ?s (irp_DriverContext3 irp) = Some v"
    using irp by simp_all
  from set_cancel_rtn_none_eq [OF this, of K "ex_cancel_entry E"] show ?thesis
    using r other [OF False] False
    by (intro that [of "[(?c, K (klog s) ?c), (?d, K (klog s @ [(?c, K (klog s) ?c)]) ?d)]"])
      (auto simp: cleanup_record_def timer_cancel_def obj_bool_def sys_eq Let_def)
qed

text \<open>A DPC whose record has a request without the box behind its context faults.\<close>

lemma queue_records_eq: "ev_queue x s = Some q \<Longrightarrow> queue_records x s = those (map (notify_records s) q)"
  by (auto simp: queue_records_def ev_queue_def)

lemma fire_without_box:
  assumes r: "notify_records t b = Some r" "dpc_routine (nr_dpc r) = Some (ex_timer_dpc E)"
      "dpc_context (nr_dpc r) = Some d" "nd_extension d = x" "x \<noteq> null" "nd_ty d = IrpBased w"
    and q: "ev_queue x t = Some q" "b \<in> set q" "notify_data_eq (nr_data r) d" "\<forall>c\<in>set q. notify_records t c \<noteq> None"
    and irp: "irps t (wi_irp w) = Some irp" "irp_boxes t (irp_DriverContext3 irp) = None"
  shows "ev_fire K E b t = None"
proof (cases "on_queue_lock spin_acquire_at_dpc K E x t")
  case None
  then show ?thesis
    using r by (simp add: ev_fire_def custom_dpc_def ev_timer_dpc_def timer_dpc_first_def)
next
  case (Some u)
  note l = lock_stepD [OF on_queue_lock_step(3) [OF Some]]
  have "queue_records x u = Some (map (\<lambda>b. the (notify_records t b)) q)"
    using q by (subst queue_records_eq [of _ _ q]) (simp_all add: l those_map)
  moreover have "position (\<lambda>c. notify_data_eq (nr_data (the (notify_records t c))) d) q \<noteq> None"
    using q(2,3) r(1) by (auto simp: position_None intro!: bexI [of _ b])
  moreover have "set_cancel_rtn K (ex_cancel_entry E) w None u = None"
    using irp by (simp add: set_cancel_rtn_def irp_set_cancel_routine_def irp_from_context_def Let_def l)
  ultimately show ?thesis
    using r Some by (auto simp: ev_fire_def custom_dpc_def ev_timer_dpc_def timer_dpc_first_def position_map)
qed

lemma same_memory_trans: "same_memory x s t \<Longrightarrow> same_memory x t u \<Longrightarrow> same_memory x s u"
  by (simp add: same_memory_def)

lemma ev_cleanupE:
  assumes "ev_cleanup K E dev request fo s = Some (request', t)" "extension_as_ptr dev s = Some x"
  obtains s3 e q' cl s4 s5 s6 where "same_memory x s s3" "ev_ext x s3 = Some e"
    "cleanup_retain K E fo (event_queue e) s3 = Some (q', cl, s4)"
    "lock_step x (ev_put_ext x (e\<lparr>event_queue := q'\<rparr>) s4) s5" "complete_cancelled K cl s5 = Some s6"
    "irp_complete K request success_no_info s6 = Some t"
proof -
  obtain c st s1 s2 s3 e q' cl s4 s5 s6 where
    1: "rundown_lock_acquire K E c (Some (wi_irp request)) s = Some (st, s1)"
    and 2: "rundown_lock_release remove_release_and_wait K E c s1 = Some s2"
    and 3: "on_queue_lock spin_acquire K E x s2 = Some s3" and e: "ev_ext x s3 = Some e"
    and 4: "cleanup_retain K E fo (event_queue e) s3 = Some (q', cl, s4)"
    and 5: "on_queue_lock spin_release K E x (ev_put_ext x (e\<lparr>event_queue := q'\<rparr>) s4) = Some s5"
    and 6: "complete_cancelled K cl s5 = Some s6" "irp_complete K request success_no_info s6 = Some t"
    using assms by (auto simp: ev_cleanup_def bind_eq_Some_conv Let_def)
  have "same_memory x s s3"
    using rundown_acquire_same(1) [OF 1] rundown_release_same [OF 2] lock_step_same_memory [OF on_queue_lock_step(1) [OF 3]]
    by (blast intro: same_memory_trans)
  with e 4 on_queue_lock_step(2) [OF 5] 6 show ?thesis by (blast intro: that)
qed

text \<open>
  C30. Closing a file breaks the requests that are pending: the clean-up of the one record in the
  queue, whether its request came through the file that is closed or through another one, takes
  its cancel routine away but keeps it in the queue and does not complete it (the result of
  \<^verbatim>\<open>set_cancel_rtn\<close> is compared the wrong way round). After that the request cannot be cancelled (the
  I/O manager only marks it, and it stays pending), and when its timer expires the DPC faults on
  the context that is gone, before and after such an attempt to cancel it.
\<close>

theorem cleanup_breaks_pending:
  assumes hand: "in_hand E dev x (wi_irp request) s" and q: "ev_queue x s = Some [b]"
    and r: "notify_records s b = Some r" "nd_ty (nr_data r) = IrpBased w"
    and timer: "nr_file_object r = fo \<or> (\<forall>h. r_u8 (K h (Obj (KeCancelTimer (b + ex_timer_off E)))) = 1)"
    and run: "ev_cleanup K E dev request fo s = Some (request', t)"
  shows "ev_queue x t = Some [b] \<and> completions (wi_irp w) (klog t) = completions (wi_irp w) (klog s) \<and>
    (\<exists>irp. irps t (wi_irp w) = Some irp \<and> irp_CancelRoutine irp = None) \<and>
    ev_fire K' E b t = None \<and>
    (\<exists>u. io_cancel K' E irql (wd_device dev) (wi_irp w) t = Some u \<and> ev_queue x u = Some [b] \<and> klog u = klog t \<and>
      irps u (wi_irp w) \<noteq> None \<and> ev_fire K' E b u = None)"
proof -
  let ?p = "wi_irp request"
  obtain q' irp0 where h: "?p \<noteq> null" "x \<noteq> null" "extension_as_ptr dev s = Some x" "ev_queue x s = Some q'"
    and qi: "queue_inv E x q' (notify_records s) (irp_boxes s) ((irps s)(?p := None)) (heap_blocks (klog s))"
    using hand by (rule in_handE)
  then have qi: "queue_inv E x [b] (notify_records s) (irp_boxes s) ((irps s)(?p := None)) (heap_blocks (klog s))"
    using q by simp
  obtain irp where w: "wi_irp w \<noteq> ?p" "irps s (wi_irp w) = Some irp" "irp_boxes s (irp_DriverContext3 irp) = Some w"
    "wi_cancel w \<noteq> None"
    using queue_inv_pending [OF qi r] by (auto simp: pending_ok_def split: if_splits)
  note rok = queue_inv_record(2) [OF qi r(1)] and null = queue_inv_null [OF qi]
  from run h(3) obtain s3 e q' cl s4 s5 s6 where c: "same_memory x s s3" "ev_ext x s3 = Some e"
    "cleanup_retain K E fo (event_queue e) s3 = Some (q', cl, s4)"
    "lock_step x (ev_put_ext x (e\<lparr>event_queue := q'\<rparr>) s4) s5" "complete_cancelled K cl s5 = Some s6"
    "irp_complete K request success_no_info s6 = Some t"
    by (rule ev_cleanupE)
  have s3: "notify_records s3 = notify_records s" "irps s3 = irps s" "irp_boxes s3 = irp_boxes s" "event_queue e = [b]"
    "completions p (klog s3) = completions p (klog s)" for p
    using c(1,2) q by (auto simp: same_memory_def ev_queue_def)
  let ?irp = "irp\<lparr>irp_CancelRoutine := None, irp_DriverContext3 := null\<rparr>"
  let ?r = "r\<lparr>nr_data := (nr_data r)\<lparr>nd_ty := IrpBased (w\<lparr>wi_cancel := None\<rparr>)\<rparr>\<rparr>"
  obtain g where g: "cleanup_record K E fo b s3 = Some (True, [],
    s3\<lparr>klog := klog s3 @ g, irp_boxes := (irp_boxes s3)(irp_DriverContext3 irp := None),
      irps := (irps s3)(wi_irp w \<mapsto> ?irp), notify_records := (notify_records s3)(b \<mapsto> ?r)\<rparr>)"
    "\<And>p. completions p g = []"
    using cleanup_record_irp [of s3 b r w irp w fo K E] r w timer s3 by auto
  with c(3,5) s3 have cl: "q' = [b]" "cl = []" "s6 = s5" "notify_records s4 = (notify_records s)(b \<mapsto> ?r)"
    "irps s4 = (irps s)(wi_irp w \<mapsto> ?irp)" "irp_boxes s4 = (irp_boxes s)(irp_DriverContext3 irp := None)"
    "completions p (klog s4) = completions p (klog s)" for p
    by auto
  note l = lock_stepD [OF c(4)] and d = irp_completeD [OF c(6) h(1)]
  have t: "notify_records t b = Some ?r" "irps t (wi_irp w) = Some ?irp" "irp_boxes t null = None" "ev_queue x t = Some [b]"
    using w null by (simp_all add: d cl l)
  have fault: "ev_fire K' E b u = None"
    if "notify_records u b = Some ?r" "irps u (wi_irp w) = Some irp'" "irp_DriverContext3 irp' = null" "irp_boxes u null = None"
      "ev_queue x u = Some [b]" for u irp'
    using rok r(2) h(2) that
    by (intro fire_without_box [where r = ?r and x = x and d = "nr_data r" and w = w and q = "[b]" and irp = irp'])
      (simp_all add: record_ok_def notify_data_eq_def)
  let ?u = "t\<lparr>irps := (irps t)(wi_irp w \<mapsto> ?irp\<lparr>irp_Cancel := 1, irp_CancelRoutine := None\<rparr>)\<rparr>"
  have "io_cancel K' E irql (wd_device dev) (wi_irp w) t = Some ?u"
    using t(2) by (simp add: io_cancel_def)
  moreover have "ev_fire K' E b ?u = None" "ev_fire K' E b t = None"
    using t by (auto intro!: fault)
  ultimately show ?thesis
    using t w(1) by (simp add: d cl l)
qed

text \<open>The file of the pending request is closed: its clean-up request is the IRP at \<open>0x51\<close>.\<close>

definition wirp1 :: WduIrp where
  "wirp1 = \<lparr>wi_irp = 0x51, wi_mj = MjCleanup, wi_cancel = None\<rparr>"

definition ev_closing0 :: evstate where
  "ev_closing0 = ev_pend0\<lparr>irps := (irps ev_pend0)(0x51 \<mapsto> irp0), debug_assertions := False\<rparr>"

lemma ev_closing0_facts:
  "in_hand ev_env0 ev_dev0 0x350 (wi_irp wirp1) ev_closing0" "ev_queue 0x350 ev_closing0 = Some [0x3000]"
  "notify_records ev_closing0 = notify_records ev_pend0"
proof -
  have "ev_inv ev_env0 ev_dev0 0x350 (ev_pend0\<lparr>debug_assertions := False\<rparr>)"
    using ev_pend0_inv by (simp add: ev_inv_def ev_queue_def ev_ext_def extension_as_ptr_def device_extension_def)
  moreover have "ev_closing0\<lparr>irps := (irps ev_closing0)(0x51 := None)\<rparr> = ev_pend0\<lparr>debug_assertions := False\<rparr>"
    by (simp add: ev_closing0_def ev_pend0_def)
  ultimately show "in_hand ev_env0 ev_dev0 0x350 (wi_irp wirp1) ev_closing0"
    by (simp add: in_hand_def wirp1_def ev_closing0_def)
  show "ev_queue 0x350 ev_closing0 = Some [0x3000]" "notify_records ev_closing0 = notify_records ev_pend0"
    by (simp_all add: ev_closing0_def ev_pend0_def ev_queue_def ev_ext_def)
qed

lemma ev_cleanup_example:
  "\<exists>t. ev_cleanup (\<lambda>_ _. reply0) ev_env0 ev_dev0 wirp1 (fo_wrap 0x60) ev_closing0 = Some (wirp1, t)"
  by (simp add: ev_cleanup_def extension_as_ptr_def device_extension_def fo_is_valid_def fo_wrap_def fo_context_as_mut_ref_def
      rundown_lock_acquire_def rundown_lock_release_def remove_acquire_def remove_release_and_wait_def ev_ctx_def ev_put_ctx_def
      on_queue_lock_def ev_ext_def ev_put_ext_def spin_op_defs assert_irql_def sys_eq cleanup_record_def set_cancel_rtn_def
      irp_set_cancel_routine_def irp_from_context_def irp_box_drop_def irp_clear_context_def irp_complete_def complete_request_def
      ev_closing0_def ev_pend0_def ev_st0_def ev_dev0_def wirp1_def wirp0_def wrap_device_def sizeof_WduDevice_def Let_def
      ev_irp0_def irp0_def success_no_info_def)

theorem cleanup_breaks_pending_witness:
  "\<exists>t. ev_cleanup (\<lambda>_ _. reply0) ev_env0 ev_dev0 wirp1 (fo_wrap 0x60) ev_closing0 = Some (wirp1, t) \<and>
     ev_queue 0x350 t = Some [0x3000] \<and> completions 0x50 (klog t) = [] \<and> ev_fire (\<lambda>_ _. reply0) ev_env0 0x3000 t = None"
proof -
  obtain t where t: "ev_cleanup (\<lambda>_ _. reply0) ev_env0 ev_dev0 wirp1 (fo_wrap 0x60) ev_closing0 = Some (wirp1, t)"
    using ev_cleanup_example by blast
  have n: "notify_records ev_closing0 0x3000 = Some (armed_record ev_env0
      \<lparr>nd_ty = IrpBased (cancelable ev_env0 wirp0), nd_extension = 0x350\<rparr> (fo_wrap 0x60))"
    "completions 0x50 (klog ev_closing0) = []"
    by (simp_all add: ev_closing0_def ev_pend0_def)
  then show ?thesis
    using t n(2) cleanup_breaks_pending [OF ev_closing0_facts(1,2) n(1) _ _ t, where w = "cancelable ev_env0 wirp0"] by auto
qed

section \<open>A timer that expires while its request is being cancelled\<close>

text \<open>
  C31. The DPC does not notice that its request is being cancelled: once the I/O manager has marked
  the request and called its cancel routine, which waits for the lock of the queue, a DPC that
  holds the lock completes the request with success and removes its record (the check whether the
  cancel routine was still set looks at a copy that always says so). The cancel routine, when it
  gets the lock, finds no record and panics.
\<close>

theorem dpc_ignores_cancellation:
  assumes inv: "ev_inv E dev x s" and p: "irp_at (notify_records s) b = Some p" "irps s p = Some irp"
    and s0: "s0 = s\<lparr>irps := (irps s)(p \<mapsto> irp\<lparr>irp_Cancel := 1, irp_CancelRoutine := None, irp_CancelIrql := irql\<rparr>)\<rparr>"
    and fire: "ev_fire K E b s0 = Some t" and v: "wi_irp v = p"
  shows "completions p (klog t) = completions p (klog s) @ [(STATUS_SUCCESS, 0)] \<and> irps t p = None \<and>
    cancel_routine_queue K' E x v t = None"
proof -
  have inv0: "ev_inv E dev x s0"
    unfolding s0 by (rule ev_inv_marked [OF inv p(2)]) simp_all
  obtain r w where r: "notify_records s0 b = Some r" "nd_ty (nr_data r) = IrpBased w" "wi_irp w = p"
    using p(1) by (auto simp: irp_at_Some s0)
  note f = fire_irp [OF inv0 r(1,2) fire]
  have gone: "irps t p = None" using f(2) r(3) by simp
  obtain q' where q': "ev_queue x t = Some q'"
    and qi': "queue_inv E x q' (notify_records t) (irp_boxes t) (irps t) (heap_blocks (klog t))"
    using f(1) by (rule ev_invE)
  have "cancel_routine_queue K' E x v t = None"
  proof (cases "on_queue_lock spin_acquire K' E x t")
    case (Some u)
    note l = lock_stepD [OF on_queue_lock_step(1) [OF Some]]
    have "queue_records x u = Some (map (\<lambda>b. the (notify_records t b)) q')"
      using q' queue_inv_records [OF qi'] by (subst queue_records_eq [of _ _ q']) (simp_all add: l)
    moreover have "\<not> is_irp_record p (the (notify_records t c))" if "c \<in> set q'" for c
    proof -
      have "c \<in> dom (notify_records t)" using that qi' by (simp add: queue_inv_def)
      then obtain r' where r': "notify_records t c = Some r'" by blast
      have "irp_at (notify_records t) c \<noteq> Some p"
        using qi' gone unfolding queue_inv_def by blast
      then show ?thesis using r' is_irp_record_at [of "notify_records t" c r' p] by simp
    qed
    ultimately show ?thesis
      using Some position_None [of "\<lambda>c. is_irp_record p (the (notify_records t c))" q']
      by (simp add: cancel_routine_queue_def position_map v)
  qed (simp add: cancel_routine_queue_def)
  then show ?thesis
    using f(3) [of p] gone r(3) by (simp add: s0)
qed

lemma ev_pend0_cancel_fires:
  assumes "irps ev_pend0 0x50 = Some irp"
  shows "\<exists>t. ev_fire ev_kernel ev_env0 0x3000
    (ev_pend0\<lparr>irps := (irps ev_pend0)(0x50 \<mapsto> irp\<lparr>irp_Cancel := 1, irp_CancelRoutine := None, irp_CancelIrql := 0\<rparr>)\<rparr>) = Some t"
  by (rule fire_irp_ok [OF ev_inv_marked [OF ev_pend0_inv assms], where ?i0.0 = 2 and w = "cancelable ev_env0 wirp0"])
    (simp, simp, simp, simp add: ev_pend0_def dpc_irql_def irql_after_def nt_consts, simp add: ev_pend0_def, simp)

theorem dpc_ignores_cancellation_witness:
  "\<exists>irp t. irps ev_pend0 0x50 = Some irp \<and>
     ev_fire ev_kernel ev_env0 0x3000 (ev_pend0\<lparr>irps := (irps ev_pend0)(0x50 \<mapsto> irp\<lparr>irp_Cancel := 1, irp_CancelRoutine := None, irp_CancelIrql := 0\<rparr>)\<rparr>)
       = Some t \<and>
     completions 0x50 (klog t) = [(STATUS_SUCCESS, 0)] \<and> cancel_routine_queue ev_kernel ev_env0 0x350 wirp0 t = None"
proof -
  let ?irp = "ev_irp0\<lparr>irp_CurrentStack := (irp_CurrentStack ev_irp0)\<lparr>sl_Control := 1\<rparr>,
       irp_DriverContext3 := 0x2000, irp_CancelRoutine := Some 8\<rparr>"
  let ?s0 = "ev_pend0\<lparr>irps := (irps ev_pend0)(0x50 \<mapsto> ?irp\<lparr>irp_Cancel := 1, irp_CancelRoutine := None, irp_CancelIrql := 0\<rparr>)\<rparr>"
  have p: "irp_at (notify_records ev_pend0) 0x3000 = Some 0x50" "irps ev_pend0 0x50 = Some ?irp" "completions 0x50 (klog ev_pend0) = []"
    by (simp_all add: ev_pend0_def irp_at_def)
  obtain t where t: "ev_fire ev_kernel ev_env0 0x3000 ?s0 = Some t"
    using ev_pend0_cancel_fires [OF p(2)] by blast
  show ?thesis
    using p t dpc_ignores_cancellation [OF ev_pend0_inv p(1,2) refl t, of wirp0 ev_kernel] by auto
qed

section \<open>An event that is registered twice\<close>

text \<open>
  C33. Two notifications for the same event cannot be told apart: when the timer of the later one
  expires, the DPC removes the record of an earlier one and frees it, although that record's timer
  is still running; when that timer expires, its DPC is in memory that has been freed. The record
  whose timer did expire stays in the queue.
\<close>

theorem same_event_frees_other_record:
  assumes inv: "ev_inv E dev x s" and q: "ev_queue x s = Some q" and ij: "i < j" "j < length q"
    and ri: "notify_records s (q ! i) = Some r" "nd_ty (nr_data r) = EventBased v"
    and rj: "notify_records s (q ! j) = Some r'" "nd_ty (nr_data r') = EventBased v'" "ev_event v' = ev_event v"
    and fire: "ev_fire K E (q ! j) s = Some t"
  shows "\<exists>k\<le>i. notify_records t (q ! k) = None \<and> ev_fire K' E (q ! k) t = None \<and>
    (\<exists>q'. ev_queue x t = Some q' \<and> q ! j \<in> set q')"
proof -
  obtain qi: "queue_inv E x q (notify_records s) (irp_boxes s) (irps s) (heap_blocks (klog s))" and x: "x \<noteq> null"
    using inv q by (auto elim!: ev_invE)
  obtain n s' where first: "timer_dpc_first K E (q ! j + ex_dpc_off E) s = Some (n, s')"
    and rest: "timer_dpc_rest K E n s' = Some t"
    using fire queue_inv_record(2) [OF qi rj(1)] rj(1)
    by (auto simp: ev_fire_eq ev_timer_dpc_def bind_eq_Some_conv)
  let ?P = "\<lambda>c. notify_data_eq (nr_data (the (notify_records s c))) (nr_data r')"
  obtain k where k: "n = DpcRemove x k" "ev_queue x s' = Some q" "position ?P q = Some k"
    "notify_records s' = notify_records s"
    using dpc_first_event [OF qi q x rj(1,2) first] by metis
  have "?P (q ! i)" using ri rj by (simp add: notify_data_eq_def)
  then have ki: "k \<le> i" using position_Some [OF k(3)] by (metis not_le)
  have rem: "timer_dpc_remove K E x k s' = Some t" using rest k(1) by simp
  obtain q' where q': "swap_remove k q = Some (q ! k, q')" "ev_queue x t = Some q'"
    "notify_records t = (notify_records s)(q ! k := None)"
    using timer_dpc_removeD [OF rem k(2)] k(4) by metis
  have d: "distinct q" using qi by (simp add: queue_inv_def)
  then have "q ! j \<noteq> q ! k" using ki ij by (simp add: nth_eq_iff_index_eq)
  then have "q ! j \<in> set q'"
    using swap_remove_set(2) [OF q'(1) d] ij by simp
  moreover have "notify_records t (q ! k) = None" using q'(3) by simp
  moreover from this have "ev_fire K' E (q ! k) t = None"
    by (simp add: ev_fire_def custom_dpc_def)
  ultimately show ?thesis using ki q'(2) by blast
qed

text \<open>The same event registered twice, with the records at \<open>0x3000\<close> and \<open>0x4000\<close>.\<close>

definition ev_twice0 :: evstate where
  "ev_twice0 = ev_st0\<lparr>klog := [(Pool (RustAlloc 200), reply0\<lparr>r_ptr := 0x3000\<rparr>), (Pool (RustAlloc 200), reply0\<lparr>r_ptr := 0x4000\<rparr>)],
     debug_assertions := False,
     client := [0x350 \<mapsto> CExt \<lparr>event_queue = [0x3000, 0x4000], queue_lock = spin_new\<rparr>],
     notify_records := [0x3000 \<mapsto> armed_record ev_env0 \<lparr>nd_ty = EventBased \<lparr>ev_event = 0x90\<rparr>, nd_extension = 0x350\<rparr> (fo_wrap 0x60),
       0x4000 \<mapsto> armed_record ev_env0 \<lparr>nd_ty = EventBased \<lparr>ev_event = 0x90\<rparr>, nd_extension = 0x350\<rparr> (fo_wrap 0x60)]\<rparr>"

lemma ev_twice0_inv: "ev_inv ev_env0 ev_dev0 0x350 ev_twice0"
proof -
  have "queue_inv ev_env0 0x350 [0x3000, 0x4000] (notify_records ev_twice0) (irp_boxes ev_twice0) (irps ev_twice0)
      (heap_blocks (klog ev_twice0))"
    by (simp add: ev_twice0_def ev_st0_def queue_inv_def record_ok_def irp_at_def boxes_ok_def ev_env0_def heap_blocks_def
        insert_commute)
  then show ?thesis
    by (simp add: ev_inv_def ev_queue_def ev_ext_def)
      (simp add: ev_twice0_def ev_dev0_def ev_st0_def wrap_device_def extension_as_ptr_def device_extension_def sizeof_WduDevice_def)
qed

lemma ev_twice0_fires: "\<exists>t. ev_fire (\<lambda>_ _. reply0) ev_env0 0x4000 ev_twice0 = Some t"
  by (simp add: ev_fire_def custom_dpc_def ev_timer_dpc_def timer_dpc_first_def timer_dpc_remove_def queue_swap_remove_def
      swap_remove_def queue_records_def on_queue_lock_def ev_ext_def ev_put_ext_def spin_op_defs assert_irql_def sys_eq
      notify_data_eq_def event_set_def obj_long_def event_dereference_def dereference_def record_drop_def
      ev_twice0_def ev_env0_def Let_def)

theorem same_event_frees_other_record_witness:
  "\<exists>t. ev_fire (\<lambda>_ _. reply0) ev_env0 0x4000 ev_twice0 = Some t \<and> ev_fire (\<lambda>_ _. reply0) ev_env0 0x3000 t = None"
proof -
  obtain t where t: "ev_fire (\<lambda>_ _. reply0) ev_env0 0x4000 ev_twice0 = Some t"
    using ev_twice0_fires by blast
  have q: "ev_queue 0x350 ev_twice0 = Some [0x3000, 0x4000]"
    by (simp add: ev_twice0_def ev_queue_def ev_ext_def)
  have t': "ev_fire (\<lambda>_ _. reply0) ev_env0 ([0x3000, 0x4000] ! 1) ev_twice0 = Some t"
    using t by simp
  from same_event_frees_other_record [OF ev_twice0_inv q _ _ _ _ _ _ _ t', of 0 _ "\<lparr>ev_event = 0x90\<rparr>" _ "\<lparr>ev_event = 0x90\<rparr>"]
  show ?thesis
    using t by (simp add: ev_twice0_def)
qed

section \<open>A record that is removed while the DPC has given the lock up\<close>

lemma cancel_routine_queue_shortens:
  assumes "cancel_routine_queue K E x w s = Some (w', t)" "ev_queue x s = Some q"
  shows "\<exists>q'. ev_queue x t = Some q' \<and> length q = Suc (length q')"
proof -
  obtain s1 i b s2 s3 s4 where s1: "on_queue_lock spin_acquire K E x s = Some s1"
    and s2: "queue_swap_remove x i s1 = Some (b, s2)"
    and s3: "on_queue_lock spin_release K E x (snd (timer_cancel K (b + ex_timer_off E) s2)) = Some s3"
    and s4: "irp_complete K w (new_with_status STATUS_CANCELLED) s3 = Some s4" "t = record_drop K b s4"
    using assms(1) by (auto simp: cancel_routine_queue_def bind_eq_Some_conv Let_def)
  have "ev_queue x s1 = Some q" using assms(2) lock_stepD(7) [OF on_queue_lock_step(1) [OF s1]] by simp
  then obtain q' where q': "swap_remove i q = Some (b, q')" "ev_queue x s2 = Some q'"
    using s2 by (auto elim!: queue_swap_removeD)
  have "ev_queue x s4 = ev_queue x s3"
    using s4(1) by (auto simp: irp_complete_def complete_request_def Let_def bind_eq_Some_conv split: if_splits)
  then have "ev_queue x t = Some q'"
    using q'(2) lock_stepD(7) [OF on_queue_lock_step(2) [OF s3]] s4(2) by simp
  then show ?thesis
    using q'(1) by (auto simp: swap_remove_def split: if_splits)
qed

lemma io_cancel_shortens:
  assumes cancel: "io_cancel K E irql d p s = Some t" and q: "ev_queue x s = Some q"
    and x: "extension_as_ptr (wrap_device d) s = Some x"
    and irp: "irps s p = Some irp" "irp_boxes s (irp_DriverContext3 irp) = Some v" "wi_cancel v \<noteq> None"
    and routine: "irp_CancelRoutine irp \<noteq> None"
  shows "\<exists>q'. ev_queue x t = Some q' \<and> length q = Suc (length q')"
proof -
  let ?s0 = "s\<lparr>irps := (irps s)(p \<mapsto> irp\<lparr>irp_Cancel := 1, irp_CancelRoutine := None, irp_CancelIrql := irql\<rparr>)\<rparr>"
  have run: "cancel_routine K (\<lambda>f d w s. if f = ex_cancel_routine E then ev_cancel_routine K E d w s else None) d p ?s0 = Some t"
    using cancel routine irp(1) by (auto elim!: io_cancelE)
  obtain w w' u where u: "ev_cancel_routine K E (wrap_device d) w ?s0 = Some (w', u)"
    and t: "t = irp_box_drop K (irp_DriverContext3 irp) u"
    using run irp
    by (auto simp: cancel_routine_def irp_from_context_def bind_eq_Some_conv Let_def split: if_splits)
  have "extension_as_ptr (wrap_device d) ?s0 = Some x"
    using x by (simp add: extension_as_ptr_def device_extension_def)
  then obtain s1 where s1: "release_cancel_lock K w ?s0 = Some s1" "cancel_routine_queue K E x w s1 = Some (w', u)"
    using u by (auto simp: ev_cancel_routine_def bind_eq_Some_conv)
  have "ev_queue x s1 = Some q"
    using s1(1) q by (auto simp: release_cancel_lock_def bind_eq_Some_conv)
  from cancel_routine_queue_shortens [OF s1(2) this] show ?thesis
    by (simp add: t irp_box_drop_def Let_def)
qed

text \<open>
  C32. The DPC removes its record by an index it found before it gave the lock up: when its record
  is the last one of the queue and, between the completion of its request and the second
  acquisition of the lock, another pending request, not cancelled before, is cancelled, the index
  is out of range and \<^verbatim>\<open>swap_remove\<close> panics, at dispatch level, with the lock held. (A record that
  is not the last one keeps its index.)
\<close>

theorem stale_index_panics:
  assumes inv: "ev_inv E dev x s" and q: "ev_queue x s = Some (q @ [b])"
    and b: "irp_at (notify_records s) b = Some p"
    and c: "c \<noteq> b" "irp_at (notify_records s) c = Some p'"
    and first: "timer_dpc_first K E (b + ex_dpc_off E) s = Some (n, s1)"
    and cancel: "irps s p' = Some irpc" "irp_Cancel irpc \<noteq> 1" "io_cancel K' E irql (wd_device dev) p' s1 = Some s2"
  shows "timer_dpc_rest K'' E n s2 = None"
proof -
  obtain x: "x \<noteq> null" "extension_as_ptr dev s = Some x"
    and qi: "queue_inv E x (q @ [b]) (notify_records s) (irp_boxes s) (irps s) (heap_blocks (klog s))"
    using inv q by (auto elim!: ev_invE)
  obtain r w where r: "notify_records s b = Some r" "nd_ty (nr_data r) = IrpBased w" "wi_irp w = p"
    using b by (auto simp: irp_at_Some)
  obtain r' v where r': "notify_records s c = Some r'" "nd_ty (nr_data r') = IrpBased v" "wi_irp v = p'"
    using c(2) by (auto simp: irp_at_Some)
  obtain irp where irp: "irps s (wi_irp w) = Some irp" "irp_boxes s (irp_DriverContext3 irp) = Some w"
    using queue_inv_pending [OF qi r(1,2)] by (auto simp: pending_ok_def)
  obtain irp' where irp': "irps s (wi_irp v) = Some irp'" "irp_boxes s (irp_DriverContext3 irp') = Some v" "wi_cancel v \<noteq> None"
    "irp_CancelRoutine irp' \<noteq> None"
    using queue_inv_pending [OF qi r'(1,2)] cancel(1,2) r'(3) by (auto simp: pending_ok_def)
  have "p' \<noteq> p" using qi b c unfolding queue_inv_def by blast
  then have ne: "irp_DriverContext3 irp' \<noteq> irp_DriverContext3 irp" using irp(2) irp'(2) r(3) r'(3) by auto
  obtain i where f: "n = DpcUnlocked x i" "i < length (q @ [b])" "(q @ [b]) ! i = b" "ev_queue x s1 = Some (q @ [b])"
    "devices s1 = devices s" "irp_boxes s1 = (irp_boxes s)(irp_DriverContext3 irp := None)" "irps s1 = (irps s)(wi_irp w := None)"
    using dpc_first_irp [OF qi q x(1) r(1,2) irp(1) first] by metis
  have "distinct (q @ [b])" using qi by (simp add: queue_inv_def)
  then have i: "i = length q" using f(2,3) nth_eq_iff_index_eq [of "q @ [b]" i "length q"] by simp
  have "extension_as_ptr (wrap_device (wd_device dev)) s1 = Some x"
    using x(2) f(5) by (simp add: extension_as_ptr_def device_extension_def wrap_device_def)
  moreover have "irps s1 p' = Some irp'" "irp_boxes s1 (irp_DriverContext3 irp') = Some v"
    using irp' ne \<open>p' \<noteq> p\<close> r(3) r'(3) f(6,7) by auto
  ultimately obtain q' where q': "ev_queue x s2 = Some q'" "length q' = length q"
    using io_cancel_shortens [OF cancel(3) f(4) _ _ _ irp'(3,4)] by fastforce
  show ?thesis
  proof (cases "on_queue_lock spin_acquire_at_dpc K'' E x s2")
    case (Some s3)
    then have "ev_queue x s3 = Some q'" using q'(1) lock_stepD(7) [OF on_queue_lock_step(3) [OF Some]] by simp
    then show ?thesis
      using Some q'(2) i f(1)
      by (auto simp: timer_dpc_remove_def queue_swap_remove_def swap_remove_def ev_queue_def)
  qed (simp add: f(1))
qed

text \<open>Two pending requests, \<open>0x50\<close> and \<open>0x51\<close>, with their records at \<open>0x3000\<close> and \<open>0x5000\<close>.\<close>

abbreviation pending0 :: "ptr \<Rightarrow> IRP" where
  "pending0 k \<equiv> ev_irp0\<lparr>irp_CurrentStack := (irp_CurrentStack ev_irp0)\<lparr>sl_Control := 1\<rparr>,
     irp_DriverContext3 := k, irp_CancelRoutine := Some 8\<rparr>"

definition ev_two0 :: evstate where
  "ev_two0 = ev_st0\<lparr>klog := [(Pool (RustAlloc 24), reply0\<lparr>r_ptr := 0x2000\<rparr>), (Pool (RustAlloc 200), reply0\<lparr>r_ptr := 0x3000\<rparr>),
       (Pool (RustAlloc 24), reply0\<lparr>r_ptr := 0x4000\<rparr>), (Pool (RustAlloc 200), reply0\<lparr>r_ptr := 0x5000\<rparr>)],
     debug_assertions := False, irps := [0x50 \<mapsto> pending0 0x2000, 0x51 \<mapsto> pending0 0x4000],
     irp_boxes := [0x2000 \<mapsto> cancelable ev_env0 wirp0, 0x4000 \<mapsto> cancelable ev_env0 (wirp0\<lparr>wi_irp := 0x51\<rparr>)],
     client := [0x350 \<mapsto> CExt \<lparr>event_queue = [0x3000, 0x5000], queue_lock = spin_new\<rparr>],
     notify_records := [0x3000 \<mapsto> armed_record ev_env0 \<lparr>nd_ty = IrpBased (cancelable ev_env0 wirp0), nd_extension = 0x350\<rparr> (fo_wrap 0x60),
       0x5000 \<mapsto> armed_record ev_env0 \<lparr>nd_ty = IrpBased (cancelable ev_env0 (wirp0\<lparr>wi_irp := 0x51\<rparr>)), nd_extension = 0x350\<rparr> (fo_wrap 0x60)]\<rparr>"

lemma ev_two0_inv: "ev_inv ev_env0 ev_dev0 0x350 ev_two0"
proof -
  have "queue_inv ev_env0 0x350 [0x3000, 0x5000] (notify_records ev_two0) (irp_boxes ev_two0) (irps ev_two0)
      (heap_blocks (klog ev_two0))"
    by (auto simp: ev_two0_def queue_inv_def record_ok_def pending_ok_def irp_at_def boxes_ok_def ev_irp0_def irp0_def ev_env0_def
        heap_blocks_def split: if_splits) (rule exI [of _ "0x5000"], simp)
  then show ?thesis
    by (simp add: ev_inv_def ev_queue_def ev_ext_def)
      (simp add: ev_two0_def ev_dev0_def ev_st0_def wrap_device_def extension_as_ptr_def device_extension_def sizeof_WduDevice_def)
qed

lemma ev_two0_race:
  "\<exists>n s1 s2. timer_dpc_first (\<lambda>_ _. reply0) ev_env0 (0x5000 + ex_dpc_off ev_env0) ev_two0 = Some (n, s1) \<and>
     io_cancel (\<lambda>_ _. reply0) ev_env0 0 (wd_device ev_dev0) 0x50 s1 = Some s2"
  by (simp add: timer_dpc_first_def queue_records_def on_queue_lock_def ev_ext_def ev_put_ext_def spin_op_defs assert_irql_def
      sys_eq notify_data_eq_def set_cancel_rtn_def irp_set_cancel_routine_def irp_from_context_def irp_box_drop_def
      irp_clear_context_def irp_complete_def complete_request_def success_no_info_def
      io_cancel_def cancel_routine_def ev_cancel_routine_def cancel_routine_queue_def release_cancel_lock_def irp_wrap_def current_stack_def
      queue_swap_remove_def swap_remove_def timer_cancel_def obj_bool_def is_irp_record_def major_from_def nt_consts word_sle_eq
      ev_two0_def ev_env0_def ev_dev0_def ev_st0_def wirp0_def wrap_device_def extension_as_ptr_def device_extension_def
      sizeof_WduDevice_def ev_irp0_def irp0_def stack0_def Let_def)

theorem stale_index_panics_witness:
  "\<exists>n s1 s2. timer_dpc_first (\<lambda>_ _. reply0) ev_env0 (0x5000 + ex_dpc_off ev_env0) ev_two0 = Some (n, s1) \<and>
     io_cancel (\<lambda>_ _. reply0) ev_env0 0 (wd_device ev_dev0) 0x50 s1 = Some s2 \<and> timer_dpc_rest ev_kernel ev_env0 n s2 = None"
proof -
  have q: "ev_queue 0x350 ev_two0 = Some ([0x3000] @ [0x5000])" "irp_at (notify_records ev_two0) 0x5000 = Some 0x51"
    "irp_at (notify_records ev_two0) 0x3000 = Some 0x50" "(0x3000 :: ptr) \<noteq> 0x5000"
    "irps ev_two0 0x50 = Some (pending0 0x2000)" "irp_Cancel (pending0 0x2000) \<noteq> 1"
    by (simp_all add: ev_two0_def ev_queue_def ev_ext_def irp_at_def)
  show ?thesis
    using ev_two0_race stale_index_panics [OF ev_two0_inv q(1,2,4,3) _ q(5,6)] by blast
qed

section \<open>A symbolic link that cannot be created\<close>

text \<open>
  When the symbolic link cannot be created, \<^verbatim>\<open>init\<close> deletes the device and then goes on to write
  the extension of the device it has just deleted.
\<close>

lemma init_uses_deleted_device:
  assumes "ev_driver E drv s = Some (d, s1)" "driver_build K (ex_driver_id E) (ex_sizeof E) d s1 = (Ok wdu_driver, s2)"
    and "device_build K (ex_sizeof_extension E) (CExt ext_zeroed)
       (device_characteristics DcSecureOpen (device_device_type DtUnknown device_default)) wdu_driver
       (Some (str_from_slice (ex_device_name E))) s2 = Some (Ok dev, s3)" "wd_device dev \<noteq> null"
    and "device_symbolic_name K (str_from_slice (ex_device_name E)) (str_from_slice (ex_win32_name E)) s3 = (Err e, s4)"
  shows "ev_init K E drv s = None"
  using assms
  by (simp add: ev_init_def extension_as_mut_ref_def extension_as_ptr_def device_extension_def device_delete_def)

end
