(* ===== verification/Ex_EventLoad.thy ===== *)
theory Ex_EventLoad
  imports Ex_EventThms
begin

text \<open>
  Loading the event example: what \<^verbatim>\<open>DriverEntry\<close> leaves behind, and that the requests the kernel
  then dispatches reach the driver's handlers; and opening and closing a file. With the theory
  \<open>Ex_EventRun\<close> this covers the driver from its entry point to the answer of a request.
\<close>

section \<open>Frames\<close>

text \<open>The memory that requests use, which loading does not touch.\<close>

definition same_requests :: "'a evstate_scheme \<Rightarrow> 'a evstate_scheme \<Rightarrow> bool" where
  "same_requests s t \<longleftrightarrow> notify_records t = notify_records s \<and> irp_boxes t = irp_boxes s \<and> irps t = irps s"

lemma same_requests_trans: "same_requests s t \<Longrightarrow> same_requests t u \<Longrightarrow> same_requests s u"
  by (simp add: same_requests_def)

lemma ev_driver_built:
  assumes "ev_driver E drv s = Some (d, t)"
  shows "same_requests s t" "wr_driver d = drv" "\<not> wr_init d"
    "wr_fileobj d = \<lparr>fd_create = Some (ex_create E), fd_close = Some (ex_close E), fd_cleanup = Some (ex_cleanup E)\<rparr>"
    "wr_io d = \<lparr>id_read = None, id_write = None, id_ioctl = Some (ex_device_control E)\<rparr>"
  using assms
  by (auto simp: ev_driver_def driver_unload_builder_def driver_file_object_def driver_io_def install_def
      driver_new_def create_irp_def close_irp_def cleanup_irp_def ioctl_irp_def fileobj_default_def io_default_def
      same_requests_def Let_def bind_eq_Some_conv)

lemma driver_build_requests:
  fixes s :: "'a evstate_scheme"
  assumes "driver_build K i n d s = (r, t)"
  shows "same_requests s t"
  using assms by (auto simp: driver_build_def driver_alloc_ext_def same_requests_def sys_eq Let_def split: if_splits)

lemma device_build_made:
  fixes s :: "'a evstate_scheme"
  assumes "makes_objects K" "device_build K n z d drv name s = Some (Ok dev, t)"
  shows "same_requests s t" "wdu_drivers t = wdu_drivers s"
    "driver_ext p i (klog t) = driver_ext p i (klog s)"
    "\<exists>v. devices t (wd_device dev) = Some v \<and> do_DriverObject v = wr_driver drv \<and>
       do_DeviceExtension v + of_nat sizeof_WduDevice \<noteq> null \<and> wdu_devices t (do_DeviceExtension v) = Some dev"
  using assms(2)
  by (auto simp: makes_device [OF assms(1)] device_build_def sys_eq Let_def bind_eq_Some_conv same_requests_def
      device_extension_def split: if_splits)

lemma device_symbolic_name_frame:
  fixes s :: "'a evstate_scheme"
  assumes "device_symbolic_name K n l s = (r, t)"
  shows "same_requests s t" "wdu_drivers t = wdu_drivers s" "wdu_devices t = wdu_devices s" "devices t = devices s"
    "driver_ext p i (klog t) = driver_ext p i (klog s)"
  using assms by (auto simp: device_symbolic_name_def same_requests_def sys_eq Let_def split: if_splits)

section \<open>Loading\<close>

text \<open>The driver object \<open>drv\<close> with its handlers, and the device, as the crate's dispatch finds them.\<close>

definition ev_installed :: "ev_env \<Rightarrow> ptr \<Rightarrow> WduDevice \<Rightarrow> 'a evstate_scheme \<Rightarrow> bool" where
  "ev_installed E drv dev s \<longleftrightarrow>
     get_wdu_device (wd_device dev) s = Some dev \<and> device_get_driver dev s = Some drv \<and>
     driver_ext drv (ex_driver_id E) (klog s) \<noteq> null \<and>
     (\<exists>d. wdu_drivers s (driver_ext drv (ex_driver_id E) (klog s)) = Some d \<and>
       wr_fileobj d = \<lparr>fd_create = Some (ex_create E), fd_close = Some (ex_close E), fd_cleanup = Some (ex_cleanup E)\<rparr> \<and>
       wr_io d = \<lparr>id_read = None, id_write = None, id_ioctl = Some (ex_device_control E)\<rparr>)"

lemma ev_initE:
  assumes "ev_init K E drv s = Some (Ok u, t)"
  obtains d s1 wdu s2 dev s3 r s4 s6 where "ev_driver E drv s = Some (d, s1)"
    and "driver_build K (ex_driver_id E) (ex_sizeof E) d s1 = (Ok wdu, s2)"
    and "device_build K (ex_sizeof_extension E) (CExt ext_zeroed)
       (device_characteristics DcSecureOpen (device_device_type DtUnknown device_default)) wdu
       (Some (str_from_slice (ex_device_name E))) s2 = Some (Ok dev, s3)"
    and "device_symbolic_name K (str_from_slice (ex_device_name E)) (str_from_slice (ex_win32_name E)) s3 = (r, s4)"
    and "extension_as_mut_ref dev (\<lambda>_. CExt \<lparr>event_queue = [], queue_lock = spin_new\<rparr>)
       (case r of Err e \<Rightarrow> device_delete K dev s4 | Ok u \<Rightarrow> s4) = Some s6"
    and "device_set_flags dev DO_BUFFERED_IO s6 = Some t"
proof -
  let ?dev = "device_characteristics DcSecureOpen (device_device_type DtUnknown device_default)"
    and ?name = "str_from_slice (ex_device_name E)" and ?link = "str_from_slice (ex_win32_name E)"
  note init = assms [unfolded ev_init_def Let_def]
  obtain d s1 where s1: "ev_driver E drv s = Some (d, s1)"
    using init by (auto simp: bind_eq_Some_conv)
  obtain rd s2 where s2: "driver_build K (ex_driver_id E) (ex_sizeof E) d s1 = (rd, s2)" by fastforce
  obtain wdu where rd: "rd = Ok wdu"
    using init s1 s2 by (cases rd) simp_all
  obtain rv s3 where s3: "device_build K (ex_sizeof_extension E) (CExt ext_zeroed) ?dev wdu (Some ?name) s2 = Some (rv, s3)"
    using init s1 s2 rd
    by (cases "device_build K (ex_sizeof_extension E) (CExt ext_zeroed) ?dev wdu (Some ?name) s2") auto
  obtain dev where rv: "rv = Ok dev"
    using init s1 s2 rd s3 by (cases rv) simp_all
  obtain r s4 where s4: "device_symbolic_name K ?name ?link s3 = (r, s4)" by fastforce
  obtain s6 where "extension_as_mut_ref dev (\<lambda>_. CExt \<lparr>event_queue = [], queue_lock = spin_new\<rparr>)
       (case r of Err e \<Rightarrow> device_delete K dev s4 | Ok u \<Rightarrow> s4) = Some s6" "device_set_flags dev DO_BUFFERED_IO s6 = Some t"
    using init s1 s2 rd s3 rv s4 by (cases r) (auto simp: bind_eq_Some_conv)
  then show thesis using that s1 s2 rd s3 rv s4 by blast
qed

lemma ev_init_installs:
  assumes "makes_objects K" "ev_init K E drv s = Some (Ok u, t)"
    and empty: "notify_records s = Map.empty" "irp_boxes s = Map.empty" "irps s = Map.empty"
  shows "\<exists>dev x. ev_loaded dev x t \<and> ev_installed E drv dev t"
proof -
  obtain d s1 wdu s2 dev s3 r s4 s6 where s1: "ev_driver E drv s = Some (d, s1)"
    and s2: "driver_build K (ex_driver_id E) (ex_sizeof E) d s1 = (Ok wdu, s2)"
    and s3: "device_build K (ex_sizeof_extension E) (CExt ext_zeroed)
       (device_characteristics DcSecureOpen (device_device_type DtUnknown device_default)) wdu
       (Some (str_from_slice (ex_device_name E))) s2 = Some (Ok dev, s3)"
    and s4: "device_symbolic_name K (str_from_slice (ex_device_name E)) (str_from_slice (ex_win32_name E)) s3 = (r, s4)"
    and s6: "extension_as_mut_ref dev (\<lambda>_. CExt \<lparr>event_queue = [], queue_lock = spin_new\<rparr>)
       (case r of Err e \<Rightarrow> device_delete K dev s4 | Ok u \<Rightarrow> s4) = Some s6"
    and t: "device_set_flags dev DO_BUFFERED_IO s6 = Some t"
    using assms(2) by (rule ev_initE)
  note d = ev_driver_built [OF s1] and wdu = driver_build_ext [OF s2] and dev = device_build_made [OF assms(1) s3]
    and link = device_symbolic_name_frame [OF s4]
  define s5 where "s5 = (case r of Err e \<Rightarrow> device_delete K dev s4 | Ok u \<Rightarrow> s4)"
  have s5: "same_requests s4 s5" "wdu_drivers s5 = wdu_drivers s4" "wdu_devices s5 = wdu_devices s4"
    "driver_ext p i (klog s5) = driver_ext p i (klog s4)" for p i
    by (simp_all add: s5_def device_delete_def same_requests_def split: sum.splits)
  obtain v where v: "devices s5 (wd_device dev) = Some v"
    using s6 by (auto simp: s5_def extension_as_mut_ref_def extension_as_ptr_def device_extension_def bind_eq_Some_conv)
  moreover have "devices s5 (wd_device dev) \<in> {devices s4 (wd_device dev), None}"
    by (simp add: s5_def device_delete_def split: sum.splits)
  ultimately have v3: "do_DriverObject v = wr_driver wdu" "do_DeviceExtension v + of_nat sizeof_WduDevice \<noteq> null"
    "wdu_devices s5 (do_DeviceExtension v) = Some dev"
    using dev(4) link(3,4) s5(3) by auto
  have s6': "s6 = s5\<lparr>client := (client s5)(do_DeviceExtension v + of_nat sizeof_WduDevice \<mapsto>
      CExt \<lparr>event_queue = [], queue_lock = spin_new\<rparr>)\<rparr>"
    using s6 v by (auto simp: s5_def [symmetric] extension_as_mut_ref_def extension_as_ptr_def device_extension_def bind_eq_Some_conv)
  have t': "t = s6\<lparr>devices := (devices s6)(wd_device dev \<mapsto> v\<lparr>do_Flags := do_Flags v OR DO_BUFFERED_IO\<rparr>)\<rparr>"
    using t v by (simp add: s6' device_set_flags_def)
  have "same_requests s t"
    using d(1) driver_build_requests [OF s2] dev(1) link(1) s5(1) by (simp add: same_requests_def s6' t')
  then have "ev_loaded dev (do_DeviceExtension v + of_nat sizeof_WduDevice) t"
    using empty v3(2)
    by (simp add: same_requests_def t' s6' ev_loaded_def ev_queue_def ev_ext_def extension_as_ptr_def device_extension_def)
  moreover have "ev_installed E drv dev t"
    using wdu d(2,4,5) v3(1,3) driver_build_ext_not_null [OF assms(1) s2] dev(2,3) link(2,5) s5(2,4)
    by (simp add: t' s6' ev_installed_def get_wdu_device_def device_get_driver_def)
  ultimately show ?thesis by blast
qed

lemma ev_installed_dispatch:
  assumes "finds_driver_ext K" "ev_installed E drv dev s" "irp_wrap p s = Some w"
  shows "dispatch_handler K (ex_driver_id E) H (wd_device dev) p s =
    deliver H \<lparr>fd_create = Some (ex_create E), fd_close = Some (ex_close E), fd_cleanup = Some (ex_cleanup E)\<rparr>
      \<lparr>id_read = None, id_write = None, id_ioctl = Some (ex_device_control E)\<rparr> dev w
      (snd (get_wdu_driver K (ex_driver_id E) drv s))"
  using assms(2) dispatch_handler_eq [OF assms(1,3)]
  by (auto simp: ev_installed_def Let_def dispatch_deliver)

lemma ev_DriverEntry_success:
  assumes "ev_DriverEntry K E g drv s = Some (STATUS_SUCCESS, g', t)"
  shows "ev_init K E drv (snd (simple_init K (ex_pool2_name E) g s)) = Some (Ok (), t)"
    "same_requests s (snd (simple_init K (ex_pool2_name E) g s))"
proof -
  let ?s = "snd (simple_init K (ex_pool2_name E) g s)"
  obtain r u where r: "ev_init K E drv ?s = Some (r, u)"
    using assms by (auto simp: ev_DriverEntry_def Let_def case_prod_beta bind_eq_Some_conv)
  with assms show "ev_init K E drv ?s = Some (Ok (), t)"
    by (cases r) (simp_all add: ev_DriverEntry_def Let_def case_prod_beta nt_consts)
  show "same_requests s ?s"
    by (simp add: simple_init_def get_system_routine_addr_def same_requests_def Let_def case_prod_beta)
qed

lemma deliver_device_control:
  assumes "wi_mj w = MjDeviceControl" "device_control_new w u = Some req"
  shows "deliver (ev_handlers K E) fd \<lparr>id_read = None, id_write = None, id_ioctl = Some (ex_device_control E)\<rparr> dev w u =
    map_option (\<lambda>(st, w', v). (st, v)) (ev_device_control K E dev w req u)"
  using assms by (cases "ev_device_control K E dev w req u") (auto simp: deliver_def ev_handlers_def Let_def)

section \<open>Requests leave the installation alone\<close>

definition same_setup :: "'a evstate_scheme \<Rightarrow> 'a evstate_scheme \<Rightarrow> bool" where
  "same_setup s t \<longleftrightarrow> devices t = devices s \<and> wdu_devices t = wdu_devices s \<and> wdu_drivers t = wdu_drivers s \<and>
     (\<forall>d i. driver_ext d i (klog t) = driver_ext d i (klog s))"

named_theorems setup_kept \<open>operations that leave the installation alone\<close>

lemma same_setup_refl [simp]: "same_setup s s"
  by (simp add: same_setup_def)

lemma same_setup_trans [trans]: "same_setup s t \<Longrightarrow> same_setup t u \<Longrightarrow> same_setup s u"
  by (simp add: same_setup_def)

lemma same_setup_installed: "same_setup s t \<Longrightarrow> ev_installed E drv dev s \<Longrightarrow> ev_installed E drv dev t"
  by (simp add: same_setup_def ev_installed_def get_wdu_device_def device_get_driver_def)

lemma lock_log_driver_ext [simp]: "lock_log g \<Longrightarrow> fold (driver_ext_step d i) g p = p"
proof (induction g arbitrary: p)
  case (Cons ev g)
  then show ?case by (cases ev rule: is_lock_event.cases) simp_all
qed simp

lemma lock_step_setup: "lock_step x s t \<Longrightarrow> same_setup s t"
  by (auto simp: lock_step_def same_setup_def)

lemmas on_queue_lock_setup [setup_kept] = on_queue_lock_step [THEN lock_step_setup]

lemma irp_complete_setup [setup_kept]: 
  fixes s :: "'a evstate_scheme"
  shows "irp_complete K w st s = Some t \<Longrightarrow> same_setup s t"
  by (auto simp: irp_complete_def complete_request_def same_setup_def Let_def bind_eq_Some_conv split: if_splits)

lemma set_cancel_rtn_setup [setup_kept]:
  fixes s :: "'a evstate_scheme"
  shows "set_cancel_rtn K f w c s = Some (prev, w', t) \<Longrightarrow> same_setup s t"
  by (auto simp: set_cancel_rtn_def irp_set_context_def irp_set_cancel_routine_def irp_from_context_def irp_box_drop_def
      irp_clear_context_def rust_alloc_def panic_def sys_eq same_setup_def Let_def bind_eq_Some_conv split: if_splits)

lemma mark_pending_setup [setup_kept]:
  fixes s :: "'a evstate_scheme"
  shows "mark_pending w s = Some t \<Longrightarrow> same_setup s t"
  by (auto simp: mark_pending_def current_stack_as_mut_def same_setup_def bind_eq_Some_conv)

lemma record_drop_setup: "same_setup s (record_drop K b s)"
  by (simp add: record_drop_def same_setup_def Let_def)

lemma queue_swap_remove_setup [setup_kept]: "queue_swap_remove x i s = Some (b, t) \<Longrightarrow> same_setup s t"
  by (auto simp: queue_swap_remove_def ev_put_ext_def same_setup_def bind_eq_Some_conv)

lemma new_notify_record_setup [setup_kept]: "new_notify_record K E data fo s = Some (b, t) \<Longrightarrow> same_setup s t"
  by (auto simp: new_notify_record_def rust_alloc_def sys_eq panic_def timer_init_def dpc_init_def Let_def
      bind_eq_Some_conv same_setup_def split: if_splits)

lemma timer_calls_setup:
  fixes s :: "'a evstate_scheme"
  shows "same_setup s (snd (timer_set K b due d s))" "same_setup s (snd (timer_cancel K b s))"
  by (simp_all add: timer_set_def timer_cancel_def obj_bool_def sys_eq same_setup_def)

lemma ev_put_ext_setup: "same_setup s (ev_put_ext x e s)"
  by (simp add: ev_put_ext_def same_setup_def)

lemma rundown_setup [setup_kept]:
  "rundown_lock_acquire K E c tag s = Some (st, t) \<Longrightarrow> same_setup s t"
  "rundown_lock_release remove_release K E c s = Some t \<Longrightarrow> same_setup s t"
  by (auto simp: rundown_lock_acquire_def rundown_lock_release_def remove_acquire_def remove_release_def ev_put_ctx_def
      sys_eq same_setup_def bind_eq_Some_conv Let_def)

lemma event_ref_setup [setup_kept]:
  fixes s :: "'a evstate_scheme"
  shows "event_ref_by_handle K ty h m md s = (r, t) \<Longrightarrow> same_setup s t"
  by (auto simp: event_ref_by_handle_def ref_by_handle_def sys_eq same_setup_def Let_def split: if_splits)

lemma event_calls_setup:
  fixes s :: "'a evstate_scheme"
  shows "same_setup s (event_dereference K v s)" "same_setup s (snd (event_set K v i b s))"
  by (simp_all add: event_dereference_def dereference_def event_set_def obj_long_def sys_eq same_setup_def Let_def)

lemma irp_box_drop_setup:
  fixes s :: "'a evstate_scheme"
  shows "same_setup s (irp_box_drop K b s)"
  by (simp add: irp_box_drop_def same_setup_def Let_def)

lemma release_cancel_lock_setup [setup_kept]:
  fixes s :: "'a evstate_scheme"
  shows "release_cancel_lock K w s = Some t \<Longrightarrow> same_setup s t"
  by (auto simp: release_cancel_lock_def same_setup_def bind_eq_Some_conv)

lemmas setup_simps = record_drop_setup [unfolded same_setup_def] timer_calls_setup [unfolded same_setup_def]
  ev_put_ext_setup [unfolded same_setup_def] event_calls_setup [unfolded same_setup_def]
  irp_box_drop_setup [unfolded same_setup_def]

lemma start_notify_setup [setup_kept]: "start_notify K E x b due s = Some t \<Longrightarrow> same_setup s t"
  by (auto simp: start_notify_def Let_def bind_eq_Some_conv same_setup_def setup_simps dest!: setup_kept)

lemma irp_notification_setup [setup_kept]:
  "irp_notification_record K E x w s = Some (b, w', t) \<Longrightarrow> same_setup s t"
  "irp_notification_locked K E x b due w s = Some (r, w', t) \<Longrightarrow> same_setup s t"
  by (auto simp: irp_notification_record_def irp_notification_locked_def Let_def bind_eq_Some_conv same_setup_def
      setup_simps dest!: setup_kept split: if_splits)

lemma irp_notification_setup' [setup_kept]:
  "irp_notification K E dev w re s = Some (r, w', t) \<Longrightarrow> same_setup s t"
  by (auto simp: irp_notification_def Let_def bind_eq_Some_conv same_setup_def dest!: setup_kept)

lemma event_notification_setup [setup_kept]:
  assumes "event_notification K E dev w re s = Some (r, w', t)"
  shows "same_setup s t"
proof -
  obtain mode where mode: "irp_processor_mode w s = Some mode"
    using assms by (auto simp: event_notification_def bind_eq_Some_conv)
  obtain e s1 where e: "event_ref_by_handle K (ex_event_type E) (re_event re) EVENT_ACCESS_MASK mode s = (e, s1)"
    by fastforce
  have "same_setup s1 t"
    using assms mode e
    by (cases e) (auto simp: event_notification_def Let_def bind_eq_Some_conv same_setup_def dest!: setup_kept)
  with event_ref_setup [OF e] show ?thesis by (rule same_setup_trans)
qed

lemma handle_register_setup [setup_kept]:
  "handle_register_event K E dev w req s = Some (r, w', t) \<Longrightarrow> same_setup s t"
  by (auto simp: handle_register_event_def Let_def dest: setup_kept split: if_splits)

lemma device_control_setup:
  "ev_device_control K E dev w req s = Some (st, w', t) \<Longrightarrow> same_setup s t"
  by (auto simp: ev_device_control_def Let_def bind_eq_Some_conv same_setup_def dest!: setup_kept split: if_splits)

lemma timer_dpc_first_setup [setup_kept]:
  assumes "timer_dpc_first K E d s = Some (n, t)"
  shows "same_setup s t"
proof -
  obtain r data where r: "notify_records s (d - ex_dpc_off E) = Some r" "dpc_context (nr_dpc r) = Some data"
    using assms by (auto simp: timer_dpc_first_def Let_def bind_eq_Some_conv)
  show ?thesis
    using assms r
    by (cases "nd_ty data")
       (auto simp: timer_dpc_first_def Let_def bind_eq_Some_conv same_setup_def setup_simps
         dest!: setup_kept split: if_splits option.splits)
qed

lemma timer_dpc_rest_setup [setup_kept]: "timer_dpc_rest K E n s = Some t \<Longrightarrow> same_setup s t"
  by (cases n) (auto simp: timer_dpc_remove_def bind_eq_Some_conv same_setup_def setup_simps dest!: setup_kept)

lemma ev_timer_dpc_setup: "ev_timer_dpc K E d s = Some t \<Longrightarrow> same_setup s t"
  by (auto simp: ev_timer_dpc_def bind_eq_Some_conv intro: same_setup_trans timer_dpc_first_setup timer_dpc_rest_setup)

lemma fire_setup: "ev_fire K E b s = Some t \<Longrightarrow> same_setup s t"
  unfolding ev_fire_def custom_dpc_def bind_eq_Some_conv
  by (auto intro: ev_timer_dpc_setup split: option.splits if_splits)

lemma cancel_routine_setup [setup_kept]: "ev_cancel_routine K E d w s = Some (w', t) \<Longrightarrow> same_setup s t"
  by (auto simp: ev_cancel_routine_def cancel_routine_queue_def Let_def bind_eq_Some_conv same_setup_def setup_simps
      dest!: setup_kept)

lemma cancel_entry_setup:
  fixes s :: "'a evstate_scheme"
  assumes "cancel_routine K run d p s = Some t" "\<And>f dv w w' u. run f dv w s = Some (w', u) \<Longrightarrow> same_setup s u"
  shows "same_setup s t"
proof -
  obtain y where y: "irp_wrap p s = Some y"
    using assms(1) by (auto simp: cancel_routine_def bind_eq_Some_conv)
  obtain b w where w: "irp_from_context p s = Some (b, w)"
    using assms(1) y by (cases "irp_from_context p s") (auto simp: cancel_routine_def)
  show ?thesis
    using assms y w
    by (cases "wi_cancel w") (auto simp: cancel_routine_def bind_eq_Some_conv setup_simps same_setup_def)
qed

lemma cancel_setup:
  assumes "io_cancel K E irql d p s = Some t"
  shows "same_setup s t"
  using assms
proof (cases rule: io_cancelE)
  case (unset irp)
  then show ?thesis by (simp add: same_setup_def)
next
  case (runs irp)
  from runs(3) have "same_setup (s\<lparr>irps := (irps s)(p \<mapsto> irp\<lparr>irp_Cancel := 1, irp_CancelRoutine := None, irp_CancelIrql := irql\<rparr>)\<rparr>) t"
    by (rule cancel_entry_setup) (auto intro: cancel_routine_setup split: if_splits)
  then show ?thesis by (simp add: same_setup_def)
qed

lemma ev_step_setup:
  assumes "ev_step K E dev s l t"
  shows "same_setup s t"
  using assms
proof cases
  case (request p s0 irp m w req st w')
  then show ?thesis
    using device_control_setup [OF request(7)] by (simp add: same_setup_def)
qed (simp_all add: fire_setup cancel_setup)

lemma ev_run_setup: "ev_run K E dev s ls t \<Longrightarrow> same_setup s t"
  by (induction rule: ev_run.induct) (auto dest: ev_step_setup intro: same_setup_trans)

section \<open>From the entry point to the answer\<close>

text \<open>
  C6. Loading the event example puts its requests on the way to it, for good. When \<^verbatim>\<open>DriverEntry\<close>
  reports success, the queue is empty and its lock initialised; and after any run of requests,
  timer expiries and cancellations, the next request that the kernel dispatches to the device is
  delivered to the driver's own routine for its major function (\<^verbatim>\<open>create\<close>, \<^verbatim>\<open>close\<close>, \<^verbatim>\<open>cleanup\<close> or
  \<^verbatim>\<open>device_control\<close>), on the wrapper of that device; a device control request is answered as
  \<^verbatim>\<open>device_control\<close> answers it.
\<close>

theorem driver_entry_serves:
  assumes law: "makes_objects K" "finds_driver_ext K"
    and load: "ev_DriverEntry K E g drv s = Some (STATUS_SUCCESS, g', t)"
    and empty: "notify_records s = Map.empty" "irp_boxes s = Map.empty" "irps s = Map.empty"
  shows "\<exists>dev x. ev_loaded dev x t \<and> ev_installed E drv dev t \<and>
    (\<forall>ls u p irp m w. ev_run K E dev t ls u \<longrightarrow> irp_wrap p (u\<lparr>irps := (irps u)(p \<mapsto> irp), ev_bytes := m\<rparr>) = Some w \<longrightarrow>
      (let u0 = u\<lparr>irps := (irps u)(p \<mapsto> irp), ev_bytes := m\<rparr>;
           u1 = snd (get_wdu_driver K (ex_driver_id E) drv u0) in
       dispatch_handler K (ex_driver_id E) (ev_handlers K E) (wd_device dev) p u0 =
         deliver (ev_handlers K E)
           \<lparr>fd_create = Some (ex_create E), fd_close = Some (ex_close E), fd_cleanup = Some (ex_cleanup E)\<rparr>
           \<lparr>id_read = None, id_write = None, id_ioctl = Some (ex_device_control E)\<rparr> dev w u1 \<and>
       (\<forall>req. wi_mj w = MjDeviceControl \<longrightarrow> device_control_new w u1 = Some req \<longrightarrow>
         dispatch_handler K (ex_driver_id E) (ev_handlers K E) (wd_device dev) p u0 =
           map_option (\<lambda>(st, w', v). (st, v)) (ev_device_control K E dev w req u1))))"
proof -
  note init = ev_DriverEntry_success [OF load]
  obtain dev x where dev: "ev_loaded dev x t" "ev_installed E drv dev t"
    using ev_init_installs [OF law(1) init(1)] init(2) empty by (auto simp: same_requests_def)
  have "ev_installed E drv dev (u\<lparr>irps := (irps u)(p \<mapsto> irp), ev_bytes := m\<rparr>)" if "ev_run K E dev t ls u" for ls u p irp m
    using same_setup_installed [OF ev_run_setup [OF that] dev(2)]
    by (simp add: ev_installed_def get_wdu_device_def device_get_driver_def)
  with dev show ?thesis
    by (intro exI [of _ dev] exI [of _ x])
       (simp add: Let_def ev_installed_dispatch [OF law(2), of E drv dev] deliver_device_control)
qed

definition ev_boot_kernel :: kernel where
  "ev_boot_kernel h c =
     (case c of
        Io (IoGetDriverObjectExtension d i) \<Rightarrow> reply0\<lparr>r_ptr := driver_ext d i h\<rparr>
      | Io (IoCreateDevice d n name ty ch ex) \<Rightarrow> reply0\<lparr>r_out := 0x300,
          r_device := \<lparr>do_DriverObject = d, do_DeviceExtension = 0x340, do_Flags = 0\<rparr>\<rparr>
      | _ \<Rightarrow> reply0\<lparr>r_out := 0x700\<rparr>)"

lemma ev_boot_kernel_laws: "makes_objects ev_boot_kernel" "finds_driver_ext ev_boot_kernel"
  by (auto simp: makes_objects_def finds_driver_ext_def ev_boot_kernel_def sizeof_WduDevice_def)

definition ev_boot0 :: evstate where
  "ev_boot0 = ev_st0\<lparr>devices := Map.empty, client := Map.empty, drivers := [0x20 \<mapsto> drvobj0]\<rparr>"

lemma ev_boot0_loads:
  "\<exists>g' t. ev_DriverEntry ev_boot_kernel ev_env0 simple_const_new 0x20 ev_boot0 = Some (STATUS_SUCCESS, g', t)"
  by (simp add: ev_DriverEntry_def ev_init_def ev_driver_def driver_unload_builder_def driver_file_object_def
      driver_io_def install_def driver_build_def driver_alloc_ext_def device_build_def device_symbolic_name_def
      extension_as_mut_ref_def extension_as_ptr_def device_extension_def device_set_flags_def simple_init_def
      get_system_routine_addr_def driver_new_def ev_boot0_def ev_st0_def drvobj0_def ev_boot_kernel_def
      ev_env0_def device_default_def sys_eq Let_def nt_consts)

lemma ev_boot0_wrap:
  "irp_wrap 0x50 (t\<lparr>irps := (irps t)(0x50 \<mapsto> ev_irp0), ev_bytes := m\<rparr>) = Some wirp0"
  by (simp add: irp_wrap_def current_stack_def ev_irp0_def irp0_def stack0_def major_from_def nt_consts wirp0_def word_sle_eq)

theorem driver_entry_serves_witness:
  "\<exists>g' t dev x. ev_DriverEntry ev_boot_kernel ev_env0 simple_const_new 0x20 ev_boot0 = Some (STATUS_SUCCESS, g', t) \<and>
     ev_loaded dev x t \<and> ev_installed ev_env0 0x20 dev t \<and>
     (let u0 = t\<lparr>irps := (irps t)(0x50 \<mapsto> ev_irp0), ev_bytes := \<lambda>a. 0\<rparr> in
       dispatch_handler ev_boot_kernel 13 (ev_handlers ev_boot_kernel ev_env0) (wd_device dev) 0x50 u0 =
         deliver (ev_handlers ev_boot_kernel ev_env0) \<lparr>fd_create = Some 1, fd_close = Some 2, fd_cleanup = Some 3\<rparr>
           \<lparr>id_read = None, id_write = None, id_ioctl = Some 4\<rparr> dev wirp0 (snd (get_wdu_driver ev_boot_kernel 13 0x20 u0)))"
proof -
  obtain g' t where t: "ev_DriverEntry ev_boot_kernel ev_env0 simple_const_new 0x20 ev_boot0 = Some (STATUS_SUCCESS, g', t)"
    using ev_boot0_loads by blast
  have empty: "notify_records ev_boot0 = Map.empty" "irp_boxes ev_boot0 = Map.empty" "irps ev_boot0 = Map.empty"
    by (simp_all add: ev_boot0_def ev_st0_def)
  obtain dev x where dev: "ev_loaded dev x t" "ev_installed ev_env0 0x20 dev t"
    and serves: "\<And>ls u p irp m w. ev_run ev_boot_kernel ev_env0 dev t ls u \<Longrightarrow>
      irp_wrap p (u\<lparr>irps := (irps u)(p \<mapsto> irp), ev_bytes := m\<rparr>) = Some w \<Longrightarrow>
      (let u0 = u\<lparr>irps := (irps u)(p \<mapsto> irp), ev_bytes := m\<rparr> in
       dispatch_handler ev_boot_kernel (ex_driver_id ev_env0) (ev_handlers ev_boot_kernel ev_env0) (wd_device dev) p u0 =
         deliver (ev_handlers ev_boot_kernel ev_env0)
           \<lparr>fd_create = Some (ex_create ev_env0), fd_close = Some (ex_close ev_env0), fd_cleanup = Some (ex_cleanup ev_env0)\<rparr>
           \<lparr>id_read = None, id_write = None, id_ioctl = Some (ex_device_control ev_env0)\<rparr> dev w
           (snd (get_wdu_driver ev_boot_kernel (ex_driver_id ev_env0) 0x20 u0)))"
    using driver_entry_serves [OF ev_boot_kernel_laws t empty] unfolding Let_def by blast
  from serves [OF ev_run_Nil ev_boot0_wrap, of "\<lambda>a. 0"] t dev show ?thesis
    by (intro exI) (auto simp: Let_def ev_env0_def)
qed

section \<open>Opening and closing a file\<close>

text \<open>The heap has room for a context when \<^verbatim>\<open>create\<close> asks for it.\<close>

definition context_room :: "kernel \<Rightarrow> ev_env \<Rightarrow> kevent list \<Rightarrow> bool" where
  "context_room K E h = (let c = Rw (IoInitializeRemoveLockEx (ex_lock_slot E) LOCK_TAG 0 0)
     in r_ptr (K (h @ [(c, K h c)]) (Pool (RustAlloc (of_nat (ex_sizeof_context E))))) \<noteq> null)"

lemma create_runs:
  assumes "0 < ex_sizeof_context E" and fobj: "file_objs s (fo_file_object (wc_file_object c)) = Some f" "FsContext f = null"
    and irp: "irps s (wi_irp w) = Some irp" "wi_irp w \<noteq> null"
    and mem: "context_room K E (klog s)"
  obtains s1 b where "ev_create K E dev w c s = Some (w, s1)" "b \<noteq> null" "heap_fresh K \<Longrightarrow> heap_blocks (klog s) b = None"
    "completions (wi_irp w) (klog s1) = completions (wi_irp w) (klog s) @ [(STATUS_SUCCESS, 0)]"
    "heap_blocks (klog s1) = (heap_blocks (klog s))(b \<mapsto> of_nat (ex_sizeof_context E))"
    "file_objs s1 (fo_file_object (wc_file_object c)) = Some (f\<lparr>FsContext := b\<rparr>)"
    "client s1 b = Some (CFile \<lparr>fc_file_rundown = remove_new\<rparr>)"
proof -
  let ?n = "ex_sizeof_context E" and ?fo = "wc_file_object c" and ?i = "Rw (IoInitializeRemoveLockEx (ex_lock_slot E) LOCK_TAG 0 0)"
  let ?h = "klog s @ [(?i, K (klog s) ?i)]" and ?c = "Pool (RustAlloc (of_nat ?n))"
  define b where "b = r_ptr (K ?h ?c)"
  let ?s0 = "s\<lparr>klog := ?h @ [(?c, K ?h ?c)], client := (client s)(b \<mapsto> CFile \<lparr>fc_file_rundown = remove_new\<rparr>),
      file_objs := (file_objs s)(fo_file_object ?fo \<mapsto> f\<lparr>FsContext := b\<rparr>)\<rparr>"
  obtain s1 where s1: "irp_complete K w success_no_info ?s0 = Some s1"
    using irp by (simp add: irp_complete_def complete_request_def)
  have b: "b \<noteq> null" using mem unfolding b_def context_room_def Let_def .
  have "ev_create K E dev w c s = Some (w, s1)"
    using fobj b assms(1) s1
    by (simp add: ev_create_def fo_context_def box_from_raw_def fo_set_context_def box_new_def rust_alloc_def sys_eq Let_def
        b_def remove_init_def panic_def)
  moreover have "heap_blocks (klog s) b = None" if "heap_fresh K"
  proof -
    have "heap_blocks ?h b = None" using that b unfolding b_def heap_fresh_def by blast
    then show ?thesis by simp
  qed
  moreover have "file_objs s1 = file_objs ?s0" "client s1 = client ?s0"
    using s1 irp by (auto simp: irp_complete_def complete_request_def Let_def bind_eq_Some_conv)
  moreover have "completions (wi_irp w) (klog s1) = completions (wi_irp w) (klog s) @ [(STATUS_SUCCESS, 0)]"
    using irp_completeD(9) [OF s1 irp(2), of "wi_irp w"] by (simp add: success_no_info_def)
  moreover have "heap_blocks (klog s1) = (heap_blocks (klog s))(b \<mapsto> of_nat ?n)"
    using irp_completeD(7) [OF s1 irp(2)] b by (simp add: b_def)
  ultimately show thesis
    using that b by simp
qed

lemma close_runs:
  assumes "0 < ex_sizeof_context E" "file_objs s (fo_file_object fo) = Some f" "FsContext f = b" "b \<noteq> null"
    and "client s b = Some ctx" and irp: "irps s (wi_irp v) = Some irp" "wi_irp v \<noteq> null"
  obtains t where "ev_close K E dev v fo s = Some (v, t)"
    "completions (wi_irp v) (klog t) = completions (wi_irp v) (klog s) @ [(STATUS_SUCCESS, 0)]"
    "heap_blocks (klog t) = (heap_blocks (klog s))(b := None)"
proof -
  let ?c = "Pool (RustDealloc b)"
  let ?s0 = "s\<lparr>client := (client s)(b := None), klog := klog s @ [(?c, K (klog s) ?c)]\<rparr>"
  obtain t where t: "irp_complete K v success_no_info ?s0 = Some t"
    using irp by (simp add: irp_complete_def complete_request_def)
  have "ev_close K E dev v fo s = Some (v, t)"
    using assms t by (simp add: ev_close_def fo_context_def box_from_raw_def box_drop_def Let_def)
  then show thesis
    using that irp_completeD(7) [OF t irp(2)] irp_completeD(9) [OF t irp(2), of "wi_irp v"]
    by (simp add: success_no_info_def)
qed

text \<open>
  A file object without a context can be opened: \<^verbatim>\<open>create\<close> answers its request with success and stores
  a context, with which the file can be closed: \<^verbatim>\<open>close\<close> answers with success and gives the memory
  of the context back. A file object that still has a context cannot be opened, the assertion
  fails.
\<close>

lemma open_close:
  assumes "heap_fresh K" "0 < ex_sizeof_context E" "file_objs s (fo_file_object (wc_file_object c)) = Some f"
    and irp: "irps s (wi_irp w) = Some irp" "wi_irp w \<noteq> null"
    and mem: "context_room K E (klog s)"
  shows "FsContext f = null \<Longrightarrow> \<exists>s1. ev_create K E dev w c s = Some (w, s1) \<and>
      completions (wi_irp w) (klog s1) = completions (wi_irp w) (klog s) @ [(STATUS_SUCCESS, 0)] \<and>
      (\<forall>v irp'. wi_irp v \<noteq> null \<longrightarrow>
        (\<exists>t. ev_close K E dev v (wc_file_object c) (s1\<lparr>irps := (irps s1)(wi_irp v \<mapsto> irp')\<rparr>) = Some (v, t) \<and>
          completions (wi_irp v) (klog t) = completions (wi_irp v) (klog s1) @ [(STATUS_SUCCESS, 0)] \<and>
          heap_blocks (klog t) = heap_blocks (klog s)))"
    and "FsContext f \<noteq> null \<Longrightarrow> ev_create K E dev w c s = None"
proof -
  show "ev_create K E dev w c s = None" if "FsContext f \<noteq> null"
    using that assms(3)
    by (simp add: ev_create_def fo_context_def box_from_raw_def remove_init_def Let_def)
  assume "FsContext f = null"
  from create_runs [where K = K, OF assms(2,3) this irp mem] obtain s1 b where s1: "ev_create K E dev w c s = Some (w, s1)"
    "completions (wi_irp w) (klog s1) = completions (wi_irp w) (klog s) @ [(STATUS_SUCCESS, 0)]"
    and b: "b \<noteq> null" "heap_fresh K \<Longrightarrow> heap_blocks (klog s) b = None"
    "heap_blocks (klog s1) = (heap_blocks (klog s))(b \<mapsto> of_nat (ex_sizeof_context E))"
    "file_objs s1 (fo_file_object (wc_file_object c)) = Some (f\<lparr>FsContext := b\<rparr>)"
    "client s1 b = Some (CFile \<lparr>fc_file_rundown = remove_new\<rparr>)"
    by metis
  have "\<exists>t. ev_close K E dev v (wc_file_object c) (s1\<lparr>irps := (irps s1)(wi_irp v \<mapsto> irp')\<rparr>) = Some (v, t) \<and>
      completions (wi_irp v) (klog t) = completions (wi_irp v) (klog s1) @ [(STATUS_SUCCESS, 0)] \<and>
      heap_blocks (klog t) = heap_blocks (klog s)" if "wi_irp v \<noteq> null" for v irp'
    using close_runs [OF assms(2), of "s1\<lparr>irps := (irps s1)(wi_irp v \<mapsto> irp')\<rparr>" "wc_file_object c" "f\<lparr>FsContext := b\<rparr>" b
        "CFile \<lparr>fc_file_rundown = remove_new\<rparr>" v irp' K dev] b that assms(1)
    by (force simp: fun_upd_idem)
  with s1 show "\<exists>s1. ev_create K E dev w c s = Some (w, s1) \<and>
      completions (wi_irp w) (klog s1) = completions (wi_irp w) (klog s) @ [(STATUS_SUCCESS, 0)] \<and>
      (\<forall>v irp'. wi_irp v \<noteq> null \<longrightarrow>
        (\<exists>t. ev_close K E dev v (wc_file_object c) (s1\<lparr>irps := (irps s1)(wi_irp v \<mapsto> irp')\<rparr>) = Some (v, t) \<and>
          completions (wi_irp v) (klog t) = completions (wi_irp v) (klog s1) @ [(STATUS_SUCCESS, 0)] \<and>
          heap_blocks (klog t) = heap_blocks (klog s)))"
    by blast
qed

end
