(* ===== verification/Ex_EventFiles.thy ===== *)
theory Ex_EventFiles
  imports Ex_EventLoad Ex_EventFaults
begin

text \<open>
  Files and memory in the runs of the event example: opening and closing files beside requests,
  timers and cancellations. Every block of the heap that the driver allocates has an owner, a
  record of the queue, a pending request or an open file, and goes when its owner goes.
\<close>

section \<open>Files and heap through a step of the driver\<close>

text \<open>
  The live blocks of the heap that are neither records of the queue nor boxes of requests, and the
  addresses of the live file contexts.
\<close>

definition unowned :: "'a evstate_scheme \<Rightarrow> ptr set" where
  "unowned s = dom (heap_blocks (klog s)) - dom (notify_records s) - dom (irp_boxes s)"

definition contexts :: "'a evstate_scheme \<Rightarrow> ptr set" where
  "contexts s = {c. ev_ctx c s \<noteq> None}"

definition files_kept :: "'a evstate_scheme \<Rightarrow> 'a evstate_scheme \<Rightarrow> bool" where
  "files_kept s t \<longleftrightarrow> file_objs t = file_objs s \<and> contexts t = contexts s \<and> unowned t = unowned s"

named_theorems kept \<open>operations that leave the files and the unowned blocks alone\<close>

lemma files_kept_refl [simp]: "files_kept s s"
  by (simp add: files_kept_def)

lemma files_kept_trans [trans]: "files_kept s t \<Longrightarrow> files_kept t u \<Longrightarrow> files_kept s u"
  by (simp add: files_kept_def)

lemma lock_step_kept: "lock_step x s t \<Longrightarrow> files_kept s t"
  by (simp add: files_kept_def contexts_def unowned_def lock_stepD)

lemmas on_queue_lock_kept [kept] = on_queue_lock_step [THEN lock_step_kept]

lemma irp_complete_kept [kept]:
  fixes s :: "'a evstate_scheme"
  shows "irp_complete K w st s = Some t \<Longrightarrow> files_kept s t"
  by (auto simp: irp_complete_def complete_request_def files_kept_def contexts_def unowned_def ev_ctx_def Let_def
      bind_eq_Some_conv split: if_splits)

lemma irp_complete_records:
  fixes s :: "'a evstate_scheme"
  assumes "irp_complete K w st s = Some t"
  shows "notify_records t = notify_records s" "client t = client s" "irp_boxes t = irp_boxes s"
  using assms by (auto simp: irp_complete_def complete_request_def Let_def bind_eq_Some_conv split: if_splits)

lemma ev_ctx_frame [simp]:
  "ev_ctx c (s\<lparr>klog := a\<rparr>) = ev_ctx c s" "ev_ctx c (s\<lparr>irps := b\<rparr>) = ev_ctx c s"
  "ev_ctx c (s\<lparr>irp_boxes := d\<rparr>) = ev_ctx c s" "ev_ctx c (s\<lparr>notify_records := e\<rparr>) = ev_ctx c s"
  "ev_ctx c (s\<lparr>file_objs := f\<rparr>) = ev_ctx c s" "ev_ctx c (s\<lparr>ev_bytes := m\<rparr>) = ev_ctx c s"
  by (simp_all add: ev_ctx_def)

lemma set_cancel_rtn_kept [kept]:
  fixes s :: "'a evstate_scheme"
  assumes "set_cancel_rtn K f w c s = Some (prev, w', t)" "heap_fresh K"
  shows "files_kept s t"
  using assms
  by (auto simp: set_cancel_rtn_def irp_set_context_def irp_set_cancel_routine_def irp_from_context_def irp_box_drop_def
      irp_clear_context_def rust_alloc_def panic_def sys_eq files_kept_def contexts_def unowned_def Let_def bind_eq_Some_conv
      heap_fresh_def split: if_splits option.splits)

lemma set_cancel_rtn_records:
  fixes s :: "'a evstate_scheme"
  assumes "set_cancel_rtn K f w c s = Some (prev, w', t)"
  shows "notify_records t = notify_records s" "client t = client s"
  using assms by (auto simp: set_cancel_rtn_def irp_set_context_def irp_set_cancel_routine_def irp_from_context_def irp_box_drop_def
      irp_clear_context_def rust_alloc_def panic_def sys_eq Let_def bind_eq_Some_conv split: if_splits option.splits)

lemma mark_pending_kept [kept]:
  fixes s :: "'a evstate_scheme"
  shows "mark_pending w s = Some t \<Longrightarrow> files_kept s t"
  by (auto simp: mark_pending_def current_stack_as_mut_def files_kept_def contexts_def unowned_def bind_eq_Some_conv)

lemma record_drop_kept: "b \<in> dom (notify_records s) \<Longrightarrow> files_kept s (record_drop K b s)"
  by (auto simp: files_kept_def contexts_def unowned_def record_drop_def Let_def)

lemma record_update_kept:
  "b \<in> dom (notify_records s) \<Longrightarrow> files_kept s (s\<lparr>notify_records := (notify_records s)(b \<mapsto> r)\<rparr>)"
  by (auto simp: files_kept_def contexts_def unowned_def)

lemma new_notify_record_kept [kept]:
  assumes "new_notify_record K E data fo s = Some (b, t)" "heap_fresh K"
  shows "files_kept s t \<and> b \<in> dom (notify_records t)"
proof -
  have "file_objs t = file_objs s"
    using assms(1) by (auto simp: new_notify_record_def rust_alloc_def sys_eq panic_def timer_init_def dpc_init_def Let_def
      bind_eq_Some_conv split: if_splits)
  then show ?thesis
    using new_notify_recordD [OF assms] by (auto simp: files_kept_def contexts_def unowned_def)
qed

lemma calls_kept:
  fixes s :: "'a evstate_scheme"
  shows "files_kept s (snd (timer_set K b due d s))" "files_kept s (snd (timer_cancel K b s))"
    "files_kept s (event_dereference K v s)" "files_kept s (snd (event_set K v i wt s))"
  by (simp_all add: timer_set_def timer_cancel_def obj_bool_def sys_eq event_dereference_def dereference_def event_set_def
      obj_long_def files_kept_def contexts_def unowned_def Let_def)

lemma put_ext_kept: "ev_ext x s = Some e \<Longrightarrow> files_kept s (ev_put_ext x e' s)"
  by (auto simp: files_kept_def contexts_def unowned_def ev_put_ext_def ev_ext_def ev_ctx_def split: option.splits ev_client.splits)

lemma put_ctx_kept: "ev_ctx c s = Some f \<Longrightarrow> files_kept s (ev_put_ctx c f' s)"
  by (auto simp: files_kept_def contexts_def unowned_def ev_put_ctx_def ev_ctx_def split: option.splits ev_client.splits)

lemma rundown_kept [kept]:
  "rundown_lock_acquire K E c tag s = Some (st, t) \<Longrightarrow> files_kept s t"
  "rundown_lock_release remove_release K E c s = Some t \<Longrightarrow> files_kept s t"
  "rundown_lock_release remove_release_and_wait K E c s = Some t \<Longrightarrow> files_kept s t"
  by (auto simp: rundown_lock_acquire_def rundown_lock_release_def remove_acquire_def remove_release_def
      remove_release_and_wait_def sys_eq files_kept_def unowned_def contexts_def bind_eq_Some_conv Let_def)
     (auto simp: ev_put_ctx_def ev_ctx_def split: option.splits ev_client.splits if_splits)

lemma event_ref_kept [kept]:
  fixes s :: "'a evstate_scheme"
  shows "event_ref_by_handle K ty h m md s = (r, t) \<Longrightarrow> files_kept s t"
  by (auto simp: event_ref_by_handle_def ref_by_handle_def sys_eq files_kept_def contexts_def unowned_def Let_def split: if_splits)

lemma irp_box_drop_kept:
  fixes s :: "'a evstate_scheme"
  shows "k \<in> dom (irp_boxes s) \<Longrightarrow> files_kept s (irp_box_drop K k s)"
  by (auto simp: irp_box_drop_def files_kept_def contexts_def unowned_def Let_def)

lemma release_cancel_lock_kept [kept]:
  fixes s :: "'a evstate_scheme"
  shows "release_cancel_lock K w s = Some t \<Longrightarrow> files_kept s t"
  by (auto simp: release_cancel_lock_def files_kept_def contexts_def unowned_def bind_eq_Some_conv)

lemmas kept_simps = calls_kept [unfolded files_kept_def]

text \<open>The boxes of the queue that a search has read are records.\<close>

definition queue_live :: "ptr \<Rightarrow> 'a evstate_scheme \<Rightarrow> bool" where
  "queue_live x s \<longleftrightarrow> (\<exists>q. ev_queue x s = Some q \<and> set q \<subseteq> dom (notify_records s))"

lemma queue_records_live: "queue_records x s = Some rs \<Longrightarrow> queue_live x s"
proof (erule queue_recordsD)
  fix q assume q: "ev_queue x s = Some q" "those (map (notify_records s) q) = Some rs"
  have "set q \<subseteq> dom (notify_records s)" using q(2)
    by (induction q arbitrary: rs) (auto split: option.splits)
  with q(1) show ?thesis by (simp add: queue_live_def)
qed

lemma swap_remove_kept:
  assumes "queue_swap_remove x i s = Some (b, t)" "queue_live x s"
  shows "files_kept s t" "b \<in> dom (notify_records t)"
proof -
  obtain e q' where e: "ev_ext x s = Some e" "swap_remove i (event_queue e) = Some (b, q')"
    "t = ev_put_ext x (e\<lparr>event_queue := q'\<rparr>) s"
    using assms(1) by (auto simp: queue_swap_remove_def bind_eq_Some_conv)
  show "files_kept s t" using put_ext_kept [OF e(1)] e(3) by simp
  have "b \<in> set (event_queue e)" using e(2) by (auto simp: swap_remove_def split: if_splits)
  then show "b \<in> dom (notify_records t)" using assms(2) e(1,3) by (auto simp: queue_live_def ev_queue_def)
qed

lemma lock_step_live: "lock_step x s t \<Longrightarrow> queue_live x t \<longleftrightarrow> queue_live x s"
  by (simp add: queue_live_def lock_stepD)

lemma start_notify_kept [kept]:
  assumes "start_notify K E x b due s = Some t"
  shows "files_kept s t"
proof -
  let ?s1 = "snd (timer_set K (b + ex_timer_off E) due (Some (b + ex_dpc_off E)) s)"
  obtain e where e: "ev_ext x ?s1 = Some e"
    and t: "on_queue_lock spin_release K E x (ev_put_ext x (e\<lparr>event_queue := event_queue e @ [b]\<rparr>) ?s1) = Some t"
    using assms by (auto simp: start_notify_def bind_eq_Some_conv Let_def)
  have "files_kept s ?s1" by (rule calls_kept)
  also have "files_kept ?s1 (ev_put_ext x (e\<lparr>event_queue := event_queue e @ [b]\<rparr>) ?s1)" using e by (rule put_ext_kept)
  also have "files_kept \<dots> t" using t by (rule kept)
  finally show ?thesis .
qed

lemma irp_notification_locked_kept:
  assumes "irp_notification_locked K E x b due w s = Some (r, w', t)" "heap_fresh K" "b \<in> dom (notify_records s)"
  shows "files_kept s t"
proof -
  obtain c where c: "is_cancel w s = Some c"
    using assms(1) by (auto simp: irp_notification_locked_def bind_eq_Some_conv)
  obtain stop w1 s1 where s1: "(if c then set_cancel_rtn K (ex_cancel_entry E) w None s \<bind>
      (\<lambda>(prev, irp, s). Some (prev \<noteq> None, irp, s)) else Some (False, w, s)) = Some (stop, w1, s1)"
    using assms(1) c by (auto simp: irp_notification_locked_def bind_eq_Some_conv)
  have k1: "files_kept s s1" "notify_records s1 = notify_records s"
    using s1 assms(2) by (auto simp: bind_eq_Some_conv intro: kept dest: set_cancel_rtn_records split: if_splits)
  show ?thesis
  proof (cases stop)
    case True
    then obtain s2 where s2: "on_queue_lock spin_release K E x s1 = Some s2" "t = record_drop K b s2"
      using assms(1) c s1 by (auto simp: irp_notification_locked_def bind_eq_Some_conv)
    have "b \<in> dom (notify_records s2)"
      using assms(3) k1(2) by (simp add: lock_stepD [OF on_queue_lock_step(2) [OF s2(1)]])
    from record_drop_kept [OF this, of K] kept(2) [OF s2(1)] k1(1) show ?thesis
      unfolding s2(2) by (blast intro: files_kept_trans)
  next
    case False
    then show ?thesis
      using assms(1) c s1 k1(1)
      by (auto simp: irp_notification_locked_def bind_eq_Some_conv files_kept_def dest!: kept)
  qed
qed

lemma irp_notification_kept [kept]:
  assumes "irp_notification K E dev w re s = Some (r, w', t)" "heap_fresh K"
  shows "files_kept s t"
proof -
  obtain x b w1 s1 s2 where s1: "irp_notification_record K E x w s = Some (b, w1, s1)"
    and s2: "on_queue_lock spin_acquire K E x s1 = Some s2"
    and t: "irp_notification_locked K E x b (relative_due_time (re_due_time re)) w1 s2 = Some (r, w', t)"
    using assms by (auto simp: irp_notification_def bind_eq_Some_conv Let_def)
  have "files_kept s s1 \<and> b \<in> dom (notify_records s1)"
    using s1 assms(2) by (auto simp: irp_notification_record_def bind_eq_Some_conv files_kept_def Let_def dest!: kept)
  moreover have "files_kept s1 s2" "notify_records s2 = notify_records s1"
    using s2 by (auto intro: kept simp: lock_stepD [OF on_queue_lock_step(1) [OF s2]])
  ultimately show ?thesis
    using irp_notification_locked_kept [OF t assms(2)] by (metis files_kept_trans)
qed

lemma event_notification_kept [kept]:
  assumes "event_notification K E dev w re s = Some (r, w', t)" "heap_fresh K"
  shows "files_kept s t"
proof -
  obtain mode where mode: "irp_processor_mode w s = Some mode"
    using assms by (auto simp: event_notification_def bind_eq_Some_conv)
  obtain e s1 where e: "event_ref_by_handle K (ex_event_type E) (re_event re) EVENT_ACCESS_MASK mode s = (e, s1)"
    by fastforce
  have "files_kept s1 t"
    using assms mode e
    by (cases e) (auto simp: event_notification_def Let_def bind_eq_Some_conv files_kept_def dest!: kept)
  with event_ref_kept [OF e] show ?thesis by (rule files_kept_trans)
qed

lemma handle_register_kept [kept]:
  "handle_register_event K E dev w req s = Some (r, w', t) \<Longrightarrow> heap_fresh K \<Longrightarrow> files_kept s t"
  by (auto simp: handle_register_event_def Let_def dest: kept split: if_splits)

lemma device_control_kept [kept]:
  "ev_device_control K E dev w req s = Some (st, w', t) \<Longrightarrow> heap_fresh K \<Longrightarrow> files_kept s t"
  by (auto simp: ev_device_control_def Let_def bind_eq_Some_conv files_kept_def dest!: kept split: if_splits)

text \<open>The DPC and the cancel routine.\<close>

lemma timer_dpc_first_kept:
  assumes "timer_dpc_first K E d s = Some (n, t)" "heap_fresh K"
  shows "files_kept s t" "n = DpcRemove x i \<or> n = DpcUnlocked x i \<Longrightarrow> queue_live x t"
proof -
  let ?rb = "d - ex_dpc_off E"
  obtain r data where r: "notify_records s ?rb = Some r" "dpc_context (nr_dpc r) = Some data"
    using assms by (auto simp: timer_dpc_first_def Let_def bind_eq_Some_conv)
  let ?x = "nd_extension data"
  have "files_kept s t \<and> (n = DpcRemove x i \<or> n = DpcUnlocked x i \<longrightarrow> queue_live x t)"
  proof (cases "?x = null")
    case True
    then show ?thesis using assms(1) r by (auto simp: timer_dpc_first_def Let_def bind_eq_Some_conv)
  next
    case False
    then obtain s1 rs where s1: "on_queue_lock spin_acquire_at_dpc K E ?x s = Some s1" "queue_records ?x s1 = Some rs"
      using assms(1) r by (auto simp: timer_dpc_first_def Let_def bind_eq_Some_conv)
    note live = queue_records_live [OF s1(2)] and k1 = kept(3) [OF s1(1)]
    have r1: "notify_records s1 ?rb = Some r"
      using r(1) lock_stepD(1) [OF on_queue_lock_step(3) [OF s1(1)]] by simp
    show ?thesis
    proof (cases "position (\<lambda>r. notify_data_eq (nr_data r) data) rs")
      case None
      then show ?thesis
        using assms(1) r False s1 by (auto simp: timer_dpc_first_def Let_def bind_eq_Some_conv files_kept_def dest!: kept)
    next
      case (Some index)
      show ?thesis
      proof (cases "nd_ty data")
        case (IrpBased w)
        then obtain prev w1 s2 s3 where s2: "set_cancel_rtn K (ex_cancel_entry E) w None s1 = Some (prev, w1, s2)"
          and s3: "on_queue_lock spin_release_from_dpc K E ?x (s2\<lparr>notify_records := (notify_records s2)(?rb \<mapsto>
             r\<lparr>nr_dpc := (nr_dpc r)\<lparr>dpc_context := Some (data\<lparr>nd_ty := IrpBased w1\<rparr>)\<rparr>\<rparr>)\<rparr>) = Some s3"
          and t: "n = DpcReturn \<and> t = s3 \<or> n = DpcUnlocked ?x index \<and> irp_complete K w1 success_no_info s3 = Some t"
          using assms(1) r False s1 Some
          by (auto simp: timer_dpc_first_def Let_def bind_eq_Some_conv split: if_splits)
        note c = set_cancel_rtn_records [OF s2] and l = on_queue_lock_step(4) [OF s3]
        let ?s = "s2\<lparr>notify_records := (notify_records s2)(?rb \<mapsto>
             r\<lparr>nr_dpc := (nr_dpc r)\<lparr>dpc_context := Some (data\<lparr>nd_ty := IrpBased w1\<rparr>)\<rparr>\<rparr>)\<rparr>"
        have "files_kept s s2" using k1 set_cancel_rtn_kept [OF s2 assms(2)] by (rule files_kept_trans)
        also have "files_kept s2 ?s" using r1 c(1) by (intro record_update_kept) auto
        also have "files_kept ?s s3" using s3 by (rule kept)
        finally have k3: "files_kept s s3" .
        have "queue_live ?x ?s" using live r1 c by (auto simp: queue_live_def ev_queue_def ev_ext_def)
        then have "queue_live ?x s3" using lock_step_live [OF l] by blast
        then show ?thesis
          using t k3 by (auto simp: queue_live_def ev_queue_def ev_ext_def irp_complete_records
            intro: files_kept_trans dest: irp_complete_kept)
      next
        case (EventBased v)
        then show ?thesis
          using assms(1) r False s1 Some live k1
          by (auto simp: timer_dpc_first_def Let_def bind_eq_Some_conv files_kept_def kept_simps queue_live_def)
      qed
    qed
  qed
  then show "files_kept s t" "n = DpcRemove x i \<or> n = DpcUnlocked x i \<Longrightarrow> queue_live x t" by blast+
qed

lemma timer_dpc_remove_kept:
  assumes "timer_dpc_remove K E x i s = Some t" "queue_live x s"
  shows "files_kept s t"
proof -
  obtain b u where u: "queue_swap_remove x i s = Some (b, u)"
    and t: "on_queue_lock spin_release_from_dpc K E x (record_drop K b u) = Some t"
    using assms(1) by (auto simp: timer_dpc_remove_def bind_eq_Some_conv)
  note k = swap_remove_kept [OF u assms(2)]
  show ?thesis
    using files_kept_trans [OF files_kept_trans [OF k(1) record_drop_kept [OF k(2)]] kept(4) [OF t]] .
qed

lemma timer_dpc_rest_kept:
  assumes "timer_dpc_rest K E n s = Some t" "\<And>x i. n = DpcRemove x i \<or> n = DpcUnlocked x i \<Longrightarrow> queue_live x s"
  shows "files_kept s t"
proof (cases n)
  case (DpcUnlocked x i)
  then obtain s1 where s1: "on_queue_lock spin_acquire_at_dpc K E x s = Some s1" "timer_dpc_remove K E x i s1 = Some t"
    using assms(1) by (auto simp: bind_eq_Some_conv)
  have "queue_live x s1" using lock_step_live [OF on_queue_lock_step(3) [OF s1(1)]] assms(2) DpcUnlocked by blast
  from files_kept_trans [OF kept(3) [OF s1(1)] timer_dpc_remove_kept [OF s1(2) this]] show ?thesis .
qed (use assms timer_dpc_remove_kept in auto)

lemma fire_kept:
  assumes "ev_fire K E b s = Some t" "heap_fresh K"
  shows "files_kept s t"
proof -
  have "t = s \<or> (\<exists>d. ev_timer_dpc K E d s = Some t)"
    using assms(1) unfolding ev_fire_def custom_dpc_def bind_eq_Some_conv by (auto split: option.splits if_splits)
  then show ?thesis
  proof (elim disjE exE)
    fix d assume "ev_timer_dpc K E d s = Some t"
    then obtain n s1 where s1: "timer_dpc_first K E d s = Some (n, s1)" "timer_dpc_rest K E n s1 = Some t"
      by (auto simp: ev_timer_dpc_def bind_eq_Some_conv)
    show ?thesis
      using timer_dpc_first_kept [OF s1(1) assms(2)] timer_dpc_rest_kept [OF s1(2)] by (metis files_kept_trans)
  qed simp
qed

lemma cancel_routine_queue_kept:
  assumes "cancel_routine_queue K E x w s = Some (w', t)"
  shows "files_kept s t" "irp_boxes t = irp_boxes s"
proof -
  obtain s1 rs i b s2 s3 s4 where s1: "on_queue_lock spin_acquire K E x s = Some s1" "queue_records x s1 = Some rs"
    and s2: "queue_swap_remove x i s1 = Some (b, s2)"
    and s3: "on_queue_lock spin_release K E x (snd (timer_cancel K (b + ex_timer_off E) s2)) = Some s3"
    and s4: "irp_complete K w (new_with_status STATUS_CANCELLED) s3 = Some s4" "t = record_drop K b s4"
    using assms by (auto simp: cancel_routine_queue_def bind_eq_Some_conv Let_def)
  note k = swap_remove_kept [OF s2 queue_records_live [OF s1(2)]]
  have "files_kept s s1" using s1(1) by (rule kept)
  also have "files_kept s1 s2" by (rule k)
  also have "files_kept s2 (snd (timer_cancel K (b + ex_timer_off E) s2))" by (rule calls_kept)
  also have "files_kept \<dots> s3" using s3 by (rule kept)
  also have "files_kept s3 s4" using s4(1) by (rule kept)
  also have "files_kept s4 t"
    unfolding s4(2)
    by (rule record_drop_kept) (use k(2) lock_stepD(1) [OF on_queue_lock_step(2) [OF s3]] irp_complete_records [OF s4(1)] in simp)
  finally show "files_kept s t" .
  obtain q' where "irp_boxes s2 = irp_boxes s1" using s2 by (rule queue_swap_removeD)
  then show "irp_boxes t = irp_boxes s"
    using lock_stepD(2) [OF on_queue_lock_step(1) [OF s1(1)]] lock_stepD(2) [OF on_queue_lock_step(2) [OF s3]]
      irp_complete_records(3) [OF s4(1)] s4(2) by simp
qed

lemma cancel_kept:
  assumes "io_cancel K E irql d p s = Some t"
  shows "files_kept s t"
  using assms
proof (cases rule: io_cancelE)
  case (unset irp)
  then show ?thesis by (simp add: files_kept_def contexts_def unowned_def)
next
  case (runs irp)
  let ?s0 = "s\<lparr>irps := (irps s)(p \<mapsto> irp\<lparr>irp_Cancel := 1, irp_CancelRoutine := None, irp_CancelIrql := irql\<rparr>)\<rparr>"
  let ?k = "irp_DriverContext3 irp"
  note run = runs(3) [unfolded cancel_routine_def irp_from_context_def Let_def]
  obtain v w where v: "irp_wrap p ?s0 = Some v" and w: "irp_boxes s ?k = Some w"
    using run by (auto simp: bind_eq_Some_conv)
  have s0: "files_kept s ?s0" by (simp add: files_kept_def contexts_def unowned_def)
  have "\<exists>u. t = irp_box_drop K ?k u \<and> files_kept s u \<and> irp_boxes u = irp_boxes s"
  proof (cases "wi_cancel w")
    case None
    then have "t = irp_box_drop K ?k ?s0" using run v w by simp
    with s0 show ?thesis by (intro exI [of _ ?s0]) simp
  next
    case (Some f)
    then obtain w' u where u: "ev_cancel_routine K E (wrap_device d) v ?s0 = Some (w', u)" "t = irp_box_drop K ?k u"
      using run v w by (auto simp: bind_eq_Some_conv split: if_splits)
    then obtain x s1 where s1: "release_cancel_lock K v ?s0 = Some s1" "cancel_routine_queue K E x v s1 = Some (w', u)"
      by (auto simp: ev_cancel_routine_def bind_eq_Some_conv)
    have "irp_boxes s1 = irp_boxes s" using s1(1) by (auto simp: release_cancel_lock_def bind_eq_Some_conv)
    moreover have "files_kept s u"
      using s0 release_cancel_lock_kept [OF s1(1)] cancel_routine_queue_kept(1) [OF s1(2)] by (simp add: files_kept_def)
    ultimately show ?thesis
      using u(2) cancel_routine_queue_kept(2) [OF s1(2)] by auto
  qed
  then obtain u where u: "t = irp_box_drop K ?k u" "files_kept s u" "irp_boxes u = irp_boxes s" by blast
  then have "files_kept u t" using w irp_box_drop_kept [of ?k u K] by auto
  with u(2) show ?thesis by (rule files_kept_trans)
qed

lemma ev_step_kept:
  assumes "ev_step K E dev s l t" "heap_fresh K"
  shows "files_kept s t"
  using assms(1)
proof cases
  case (request p s0 irp m w req st w')
  then show ?thesis
    using device_control_kept [OF request(7) assms(2)] by (simp add: files_kept_def contexts_def unowned_def)
qed (use assms(2) in \<open>simp_all add: fire_kept cancel_kept\<close>)

section \<open>Opening, cleaning up and closing a file\<close>

lemma queue_inv_heap_insert: "queue_inv E x q N B I H \<Longrightarrow> queue_inv E x q N B I (H(b \<mapsto> n))"
  unfolding queue_inv_def by (metis (no_types, lifting) dom_fun_upd option.distinct(1) subset_insertI2)

lemma queue_inv_heap_remove:
  "queue_inv E x q N B I H \<Longrightarrow> b \<notin> dom N \<Longrightarrow> b \<notin> dom B \<Longrightarrow> queue_inv E x q N B I (H(b := None))"
  unfolding queue_inv_def by (metis (no_types, lifting) Un_iff dom_fun_upd subset_Diff_insert Diff_empty Diff_insert0)

text \<open>A request that has just arrived is in hand.\<close>

lemma arrived_in_hand:
  assumes "ev_inv E dev x s" "irps s p = None" "p \<noteq> null"
  shows "in_hand E dev x p (s\<lparr>irps := (irps s)(p \<mapsto> irp)\<rparr>)"
    "in_hand E dev x p (s\<lparr>irps := (irps s)(p \<mapsto> irp), file_objs := F\<rparr>)"
proof -
  have "(irps s)(p := None) = irps s" using assms(2) by auto
  then show "in_hand E dev x p (s\<lparr>irps := (irps s)(p \<mapsto> irp)\<rparr>)"
    "in_hand E dev x p (s\<lparr>irps := (irps s)(p \<mapsto> irp), file_objs := F\<rparr>)"
    using assms(1,3) by (simp_all add: in_hand_def ev_inv_def extension_as_ptr_def device_extension_def)
qed

text \<open>
  The context of each file object of the device; the files are in order when every file object has
  a context of its own, which is a live block of the heap, and there are no other contexts. \<open>U\<close> are
  the blocks the driver had when it was loaded.
\<close>

definition file_context :: "'a evstate_scheme \<Rightarrow> ptr \<Rightarrow> ptr" where
  "file_context s a = (case file_objs s a of None \<Rightarrow> null | Some f \<Rightarrow> FsContext f)"

definition files_inv :: "ptr set \<Rightarrow> 'a evstate_scheme \<Rightarrow> bool" where
  "files_inv U s \<longleftrightarrow> bij_betw (file_context s) (dom (file_objs s)) (contexts s) \<and>
     unowned s = U \<union> contexts s \<and> U \<inter> contexts s = {}"

lemma files_kept_inv: "files_kept s t \<Longrightarrow> files_inv U t \<longleftrightarrow> files_inv U s"
  by (simp add: files_kept_def files_inv_def file_context_def [abs_def])

lemma files_inv_open:
  assumes inv: "files_inv U s" and "file_objs s a = None" "b \<notin> unowned s"
    and t: "file_objs t = (file_objs s)(a \<mapsto> f)" "FsContext f = b" "contexts t = insert b (contexts s)"
      "unowned t = insert b (unowned s)"
  shows "files_inv U t"
proof -
  have u: "bij_betw (file_context s) (dom (file_objs s)) (contexts s)" "unowned s = U \<union> contexts s" "U \<inter> contexts s = {}"
    using inv by (auto simp: files_inv_def)
  have "bij_betw (file_context t) (dom (file_objs s)) (contexts s)"
    by (rule iffD1 [OF bij_betw_cong u(1)]) (use assms(2) t(1) in \<open>auto simp: file_context_def\<close>)
  moreover have "bij_betw (file_context t) {a} {b}"
    using t(1,2) by (simp add: file_context_def)
  moreover have "contexts s \<inter> {b} = {}" using u assms(3) by auto
  ultimately have "bij_betw (file_context t) (dom (file_objs s) \<union> {a}) (contexts s \<union> {b})"
    by (rule bij_betw_combine)
  then show ?thesis
    using u assms(3) t by (auto simp: files_inv_def)
qed

lemma files_inv_own:
  assumes "files_inv U s" "file_objs s a = Some f"
  shows "FsContext f \<in> contexts s" "FsContext f \<in> unowned s"
proof -
  have "file_context s a = FsContext f" "a \<in> dom (file_objs s)" using assms(2) by (auto simp: file_context_def)
  then show "FsContext f \<in> contexts s" "FsContext f \<in> unowned s"
    using assms(1) unfolding files_inv_def bij_betw_def by (metis UnCI imageI)+
qed

lemma files_inv_close:
  assumes inv: "files_inv U s" and f: "file_objs s a = Some f" "FsContext f = b"
    and t: "file_objs t = (file_objs s)(a := None)" "contexts t = contexts s - {b}" "unowned t = unowned s - {b}"
  shows "files_inv U t"
proof -
  have u: "bij_betw (file_context s) (dom (file_objs s)) (contexts s)" "unowned s = U \<union> contexts s" "U \<inter> contexts s = {}"
    using inv by (auto simp: files_inv_def)
  have a: "file_context s a = b" "a \<in> dom (file_objs s)" using f by (auto simp: file_context_def)
  have b: "b \<in> contexts s" using files_inv_own [OF inv f(1)] f(2) by simp
  have "bij_betw (file_context s) (dom (file_objs s) - {a}) (contexts s - {b})"
    using bij_betw_DiffI [OF u(1), of "{a}" "{b}"] a b by simp
  then have "bij_betw (file_context t) (dom (file_objs s) - {a}) (contexts s - {b})"
    by (rule iffD1 [OF bij_betw_cong, rotated]) (use t(1) in \<open>auto simp: file_context_def\<close>)
  then show ?thesis
    using t u b by (auto simp: files_inv_def)
qed

text \<open>The heap is not where the device extension is, which the I/O manager allocates.\<close>

definition heap_apart :: "kernel \<Rightarrow> ptr \<Rightarrow> bool" where
  "heap_apart K x \<longleftrightarrow> (\<forall>h n. r_ptr (K h (Pool (RustAlloc n))) \<noteq> x)"

lemma create_step:
  assumes hand: "in_hand E dev x (wi_irp w) s" and law: "heap_fresh K" "heap_apart K x" "0 < ex_sizeof_context E"
    and f: "file_objs s (fo_file_object (wc_file_object c)) = Some f" "FsContext f = null"
    and run: "ev_create K E dev w c s = Some (w', t)"
  obtains b where "ev_inv E dev x t" "irps t = (irps s)(wi_irp w := None)"
    "\<And>p. completions p (klog t) = completions p (klog s) @ (if p = wi_irp w then [(STATUS_SUCCESS, 0)] else [])"
    "file_objs t = (file_objs s)(fo_file_object (wc_file_object c) \<mapsto> f\<lparr>FsContext := b\<rparr>)"
    "contexts t = insert b (contexts s)" "unowned t = insert b (unowned s)" "b \<notin> unowned s"
proof -
  let ?a = "fo_file_object (wc_file_object c)" and ?n = "ex_sizeof_context E"
  obtain q irp where h: "wi_irp w \<noteq> null" "irps s (wi_irp w) = Some irp" "x \<noteq> null" "extension_as_ptr dev s = Some x"
    and q: "ev_queue x s = Some q"
    and qi: "queue_inv E x q (notify_records s) (irp_boxes s) ((irps s)(wi_irp w := None)) (heap_blocks (klog s))"
    using hand by (rule in_handE)
  let ?i = "Rw (IoInitializeRemoveLockEx (ex_lock_slot E) LOCK_TAG 0 0)"
  let ?h = "klog s @ [(?i, K (klog s) ?i)]" and ?c = "Pool (RustAlloc (of_nat ?n))"
  have i: "remove_init K (ex_lock_slot E) LOCK_TAG 0 0 s = s\<lparr>klog := ?h\<rparr>"
    by (simp add: remove_init_def)
  obtain s2 where s2: "fo_set_context K ?n (wc_file_object c) (CFile \<lparr>fc_file_rundown = remove_new\<rparr>) (s\<lparr>klog := ?h\<rparr>) = Some s2"
    and t: "irp_complete K w success_no_info s2 = Some t"
    using run f by (auto simp: ev_create_def Let_def i fo_context_def box_from_raw_def bind_eq_Some_conv)
  obtain b where b: "b = r_ptr (K ?h ?c)" "b \<noteq> null"
    "s2 = s\<lparr>klog := ?h @ [(?c, K ?h ?c)], client := (client s)(b \<mapsto> CFile \<lparr>fc_file_rundown = remove_new\<rparr>),
       file_objs := (file_objs s)(?a \<mapsto> f\<lparr>FsContext := b\<rparr>)\<rparr>"
    using f(1) by (auto intro: fo_set_contextE [OF s2 law(3)])
  have "heap_blocks ?h b = None" using law(1) b(2) unfolding b(1) heap_fresh_def by blast
  then have hb: "heap_blocks (klog s) b = None" by simp
  have "b \<noteq> x" using law(2) b(1) by (auto simp: heap_apart_def)
  then have e: "ev_queue x s2 = Some q" "contexts s2 = insert b (contexts s)"
    using q by (auto simp: b(3) ev_queue_def ev_ext_def contexts_def ev_ctx_def)
  have H: "heap_blocks (klog s2) = (heap_blocks (klog s))(b \<mapsto> of_nat ?n)" using b by simp
  have u: "unowned s2 = insert b (unowned s)" "b \<notin> unowned s"
    using queue_inv_fresh [OF qi hb] hb by (auto simp: unowned_def H) (auto simp: b(3))
  have "in_hand E dev x (wi_irp w) s2"
    using h e(1) queue_inv_heap_insert [OF qi] extension_as_ptr_cong [of s2 s dev]
    by (intro in_handI [where q = q]) (simp_all only: H, simp_all add: b(3))
  note d = complete_in_hand [OF this t] and k = irp_complete_kept [OF t]
  show ?thesis
    by (rule that [of b]) (use d k u e b in \<open>simp_all add: files_kept_def success_no_info_def\<close>)
qed

lemma close_step:
  assumes hand: "in_hand E dev x (wi_irp w) s" and law: "0 < ex_sizeof_context E"
    and f: "file_objs s (fo_file_object fo) = Some f" "FsContext f = b" "b \<in> contexts s" "b \<in> unowned s"
    and run: "ev_close K E dev w fo s = Some (w', t)"
  shows "ev_inv E dev x t" "irps t = (irps s)(wi_irp w := None)"
    "completions p (klog t) = completions p (klog s) @ (if p = wi_irp w then [(STATUS_SUCCESS, 0)] else [])"
    "file_objs t = file_objs s" "contexts t = contexts s - {b}" "unowned t = unowned s - {b}"
    "ev_queue x t = ev_queue x s"
proof -
  obtain q irp where h: "wi_irp w \<noteq> null" "irps s (wi_irp w) = Some irp" "x \<noteq> null" "extension_as_ptr dev s = Some x"
    and q: "ev_queue x s = Some q"
    and qi: "queue_inv E x q (notify_records s) (irp_boxes s) ((irps s)(wi_irp w := None)) (heap_blocks (klog s))"
    using hand by (rule in_handE)
  obtain fc where c: "client s b = Some (CFile fc)"
    using f(3) by (auto simp: contexts_def ev_ctx_def split: option.splits ev_client.splits)
  have "b \<noteq> null" using f(4) by (auto simp: unowned_def)
  let ?s1 = "s\<lparr>client := (client s)(b := None), klog := klog s @ [(Pool (RustDealloc b), K (klog s) (Pool (RustDealloc b)))]\<rparr>"
  have t: "irp_complete K w success_no_info ?s1 = Some t"
    using run f(1,2) c \<open>b \<noteq> null\<close> law
    by (auto simp: ev_close_def fo_context_def box_from_raw_def box_drop_def bind_eq_Some_conv Let_def)
  have "x \<noteq> b" using q c by (auto simp: ev_queue_def ev_ext_def)
  then have e: "ev_queue x ?s1 = Some q" "contexts ?s1 = contexts s - {b}"
    using q by (auto simp: ev_queue_def ev_ext_def contexts_def ev_ctx_def)
  have u: "unowned ?s1 = unowned s - {b}" "b \<notin> dom (notify_records s)" "b \<notin> dom (irp_boxes s)"
    using f(4) by (auto simp: unowned_def)
  have "in_hand E dev x (wi_irp w) ?s1"
    using h e(1) queue_inv_heap_remove [OF qi u(2,3)] extension_as_ptr_cong [of ?s1 s dev]
    by (intro in_handI [where q = q]) simp_all
  note d = complete_in_hand [OF this t] and k = irp_complete_kept [OF t]
  show "ev_inv E dev x t" "irps t = (irps s)(wi_irp w := None)"
    "completions p (klog t) = completions p (klog s) @ (if p = wi_irp w then [(STATUS_SUCCESS, 0)] else [])"
    "file_objs t = file_objs s" "contexts t = contexts s - {b}" "unowned t = unowned s - {b}"
    "ev_queue x t = ev_queue x s"
    using q e(1) irp_completeD(6) [OF t h(1), of x] d k u(1) e(2) by (simp_all add: files_kept_def success_no_info_def)
qed

text \<open>The clean-up of a file while nothing is queued.\<close>

lemma cleanup_step:
  assumes hand: "in_hand E dev x (wi_irp w) s" and q: "ev_queue x s = Some []"
    and run: "ev_cleanup K E dev w fo s = Some (w', t)"
  shows "ev_inv E dev x t" "irps t = (irps s)(wi_irp w := None)"
    "completions p (klog t) = completions p (klog s) @ (if p = wi_irp w then [(STATUS_SUCCESS, 0)] else [])"
    "files_kept s t"
proof -
  have x: "extension_as_ptr dev s = Some x" using hand by (rule in_handE)
  obtain c st s1 s2 s3 e q' cl s4 s5 s6 where
    1: "rundown_lock_acquire K E c (Some (wi_irp w)) s = Some (st, s1)"
    and 2: "rundown_lock_release remove_release_and_wait K E c s1 = Some s2"
    and 3: "on_queue_lock spin_acquire K E x s2 = Some s3" and e: "ev_ext x s3 = Some e"
    and 4: "cleanup_retain K E fo (event_queue e) s3 = Some (q', cl, s4)"
    and 5: "on_queue_lock spin_release K E x (ev_put_ext x (e\<lparr>event_queue := q'\<rparr>) s4) = Some s5"
    and 6: "complete_cancelled K cl s5 = Some s6" "irp_complete K w success_no_info s6 = Some t"
    using run x by (auto simp: ev_cleanup_def bind_eq_Some_conv Let_def)
  have same3: "same_memory x s s3"
    using rundown_acquire_same(1) [OF 1] rundown_release_same [OF 2] lock_step_same_memory [OF on_queue_lock_step(1) [OF 3]]
    by (blast intro: same_memory_trans)
  then have "event_queue e = []" using q e by (auto simp: same_memory_def ev_queue_def)
  with 4 6(1) have cl: "q' = []" "s4 = s3" "s6 = s5" by auto
  let ?s4 = "ev_put_ext x (e\<lparr>event_queue := []\<rparr>) s3"
  have "same_memory x s3 ?s4" using e \<open>event_queue e = []\<close> by (simp add: same_memory_def ev_queue_def [of x s3])
  moreover have 5: "on_queue_lock spin_release K E x ?s4 = Some s5" using 5 cl by simp
  ultimately have same5: "same_memory x s s5"
    using same3 lock_step_same_memory [OF on_queue_lock_step(2) [OF 5]] by (blast intro: same_memory_trans)
  have 6: "irp_complete K w success_no_info s5 = Some t" using 6(2) cl by simp
  note d = complete_in_hand [OF same_memory_in_hand [OF same5 hand] 6]
  show "ev_inv E dev x t" "irps t = (irps s)(wi_irp w := None)"
    "completions p (klog t) = completions p (klog s) @ (if p = wi_irp w then [(STATUS_SUCCESS, 0)] else [])"
    using d same5 by (simp_all add: same_memory_def success_no_info_def)
  show "files_kept s t"
    using 1 2 3 put_ext_kept [OF e] 5 6 by (auto simp: files_kept_def dest!: kept)
qed

section \<open>Runs with files\<close>

text \<open>
  What happens to a loaded driver: a step of the requests, timers and cancellations; the I/O manager
  makes a file object for the device and opens it; it closes a file, after which the file object
  goes; it cleans a file up while nothing is queued (with a queue, see \<open>cleanup_breaks_pending\<close>).
\<close>

datatype ev_action = Driver ev_label | OpenFile ptr ptr | CloseFile ptr ptr | CleanupFile ptr ptr

inductive ev_world :: "kernel \<Rightarrow> ev_env \<Rightarrow> WduDevice \<Rightarrow> evstate \<Rightarrow> ev_action \<Rightarrow> evstate \<Rightarrow> bool"
  for K E dev where
  driver: "ev_step K E dev s l t \<Longrightarrow> ev_world K E dev s (Driver l) t"
| open_file: "\<lbrakk>irps s p = None; p \<noteq> null; file_objs s a = None; FsContext f = null;
      s0 = s\<lparr>irps := (irps s)(p \<mapsto> irp), file_objs := (file_objs s)(a \<mapsto> f)\<rparr>;
      irp_wrap p s0 = Some w; create_new w s0 = Some c; fo_file_object (wc_file_object c) = a;
      ev_create K E dev w c s0 = Some (w', t)\<rbrakk> \<Longrightarrow> ev_world K E dev s (OpenFile p a) t"
| close_file: "\<lbrakk>irps s p = None; p \<noteq> null; s0 = s\<lparr>irps := (irps s)(p \<mapsto> irp)\<rparr>;
      irp_wrap p s0 = Some w; irp_file_object w s0 = Some fo; fo_file_object fo = a;
      ev_close K E dev w fo s0 = Some (w', t0); t = t0\<lparr>file_objs := (file_objs t0)(a := None)\<rparr>\<rbrakk>
    \<Longrightarrow> ev_world K E dev s (CloseFile p a) t"
| cleanup_file: "\<lbrakk>irps s p = None; p \<noteq> null; s0 = s\<lparr>irps := (irps s)(p \<mapsto> irp)\<rparr>;
      irp_wrap p s0 = Some w; irp_file_object w s0 = Some fo; fo_file_object fo = a;
      extension_as_ptr dev s = Some x; ev_queue x s = Some [];
      ev_cleanup K E dev w fo s0 = Some (w', t)\<rbrakk> \<Longrightarrow> ev_world K E dev s (CleanupFile p a) t"

inductive ev_worlds :: "kernel \<Rightarrow> ev_env \<Rightarrow> WduDevice \<Rightarrow> evstate \<Rightarrow> ev_action list \<Rightarrow> evstate \<Rightarrow> bool"
  for K E dev s where
  ev_worlds_Nil: "ev_worlds K E dev s [] s"
| ev_worlds_snoc: "ev_worlds K E dev s as t \<Longrightarrow> ev_world K E dev t a u \<Longrightarrow> ev_worlds K E dev s (as @ [a]) u"

text \<open>Whether an action brings the IRP at an address, and the files that are open after it.\<close>

fun brings :: "ptr \<Rightarrow> ev_action \<Rightarrow> bool" where
  "brings p (Driver l) \<longleftrightarrow> is_request p l"
| "brings p (OpenFile p' a) \<longleftrightarrow> p' = p"
| "brings p (CloseFile p' a) \<longleftrightarrow> p' = p"
| "brings p (CleanupFile p' a) \<longleftrightarrow> p' = p"

fun open_after :: "ev_action \<Rightarrow> ptr set \<Rightarrow> ptr set" where
  "open_after (OpenFile p a) A = insert a A"
| "open_after (CloseFile p a) A = A - {a}"
| "open_after _ A = A"

lemma ev_world_inv:
  assumes inv: "ev_inv E dev x s" "files_inv U s"
    and law: "heap_fresh K" "ref_never_pending K" "heap_apart K x" "0 < ex_sizeof_context E"
    and step: "ev_world K E dev s a t"
  shows "ev_inv E dev x t \<and> files_inv U t \<and> dom (file_objs t) = open_after a (dom (file_objs s)) \<and>
    answers p t + held p t = answers p s + held p s + (if brings p a then 1 else 0)"
  using step
proof cases
  case (driver l)
  then show ?thesis
    using ev_step_inv [OF inv(1) law(1,2) driver(2), of p] files_kept_inv [OF ev_step_kept [OF driver(2) law(1)], of U]
      ev_step_kept [OF driver(2) law(1)] inv(2) by (simp add: files_kept_def)
next
  case (open_file p' a' f s0 irp w c w')
  have w: "wi_irp w = p'" using open_file(7) by (auto simp: irp_wrap_def bind_eq_Some_conv)
  have hand: "in_hand E dev x (wi_irp w) s0"
    using arrived_in_hand(2) [OF inv(1) open_file(2,3)] by (simp add: open_file(6) w)
  have s0: "file_objs s0 (fo_file_object (wc_file_object c)) = Some f" "contexts s0 = contexts s" "unowned s0 = unowned s"
    using open_file(6,9) by (simp_all add: contexts_def unowned_def)
  obtain b where b: "ev_inv E dev x t" "irps t = (irps s0)(wi_irp w := None)"
    "\<And>p. completions p (klog t) = completions p (klog s0) @ (if p = wi_irp w then [(STATUS_SUCCESS, 0)] else [])"
    "file_objs t = (file_objs s0)(fo_file_object (wc_file_object c) \<mapsto> f\<lparr>FsContext := b\<rparr>)"
    "contexts t = insert b (contexts s0)" "unowned t = insert b (unowned s0)" "b \<notin> unowned s0"
    by (rule create_step [OF hand law(1,3,4) s0(1) open_file(5,10)]) blast
  have F: "file_objs t = (file_objs s)(a' \<mapsto> f\<lparr>FsContext := b\<rparr>)"
    using b(4) open_file(6,9) by simp
  have "files_inv U t"
    by (rule files_inv_open [OF inv(2) open_file(4) _ F]) (use b s0 in simp_all)
  then show ?thesis
    using b(1-3) F open_file(1,2,6) w by (auto simp: answers_def held_def)
next
  case (close_file p' s0 irp w fo a' w' t0)
  have w: "wi_irp w = p'" using close_file(5) by (auto simp: irp_wrap_def bind_eq_Some_conv)
  have hand: "in_hand E dev x (wi_irp w) s0"
    using arrived_in_hand(1) [OF inv(1) close_file(2,3)] by (simp add: close_file(4) w)
  obtain f where f: "file_objs s a' = Some f"
    using close_file(4,7,8) by (auto simp: ev_close_def fo_context_def bind_eq_Some_conv)
  have s0: "file_objs s0 (fo_file_object fo) = Some f" "contexts s0 = contexts s" "unowned s0 = unowned s"
    using f close_file(4,7) by (simp_all add: contexts_def unowned_def)
  have own0: "FsContext f \<in> contexts s0" "FsContext f \<in> unowned s0"
    using files_inv_own [OF inv(2) f] s0 by simp_all
  note c = close_step [OF hand law(4) s0(1) refl own0 close_file(8)]
  have t: "file_objs t = (file_objs s)(a' := None)" "contexts t = contexts s - {FsContext f}" "unowned t = unowned s - {FsContext f}"
    using c(4-6) s0 close_file(4,9) by (simp_all add: contexts_def unowned_def)
  have "ev_inv E dev x t"
    using c(1) close_file(9) by (simp add: ev_inv_def extension_as_ptr_def device_extension_def)
  then show ?thesis
    using files_inv_close [OF inv(2) f refl t] t(1) c(2,3) close_file(1,2,4,9) w
    by (auto simp: answers_def held_def)
next
  case (cleanup_file p' s0 irp w fo a' x' w')
  have w: "wi_irp w = p'" using cleanup_file(5) by (auto simp: irp_wrap_def bind_eq_Some_conv)
  have hand: "in_hand E dev x (wi_irp w) s0"
    using arrived_in_hand(1) [OF inv(1) cleanup_file(2,3)] by (simp add: cleanup_file(4) w)
  have "x' = x" using inv(1) cleanup_file(8) by (simp add: ev_inv_def)
  then have "ev_queue x s0 = Some []" using cleanup_file(4,9) by simp
  note c = cleanup_step [OF hand this cleanup_file(10)]
  have "files_kept s s0" using cleanup_file(4) by (simp add: files_kept_def contexts_def unowned_def)
  from files_kept_trans [OF this c(4)] show ?thesis
    using files_kept_inv inv(2) c(1-3) cleanup_file(1,2,4) w
    by (auto simp: answers_def held_def files_kept_def)
qed

lemma ev_worlds_inv:
  assumes "ev_worlds K E dev s as t" "ev_inv E dev x s" "files_inv U s"
    and law: "heap_fresh K" "ref_never_pending K" "heap_apart K x" "0 < ex_sizeof_context E"
  shows "ev_inv E dev x t \<and> files_inv U t \<and> dom (file_objs t) = fold open_after as (dom (file_objs s)) \<and>
    answers p t + held p t = answers p s + held p s + length (filter (brings p) as)"
  using assms(1)
proof induction
  case ev_worlds_Nil
  then show ?case using assms(2,3) by simp
next
  case (ev_worlds_snoc as t a u)
  then show ?case
    using ev_world_inv [OF _ _ law ev_worlds_snoc(2), of U p] by simp
qed

text \<open>The driver as \<open>ev_loaded\<close> has it, with no file open.\<close>

definition no_files :: "'a evstate_scheme \<Rightarrow> bool" where
  "no_files s \<longleftrightarrow> file_objs s = Map.empty \<and> contexts s = {}"

lemma loaded_files_inv:
  assumes "ev_loaded dev x s" "no_files s"
  shows "files_inv (dom (heap_blocks (klog s))) s"
  using assms by (simp add: files_inv_def no_files_def ev_loaded_def unowned_def bij_betw_def)

lemma ev_inv_boxes:
  assumes "ev_inv E dev x t" "irp_boxes t k = Some w"
  shows "is_pending x (wi_irp w) t"
  using assms(1)
proof (rule ev_invE)
  fix q assume "queue_inv E x q (notify_records t) (irp_boxes t) (irps t) (heap_blocks (klog t))"
  then have "wi_irp w \<in> dom (irps t)"
    using assms(2) unfolding queue_inv_def boxes_ok_def by blast
  then show ?thesis using ev_inv_pending [OF assms(1)] by simp
qed

lemma ev_inv_empty:
  assumes "ev_inv E dev x t" "ev_queue x t = Some []"
  shows "notify_records t = Map.empty" "irp_boxes t = Map.empty"
proof -
  show N: "notify_records t = Map.empty"
    using assms(1) by (rule ev_invE) (use assms(2) in \<open>auto simp: queue_inv_def\<close>)
  show "irp_boxes t = Map.empty"
  proof
    fix k show "irp_boxes t k = None"
      using ev_inv_boxes [OF assms(1), of k] assms(2) by (cases "irp_boxes t k") (auto simp: is_pending_def)
  qed
qed

text \<open>
  C3. Whatever happens to the loaded driver, files opened, cleaned up (while nothing is queued) and
  closed, requests, timers and cancellations in any order: the queue stays well-formed; every IRP
  of every kind that came in has been completed exactly once or is pending in the queue; every open
  file has a live context of its own; and nothing leaks: each block of the heap is one the driver
  started with, a record of the queue, the box of a pending request or the context of an open file,
  and only one of these. So once every file is closed and the queue is empty, the heap is as it was
  when the driver was loaded.
\<close>

theorem driver_owns_its_memory:
  assumes loaded: "ev_loaded dev x s" "no_files s"
    and law: "heap_fresh K" "ref_never_pending K" "heap_apart K x" "0 < ex_sizeof_context E"
    and run: "ev_worlds K E dev s as t"
  shows "ev_inv E dev x t \<and>
    (\<forall>p. answers p t + (if is_pending x p t then 1 else 0) = answers p s + length (filter (brings p) as)) \<and>
    dom (file_objs t) = fold open_after as {} \<and> bij_betw (file_context t) (dom (file_objs t)) (contexts t) \<and>
    dom (heap_blocks (klog t)) =
      dom (heap_blocks (klog s)) \<union> dom (notify_records t) \<union> dom (irp_boxes t) \<union> contexts t \<and>
    (dom (heap_blocks (klog s)) \<union> contexts t) \<inter> (dom (notify_records t) \<union> dom (irp_boxes t)) = {} \<and>
    dom (heap_blocks (klog s)) \<inter> contexts t = {} \<and> dom (notify_records t) \<inter> dom (irp_boxes t) = {} \<and>
    (\<forall>k w. irp_boxes t k = Some w \<longrightarrow> is_pending x (wi_irp w) t) \<and>
    (fold open_after as {} = {} \<and> ev_queue x t = Some [] \<longrightarrow> dom (heap_blocks (klog t)) = dom (heap_blocks (klog s)))"
proof -
  note inv = ev_worlds_inv [OF run ev_loaded_inv [OF loaded(1)] loaded_files_inv [OF loaded] law]
  have t: "ev_inv E dev x t" "files_inv (dom (heap_blocks (klog s))) t"
    and files: "dom (file_objs t) = fold open_after as {}"
    using inv loaded(2) by (simp_all add: no_files_def)
  have "held p s = 0" for p
    using loaded(1) by (simp add: ev_loaded_def held_def)
  then have count: "answers p t + (if is_pending x p t then 1 else 0) = answers p s + length (filter (brings p) as)" for p
    using inv ev_inv_pending [OF t(1)] by (simp add: held_def)
  have own: "dom (notify_records t) \<inter> dom (irp_boxes t) = {}" "dom (notify_records t) \<union> dom (irp_boxes t) \<subseteq> dom (heap_blocks (klog t))"
    using t(1) unfolding ev_inv_def queue_inv_def by blast+
  have u: "bij_betw (file_context t) (dom (file_objs t)) (contexts t)"
    "unowned t = dom (heap_blocks (klog s)) \<union> contexts t" "dom (heap_blocks (klog s)) \<inter> contexts t = {}"
    using t(2) by (auto simp: files_inv_def)
  have heap: "dom (heap_blocks (klog t)) = dom (heap_blocks (klog s)) \<union> dom (notify_records t) \<union> dom (irp_boxes t) \<union> contexts t"
    using u(2) own(2) by (auto simp: unowned_def)
  have disj: "(dom (heap_blocks (klog s)) \<union> contexts t) \<inter> (dom (notify_records t) \<union> dom (irp_boxes t)) = {}"
    using u(2) by (auto simp: unowned_def)
  have "dom (heap_blocks (klog t)) = dom (heap_blocks (klog s))" if "fold open_after as {} = {}" "ev_queue x t = Some []"
    using heap ev_inv_empty [OF t(1) that(2)] u(1) that(1) files by (simp add: bij_betw_def)
  then show ?thesis
    using t(1) count files u(1,3) heap disj own(1) ev_inv_boxes [OF t(1)] by blast
qed

text \<open>A loaded driver without files, and the IRPs that open and close one.\<close>

definition ev_empty0 :: evstate where
  "ev_empty0 = ev_st0\<lparr>file_objs := Map.empty, client := [0x350 \<mapsto> CExt \<lparr>event_queue = [], queue_lock = spin_new\<rparr>]\<rparr>"

definition irp_mj0 :: "u8 \<Rightarrow> IRP" where
  "irp_mj0 m = irp0\<lparr>irp_CurrentStack := stack0\<lparr>sl_MajorFunction := m\<rparr>\<rparr>"

abbreviation fobj0 :: FILE_OBJECT where
  "fobj0 \<equiv> \<lparr>FileName = \<lparr>Length = 0, MaximumLength = 0, Buffer = 0\<rparr>, FsContext = 0, FsContext2 = 0\<rparr>"

lemma irp_mj0_facts:
  fixes s :: evstate
  assumes "irps s p = Some (irp_mj0 m)"
  shows "m = 0 \<Longrightarrow> irp_wrap p s = Some \<lparr>wi_irp = p, wi_mj = MjCreate, wi_cancel = None\<rparr>"
    "m = 2 \<Longrightarrow> irp_wrap p s = Some \<lparr>wi_irp = p, wi_mj = MjClose, wi_cancel = None\<rparr>"
    "wi_irp w = p \<Longrightarrow> irp_file_object w s = Some (fo_wrap 0x60)"
    "wi_irp w = p \<Longrightarrow> create_new w s = Some \<lparr>wc_file_object = fo_wrap 0x60, wc_desired_access = 0,
       wc_file_attributes = 0, wc_share_access = 0\<rparr>"
  using assms
  by (simp_all add: irp_wrap_def current_stack_def irp_mj0_def irp0_def stack0_def major_from_def nt_consts irp_file_object_def
      create_new_def original_file_object_def Let_def word_sle_eq)

lemma ev_empty0_loaded: "ev_loaded ev_dev0 0x350 ev_empty0" "no_files ev_empty0"
  by (simp_all add: ev_loaded_def no_files_def contexts_def ev_ctx_def ev_empty0_def ev_st0_def ev_dev0_def wrap_device_def
      extension_as_ptr_def device_extension_def sizeof_WduDevice_def ev_queue_def ev_ext_def)

lemma ev_kernel_apart: "heap_apart ev_kernel 0x350"
proof -
  have page: "take_bit 12 (0x1000 * w :: 64 word) = 0" for w
    using take_bit_push_bit [of 12 12 w] by (simp add: push_bit_eq_mult mult.commute)
  have p12: "take_bit 12 (fresh_page h) = 0" for h
    using page [of "of_nat (Suc (length h))"] by (simp only: fresh_page_def Let_def split: if_split) simp
  have "fresh_page h \<noteq> 0x350" for h
    using p12 [of h] by auto
  then show ?thesis by (simp add: heap_apart_def ev_kernel_def)
qed

lemma ev_empty0_opens:
  "\<exists>t. ev_world ev_kernel ev_env0 ev_dev0 ev_empty0 (OpenFile 0x52 0x60) t \<and> ev_queue 0x350 t = Some []"
proof -
  let ?s0 = "ev_empty0\<lparr>irps := (irps ev_empty0)(0x52 \<mapsto> irp_mj0 0), file_objs := (file_objs ev_empty0)(0x60 \<mapsto> fobj0)\<rparr>"
  let ?w = "\<lparr>wi_irp = 0x52, wi_mj = MjCreate, wi_cancel = None\<rparr>"
  let ?c = "\<lparr>wc_file_object = fo_wrap 0x60, wc_desired_access = 0, wc_file_attributes = 0, wc_share_access = 0\<rparr>"
  have irp: "irps ?s0 0x52 = Some (irp_mj0 0)" by simp
  note w = irp_mj0_facts [OF irp]
  have page: "fresh_page [(Rw c, r)] = 0x2000" for c r
    by (simp add: fresh_page_def Let_def pool_blocks_def heap_blocks_def)
  have "\<exists>t. ev_create ev_kernel ev_env0 ev_dev0 ?w ?c ?s0 = Some (?w, t) \<and> ev_queue 0x350 t = Some []"
    by (simp add: ev_queue_def ev_ext_def ev_create_def remove_init_def fo_context_def box_from_raw_def fo_set_context_def box_new_def rust_alloc_def sys_eq
        fo_wrap_def ev_env0_def ev_kernel_def ev_empty0_def ev_st0_def page Let_def irp_complete_def complete_request_def)
  then obtain t where t: "ev_create ev_kernel ev_env0 ev_dev0 ?w ?c ?s0 = Some (?w, t)" "ev_queue 0x350 t = Some []" by blast
  have "ev_world ev_kernel ev_env0 ev_dev0 ev_empty0 (OpenFile 0x52 0x60) t"
    by (intro ev_world.open_file [where f = fobj0 and irp = "irp_mj0 0" and w = ?w and c = ?c and w' = ?w])
      (use w t(1) in \<open>simp_all add: fo_wrap_def\<close>, simp_all add: ev_empty0_def ev_st0_def)
  then show ?thesis using t(2) by blast
qed

theorem driver_owns_its_memory_witness:
  "\<exists>t u. ev_worlds ev_kernel ev_env0 ev_dev0 ev_empty0 [OpenFile 0x52 0x60] t \<and> dom (file_objs t) = {0x60} \<and>
     ev_worlds ev_kernel ev_env0 ev_dev0 ev_empty0 [OpenFile 0x52 0x60, CloseFile 0x53 0x60] u \<and>
     answers 0x52 u = 1 \<and> answers 0x53 u = 1 \<and> dom (heap_blocks (klog u)) = {}"
proof -
  obtain t where t: "ev_world ev_kernel ev_env0 ev_dev0 ev_empty0 (OpenFile 0x52 0x60) t" "ev_queue 0x350 t = Some []"
    using ev_empty0_opens by blast
  have 1: "ev_worlds ev_kernel ev_env0 ev_dev0 ev_empty0 ([] @ [OpenFile 0x52 0x60]) t"
    by (rule ev_worlds_snoc [OF ev_worlds_Nil t(1)])
  note law = ev_kernel_laws(1,2) ev_kernel_apart
  have size: "0 < ex_sizeof_context ev_env0" by (simp add: ev_env0_def)
  note own = driver_owns_its_memory [OF ev_empty0_loaded law size]
  have st: "ev_inv ev_env0 ev_dev0 0x350 t" "dom (file_objs t) = {0x60}"
    "bij_betw (file_context t) (dom (file_objs t)) (contexts t)"
    "answers 0x53 t + (if is_pending 0x350 0x53 t then 1 else 0) = 0"
    using own [OF 1] by (auto simp: answers_def ev_empty0_def ev_st0_def)
  have c: "contexts t \<subseteq> unowned t" using own [OF 1] unfolding unowned_def by blast
  obtain f where f: "file_objs t 0x60 = Some f" using st(2) by blast
  then have ctx: "FsContext f \<in> contexts t"
    using st(2,3) by (auto simp: bij_betw_def file_context_def)
  then have null: "FsContext f \<noteq> null" using c by (auto simp: unowned_def)
  obtain fc where fc: "client t (FsContext f) = Some (CFile fc)"
    using ctx by (auto simp: contexts_def ev_ctx_def split: option.splits ev_client.splits)
  have irp: "irps t 0x53 = None" using st(4) ev_inv_pending [OF st(1)] by (auto split: if_splits)
  let ?s0 = "t\<lparr>irps := (irps t)(0x53 \<mapsto> irp_mj0 2)\<rparr>" and ?w = "\<lparr>wi_irp = 0x53, wi_mj = MjClose, wi_cancel = None\<rparr>"
  obtain t0 where t0: "ev_close ev_kernel ev_env0 ev_dev0 ?w (fo_wrap 0x60) ?s0 = Some (?w, t0)"
    by (rule close_runs [OF size, of ?s0 "fo_wrap 0x60" f "FsContext f" "CFile fc" ?w "irp_mj0 2" ev_kernel ev_dev0])
      (use f fc null in \<open>simp_all add: fo_wrap_def\<close>)
  let ?u = "t0\<lparr>file_objs := (file_objs t0)(0x60 := None)\<rparr>"
  have "in_hand ev_env0 ev_dev0 0x350 (wi_irp ?w) ?s0" using arrived_in_hand(1) [OF st(1) irp] by simp
  from close_step(7) [OF this size _ refl _ _ t0, of f]
  have q: "ev_queue 0x350 ?u = Some []"
    using f ctx c t(2) by (auto simp: fo_wrap_def contexts_def unowned_def)
  have "irps ?s0 0x53 = Some (irp_mj0 2)" by simp
  note w = irp_mj0_facts [OF this]
  have "ev_world ev_kernel ev_env0 ev_dev0 t (CloseFile 0x53 0x60) ?u"
    by (rule ev_world.close_file [where irp = "irp_mj0 2" and w = ?w and fo = "fo_wrap 0x60"])
      (use irp w t0 in \<open>simp_all add: fo_wrap_def\<close>)
  from ev_worlds_snoc [OF 1 this]
  have 2: "ev_worlds ev_kernel ev_env0 ev_dev0 ev_empty0 [OpenFile 0x52 0x60, CloseFile 0x53 0x60] ?u" by simp
  show ?thesis
  proof (intro exI conjI)
    show "ev_worlds ev_kernel ev_env0 ev_dev0 ev_empty0 [OpenFile 0x52 0x60] t" using 1 by simp
    show "dom (file_objs t) = {0x60}" by (rule st)
    show "ev_worlds ev_kernel ev_env0 ev_dev0 ev_empty0 [OpenFile 0x52 0x60, CloseFile 0x53 0x60] ?u" by (rule 2)
    have none: "\<not> is_pending 0x350 p ?u" "answers p ev_empty0 = 0" for p
      using q by (simp_all add: is_pending_def answers_def ev_empty0_def ev_st0_def)
    have "answers p ?u + (if is_pending 0x350 p ?u then 1 else 0) =
      answers p ev_empty0 + length (filter (brings p) [OpenFile 0x52 0x60, CloseFile 0x53 0x60])" for p
      using own [OF 2] by blast
    from this [of "0x52"] this [of "0x53"] show "answers 0x52 ?u = 1" "answers 0x53 ?u = 1"
      by (simp_all add: none)
    show "dom (heap_blocks (klog ?u)) = {}"
    proof -
      have "fold open_after [OpenFile 0x52 0x60, CloseFile 0x53 0x60] {} = {}" by simp
      then have "dom (heap_blocks (klog ?u)) = dom (heap_blocks (klog ev_empty0))" using own [OF 2] q by blast
      moreover have "heap_blocks (klog ev_empty0) = Map.empty" by (simp add: ev_empty0_def ev_st0_def heap_blocks_def)
      ultimately show ?thesis by simp
    qed
  qed
qed

end
