(* ===== verification/Ex_EventTotal.thy ===== *)
theory Ex_EventTotal
  imports Ex_EventFiles
begin

text \<open>
  The device control handler of the event example always returns, and what it answers: the outcome
  of every branch, errors included, as a function of the request and of what the kernel answers.
\<close>

section \<open>Registrations return\<close>

lemma irp_notification_locked_cancelled:
  assumes irp: "irps s (wi_irp w) = Some irp" "irp_Cancel irp = 1" "irp_boxes s (irp_DriverContext3 irp) = Some w"
    "wi_cancel w \<noteq> None"
    and irql: "reports_irql i0 K" "irql_after i0 (klog s) = DISPATCH_LEVEL" and q: "ev_queue x s = Some q"
  shows "\<exists>w' t. irp_notification_locked K E x b due w s = Some (Err (EvStatus STATUS_CANCELLED), w', t)"
proof -
  note sc = set_cancel_rtn_none_eq [OF irp(1,3), of K "ex_cancel_entry E"]
  let ?k = "irp_DriverContext3 irp"
  let ?s1 = "s\<lparr>klog := klog s @ [(Pool (RustDealloc ?k), K (klog s) (Pool (RustDealloc ?k)))],
      irp_boxes := (irp_boxes s)(?k := None),
      irps := (irps s)(wi_irp w \<mapsto> irp\<lparr>irp_CancelRoutine := None, irp_DriverContext3 := null\<rparr>)\<rparr>"
  have "irql_after i0 (klog ?s1) = DISPATCH_LEVEL" "ev_queue x ?s1 = Some q"
    using irql(2) q by simp_all
  from queue_lock_release [OF irql(1) this] obtain t where "on_queue_lock spin_release K E x ?s1 = Some t" by blast
  then show ?thesis
    using irp sc by (auto simp: irp_notification_locked_def is_cancel_def)
qed

lemma irp_notification_returns:
  assumes irp: "irps s (wi_irp w) = Some irp" "stack_ok irp"
    and irql: "reports_irql i0 K" "irql_after i0 (klog s) \<le> DISPATCH_LEVEL"
    and x: "extension_as_ptr dev s = Some x" and q: "ev_queue x s = Some q" and fresh: "heap_fresh K"
    and mem: "memory_for K E (klog s)"
  shows "\<exists>r w' t. irp_notification K E dev w re s = Some (r, w', t) \<and>
    event_status r = (if irp_Cancel irp = 1 then STATUS_CANCELLED else STATUS_PENDING)"
proof (cases "irp_Cancel irp = 1")
  case True
  have "irp_file_object w s = Some (fo_wrap (sl_FileObject (irp_CurrentStack irp)))"
    using irp by (simp add: irp_file_object_def current_stack_def stack_ok_def)
  from irp_notification_record_ok [where s = s and w = w and K = K and E = E, OF irp(1) this mem] obtain b s1 where
    s1: "irp_notification_record K E x w s = Some (b, cancelable E w, s1)" "irql_after i0 (klog s1) = irql_after i0 (klog s)"
    by blast
  obtain k irp1 fo where r: "irp1 = irp\<lparr>irp_DriverContext3 := k, irp_CancelRoutine := Some (ex_cancel_entry E)\<rparr>"
    "irps s1 = (irps s)(wi_irp w \<mapsto> irp1)" "irp_boxes s1 = (irp_boxes s)(k \<mapsto> cancelable E w)" "ev_queue x s1 = ev_queue x s"
    using irp_notification_recordE [OF s1(1) fresh] irp(1) by (metis option.inject)
  have "irql_after i0 (klog s1) \<le> DISPATCH_LEVEL" "ev_queue x s1 = Some q"
    using s1(2) irql(2) q r by simp_all
  from queue_lock_acquire [OF irql(1) this, of E] obtain s2 where
    s2: "on_queue_lock spin_acquire K E x s1 = Some s2" "irql_after i0 (klog s2) = DISPATCH_LEVEL" by blast
  note l = lock_stepD [OF on_queue_lock_step(1) [OF s2(1)]]
  have "irps s2 (wi_irp (cancelable E w)) = Some irp1" "irp_boxes s2 (irp_DriverContext3 irp1) = Some (cancelable E w)"
    "irp_Cancel irp1 = 1" "ev_queue x s2 = Some q"
    using irp q True by (simp_all add: l r)
  from irp_notification_locked_cancelled [OF this(1,3,2) _ irql(1) s2(2) this(4)] show ?thesis
    using True x s1(1) s2(1) by (fastforce simp: irp_notification_def)
next
  case False
  from irp_notification_ok [OF irp False irql x q fresh mem] False show ?thesis by fastforce
qed

lemma start_notify_returns:
  assumes "reports_irql i0 K" "irql_after i0 (klog s) = DISPATCH_LEVEL" "ev_queue x s = Some q"
  shows "\<exists>t. start_notify K E x b due s = Some t"
proof -
  obtain e where e: "ev_ext x s = Some e" using assms(3) by (auto simp: ev_queue_def)
  let ?s1 = "snd (timer_set K (b + ex_timer_off E) due (Some (b + ex_dpc_off E)) s)"
  let ?s2 = "ev_put_ext x (e\<lparr>event_queue := event_queue e @ [b]\<rparr>) ?s1"
  have "irql_after i0 (klog ?s2) = DISPATCH_LEVEL" "ev_queue x ?s2 = Some (event_queue e @ [b])"
    using assms(2) by (simp_all add: timer_set_def obj_bool_def sys_eq dpc_ptr_def)
  from queue_lock_release [OF assms(1) this] show ?thesis
    using e by (auto simp: start_notify_def timer_set_def obj_bool_def sys_eq ev_ext_def)
qed

text \<open>The call with which an event is referenced.\<close>

definition ref_call :: "ev_env \<Rightarrow> RegisterEvent \<Rightarrow> ProcessorMode \<Rightarrow> kcall" where
  "ref_call E re md = Obj (ObReferenceObjectByHandle (re_event re) EVENT_ACCESS_MASK (ex_event_type E) (processor_mode_into md))"

lemma event_notification_returns:
  assumes irp: "irps s (wi_irp w) = Some irp" "stack_ok irp" "processor_mode_from (irp_RequestorMode irp) = Some md"
    and irql: "reports_irql i0 K" "irql_after i0 (klog s) \<le> DISPATCH_LEVEL"
    and x: "extension_as_ptr dev s = Some x" and q: "ev_queue x s = Some q" and fresh: "heap_fresh K"
    and c: "c = ref_call E re md"
    and mem: "r_ptr (K (klog s @ [(c, K (klog s) c)]) (Pool (RustAlloc (of_nat (ex_sizeof_record E))))) \<noteq> null"
  shows "\<exists>r w' t. event_notification K E dev w re s = Some (r, w', t) \<and> event_status r = r_status (K (klog s) c)"
proof -
  let ?s1 = "s\<lparr>klog := klog s @ [(c, K (klog s) c)]\<rparr>"
  have md: "irp_processor_mode w s = Some md" using irp by (simp add: irp_processor_mode_def)
  show ?thesis
  proof (cases "r_status (K (klog s) c) = STATUS_SUCCESS")
    case False
    then show ?thesis
      using md x by (simp add: event_notification_def event_ref_by_handle_def ref_by_handle_def sys_eq c ref_call_def)
  next
    case True
    let ?v = "event_new\<lparr>ev_event := r_out (K (klog s) c)\<rparr>" and ?fo = "fo_wrap (sl_FileObject (irp_CurrentStack irp))"
    have ref: "event_ref_by_handle K (ex_event_type E) (re_event re) EVENT_ACCESS_MASK md s = (Ok ?v, ?s1)"
      using True by (simp add: event_ref_by_handle_def ref_by_handle_def sys_eq c ref_call_def)
    have fo: "irp_file_object w ?s1 = Some ?fo"
      using irp by (simp add: irp_file_object_def current_stack_def stack_ok_def)
    obtain b s2 where s2: "new_notify_record K E \<lparr>nd_ty = EventBased ?v, nd_extension = x\<rparr> ?fo ?s1 = Some (b, s2)"
      "irql_after i0 (klog s2) = irql_after i0 (klog ?s1)"
      using mem by (auto simp: new_notify_record_def rust_alloc_def sys_eq timer_init_def dpc_init_def Let_def)
    have "irql_after i0 (klog s2) \<le> DISPATCH_LEVEL" "ev_queue x s2 = Some q"
      using s2(2) irql(2) q new_notify_recordD(7) [OF s2(1) fresh, of x] by (simp_all add: c ref_call_def)
    from queue_lock_acquire [OF irql(1) this, of E] obtain s3 where
      s3: "on_queue_lock spin_acquire K E x s2 = Some s3" "irql_after i0 (klog s3) = DISPATCH_LEVEL" by blast
    obtain s4 where s4: "start_notify K E x b (relative_due_time (re_due_time re)) s3 = Some s4"
      using start_notify_returns [OF irql(1) s3(2)] \<open>ev_queue x s2 = Some q\<close>
        lock_stepD(7) [OF on_queue_lock_step(1) [OF s3(1)]] by metis
    then show ?thesis
      using md x ref fo s2(1) s3(1) True by (simp add: event_notification_def Let_def)
  qed
qed

section \<open>The outcome of a request\<close>

text \<open>The call with which the handler takes the remove lock of the file, and the log after it.\<close>

definition acquire_call :: "ev_env \<Rightarrow> ptr \<Rightarrow> ptr \<Rightarrow> kcall" where
  "acquire_call E c p = Rw (IoAcquireRemoveLockEx (c + ex_rundown_off E) p)"

definition log_with :: "kernel \<Rightarrow> kcall \<Rightarrow> kevent list \<Rightarrow> kevent list" where
  "log_with K c h = h @ [(c, K h c)]"

text \<open>
  The status a request ends with, as a function of its parameters, of its registration \<open>re\<close>, of
  whether it is already cancelled, and of what the kernel answers.
\<close>

definition register_outcome :: "kernel \<Rightarrow> ev_env \<Rightarrow> WduDeviceControl \<Rightarrow> RegisterEvent \<Rightarrow> bool \<Rightarrow> ProcessorMode \<Rightarrow> kevent list \<Rightarrow> ntstatus" where
  "register_outcome K E req re cancelled md h =
     (if dc_in_buf_len req < sizeof_RegisterEvent \<or> input_buffer req = null then STATUS_INVALID_PARAMETER
      else if re_notify_type re = IRP_BASED then if cancelled then STATUS_CANCELLED else STATUS_PENDING
      else if re_notify_type re = EVENT_BASED then r_status (K h (ref_call E re md))
      else STATUS_INVALID_PARAMETER)"

definition request_outcome :: "kernel \<Rightarrow> ev_env \<Rightarrow> ptr \<Rightarrow> ptr \<Rightarrow> WduDeviceControl \<Rightarrow> RegisterEvent \<Rightarrow> bool \<Rightarrow> ProcessorMode \<Rightarrow> kevent list \<Rightarrow> ntstatus" where
  "request_outcome K E c p req re cancelled md h =
     (if r_status (K h (acquire_call E c p)) \<noteq> STATUS_SUCCESS then STATUS_UNSUCCESSFUL
      else if dc_ioctl req = IOCTL_REGISTER_EVENT
      then register_outcome K E req re cancelled md (log_with K (acquire_call E c p) h)
      else STATUS_NOT_IMPLEMENTED)"

text \<open>The heap has room for whatever the registration may need.\<close>

definition registration_room :: "kernel \<Rightarrow> ev_env \<Rightarrow> RegisterEvent \<Rightarrow> ProcessorMode \<Rightarrow> kevent list \<Rightarrow> bool" where
  "registration_room K E re md h \<longleftrightarrow> memory_for K E h \<and>
     r_ptr (K (log_with K (ref_call E re md) h) (Pool (RustAlloc (of_nat (ex_sizeof_record E))))) \<noteq> null"

lemma handle_register_returns:
  assumes hand: "in_hand E dev x (wi_irp w) s"
    and irp: "irps s (wi_irp w) = Some irp" "stack_ok irp" "processor_mode_from (irp_RequestorMode irp) = Some md"
    and law: "heap_fresh K" "reports_irql i0 K" "irql_after i0 (klog s) \<le> DISPATCH_LEVEL"
      "registration_room K E (register_event_at (input_buffer req) s) md (klog s)"
  shows "\<exists>r w' t. handle_register_event K E dev w req s = Some (r, w', t) \<and>
    event_status r = register_outcome K E req (register_event_at (input_buffer req) s) (irp_Cancel irp = 1) md (klog s)"
proof -
  let ?re = "register_event_at (input_buffer req) s"
  obtain q where x: "extension_as_ptr dev s = Some x" and q: "ev_queue x s = Some q"
    using hand by (rule in_handE)
  have mem: "memory_for K E (klog s)"
    "r_ptr (K (klog s @ [(ref_call E ?re md, K (klog s) (ref_call E ?re md))]) (Pool (RustAlloc (of_nat (ex_sizeof_record E))))) \<noteq> null"
    using law(4) by (simp_all add: registration_room_def log_with_def)
  show ?thesis
    using irp_notification_returns [OF irp(1,2) law(2,3) x q law(1) mem(1), of ?re]
      event_notification_returns [OF irp law(2,3) x q law(1) refl mem(2)]
    by (auto simp: handle_register_event_def register_outcome_def Let_def)
qed

lemma rundown_release_returns:
  assumes "ev_ctx c s \<noteq> None"
  shows "\<exists>t. rundown_lock_release remove_release K E c s = Some t"
  using assms by (auto simp: rundown_lock_release_def remove_release_def Let_def)

text \<open>What follows the remove lock: the control code, the completion and the release.\<close>

lemma device_control_served:
  assumes hand: "in_hand E dev x (wi_irp w) s" and ctx: "ev_ctx c s \<noteq> None"
    and law: "heap_fresh K" "ref_never_pending K"
    and serve: "(if dc_ioctl req = IOCTL_REGISTER_EVENT
        then handle_register_event K E dev w req s \<bind> (\<lambda>(r, w, s). Some (event_status r, w, s))
        else debug_assert False s \<bind> (\<lambda>u. Some (STATUS_NOT_IMPLEMENTED, w, s))) = Some (st, w2, s2)"
  shows "\<exists>s3 t. (if st \<noteq> STATUS_PENDING then irp_complete K w2 (set_status st io_status_new) s2 else Some s2) = Some s3 \<and>
    rundown_lock_release remove_release K E c s3 = Some t"
proof -
  have "wi_irp w2 = wi_irp w \<and> files_kept s s2 \<and> (st = STATUS_PENDING \<or> in_hand E dev x (wi_irp w) s2)"
  proof (cases "dc_ioctl req = IOCTL_REGISTER_EVENT")
    case True
    then obtain r where "handle_register_event K E dev w req s = Some (r, w2, s2)" "st = event_status r"
      using serve by (auto simp: bind_eq_Some_conv)
    with handle_register [OF hand law this(1)] handle_register_kept [OF this(1) law(1)] show ?thesis by (auto split: if_splits)
  next
    case False
    then show ?thesis using serve hand by auto
  qed
  then have w2: "wi_irp w2 = wi_irp w" and k: "files_kept s s2" and st: "st = STATUS_PENDING \<or> in_hand E dev x (wi_irp w) s2"
    by blast+
  have "\<exists>s3. (if st \<noteq> STATUS_PENDING then irp_complete K w2 (set_status st io_status_new) s2 else Some s2) = Some s3"
    using st w2 irp_complete_eq [of s2 w2] by (auto simp: in_hand_def)
  then obtain s3 where s3: "(if st \<noteq> STATUS_PENDING then irp_complete K w2 (set_status st io_status_new) s2 else Some s2) = Some s3"
    by blast
  then have "files_kept s2 s3" by (auto intro: irp_complete_kept split: if_splits)
  then have "contexts s3 = contexts s" using k by (simp add: files_kept_def)
  then have "ev_ctx c s3 \<noteq> None" using ctx by (auto simp: contexts_def)
  from rundown_release_returns [OF this] s3 show ?thesis by blast
qed

text \<open>
  C4. What the device control handler of the event example does with a request through an open file,
  with room on the heap, whatever the control code, the buffer and the registration, and whether or
  not the request is already cancelled. In a debug build, a control code it does not know makes it
  panic (\<^verbatim>\<open>debug_assert!(false)\<close>) once it has the file's remove lock. In every other case it runs
  through without a panic or a fault, and the status it answers is \<open>request_outcome\<close>: the request is
  then pending in the queue, when that is \<^verbatim>\<open>STATUS_PENDING\<close>, or completed once with that status and
  0 bytes of information.
\<close>

theorem device_control_returns:
  assumes hand: "in_hand E dev x (wi_irp w) s"
    and irp: "irps s (wi_irp w) = Some irp" "stack_ok irp" "processor_mode_from (irp_RequestorMode irp) = Some md"
    and fobj: "sl_FileObject (irp_CurrentStack irp) \<noteq> null" "file_objs s (sl_FileObject (irp_CurrentStack irp)) = Some f"
      "FsContext f \<noteq> null" "FsContext f \<in> contexts s"
    and law: "heap_fresh K" "ref_never_pending K" "reports_irql i0 K" "irql_after i0 (klog s) \<le> DISPATCH_LEVEL"
      "registration_room K E re md (log_with K (acquire_call E (FsContext f) (wi_irp w)) (klog s))"
    and re: "re = register_event_at (input_buffer req) s"
    and st: "st = request_outcome K E (FsContext f) (wi_irp w) req re (irp_Cancel irp = 1) md (klog s)"
  shows "if dc_ioctl req \<noteq> IOCTL_REGISTER_EVENT \<and> debug_assertions s \<and>
        r_status (K (klog s) (acquire_call E (FsContext f) (wi_irp w))) = STATUS_SUCCESS
    then ev_device_control K E dev w req s = None
    else \<exists>w' t. ev_device_control K E dev w req s = Some (st, w', t) \<and> ev_inv E dev x t \<and>
      (if st = STATUS_PENDING
       then is_pending x (wi_irp w) t \<and> completions (wi_irp w) (klog t) = completions (wi_irp w) (klog s)
       else \<not> is_pending x (wi_irp w) t \<and> completions (wi_irp w) (klog t) = completions (wi_irp w) (klog s) @ [(st, 0)])"
proof -
  let ?c = "FsContext f" and ?p = "wi_irp w"
  let ?a = "acquire_call E ?c ?p"
  obtain ctx where ctx: "ev_ctx ?c s = Some ctx" using fobj(4) by (auto simp: contexts_def)
  obtain s1 where s1: "rundown_lock_acquire K E ?c (Some ?p) s = Some (r_status (K (klog s) ?a), s1)"
    "klog s1 = log_with K ?a (klog s)" "ev_bytes s1 = ev_bytes s" "debug_assertions s1 = debug_assertions s"
    using ctx by (auto simp: rundown_lock_acquire_def remove_acquire_def tag_ptr_def sys_eq log_with_def acquire_call_def ev_put_ctx_def)
  note same = rundown_acquire_same [OF s1(1)]
  note hand1 = same_memory_in_hand [OF same(1) hand]
  have irp1: "irps s1 ?p = Some irp" using irp(1) same(1) by (simp add: same_memory_def)
  have front: "irp_file_object w s = Some (fo_wrap (sl_FileObject (irp_CurrentStack irp)))"
    "fo_is_valid (fo_wrap (sl_FileObject (irp_CurrentStack irp)))"
    "fo_context_as_mut_ref (fo_wrap (sl_FileObject (irp_CurrentStack irp))) s = Some (Some ?c)"
    using irp fobj by (simp_all add: irp_file_object_def current_stack_def stack_ok_def fo_is_valid_def fo_wrap_def fo_context_as_mut_ref_def)
  have panic: "ev_device_control K E dev w req s = None"
    if "dc_ioctl req \<noteq> IOCTL_REGISTER_EVENT" "debug_assertions s" "r_status (K (klog s) ?a) = STATUS_SUCCESS"
    using that front s1 by (simp add: ev_device_control_def)
  have returns: "\<exists>w' t. ev_device_control K E dev w req s = Some (st, w', t)"
    if code: "dc_ioctl req = IOCTL_REGISTER_EVENT \<or> \<not> debug_assertions s \<or> r_status (K (klog s) ?a) \<noteq> STATUS_SUCCESS"
  proof (cases "r_status (K (klog s) ?a) = STATUS_SUCCESS")
    case False
    then have "st = STATUS_UNSUCCESSFUL" by (simp add: st request_outcome_def)
    moreover have "irp_complete K w io_status_new s1 \<noteq> None"
      using irp_complete_eq [OF irp1, of K] hand by (simp add: in_hand_def)
    ultimately show ?thesis using False front s1(1) by (auto simp: ev_device_control_def)
  next
    case True
    have re1: "register_event_at (input_buffer req) s1 = re" using s1(3) by (simp add: re register_event_at_def)
    have "irql_after i0 (klog s1) \<le> DISPATCH_LEVEL" "registration_room K E re md (klog s1)"
      using law(4,5) by (simp_all add: s1(2)) (simp add: log_with_def acquire_call_def)
    from handle_register_returns [OF hand1 irp1 irp(2,3) law(1,3) this(1), of req] this(2)
    obtain r w3 s3 where h: "handle_register_event K E dev w req s1 = Some (r, w3, s3)"
      "event_status r = register_outcome K E req re (irp_Cancel irp = 1) md (log_with K ?a (klog s))"
      by (auto simp: re1 s1(2))
    have "\<exists>w2 s2. (if dc_ioctl req = IOCTL_REGISTER_EVENT
        then handle_register_event K E dev w req s1 \<bind> (\<lambda>(r, w, s). Some (event_status r, w, s))
        else debug_assert False s1 \<bind> (\<lambda>u. Some (STATUS_NOT_IMPLEMENTED, w, s1))) = Some (st, w2, s2)"
      using h code True by (cases "dc_ioctl req = IOCTL_REGISTER_EVENT") (simp_all add: st request_outcome_def s1(4))
    then obtain w2 s2 where serve: "(if dc_ioctl req = IOCTL_REGISTER_EVENT
        then handle_register_event K E dev w req s1 \<bind> (\<lambda>(r, w, s). Some (event_status r, w, s))
        else debug_assert False s1 \<bind> (\<lambda>u. Some (STATUS_NOT_IMPLEMENTED, w, s1))) = Some (st, w2, s2)"
      by blast
    from device_control_served [OF hand1 same(2) law(1,2) serve] show ?thesis
      using True front s1(1) serve by (auto simp: ev_device_control_def)
  qed
  have outcome: "ev_inv E dev x t \<and> (if st = STATUS_PENDING
       then is_pending x ?p t \<and> completions ?p (klog t) = completions ?p (klog s)
       else \<not> is_pending x ?p t \<and> completions ?p (klog t) = completions ?p (klog s) @ [(st, 0)])"
    if t: "ev_device_control K E dev w req s = Some (st, w', t)" for w' t
  proof -
    have "?p \<in> dom (irps s)" using irp(1) by blast
    with device_control_step [OF hand law(1,2) t] ev_inv_pending [of E dev x t ?p] show ?thesis
      by (auto split: if_splits)
  qed
  show ?thesis
  proof (cases "dc_ioctl req \<noteq> IOCTL_REGISTER_EVENT \<and> debug_assertions s \<and> r_status (K (klog s) ?a) = STATUS_SUCCESS")
    case True
    with panic show ?thesis by simp
  next
    case False
    then obtain w' t where t: "ev_device_control K E dev w req s = Some (st, w', t)" using returns by blast
    from False show ?thesis
      by (subst if_not_P) (blast, use t outcome [OF t] in blast)
  qed
qed

text \<open>The open file of \<open>ev_st0\<close> and a request whose input is too short.\<close>

theorem device_control_returns_witness:
  "\<exists>w' t. ev_device_control ev_kernel ev_env0 ev_dev0 wirp0 (ev_req0\<lparr>dc_in_buf_len := 8\<rparr>) ev_arrived0 =
       Some (STATUS_INVALID_PARAMETER, w', t) \<and> completions 0x50 (klog t) = [(STATUS_INVALID_PARAMETER, 0)]"
proof -
  let ?req = "ev_req0\<lparr>dc_in_buf_len := 8\<rparr>" and ?f = "\<lparr>FileName = \<lparr>Length = 0, MaximumLength = 0, Buffer = 0\<rparr>, FsContext = 0x700, FsContext2 = 0\<rparr>"
  let ?re = "register_event_at (input_buffer ?req) ev_arrived0"
  have mode: "processor_mode_from (irp_RequestorMode ev_irp0) = Some UserMode"
    by (simp add: ev_irp0_def irp0_def processor_mode_from_def)
  have ctx: "FsContext ?f \<in> contexts ev_arrived0" "FsContext ?f \<noteq> null" "dc_ioctl ?req = IOCTL_REGISTER_EVENT"
    using ev_arrived0_facts(7,8) by (simp_all add: contexts_def)
  have room: "registration_room ev_kernel ev_env0 ?re UserMode (log_with ev_kernel (acquire_call ev_env0 (FsContext ?f) (wi_irp wirp0)) (klog ev_arrived0))"
    by (simp add: registration_room_def log_with_def acquire_call_def ev_arrived0_facts(12) ev_kernel_memory)
      (simp add: ref_call_def ev_kernel_def fresh_page_def pool_blocks_def heap_blocks_def Let_def)
  have st: "STATUS_INVALID_PARAMETER = request_outcome ev_kernel ev_env0 (FsContext ?f) (wi_irp wirp0) ?req ?re (irp_Cancel ev_irp0 = 1) UserMode (klog ev_arrived0)"
    by (simp add: request_outcome_def register_outcome_def sizeof_RegisterEvent_def acquire_call_def ev_kernel_memory ev_arrived0_facts(8))
  show ?thesis
    using device_control_returns [OF ev_arrived0_in_hand ev_arrived0_facts(2,3) mode ev_arrived0_facts(5,6) ctx(2,1)
        ev_kernel_laws(1,2,3) _ room refl st] ev_arrived0_facts(12) ctx(3) by (auto simp: nt_consts)
qed

end
