(* ===== verification/Build_Script.thy ===== *)
theory Build_Script
  imports Wdu_Prelude "HOL-Library.List_Lexorder" "HOL-Library.Char_ord"
begin

text \<open>
  The build script that the three examples and the string tests share (\<^verbatim>\<open>build.rs\<close>, the same text
  four times): it looks for the kernel-mode libraries of the installed Windows kits and tells cargo
  where to link from. The registry, the file system and the environment are a parameter.
\<close>

section \<open>The system the script runs on\<close>

text \<open>An entry of a directory may be unreadable, and its name need not be valid Unicode.\<close>

datatype dir_entry = Unreadable | NotUnicode | Named string

record build_env =
  hklm_value :: "string \<Rightarrow> string \<Rightarrow> string option"
  read_dir :: "string \<Rightarrow> dir_entry list option"
  is_dir :: "string \<Rightarrow> bool"
  env_var :: "string \<Rightarrow> string option"

datatype build_error = RegistryError | ReadDirError | NoKmDir

definition sep :: char where "sep = CHR 0x5C"

text \<open>\<^verbatim>\<open>Path::join\<close> with a relative path: a separator is added where the path does not end with one.\<close>

definition path_join :: "string \<Rightarrow> string \<Rightarrow> string" where
  "path_join p c = (if p = [] \<or> last p = sep \<or> last p = CHR ''/'' then p @ c else p @ [sep] @ c)"

text \<open>\<^verbatim>\<open>Iterator::max\<close>.\<close>

fun iter_max :: "'a::linorder list \<Rightarrow> 'a option" where
  "iter_max [] = None"
| "iter_max [x] = Some x"
| "iter_max (x # y # xs) = iter_max ((if y < x then x else y) # xs)"

section \<open>The script\<close>

definition kits_key :: string where
  "kits_key = ''SOFTWARE'' @ [sep] @ ''Microsoft'' @ [sep] @ ''Windows Kits'' @ [sep] @ ''Installed Roots''"

definition get_windows_kits_dir :: "build_env \<Rightarrow> (build_error, string) result" where
  "get_windows_kits_dir B = (case hklm_value B kits_key ''KitsRoot10'' of None \<Rightarrow> Err RegistryError | Some dir \<Rightarrow> Ok dir)"

text \<open>The paths of the entries that are kept; all of them have the same parent.\<close>

fun km_candidate :: "build_env \<Rightarrow> string \<Rightarrow> dir_entry \<Rightarrow> string list" where
  "km_candidate B lib (Named c) =
     (let dir = path_join lib c in if prefix ''10.'' c \<and> is_dir B (path_join dir ''km'') then [dir] else [])"
| "km_candidate B lib e = []"

definition get_km_dir :: "build_env \<Rightarrow> string \<Rightarrow> (build_error, string) result" where
  "get_km_dir B windows_kits_dir =
     (let lib = path_join windows_kits_dir ''lib'' in
      case read_dir B lib of
        None \<Rightarrow> Err ReadDirError
      | Some readdir \<Rightarrow>
          (case iter_max (concat (map (km_candidate B lib) readdir)) of
             None \<Rightarrow> Err NoKmDir
           | Some max_libdir \<Rightarrow> Ok (path_join max_libdir ''km'')))"

definition result_unwrap :: "('e, 'a) result \<Rightarrow> 'a option" where
  "result_unwrap r = (case r of Err e \<Rightarrow> None | Ok x \<Rightarrow> Some x)"

text \<open>The line the script prints.\<close>

definition build_main :: "build_env \<Rightarrow> string option" where
  "build_main B = do {
     windows_kits_dir \<leftarrow> result_unwrap (get_windows_kits_dir B);
     km_dir \<leftarrow> result_unwrap (get_km_dir B windows_kits_dir);
     target \<leftarrow> env_var B ''TARGET'';
     arch \<leftarrow> (if sublist ''x86_64'' target then Some ''x64''
             else if sublist ''i686'' target then Some ''x86''
             else panic);
     let lib_dir = path_join km_dir arch;
     Some (''cargo:rustc-link-search=native='' @ lib_dir)
   }"

section \<open>Lemmas\<close>

lemma append_le_iff [simp]: "p @ xs \<le> p @ ys \<longleftrightarrow> xs \<le> (ys :: 'a::linorder list)"
  by (induction p) simp_all

lemma path_join_le [simp]: "path_join p c \<le> path_join p d \<longleftrightarrow> c \<le> d"
  by (simp add: path_join_def)

lemma iter_max_spec:
  "iter_max xs = (if xs = [] then None else Some (Max (set xs)))"
proof (induction xs rule: iter_max.induct)
  case (3 x y xs)
  have "Max (set ((if y < x then x else y) # xs)) = Max (set (x # y # xs))"
    by (cases "xs = []") (auto simp: max_def not_less)
  then show ?case using 3 by simp
qed simp_all

text \<open>A version of the kit with kernel-mode libraries.\<close>

definition km_version :: "build_env \<Rightarrow> string \<Rightarrow> string \<Rightarrow> bool" where
  "km_version B lib c \<longleftrightarrow> (\<exists>es. read_dir B lib = Some es \<and> Named c \<in> set es) \<and> prefix ''10.'' c \<and>
     is_dir B (path_join (path_join lib c) ''km'')"

lemma km_candidates_set:
  "set (concat (map (km_candidate B lib) es)) =
     path_join lib ` {c. Named c \<in> set es \<and> prefix ''10.'' c \<and> is_dir B (path_join (path_join lib c) ''km'')}"
proof -
  have "d \<in> set (km_candidate B lib e) \<longleftrightarrow>
      (\<exists>c. e = Named c \<and> prefix ''10.'' c \<and> is_dir B (path_join (path_join lib c) ''km'') \<and> d = path_join lib c)" for d e
    by (cases e) (auto simp: Let_def)
  then show ?thesis by auto
qed

text \<open>
  The script links against the kit whose version has the greatest name, in the order of strings; it
  fails when there is none, and when the directory cannot be read.
\<close>

lemma km_dir_is_greatest:
  fixes B root
  defines "lib \<equiv> path_join root ''lib''"
  shows "(case get_km_dir B root of
      Err e \<Rightarrow> (\<forall>c. \<not> km_version B lib c) \<and> (e = ReadDirError \<longleftrightarrow> read_dir B lib = None) \<and> e \<noteq> RegistryError
    | Ok p \<Rightarrow> \<exists>c. km_version B lib c \<and> (\<forall>d. km_version B lib d \<longrightarrow> d \<le> c) \<and> p = path_join (path_join lib c) ''km'')"
proof (cases "read_dir B lib")
  case None
  then show ?thesis by (simp add: get_km_dir_def lib_def [symmetric] km_version_def)
next
  case (Some es)
  let ?ps = "concat (map (km_candidate B lib) es)"
  have set: "set ?ps = path_join lib ` {c. km_version B lib c}"
    using Some by (simp only: km_candidates_set) (simp add: km_version_def)
  show ?thesis
  proof (cases "?ps = []")
    case True
    then show ?thesis
      using set Some by (auto simp: get_km_dir_def lib_def [symmetric] iter_max_spec)
  next
    case False
    then have "Max (set ?ps) \<in> set ?ps" by (intro Max_in) auto
    then obtain c where c: "km_version B lib c" "Max (set ?ps) = path_join lib c"
      unfolding set by auto
    have "d \<le> c" if "km_version B lib d" for d
    proof -
      have "path_join lib d \<in> set ?ps" using that unfolding set by blast
      then have "path_join lib d \<le> Max (set ?ps)" by (intro Max_ge) simp_all
      then show ?thesis unfolding c(2) by simp
    qed
    moreover have "get_km_dir B root = Ok (path_join (path_join lib c) ''km'')"
      using Some False c(2) unfolding get_km_dir_def lib_def [symmetric] by (simp add: iter_max_spec)
    ultimately show ?thesis using c(1) by auto
  qed
qed

text \<open>The order of strings is not the order of versions: an older kit with fewer digits wins.\<close>

lemma older_kit_wins:
  "get_km_dir \<lparr>hklm_value = \<lambda>k v. None, read_dir = \<lambda>p. Some [Named ''10.0.22621.0'', Unreadable, Named ''10.0.9926.0''],
     is_dir = \<lambda>p. True, env_var = \<lambda>v. None\<rparr> ''K'' = Ok (''K'' @ [sep] @ ''lib'' @ [sep] @ ''10.0.9926.0'' @ [sep] @ ''km'')"
  by (simp add: get_km_dir_def path_join_def sep_def Let_def less_char_def)

text \<open>A script that finds a kit and knows the target prints one line, and panics otherwise.\<close>

lemma build_main_returns:
  "build_main B \<noteq> None \<longleftrightarrow>
     (\<exists>root p t. get_windows_kits_dir B = Ok root \<and> get_km_dir B root = Ok p \<and> env_var B ''TARGET'' = Some t \<and>
        (sublist ''x86_64'' t \<or> sublist ''i686'' t))"
  by (cases "get_windows_kits_dir B")
     (auto simp: build_main_def result_unwrap_def panic_def bind_eq_Some_conv split: sum.splits if_splits)

end
