(* ===== verification/Spec2Isabelle.thy ===== *)
theory Spec2Isabelle
  imports Wdu_Prelude Wdu_Kernel Wdu_Utf16 Wdu_Ustr Wdu_Core Wdu_Ioctl Wdu_Pool Wdu_Ustring
    Wdu_UstringRun Wdu_UstringVec Wdu_UstringNum Test_Strings
    Wdu_Spinlock Wdu_Locks Wdu_Objects Wdu_IoState Wdu_Mdl Wdu_Irp Wdu_Driver
    Wdu_Notify Wdu_Ob Wdu_CallbackObj Ex_SioctlRun Ex_ObCallbackRun Ex_EventFaults Ex_EventLoad Ex_EventTotal
    Build_Script
begin

text \<open>
  Verification of \<^verbatim>\<open>win-drvutils-rs\<close>, a Rust library of wrappers for writing Windows kernel drivers,
  and of the three example drivers and the test driver built on it.

  \<^bold>\<open>The program.\<close> The crate (\<^verbatim>\<open>src/src\<close> below) wraps \<^verbatim>\<open>ntoskrnl\<close> routines as Rust types. A driver
  describes itself with the builder \<^verbatim>\<open>WduDriver\<close> (\<^verbatim>\<open>common/driver.rs\<close>), which installs one dispatch
  routine for the major functions the crate knows and keeps the driver's handlers in a driver
  object extension; it creates devices with \<^verbatim>\<open>WduDevice\<close> (\<^verbatim>\<open>io/device.rs\<close>), whose wrapper lives in the
  device extension. A request arrives as an IRP, is wrapped (\<^verbatim>\<open>io/irp.rs\<close>), viewed as a create or device
  control request (\<^verbatim>\<open>io/create.rs\<close>, \<^verbatim>\<open>io/device_control.rs\<close>), handed to the handler, and completed or kept
  with a cancel routine. Handlers use owned and borrowed UTF-16 strings (\<^verbatim>\<open>strings/unicode.rs\<close>) backed
  by pool allocators (\<^verbatim>\<open>memory/pool.rs\<close>), MDLs (\<^verbatim>\<open>memory/mdl.rs\<close>), locks and dispatcher objects
  (\<^verbatim>\<open>sync\<close>), DPCs, and owners of kernel callbacks (\<^verbatim>\<open>callbacks\<close>).

  \<^bold>\<open>The kernel.\<close> \<^verbatim>\<open>ntoskrnl\<close> and the client's global allocator are not part of the repository. They
  are one parameter \<open>K\<close> (theory \<open>Wdu_Kernel\<close>): a function from the calls and answers so far and the
  next call to its answer. Every operation appends its calls to the log \<open>klog\<close> of the state, so a
  theorem about what the crate asks of the kernel, in which order, is a theorem about the log.
  What the crate relies on is a named hypothesis on \<open>K\<close> where a theorem needs it: that allocations are
  fresh (\<open>pool_fresh\<close>, \<open>heap_fresh\<close>), that the IRQL routines report and set the level
  (\<open>reports_irql\<close>) and an in-stack queued lock's handle names its lock (\<open>names_lock\<close>), that probing
  pages raises no exception (\<open>probing_returns\<close>), that a driver extension is found again (\<open>finds_driver_ext\<close>), that the string copy
  routine keeps the destination's buffer (\<open>copy_keeps_buffer\<close>), that the string routines give well-formed
  strings (\<open>rtl_strings_ok\<close>), that objects the kernel says it has made are there (\<open>makes_objects\<close>), that a
  registration gives a handle (\<open>gives_ob_handle\<close>), that a process routine the kernel holds can be removed
  (\<open>removes_held\<close>), that symbolic links are created (\<open>makes_links\<close>), that referencing a handle does not answer \<^verbatim>\<open>STATUS_PENDING\<close>
  (\<open>ref_never_pending\<close>), that the number routines write the digits that fit (\<open>rtl_numbers_ok\<close>), that a string
  comparison tells lengths apart (\<open>compares_lengths\<close>), that the heap does not hand out the device extension
  (\<open>heap_apart\<close>), that the heap has room for the blocks of one request after the calls made so far
  (\<open>context_room\<close>, \<open>registration_room\<close>). Each has a concrete kernel in a witness.

  \<^bold>\<open>State, errors, panics.\<close> State is passed explicitly, in extensible records: the log and the build's
  \<^verbatim>\<open>debug_assertions\<close>; memory that holds UTF-16 units (\<open>ustate\<close>); the Windows and crate structures found
  by address (\<open>iostate\<close>); what the object callbacks need (\<open>obstate\<close>); each example's statics. A
  \<^verbatim>\<open>Result\<close> is a sum with the error on the left. A panic, or a dereference of an address where no
  such structure lives, is \<open>None\<close>. Machine integers are words of their width. Function pointers are
  addresses, and the code of a client behind them is a parameter of the dispatching operations.
  There are no loops that may run forever: the recursions of the model are structural, so no fuel
  is needed.

  \<^bold>\<open>The theories.\<close>
  \<^item> \<open>Wdu_Prelude\<close>: machine types, panics, memory of UTF-16 units, list and word lemmas.
  \<^item> \<open>Wdu_Kernel\<close>: calls, answers, the log, Windows constants.
  \<^item> \<open>Wdu_Utf16\<close>, \<open>Wdu_Ustr\<close>, \<open>Wdu_Ustring\<close> (\<^verbatim>\<open>strings/unicode.rs\<close>): encoding and lossy decoding with
    their round trip; the borrowed and the owned string. Creation is specified on every branch,
    creation and drop are balanced in the pool, texts survive the round trip through a string,
    \<^verbatim>\<open>contains\<close> is the substring test; the copy in \<^verbatim>\<open>create\<close> writes past its block and a dropped
    clone leaks.
  \<^item> \<open>Wdu_UstringRun\<close>: programs that make and drop strings with every constructor (\<open>made\<close>, \<open>strings_step\<close>);
    live strings stay well-formed and own distinct blocks, and the pool is left as it was found.
    \<open>Wdu_UstringVec\<close>: the string of the feature \<^verbatim>\<open>unicode_as_vec\<close>. \<open>Wdu_UstringNum\<close>: in which bases the buffers
    of the number conversions hold every number, and what the strings display.
  \<^item> \<open>Test_Strings\<close> (\<^verbatim>\<open>tests/strings\<close>): the driver that tests the strings, assertion by assertion, with the
    drops of its locals. It leaves the pool as it found it on every return (\<open>test_unicode_leaves_pool\<close>), and
    it panics for a registry path with room for a terminator.
  \<^item> \<open>Wdu_Core\<close>, \<open>Wdu_Ioctl\<close> (\<^verbatim>\<open>lib.rs\<close>): processor modes, waits, routine lookup; control codes and
    their decoding.
  \<^item> \<open>Wdu_Pool\<close> (\<^verbatim>\<open>memory/pool.rs\<close>, \<^verbatim>\<open>memory/mod.rs\<close>): the three allocators behind the interface
    \<open>tagged_pool\<close>; the pool and heap blocks a log leaves live.
  \<^item> \<open>Wdu_Spinlock\<close> (\<^verbatim>\<open>sync/spinlock.rs\<close>): four ways to acquire, behind the interface \<open>irql_lock\<close>; nested
    critical sections restore the IRQL and make exactly their own lock calls (\<open>section_calls\<close>).
  \<^item> \<open>Wdu_Locks\<close> (\<^verbatim>\<open>sync/mod.rs\<close>, \<^verbatim>\<open>mutex.rs\<close>, \<^verbatim>\<open>pushlock.rs\<close>, \<^verbatim>\<open>eresource.rs\<close>, \<^verbatim>\<open>remove_lock.rs\<close>,
    \<^verbatim>\<open>rundown_protection.rs\<close>): the locks and their \<^verbatim>\<open>lock_api\<close> adapters behind the interface
    \<open>region_lock\<close>; critical regions are balanced.
  \<^item> \<open>Wdu_Objects\<close> (\<^verbatim>\<open>sync/event.rs\<close>, \<^verbatim>\<open>semaphore.rs\<close>, \<^verbatim>\<open>timer.rs\<close>, \<^verbatim>\<open>common/dpc.rs\<close>, \<^verbatim>\<open>process.rs\<close>,
    \<^verbatim>\<open>thread.rs\<close>, \<^verbatim>\<open>obj_attr.rs\<close>): dispatcher objects behind the interface \<open>handle_object\<close>.
  \<^item> \<open>Wdu_IoState\<close>: the structures of the I/O modules and their memory.
  \<^item> \<open>Wdu_Mdl\<close> (\<^verbatim>\<open>memory/mdl.rs\<close>): allocations and page locks of MDLs, balanced by drop.
  \<^item> \<open>Wdu_Irp\<close> (\<^verbatim>\<open>io/irp.rs\<close>, \<^verbatim>\<open>file_obj.rs\<close>, \<^verbatim>\<open>create.rs\<close>, \<^verbatim>\<open>device_control.rs\<close>): completion, cancellation,
    file contexts (interface \<open>context_slot\<close>), whose slots keep dangling pointers; request buffers.
  \<^item> \<open>Wdu_Driver\<close> (\<^verbatim>\<open>io/device.rs\<close>, \<^verbatim>\<open>common/driver.rs\<close>): the builders and the entry points; dispatch
    refines the delivery to the client's handler table (\<open>deliver\<close>).
  \<^item> \<open>Wdu_Notify\<close> (\<^verbatim>\<open>callbacks/mod.rs\<close>, \<^verbatim>\<open>image.rs\<close>, \<^verbatim>\<open>process.rs\<close>, \<^verbatim>\<open>thread.rs\<close>): owners of notify routines
    behind the interface \<open>notify_owner\<close>; the field tracks what the kernel holds (\<open>live\<close>).
  \<^item> \<open>Wdu_Ob\<close> (\<^verbatim>\<open>callbacks/ob.rs\<close>): object callbacks; both dispatches are \<open>op_dispatch\<close> and run exactly
    the matching registrations.
  \<^item> \<open>Wdu_CallbackObj\<close> (\<^verbatim>\<open>callbacks/callback.rs\<close>, \<^verbatim>\<open>cm.rs\<close>): callback objects, registry callbacks.
  \<^item> \<open>Ex_Sioctl\<close> (\<^verbatim>\<open>examples/sioctl\<close>): requests are answered once; the answer may exceed the buffer.
    \<open>Ex_SioctlRun\<close>: the driver from its entry point through any dispatched requests (\<open>sio_step\<close>, \<open>sio_run\<close>) to
    its unload; the requests without a handler are lost.
  \<^item> \<open>Ex_ObCallback\<close> (\<^verbatim>\<open>examples/obcallback\<close>): what the process protection does and where it fails.
    \<open>Ex_ObCallbackRun\<close>: the driver from its entry point through requests, process notifications and handle
    operations (\<open>oc_event\<close>) to its unload. The invariant \<open>oc_inv\<close> ties the statics to what the kernel holds,
    read off the log (\<open>ob_held\<close>, \<open>ps_held\<close>), and to the pool; operations that leave all of it alone are \<open>calm\<close>.
  \<^item> \<open>Ex_Event\<close> (\<^verbatim>\<open>examples/event\<close>): the driver that completes requests or sets events after a delay. The
    queue of the device extension holds the addresses of boxed records (\<open>notify_records\<close>), and the
    timer and the DPC of a record are at fixed offsets in it. Operations are named after the
    functions with the prefix \<open>ev_\<close> where the name is taken.
  \<^item> \<open>Ex_EventRun\<close>: the steps of that driver (\<open>ev_step\<close>, \<open>ev_run\<close>): a device control request, the expiry
    of a timer, the cancellation of a request. The invariant \<open>ev_inv\<close> says that the queue holds each
    record once and owns them and their boxes, and has exactly one record for every unanswered
    request; each step keeps it. Operations of the queue's spin lock are behind \<open>queue_lock_op\<close>.
  \<^item> \<open>Ex_EventLoad\<close>: \<^verbatim>\<open>DriverEntry\<close> leaves an empty queue and puts the driver's requests on the way to its
    routines; no step of a run changes that (\<open>same_setup\<close>); opening and closing a file (\<open>open_close\<close>).
  \<^item> \<open>Ex_EventThms\<close>: every request is answered once or pending, pending requests end, registration
    queues. \<open>Ex_EventFaults\<close>: what closing a file with requests pending, a cancellation before or during
    the DPC and a second notification for one event do.
  \<^item> \<open>Ex_EventFiles\<close>: the steps of the driver together with opening, cleaning up (with an empty queue) and
    closing files (\<open>ev_world\<close>, \<open>ev_worlds\<close>). Besides \<open>ev_inv\<close>, every open file owns its context
    (\<open>files_inv\<close>), and the heap is divided among records, boxes and contexts.
  \<^item> \<open>Ex_EventTotal\<close>: the device control handler returns with the status that \<open>request_outcome\<close> computes
    from the request and the kernel's answers, except for unknown control codes in a debug build.
  \<^item> \<open>Build_Script\<close> (\<^verbatim>\<open>build.rs\<close> of the examples and the tests): which kit the script links against.

  \<^bold>\<open>Not modelled.\<close> The \<^verbatim>\<open>toaster\<close> skeletons, whose entry points return 0; \<^verbatim>\<open>registry\<close>, which is empty; the storage
  of the \<^verbatim>\<open>Vec\<close> that is the queue of the \<^verbatim>\<open>event\<close> driver; the loggers and \<^verbatim>\<open>Debug\<close> texts other than those of
  processes and threads; the toaster's build scripts, panic handlers and language items; getters and \<^verbatim>\<open>Deref\<close>
  implementations that only name a field, which the model accesses directly; concurrency beyond the
  sequences of calls a theorem names (an in-stack queued lock and the window in the DPC of the \<^verbatim>\<open>event\<close>
  driver are such); what the system does after an exception the crate does not catch (probing pages
  that raises one is a fault, \<open>None\<close>).
\<close>

end
